(* ===== verification/Prelude.thy ===== *)
theory Prelude
  imports Main "HOL-Library.Word" "HOL-Library.Char_ord" "HOL-Library.List_Lexorder"
begin

text \<open>
  The vocabulary shared by every component of the operator.

  \<^item> The effect of Go code: a computation over a state that either returns a value or an
    error, and whose writes before an error persist. \<open>bindE\<close> is \<open>if err != nil { return err }\<close>,
    \<open>attempt\<close> is a call whose error is inspected instead of returned.
  \<^item> \<open>steps R m\<close>: every run of \<open>m\<close> relates its initial and final state by \<open>R\<close>. The locale
    \<open>frame\<close> proves the rules of the combinators once for every reflexive and transitive \<open>R\<close>;
    it is used for frame conditions (\<open>keeps\<close>) and for invariants (\<open>stable\<close>).
  \<^item> 32-bit conversion, and the parts of \<open>strings\<close> and \<open>strconv\<close> the operator uses.
\<close>

section \<open>Computations with errors\<close>

type_synonym ('s, 'e, 'a) go = "'s \<Rightarrow> ('e + 'a) \<times> 's"

definition retE :: "'a \<Rightarrow> ('s, 'e, 'a) go" where
  "retE x = (\<lambda>s. (Inr x, s))"

definition throwE :: "'e \<Rightarrow> ('s, 'e, 'a) go" where
  "throwE e = (\<lambda>s. (Inl e, s))"

definition bindE :: "('s, 'e, 'a) go \<Rightarrow> ('a \<Rightarrow> ('s, 'e, 'b) go) \<Rightarrow> ('s, 'e, 'b) go" where
  "bindE m f = (\<lambda>s. case m s of (Inl e, t) \<Rightarrow> (Inl e, t) | (Inr x, t) \<Rightarrow> f x t)"

definition thenE :: "('s, 'e, 'a) go \<Rightarrow> ('s, 'e, 'b) go \<Rightarrow> ('s, 'e, 'b) go" where
  "thenE m k = bindE m (\<lambda>_. k)"

definition attempt :: "('s, 'e, 'a) go \<Rightarrow> ('s, 'e, 'e + 'a) go" where
  "attempt m = (\<lambda>s. (Inr (fst (m s)), snd (m s)))"

definition readE :: "('s \<Rightarrow> 'a) \<Rightarrow> ('s, 'e, 'a) go" where
  "readE f = (\<lambda>s. (Inr (f s), s))"

definition modifyE :: "('s \<Rightarrow> 's) \<Rightarrow> ('s, 'e, unit) go" where
  "modifyE f = (\<lambda>s. (Inr (), f s))"

definition liftE :: "'e + 'a \<Rightarrow> ('s, 'e, 'a) go" where
  "liftE r = (\<lambda>s. (r, s))"

text \<open>\<open>for _, x := range xs { if err := f(x); err != nil { return err } }\<close>\<close>

fun forE :: "'a list \<Rightarrow> ('a \<Rightarrow> ('s, 'e, unit) go) \<Rightarrow> ('s, 'e, unit) go" where
  "forE [] f = retE ()"
| "forE (x # xs) f = thenE (f x) (forE xs f)"

text \<open>The same loop collecting one result per element.\<close>

fun mapE :: "'a list \<Rightarrow> ('a \<Rightarrow> ('s, 'e, 'b) go) \<Rightarrow> ('s, 'e, 'b list) go" where
  "mapE [] f = retE []"
| "mapE (x # xs) f = bindE (f x) (\<lambda>y. bindE (mapE xs f) (\<lambda>ys. retE (y # ys)))"

text \<open>The same loop carrying local variables.\<close>

fun foldE :: "'a list \<Rightarrow> ('b \<Rightarrow> 'a \<Rightarrow> ('s, 'e, 'b) go) \<Rightarrow> 'b \<Rightarrow> ('s, 'e, 'b) go" where
  "foldE [] f b = retE b"
| "foldE (x # xs) f b = bindE (f b x) (\<lambda>b'. foldE xs f b')"

named_theorems run_simps "one-step evaluation of the combinators"

lemma run_ret [run_simps]: "retE x s = (Inr x, s)"
  by (simp add: retE_def)

lemma run_throw [run_simps]: "throwE e s = (Inl e, s)"
  by (simp add: throwE_def)

lemma run_bind [run_simps]:
  "bindE m f s = (case m s of (Inl e, t) \<Rightarrow> (Inl e, t) | (Inr x, t) \<Rightarrow> f x t)"
  by (simp add: bindE_def)

lemma run_then [run_simps]:
  "thenE m k s = (case m s of (Inl e, t) \<Rightarrow> (Inl e, t) | (Inr x, t) \<Rightarrow> k t)"
  by (simp add: thenE_def bindE_def)

lemma run_attempt [run_simps]: "attempt m s = (Inr (fst (m s)), snd (m s))"
  by (simp add: attempt_def)

lemma run_read [run_simps]: "readE f s = (Inr (f s), s)"
  by (simp add: readE_def)

lemma run_modify [run_simps]: "modifyE f s = (Inr (), f s)"
  by (simp add: modifyE_def)

lemma run_lift [run_simps]: "liftE r s = (r, s)"
  by (simp add: liftE_def)

lemma run_if [run_simps]: "(if c then m else k) s = (if c then m s else k s)"
  by simp

lemma bind_InrE:
  assumes "bindE m f s = (Inr y, u)"
  obtains x t where "m s = (Inr x, t)" "f x t = (Inr y, u)"
  using assms by (auto simp: bindE_def split: prod.splits sum.splits)

lemma then_InrE:
  assumes "thenE m k s = (Inr y, u)"
  obtains x t where "m s = (Inr x, t)" "k t = (Inr y, u)"
  using assms by (auto simp: thenE_def elim: bind_InrE)

lemma forE_append: "forE (xs @ ys) f = thenE (forE xs f) (forE ys f)"
  by (induction xs) (auto simp: fun_eq_iff run_simps split: prod.splits sum.splits)

lemma mapE_length: "mapE xs f s = (Inr ys, t) \<Longrightarrow> length ys = length xs"
  by (induction xs arbitrary: ys s t) (auto simp: run_simps split: prod.splits sum.splits)

section \<open>Frame conditions and invariants\<close>

definition steps :: "('s \<Rightarrow> 's \<Rightarrow> bool) \<Rightarrow> ('s, 'e, 'a) go \<Rightarrow> bool" where
  "steps R m \<longleftrightarrow> (\<forall>s. R s (snd (m s)))"

lemma stepsI: "(\<And>s r t. m s = (r, t) \<Longrightarrow> R s t) \<Longrightarrow> steps R m"
  by (simp add: steps_def) (metis prod.collapse)

lemma stepsD: "steps R m \<Longrightarrow> m s = (r, t) \<Longrightarrow> R s t"
  by (metis steps_def snd_conv)

text \<open>
  A relation between the states before and after that can be chained over a computation.
\<close>

locale frame =
  fixes R :: "'s \<Rightarrow> 's \<Rightarrow> bool"
  assumes R_refl: "R s s"
    and R_trans: "R s t \<Longrightarrow> R t u \<Longrightarrow> R s u"
begin

lemma steps_ret: "steps R (retE x)"
  by (simp add: steps_def run_simps R_refl)

lemma steps_throw: "steps R (throwE e)"
  by (simp add: steps_def run_simps R_refl)

lemma steps_read: "steps R (readE f)"
  by (simp add: steps_def run_simps R_refl)

lemma steps_lift: "steps R (liftE r)"
  by (simp add: steps_def run_simps R_refl)

lemma steps_bind:
  assumes "steps R m" and "\<And>x. steps R (f x)"
  shows "steps R (bindE m f)"
  using assms
  by (intro stepsI) (auto simp: run_simps dest: stepsD intro: R_trans split: prod.splits sum.splits)

lemma steps_then:
  assumes "steps R m" and "steps R k"
  shows "steps R (thenE m k)"
  using assms by (simp add: thenE_def steps_bind)

lemma steps_attempt: "steps R m \<Longrightarrow> steps R (attempt m)"
  by (simp add: steps_def run_simps)

lemma steps_forE: "(\<And>x. x \<in> set xs \<Longrightarrow> steps R (f x)) \<Longrightarrow> steps R (forE xs f)"
  by (induction xs) (auto intro: steps_ret steps_then)

lemma steps_mapE: "(\<And>x. x \<in> set xs \<Longrightarrow> steps R (f x)) \<Longrightarrow> steps R (mapE xs f)"
  by (induction xs) (auto intro!: steps_ret steps_bind)

lemma steps_foldE: "(\<And>b x. x \<in> set xs \<Longrightarrow> steps R (f b x)) \<Longrightarrow> steps R (foldE xs f b)"
  by (induction xs arbitrary: b) (auto intro: steps_ret steps_bind)

lemmas steps_rules = steps_ret steps_throw steps_read steps_lift steps_bind steps_then
  steps_attempt steps_forE steps_mapE steps_foldE

end

text \<open>\<open>keeps f m\<close>: the observation \<open>f\<close> of the state is the same before and after \<open>m\<close>.\<close>

definition same :: "('s \<Rightarrow> 'b) \<Rightarrow> 's \<Rightarrow> 's \<Rightarrow> bool" where
  "same f s t \<longleftrightarrow> f t = f s"

abbreviation keeps :: "('s \<Rightarrow> 'b) \<Rightarrow> ('s, 'e, 'a) go \<Rightarrow> bool" where
  "keeps f \<equiv> steps (same f)"

text \<open>\<open>stable I m\<close>: \<open>m\<close> preserves the invariant \<open>I\<close>, whether it returns or fails.\<close>

definition pres :: "('s \<Rightarrow> bool) \<Rightarrow> 's \<Rightarrow> 's \<Rightarrow> bool" where
  "pres I s t \<longleftrightarrow> (I s \<longrightarrow> I t)"

abbreviation stable :: "('s \<Rightarrow> bool) \<Rightarrow> ('s, 'e, 'a) go \<Rightarrow> bool" where
  "stable I \<equiv> steps (pres I)"

interpretation keeps: frame "same f" for f
  by unfold_locales (auto simp: same_def)

interpretation stable: frame "pres I" for I
  by unfold_locales (auto simp: pres_def)

named_theorems frame_intros "rules that split a frame or invariant goal along the program"

lemmas [frame_intros] = keeps.steps_rules stable.steps_rules

lemma keepsD: "keeps f m \<Longrightarrow> m s = (r, t) \<Longrightarrow> f t = f s"
  by (auto dest: stepsD simp: same_def)

lemma stableD: "stable I m \<Longrightarrow> m s = (r, t) \<Longrightarrow> I s \<Longrightarrow> I t"
  by (auto dest: stepsD simp: pres_def)

lemma steps_if [frame_intros]:
  "(c \<Longrightarrow> steps R m) \<Longrightarrow> (\<not> c \<Longrightarrow> steps R k) \<Longrightarrow> steps R (if c then m else k)"
  by simp

lemma steps_case_option [frame_intros]:
  "(v = None \<Longrightarrow> steps R m) \<Longrightarrow> (\<And>x. v = Some x \<Longrightarrow> steps R (k x)) \<Longrightarrow>
   steps R (case v of None \<Rightarrow> m | Some x \<Rightarrow> k x)"
  by (cases v) auto

lemma steps_case_sum [frame_intros]:
  "(\<And>e. v = Inl e \<Longrightarrow> steps R (m e)) \<Longrightarrow> (\<And>x. v = Inr x \<Longrightarrow> steps R (k x)) \<Longrightarrow>
   steps R (case v of Inl e \<Rightarrow> m e | Inr x \<Rightarrow> k x)"
  by (cases v) auto

lemma steps_case_prod [frame_intros]:
  "(\<And>a b. v = (a, b) \<Longrightarrow> steps R (m a b)) \<Longrightarrow> steps R (case v of (a, b) \<Rightarrow> m a b)"
  by (cases v) auto

lemma steps_case_list [frame_intros]:
  "(v = [] \<Longrightarrow> steps R m) \<Longrightarrow> (\<And>x xs. v = x # xs \<Longrightarrow> steps R (k x xs)) \<Longrightarrow>
   steps R (case v of [] \<Rightarrow> m | x # xs \<Rightarrow> k x xs)"
  by (cases v) auto

lemma steps_Let [frame_intros]: "(\<And>x. x = v \<Longrightarrow> steps R (m x)) \<Longrightarrow> steps R (let x = v in m x)"
  by simp

lemma keeps_modify [frame_intros]: "(\<And>s. f (g s) = f s) \<Longrightarrow> keeps f (modifyE g)"
  by (simp add: steps_def run_simps same_def)

lemma stable_modify [frame_intros]: "(\<And>s. I s \<Longrightarrow> I (g s)) \<Longrightarrow> stable I (modifyE g)"
  by (simp add: steps_def run_simps pres_def)

section \<open>32-bit integers\<close>

text \<open>The conversion \<open>int32(x)\<close>, and the result of \<open>int32\<close> arithmetic: two's complement.\<close>

definition int32_of :: "int \<Rightarrow> int" where
  "int32_of x = sint (word_of_int x :: 32 word)"

lemma int32_of_signed_take_bit: "int32_of x = signed_take_bit 31 x"
  by (simp add: int32_of_def sint_sbintrunc')

lemma int32_of_range: "- (2 ^ 31) \<le> int32_of x \<and> int32_of x < 2 ^ 31"
  unfolding int32_of_signed_take_bit
  using signed_take_bit_int_greater_eq_minus_exp [of 31 x] signed_take_bit_int_less_exp [of 31 x]
  by simp

lemma int32_of_id: "- (2 ^ 31) \<le> x \<Longrightarrow> x < 2 ^ 31 \<Longrightarrow> int32_of x = x"
  by (simp add: int32_of_signed_take_bit signed_take_bit_int_eq_self)

lemma int32_of_overflow: "2 ^ 31 \<le> x \<Longrightarrow> x < 2 ^ 32 \<Longrightarrow> int32_of x = x - 2 ^ 32"
proof -
  assume "2 ^ 31 \<le> x" "x < 2 ^ 32"
  then have "int32_of (x - 2 ^ 32) = x - 2 ^ 32"
    by (intro int32_of_id) auto
  moreover have "(word_of_int (x - 2 ^ 32) :: 32 word) = word_of_int x"
    by (simp only: word_of_int_eq_iff take_bit_eq_mod) (simp add: mod_diff_right_eq [symmetric])
  ultimately show ?thesis unfolding int32_of_def by metis
qed

section \<open>Strings\<close>

text \<open>\<open>strings.Cut(s, sep)\<close> for a one-character separator: what is before and after the first one.\<close>

definition cut :: "char \<Rightarrow> string \<Rightarrow> string \<times> string" where
  "cut c s = (takeWhile (\<lambda>x. x \<noteq> c) s, tl (dropWhile (\<lambda>x. x \<noteq> c) s))"

lemma cut_append: "c \<notin> set a \<Longrightarrow> cut c (a @ c # b) = (a, b)"
  by (induction a) (auto simp: cut_def)

text \<open>\<open>strings.Contains(s, sub)\<close>\<close>

fun contains :: "string \<Rightarrow> string \<Rightarrow> bool" where
  "contains [] sub = (sub = [])"
| "contains (c # s) sub = (take (length sub) (c # s) = sub \<or> contains s sub)"

lemma contains_append: "contains (a @ sub @ b) sub"
proof (induction a)
  case Nil
  show ?case
  proof (cases "sub @ b")
    case (Cons c s)
    then have "take (length sub) (c # s) = sub"
      by (metis append_eq_conv_conj)
    with Cons show ?thesis by simp
  qed simp
next
  case (Cons c a)
  then show ?case by simp
qed

text \<open>\<open>strings.Split(s, sep)\<close> for a one-character separator.\<close>

fun split_on :: "char \<Rightarrow> string \<Rightarrow> string list" where
  "split_on c [] = [[]]"
| "split_on c (x # s) =
     (if x = c then [] # split_on c s
      else (case split_on c s of [] \<Rightarrow> [[x]] | p # ps \<Rightarrow> (x # p) # ps))"

text \<open>\<open>strings.Join(parts, sep)\<close>\<close>

fun join :: "string \<Rightarrow> string list \<Rightarrow> string" where
  "join sep [] = []"
| "join sep [s] = s"
| "join sep (s # t # ss) = s @ sep @ join sep (t # ss)"

lemma split_on_ne: "split_on c s \<noteq> []"
  by (induction s) (auto split: list.splits)

lemma split_on_no_sep: "c \<notin> set s \<Longrightarrow> split_on c s = [s]"
  by (induction s) auto

lemma split_on_append: "c \<notin> set a \<Longrightarrow> split_on c (a @ c # b) = a # split_on c b"
  by (induction a) auto

text \<open>Splitting what was joined gives the parts back.\<close>

lemma split_join:
  "ps \<noteq> [] \<Longrightarrow> (\<And>p. p \<in> set ps \<Longrightarrow> c \<notin> set p) \<Longrightarrow> split_on c (join [c] ps) = ps"
  by (induction "[c]" ps rule: join.induct) (auto simp: split_on_no_sep split_on_append)

section \<open>Decimal numbers\<close>

fun nat_str :: "nat \<Rightarrow> string" where
  "nat_str n = (if n < 10 then [char_of (48 + n)] else nat_str (n div 10) @ [char_of (48 + n mod 10)])"

declare nat_str.simps [simp del]

text \<open>\<open>strconv.Itoa(i)\<close>, also the verb \<open>%d\<close> of \<open>fmt\<close>.\<close>

definition itoa :: "int \<Rightarrow> string" where
  "itoa i = (if i < 0 then CHR ''-'' # nat_str (nat (- i)) else nat_str (nat i))"

definition digit :: "char \<Rightarrow> nat option" where
  "digit c =
     (let n = (of_char c :: nat) in if 48 \<le> n \<and> n \<le> 57 then Some (n - 48) else None)"

fun digits_val :: "nat \<Rightarrow> string \<Rightarrow> nat option" where
  "digits_val acc [] = Some acc"
| "digits_val acc (c # cs) = (case digit c of None \<Rightarrow> None | Some d \<Rightarrow> digits_val (10 * acc + d) cs)"

text \<open>\<open>strconv.Atoi(s)\<close>: an optional sign, at least one digit, and a value that fits 64 bits.\<close>

definition atoi :: "string \<Rightarrow> int option" where
  "atoi s =
     (let neg = (s \<noteq> [] \<and> hd s = CHR ''-'');
          ds = (if s \<noteq> [] \<and> (hd s = CHR ''-'' \<or> hd s = CHR ''+'') then tl s else s)
      in if ds = [] then None
         else (case digits_val 0 ds of
             None \<Rightarrow> None
           | Some n \<Rightarrow>
               (let v = (if neg then - int n else int n)
                in if - (2 ^ 63) \<le> v \<and> v < 2 ^ 63 then Some v else None)))"

lemma digit_char [simp]: "n < 10 \<Longrightarrow> digit (char_of (48 + n)) = Some n"
  by (simp add: digit_def Let_def)

lemma nat_str_ne [simp]: "nat_str n \<noteq> []"
  by (subst nat_str.simps) simp

lemma digits_val_append:
  "digits_val acc (a @ b) = (case digits_val acc a of None \<Rightarrow> None | Some v \<Rightarrow> digits_val v b)"
  by (induction a arbitrary: acc) (auto split: option.splits)

lemma digits_val_nat_str: "digits_val 0 (nat_str n) = Some n"
proof (induction n rule: nat_str.induct)
  case (1 n)
  show ?case
  proof (cases "n < 10")
    case True
    then show ?thesis by (subst nat_str.simps) simp
  next
    case False
    with "1" show ?thesis by (subst nat_str.simps) (simp add: digits_val_append)
  qed
qed

lemma nat_str_digits: "c \<in> set (nat_str n) \<Longrightarrow> digit c \<noteq> None"
proof (induction n arbitrary: c rule: nat_str.induct)
  case (1 n)
  show ?case
  proof (cases "n < 10")
    case True
    with "1.prems" show ?thesis by (subst (asm) nat_str.simps) simp
  next
    case False
    with "1" show ?thesis by (subst (asm) nat_str.simps) auto
  qed
qed

lemma nat_str_hd: "hd (nat_str n) \<noteq> CHR ''-''" "hd (nat_str n) \<noteq> CHR ''+''"
  using nat_str_digits [of "hd (nat_str n)" n] by (auto simp: digit_def Let_def)

lemma atoi_itoa: "- (2 ^ 63) \<le> i \<Longrightarrow> i < 2 ^ 63 \<Longrightarrow> atoi (itoa i) = Some i"
  by (auto simp: atoi_def itoa_def digits_val_nat_str nat_str_hd)

lemma nat_str_inj: "nat_str m = nat_str n \<Longrightarrow> m = n"
  by (metis digits_val_nat_str option.inject)

lemma itoa_inj: "itoa i = itoa j \<Longrightarrow> i = j"
proof -
  assume a: "itoa i = itoa j"
  have "hd (nat_str m) = CHR ''-'' \<Longrightarrow> False" for m
    by (simp add: nat_str_hd)
  then have "nat_str m \<noteq> CHR ''-'' # x" for m x
    by (metis list.sel(1))
  with a show "i = j"
    by (auto simp: itoa_def dest!: nat_str_inj split: if_splits) (metis)+
qed

text \<open>
  The verb \<open>%q\<close> of \<open>fmt\<close> (\<open>strconv.Quote\<close>): a quoted string with backslash escapes.
  A string is a list of bytes; bytes above 127 belong to UTF-8 sequences and stay as they are.
\<close>

definition hex_digit :: "nat \<Rightarrow> char" where
  "hex_digit n = (if n < 10 then char_of (48 + n) else char_of (87 + n))"

definition quote_char :: "char \<Rightarrow> string" where
  "quote_char c =
     (if c = CHR 0x22 then [CHR 0x5C, CHR 0x22]
      else if c = CHR 0x5C then [CHR 0x5C, CHR 0x5C]
      else if c = CHR 0x07 then [CHR 0x5C, CHR ''a'']
      else if c = CHR 0x08 then [CHR 0x5C, CHR ''b'']
      else if c = CHR 0x0C then [CHR 0x5C, CHR ''f'']
      else if c = CHR 0x0A then [CHR 0x5C, CHR ''n'']
      else if c = CHR 0x0D then [CHR 0x5C, CHR ''r'']
      else if c = CHR 0x09 then [CHR 0x5C, CHR ''t'']
      else if c = CHR 0x0B then [CHR 0x5C, CHR ''v'']
      else if of_char c < (32::nat) \<or> of_char c = (127::nat)
      then [CHR 0x5C, CHR ''x'', hex_digit (of_char c div 16), hex_digit (of_char c mod 16)]
      else [c])"

definition quote :: "string \<Rightarrow> string" where
  "quote s = [CHR 0x22] @ concat (map quote_char s) @ [CHR 0x22]"

section \<open>Options and lists\<close>

text \<open>\<open>cmp.Or(a, b)\<close> on pointers: the first that is not nil.\<close>

fun cmp_or :: "'a option \<Rightarrow> 'a option \<Rightarrow> 'a option" where
  "cmp_or (Some x) _ = Some x"
| "cmp_or None y = y"

definition is_true :: "bool option \<Rightarrow> bool" where
  "is_true b \<longleftrightarrow> b = Some True"

lemma insert_removeAll_set [simp]:
  "set (List.insert x xs) = insert x (set xs)" "set (removeAll x xs) = set xs - {x}"
  by auto

lemma distinct_removeAll_insert:
  "distinct xs \<Longrightarrow> distinct (List.insert x xs)" "distinct xs \<Longrightarrow> distinct (removeAll x xs)"
  by (auto simp: distinct_removeAll)

end
