(* ===== verification/V1alpha1.thy ===== *)
theory V1alpha1
  imports Prelude
begin

text \<open>
  The custom resource \<open>AuthentikApplication\<close> (\<open>api/v1alpha1/authentikapplication_types.go\<close>):
  one record per struct, one datatype per enum, a pointer as an option. The validation rules of
  the custom resource definition are the \<open>valid_\<close> predicates: the enum markers are the
  constructors of the datatypes, and the \<open>XValidation\<close>, \<open>MinLength\<close> and \<open>Minimum\<close> markers
  are written out. Rules that compare with the stored object take it as a second argument.
\<close>

section \<open>Enums\<close>

datatype DeletionPolicy = DeletionPolicyRetain | DeletionPolicyDelete

datatype AdoptionPolicy = AdoptionPolicyNever | AdoptionPolicyIfMatch | AdoptionPolicyForce

datatype ClientType = ClientTypeConfidential | ClientTypePublic

datatype GrantType =
    GrantTypeAuthorizationCode | GrantTypeImplicit | GrantTypeHybrid | GrantTypeRefreshToken
  | GrantTypeClientCredentials | GrantTypePassword | GrantTypeDeviceCode | GrantTypeTokenExchange

datatype SubjectMode =
    SubjectModeHashedUserID | SubjectModeUserID | SubjectModeUserUUID | SubjectModeUserUsername
  | SubjectModeUserEmail | SubjectModeUserUPN

datatype IssuerMode = IssuerModeGlobal | IssuerModePerProvider

datatype LogoutMethod = LogoutMethodBackChannel | LogoutMethodFrontChannel

datatype MatchingMode = MatchingModeStrict | MatchingModeRegex

datatype RedirectURIType = RedirectURITypeAuthorization | RedirectURITypePostLogout

datatype AccessMode = AccessModeAny | AccessModeAll

section \<open>References\<close>

record NamedReference =
  ref_Name :: "string option"
  ref_UUID :: "string option"

record FlowReference =
  flow_Slug :: "string option"
  flow_UUID :: "string option"

record UserReference =
  user_Username :: "string option"
  user_PK :: "int option"

record ScopeMappingReference =
  scope_ScopeName :: "string option"
  scope_UUID :: "string option"

section \<open>The spec\<close>

record ProviderFlows =
  flows_Authorization :: FlowReference
  flows_Invalidation :: FlowReference
  flows_Authentication :: "FlowReference option"

record ProxyModeSpec =
  proxymode_ExternalHost :: string
  proxymode_InternalHost :: string
  proxymode_InternalHostSSLValidation :: "bool option"

record ForwardAuthSingleSpec =
  single_ExternalHost :: string

record ForwardAuthDomainSpec =
  domain_AuthenticationURL :: string
  domain_CookieDomain :: string

record BasicAuthSpec =
  basic_UserAttribute :: string
  basic_PasswordAttribute :: string

record ProxyProviderSpec =
  proxy_Proxy :: "ProxyModeSpec option"
  proxy_ForwardAuthSingle :: "ForwardAuthSingleSpec option"
  proxy_ForwardAuthDomain :: "ForwardAuthDomainSpec option"
  proxy_UnauthenticatedPaths :: "string list option"
  proxy_BasicAuth :: "BasicAuthSpec option"
  proxy_InterceptHeaderAuth :: "bool option"
  proxy_AccessTokenValidity :: "string option"
  proxy_RefreshTokenValidity :: "string option"
  proxy_Certificate :: "NamedReference option"
  proxy_Outpost :: "NamedReference option"

record RedirectURISpec =
  uri_URL :: string
  uri_MatchingMode :: "MatchingMode option"
  uri_Type :: "RedirectURIType option"

record OAuth2CredentialsSecretReference =
  secretref_Name :: string
  secretref_ClientIDKey :: "string option"
  secretref_ClientSecretKey :: "string option"

record OAuth2CredentialsSpec =
  cred_ClientID :: "string option"
  cred_SecretRef :: OAuth2CredentialsSecretReference

record OAuth2ProviderSpec =
  oauth2_ClientType :: "ClientType option"
  oauth2_RedirectURIs :: "RedirectURISpec list option"
  oauth2_Scopes :: "ScopeMappingReference list option"
  oauth2_SigningKey :: "NamedReference option"
  oauth2_EncryptionKey :: "NamedReference option"
  oauth2_GrantTypes :: "GrantType list option"
  oauth2_SubjectMode :: "SubjectMode option"
  oauth2_IssuerMode :: "IssuerMode option"
  oauth2_IncludeClaimsInIDToken :: "bool option"
  oauth2_AccessCodeValidity :: "string option"
  oauth2_AccessTokenValidity :: "string option"
  oauth2_RefreshTokenValidity :: "string option"
  oauth2_RefreshTokenThreshold :: "string option"
  oauth2_LogoutURI :: "string option"
  oauth2_LogoutMethod :: "LogoutMethod option"
  oauth2_Credentials :: "OAuth2CredentialsSpec option"

record ProviderSpec =
  provider_Name :: "string option"
  provider_Flows :: ProviderFlows
  provider_Proxy :: "ProxyProviderSpec option"
  provider_OAuth2 :: "OAuth2ProviderSpec option"

record AccessRule =
  rule_Group :: "NamedReference option"
  rule_User :: "UserReference option"
  rule_Policy :: "NamedReference option"
  rule_Negate :: "bool option"

record AccessSpec =
  access_Mode :: "AccessMode option"
  access_Rules :: "AccessRule list"
  access_Public :: "bool option"
  access_Prune :: "bool option"

record AuthentikApplicationSpec =
  spec_Slug :: string
  spec_Name :: string
  spec_LaunchURL :: "string option"
  spec_Icon :: "string option"
  spec_Description :: "string option"
  spec_Publisher :: "string option"
  spec_Group :: "string option"
  spec_OpenInNewTab :: "bool option"
  spec_HideFromApplicationDashboard :: "bool option"
  spec_DeletionPolicy :: "DeletionPolicy option"
  spec_Adopt :: "AdoptionPolicy option"
  spec_Provider :: "ProviderSpec option"
  spec_Access :: AccessSpec

section \<open>The status\<close>

record FieldDiff =
  diff_Field :: string
  diff_Desired :: string
  diff_Actual :: string

record UnmanagedBinding =
  unmanaged_UUID :: string
  unmanaged_Target :: string

text \<open>\<open>metav1.Condition\<close>, with the status \<open>True\<close> or \<open>False\<close> as a boolean.\<close>

record Condition =
  cond_Type :: string
  cond_Status :: bool
  cond_Reason :: string
  cond_Message :: string
  cond_ObservedGeneration :: int
  cond_LastTransitionTime :: int

record AuthentikApplicationStatus =
  status_ObservedGeneration :: int
  status_ApplicationSlug :: string
  status_ApplicationPK :: string
  status_ProviderPK :: "int option"
  status_OutpostUUID :: string
  status_BindingUUIDs :: "string list"
  status_LastAppliedHash :: string
  status_AdoptionDiff :: "FieldDiff list"
  status_UnmanagedBindings :: "UnmanagedBinding list"
  status_Conditions :: "Condition list"

text \<open>The resource, with the fields of \<open>metav1.ObjectMeta\<close> that the operator reads or writes.\<close>

record AuthentikApplication =
  meta_Namespace :: string
  meta_Name :: string
  meta_UID :: string
  meta_Generation :: int
  meta_CreationTimestamp :: int
  meta_DeletionTimestamp :: "int option"
  meta_Finalizers :: "string list"
  app_Spec :: AuthentikApplicationSpec
  app_Status :: AuthentikApplicationStatus

section \<open>Condition types and reasons\<close>

definition ConditionTypeReady :: string where "ConditionTypeReady = ''Ready''"
definition ConditionTypeUnmanagedBindings :: string where
  "ConditionTypeUnmanagedBindings = ''UnmanagedBindings''"

definition ReasonReconciled :: string where "ReasonReconciled = ''Reconciled''"
definition ReasonConflict :: string where "ReasonConflict = ''Conflict''"
definition ReasonUnmanaged :: string where "ReasonUnmanaged = ''Unmanaged''"
definition ReasonAdoptionDiff :: string where "ReasonAdoptionDiff = ''AdoptionDiff''"
definition ReasonProviderTypeMismatch :: string where
  "ReasonProviderTypeMismatch = ''ProviderTypeMismatch''"
definition ReasonUnmanagedBindings :: string where "ReasonUnmanagedBindings = ''UnmanagedBindings''"
definition ReasonReferenceNotFound :: string where "ReasonReferenceNotFound = ''ReferenceNotFound''"
definition ReasonAmbiguousReference :: string where "ReasonAmbiguousReference = ''AmbiguousReference''"
definition ReasonAPIError :: string where "ReasonAPIError = ''APIError''"

lemmas reason_defs = ReasonReconciled_def ReasonConflict_def ReasonUnmanaged_def
  ReasonAdoptionDiff_def ReasonProviderTypeMismatch_def ReasonUnmanagedBindings_def
  ReasonReferenceNotFound_def ReasonAmbiguousReference_def ReasonAPIError_def

section \<open>Validation rules\<close>

definition has :: "'a option \<Rightarrow> bool" where
  "has x \<longleftrightarrow> x \<noteq> None"

definition minlen :: "string option \<Rightarrow> bool" where
  "minlen x \<longleftrightarrow> x \<noteq> Some []"

definition one_of :: "bool list \<Rightarrow> bool" where
  "one_of bs \<longleftrightarrow> length (filter id bs) = 1"

definition valid_NamedReference :: "NamedReference \<Rightarrow> bool" where
  "valid_NamedReference r \<longleftrightarrow> has (ref_Name r) \<noteq> has (ref_UUID r) \<and> minlen (ref_Name r)"

definition valid_FlowReference :: "FlowReference \<Rightarrow> bool" where
  "valid_FlowReference r \<longleftrightarrow> has (flow_Slug r) \<noteq> has (flow_UUID r) \<and> minlen (flow_Slug r)"

definition valid_UserReference :: "UserReference \<Rightarrow> bool" where
  "valid_UserReference r \<longleftrightarrow>
     has (user_Username r) \<noteq> has (user_PK r) \<and> minlen (user_Username r) \<and>
     (case user_PK r of None \<Rightarrow> True | Some pk \<Rightarrow> 1 \<le> pk)"

definition valid_ScopeMappingReference :: "ScopeMappingReference \<Rightarrow> bool" where
  "valid_ScopeMappingReference r \<longleftrightarrow>
     has (scope_ScopeName r) \<noteq> has (scope_UUID r) \<and> minlen (scope_ScopeName r)"

definition valid_AccessRule :: "AccessRule \<Rightarrow> bool" where
  "valid_AccessRule r \<longleftrightarrow>
     one_of [has (rule_Group r), has (rule_User r), has (rule_Policy r)] \<and>
     pred_option valid_NamedReference (rule_Group r) \<and>
     pred_option valid_UserReference (rule_User r) \<and>
     pred_option valid_NamedReference (rule_Policy r)"

definition valid_AccessSpec :: "AccessSpec \<Rightarrow> bool" where
  "valid_AccessSpec a \<longleftrightarrow>
     (access_Rules a \<noteq> [] \<or> is_true (access_Public a)) \<and>
     \<not> (access_Rules a \<noteq> [] \<and> is_true (access_Public a)) \<and>
     list_all valid_AccessRule (access_Rules a)"

definition valid_ProviderFlows :: "ProviderFlows \<Rightarrow> bool" where
  "valid_ProviderFlows f \<longleftrightarrow>
     valid_FlowReference (flows_Authorization f) \<and> valid_FlowReference (flows_Invalidation f) \<and>
     pred_option valid_FlowReference (flows_Authentication f)"

definition valid_ProxyProviderSpec :: "ProxyProviderSpec \<Rightarrow> bool" where
  "valid_ProxyProviderSpec p \<longleftrightarrow>
     one_of [has (proxy_Proxy p), has (proxy_ForwardAuthSingle p), has (proxy_ForwardAuthDomain p)] \<and>
     pred_option (\<lambda>m. proxymode_ExternalHost m \<noteq> [] \<and> proxymode_InternalHost m \<noteq> []) (proxy_Proxy p) \<and>
     pred_option (\<lambda>m. single_ExternalHost m \<noteq> []) (proxy_ForwardAuthSingle p) \<and>
     pred_option (\<lambda>m. domain_AuthenticationURL m \<noteq> [] \<and> domain_CookieDomain m \<noteq> [])
       (proxy_ForwardAuthDomain p) \<and>
     pred_option (\<lambda>b. basic_UserAttribute b \<noteq> [] \<and> basic_PasswordAttribute b \<noteq> []) (proxy_BasicAuth p) \<and>
     pred_option valid_NamedReference (proxy_Certificate p) \<and>
     pred_option valid_NamedReference (proxy_Outpost p)"

definition valid_OAuth2CredentialsSpec :: "OAuth2CredentialsSpec \<Rightarrow> bool" where
  "valid_OAuth2CredentialsSpec c \<longleftrightarrow>
     \<not> (has (cred_ClientID c) \<and> has (secretref_ClientIDKey (cred_SecretRef c))) \<and>
     minlen (cred_ClientID c) \<and> pred_option (\<lambda>s. length s \<le> 255) (cred_ClientID c) \<and>
     secretref_Name (cred_SecretRef c) \<noteq> [] \<and> length (secretref_Name (cred_SecretRef c)) \<le> 253 \<and>
     minlen (secretref_ClientIDKey (cred_SecretRef c)) \<and>
     minlen (secretref_ClientSecretKey (cred_SecretRef c))"

definition valid_OAuth2ProviderSpec :: "OAuth2ProviderSpec \<Rightarrow> bool" where
  "valid_OAuth2ProviderSpec p \<longleftrightarrow>
     pred_option (list_all (\<lambda>u. uri_URL u \<noteq> [])) (oauth2_RedirectURIs p) \<and>
     pred_option (list_all valid_ScopeMappingReference) (oauth2_Scopes p) \<and>
     pred_option valid_NamedReference (oauth2_SigningKey p) \<and>
     pred_option valid_NamedReference (oauth2_EncryptionKey p) \<and>
     pred_option distinct (oauth2_GrantTypes p) \<and>
     pred_option valid_OAuth2CredentialsSpec (oauth2_Credentials p)"

definition valid_ProviderSpec :: "ProviderSpec \<Rightarrow> bool" where
  "valid_ProviderSpec p \<longleftrightarrow>
     has (provider_Proxy p) \<noteq> has (provider_OAuth2 p) \<and> minlen (provider_Name p) \<and>
     valid_ProviderFlows (provider_Flows p) \<and>
     pred_option valid_ProxyProviderSpec (provider_Proxy p) \<and>
     pred_option valid_OAuth2ProviderSpec (provider_OAuth2 p)"

definition slug_char :: "char \<Rightarrow> bool" where
  "slug_char c \<longleftrightarrow>
     (let n = (of_char c :: nat)
      in n = 45 \<or> n = 95 \<or> 48 \<le> n \<and> n \<le> 57 \<or> 65 \<le> n \<and> n \<le> 90 \<or> 97 \<le> n \<and> n \<le> 122)"

definition valid_AuthentikApplicationSpec :: "AuthentikApplicationSpec \<Rightarrow> bool" where
  "valid_AuthentikApplicationSpec s \<longleftrightarrow>
     spec_Slug s \<noteq> [] \<and> list_all slug_char (spec_Slug s) \<and> spec_Name s \<noteq> [] \<and>
     pred_option valid_ProviderSpec (spec_Provider s) \<and> valid_AccessSpec (spec_Access s)"

text \<open>The transition rules, checked on an update of the stored spec \<open>old\<close>.\<close>

definition valid_ProviderSpec_update :: "ProviderSpec \<Rightarrow> ProviderSpec \<Rightarrow> bool" where
  "valid_ProviderSpec_update old p \<longleftrightarrow> has (provider_Proxy p) = has (provider_Proxy old)"

definition valid_spec_update :: "AuthentikApplicationSpec \<Rightarrow> AuthentikApplicationSpec \<Rightarrow> bool" where
  "valid_spec_update old s \<longleftrightarrow>
     valid_AuthentikApplicationSpec s \<and> spec_Slug s = spec_Slug old \<and>
     (has (spec_Provider old) \<longrightarrow> has (spec_Provider s)) \<and>
     (case (spec_Provider old, spec_Provider s) of
        (Some po, Some p) \<Rightarrow> valid_ProviderSpec_update po p
      | _ \<Rightarrow> True)"

text \<open>
  A sequence of accepted updates keeps the slug, and once a provider is set neither removes it
  nor changes its type: \<open>spec_history s ss\<close> says that each spec of \<open>ss\<close> was accepted as an
  update of the one before it.
\<close>

fun spec_history :: "AuthentikApplicationSpec \<Rightarrow> AuthentikApplicationSpec list \<Rightarrow> bool" where
  "spec_history s [] = True"
| "spec_history s (t # ts) = (valid_spec_update s t \<and> spec_history t ts)"

definition provider_kind :: "AuthentikApplicationSpec \<Rightarrow> bool option" where
  "provider_kind s = map_option (\<lambda>p. has (provider_Proxy p)) (spec_Provider s)"

lemma valid_update_fixed:
  assumes "valid_spec_update s t"
  shows "spec_Slug t = spec_Slug s" and "provider_kind s \<noteq> None \<Longrightarrow> provider_kind t = provider_kind s"
  using assms
  by (auto simp: valid_spec_update_def valid_ProviderSpec_update_def provider_kind_def has_def
      split: option.splits)

lemma spec_history_fixed:
  assumes "spec_history s ts" and "t \<in> set ts"
  shows "spec_Slug t = spec_Slug s \<and> (provider_kind s \<noteq> None \<longrightarrow> provider_kind t = provider_kind s)"
  using assms
proof (induction ts arbitrary: s)
  case (Cons u us)
  then have u: "valid_spec_update s u" and us: "spec_history u us" by auto
  show ?case
  proof (cases "t = u")
    case True
    with valid_update_fixed [OF u] show ?thesis by auto
  next
    case False
    with Cons.prems(2) have "t \<in> set us" by simp
    from Cons.IH [OF us this] valid_update_fixed [OF u] show ?thesis by auto
  qed
qed simp

text \<open>A valid rule has exactly one subject, and a valid provider exactly one type.\<close>

lemma valid_AccessRule_cases:
  assumes "valid_AccessRule r"
  obtains (group) g where "rule_Group r = Some g" "rule_User r = None" "rule_Policy r = None"
  | (user) u where "rule_Group r = None" "rule_User r = Some u" "rule_Policy r = None"
  | (policy) p where "rule_Group r = None" "rule_User r = None" "rule_Policy r = Some p"
  using assms
  by (auto simp: valid_AccessRule_def one_of_def has_def split: if_splits option.splits)

lemma valid_ProviderSpec_cases:
  assumes "valid_ProviderSpec p"
  obtains (proxy) x where "provider_Proxy p = Some x" "provider_OAuth2 p = None"
  | (oauth2) x where "provider_Proxy p = None" "provider_OAuth2 p = Some x"
  using assms by (auto simp: valid_ProviderSpec_def has_def)

end
