(* ===== verification/Errors.thy ===== *)
theory Errors
  imports V1alpha1
begin

text \<open>
  The errors of the operator as values, with Go's \<open>errors.Is\<close> and \<open>errors.As\<close> along the
  wrapping chain: \<open>internal/authentik/errors.go\<close>, \<open>internal/reference/error.go\<close>, the
  \<open>stopError\<close> of the controller, and the wrapping of \<open>fmt.Errorf\<close> and \<open>errors.Join\<close>.
\<close>

section \<open>Reference failures\<close>

record Failure =
  fail_Path :: string
  fail_Target :: string
  fail_Matches :: int

definition Ambiguous :: "Failure \<Rightarrow> bool" where
  "Ambiguous f \<longleftrightarrow> 1 < fail_Matches f"

definition Failure_String :: "Failure \<Rightarrow> string" where
  "Failure_String f =
     (if Ambiguous f
      then fail_Path f @ '': '' @ fail_Target f @ '' matches '' @ itoa (fail_Matches f) @ '' objects''
      else fail_Path f @ '': '' @ fail_Target f @ '' not found'')"

definition Reference_Error :: "Failure list \<Rightarrow> string" where
  "Reference_Error fs = ''unresolved references: '' @ join ''; '' (map Failure_String fs)"

fun Reason :: "Failure list \<Rightarrow> string" where
  "Reason [] = ReasonAmbiguousReference"
| "Reason (f # fs) = (if \<not> Ambiguous f then ReasonReferenceNotFound else Reason fs)"

lemma Reason_iff: "Reason fs = (if list_ex (\<lambda>f. \<not> Ambiguous f) fs
    then ReasonReferenceNotFound else ReasonAmbiguousReference)"
  by (induction fs) (auto simp: reason_defs)

section \<open>Errors\<close>

datatype goerror =
    APIError string int string \<comment> \<open>operation, HTTP status code, body\<close>
  | TransportError string string \<comment> \<open>operation, message: no response was received\<close>
  | KubeError bool string \<comment> \<open>whether the API server answered not found, message\<close>
  | StopError string string \<comment> \<open>reason, message\<close>
  | ReferenceError "Failure list"
  | PlainError string
  | WrapError string goerror \<comment> \<open>\<open>fmt.Errorf("prefix: %w", err)\<close>\<close>
  | JoinError "goerror list" \<comment> \<open>\<open>errors.Join(errs...)\<close>\<close>

text \<open>\<open>err.Error()\<close>\<close>

fun ErrorText :: "goerror \<Rightarrow> string" where
  "ErrorText (APIError op code body) =
     ''authentik API '' @ op @ '' returned '' @ itoa code @ '': '' @ body"
| "ErrorText (TransportError op msg) = ''authentik API '' @ op @ '' failed: '' @ msg"
| "ErrorText (KubeError nf msg) = msg"
| "ErrorText (StopError reason msg) = msg"
| "ErrorText (ReferenceError fs) = Reference_Error fs"
| "ErrorText (PlainError msg) = msg"
| "ErrorText (WrapError msg e) = msg @ '': '' @ ErrorText e"
| "ErrorText (JoinError es) = join [CHR 0x0A] (map ErrorText es)"

text \<open>\<open>errors.Is(err, authentik.ErrNotFound)\<close>, with \<open>(*APIError).Is\<close>.\<close>

fun IsNotFound :: "goerror \<Rightarrow> bool" where
  "IsNotFound (APIError op code body) = (code = 404)"
| "IsNotFound (WrapError msg e) = IsNotFound e"
| "IsNotFound (JoinError es) = list_ex IsNotFound es"
| "IsNotFound _ = False"

text \<open>\<open>apierrors.IsNotFound(err)\<close> of the Kubernetes client.\<close>

fun KubeIsNotFound :: "goerror \<Rightarrow> bool" where
  "KubeIsNotFound (KubeError nf msg) = nf"
| "KubeIsNotFound (WrapError msg e) = KubeIsNotFound e"
| "KubeIsNotFound (JoinError es) = list_ex KubeIsNotFound es"
| "KubeIsNotFound _ = False"

text \<open>\<open>errors.As\<close> with the pointer types the operator asks for: the first match in the chain.\<close>

fun first_some :: "'a option list \<Rightarrow> 'a option" where
  "first_some [] = None"
| "first_some (Some x # _) = Some x"
| "first_some (None # xs) = first_some xs"

fun AsAPIError :: "goerror \<Rightarrow> (string \<times> int \<times> string) option" where
  "AsAPIError (APIError op code body) = Some (op, code, body)"
| "AsAPIError (WrapError msg e) = AsAPIError e"
| "AsAPIError (JoinError es) = first_some (map AsAPIError es)"
| "AsAPIError _ = None"

fun AsStopError :: "goerror \<Rightarrow> (string \<times> string) option" where
  "AsStopError (StopError reason msg) = Some (reason, msg)"
| "AsStopError (WrapError msg e) = AsStopError e"
| "AsStopError (JoinError es) = first_some (map AsStopError es)"
| "AsStopError _ = None"

fun AsReferenceError :: "goerror \<Rightarrow> Failure list option" where
  "AsReferenceError (ReferenceError fs) = Some fs"
| "AsReferenceError (WrapError msg e) = AsReferenceError e"
| "AsReferenceError (JoinError es) = first_some (map AsReferenceError es)"
| "AsReferenceError _ = None"

text \<open>A computation whose error is replaced by a wrapped one.\<close>

definition wrapE :: "string \<Rightarrow> ('s, goerror, 'a) go \<Rightarrow> ('s, goerror, 'a) go" where
  "wrapE msg m = (\<lambda>s. case m s of (Inl e, t) \<Rightarrow> (Inl (WrapError msg e), t) | (Inr x, t) \<Rightarrow> (Inr x, t))"

text \<open>\<open>ignoreNotFound(err)\<close> applied to the error of a call.\<close>

definition ignoreNotFound :: "('s, goerror, 'a) go \<Rightarrow> ('s, goerror, unit) go" where
  "ignoreNotFound m =
     bindE (attempt m) (\<lambda>r. case r of
         Inr _ \<Rightarrow> retE ()
       | Inl e \<Rightarrow> (if IsNotFound e then retE () else throwE e))"

lemma run_wrap [run_simps]:
  "wrapE msg m s = (case m s of (Inl e, t) \<Rightarrow> (Inl (WrapError msg e), t) | (Inr x, t) \<Rightarrow> (Inr x, t))"
  by (simp add: wrapE_def)

lemma run_ignoreNotFound [run_simps]:
  "ignoreNotFound m s = (case m s of
      (Inr _, t) \<Rightarrow> (Inr (), t)
    | (Inl e, t) \<Rightarrow> (if IsNotFound e then (Inr (), t) else (Inl e, t)))"
  by (auto simp: ignoreNotFound_def run_simps split: prod.splits sum.splits)

lemma steps_wrap [frame_intros]: "steps R m \<Longrightarrow> steps R (wrapE msg m)"
  by (auto simp: steps_def run_simps split: prod.splits sum.splits) (metis snd_conv)+

lemma keeps_ignoreNotFound [frame_intros]: "keeps f m \<Longrightarrow> keeps f (ignoreNotFound m)"
  unfolding ignoreNotFound_def by (intro frame_intros)

lemma stable_ignoreNotFound [frame_intros]: "stable I m \<Longrightarrow> stable I (ignoreNotFound m)"
  unfolding ignoreNotFound_def by (intro frame_intros)

end
