(* ===== verification/Client.thy ===== *)
theory Client
  imports Errors
begin

text \<open>
  The interface \<open>authentik.Client\<close> (\<open>internal/authentik/interface.go\<close>) as a record of
  operations on a server state \<open>'a\<close>, and the models of the generated API client that the
  operator reads and writes. The API client and the server are not part of the repository:
  a model has exactly the fields the sources use, and every definition of the operator takes
  the client as an argument.

  A \<open>NullableString\<close> or \<open>NullableInt32\<close> is unset, null or a value.
\<close>

section \<open>Nullable values\<close>

datatype 'v Nullable = Unset | SetTo "'v option"

fun IsSet :: "'v Nullable \<Rightarrow> bool" where
  "IsSet Unset = False"
| "IsSet (SetTo v) = True"

fun Get :: "'v Nullable \<Rightarrow> 'v option" where
  "Get Unset = None"
| "Get (SetTo v) = v"

section \<open>Models\<close>

datatype PolicyEngineMode = POLICYENGINEMODE_ANY | POLICYENGINEMODE_ALL

datatype ProxyMode = PROXYMODE_PROXY | PROXYMODE_FORWARD_SINGLE | PROXYMODE_FORWARD_DOMAIN

datatype ClientTypeEnum = CLIENTTYPEENUM_CONFIDENTIAL | CLIENTTYPEENUM_PUBLIC

datatype GrantTypeEnum =
    GRANTTYPEENUM_AUTHORIZATION_CODE | GRANTTYPEENUM_IMPLICIT | GRANTTYPEENUM_HYBRID
  | GRANTTYPEENUM_REFRESH_TOKEN | GRANTTYPEENUM_CLIENT_CREDENTIALS | GRANTTYPEENUM_PASSWORD
  | GRANTTYPEENUM_DEVICE_CODE | GRANTTYPEENUM_TOKEN_EXCHANGE

datatype SubModeEnum =
    SUBMODEENUM_HASHED_USER_ID | SUBMODEENUM_USER_ID | SUBMODEENUM_USER_UUID
  | SUBMODEENUM_USER_USERNAME | SUBMODEENUM_USER_EMAIL | SUBMODEENUM_USER_UPN

datatype IssuerModeEnum = ISSUERMODEENUM_GLOBAL | ISSUERMODEENUM_PER_PROVIDER

datatype LogoutMethodEnum = LOGOUTMETHODENUM_BACKCHANNEL | LOGOUTMETHODENUM_FRONTCHANNEL

datatype MatchingModeEnum = MATCHINGMODEENUM_STRICT | MATCHINGMODEENUM_REGEX

datatype RedirectURITypeEnum = REDIRECTURITYPEENUM_AUTHORIZATION | REDIRECTURITYPEENUM_LOGOUT

record Application =
  appl_Pk :: string
  appl_PbmUuid :: string
  appl_Name :: string
  appl_Slug :: string
  appl_Provider :: "int Nullable"
  appl_OpenInNewTab :: "bool option"
  appl_MetaLaunchUrl :: "string option"
  appl_MetaIcon :: "string option"
  appl_MetaDescription :: "string option"
  appl_MetaPublisher :: "string option"
  appl_PolicyEngineMode :: "PolicyEngineMode option"
  appl_Group :: "string option"
  appl_MetaHide :: "bool option"

record PatchedApplicationRequest =
  papp_Name :: "string option"
  papp_Slug :: "string option"
  papp_Provider :: "int Nullable"
  papp_OpenInNewTab :: "bool option"
  papp_MetaLaunchUrl :: "string option"
  papp_MetaIcon :: "string option"
  papp_MetaDescription :: "string option"
  papp_MetaPublisher :: "string option"
  papp_PolicyEngineMode :: "PolicyEngineMode option"
  papp_Group :: "string option"
  papp_MetaHide :: "bool option"

record ApplicationRequest =
  rapp_Name :: string
  rapp_Slug :: string
  rapp_Provider :: "int Nullable"
  rapp_OpenInNewTab :: "bool option"
  rapp_MetaLaunchUrl :: "string option"
  rapp_MetaIcon :: "string option"
  rapp_MetaDescription :: "string option"
  rapp_MetaPublisher :: "string option"
  rapp_PolicyEngineMode :: "PolicyEngineMode option"
  rapp_Group :: "string option"
  rapp_MetaHide :: "bool option"

record ProxyProvider =
  px_Pk :: int
  px_Name :: string
  px_AuthenticationFlow :: "string Nullable"
  px_AuthorizationFlow :: string
  px_InvalidationFlow :: string
  px_PropertyMappings :: "string list"
  px_InternalHost :: "string option"
  px_ExternalHost :: string
  px_InternalHostSslValidation :: "bool option"
  px_Certificate :: "string Nullable"
  px_SkipPathRegex :: "string option"
  px_BasicAuthEnabled :: "bool option"
  px_BasicAuthPasswordAttribute :: "string option"
  px_BasicAuthUserAttribute :: "string option"
  px_Mode :: "ProxyMode option"
  px_InterceptHeaderAuth :: "bool option"
  px_CookieDomain :: "string option"
  px_AccessTokenValidity :: "string option"
  px_RefreshTokenValidity :: "string option"
  px_AssignedApplicationSlug :: "string Nullable"

record PatchedProxyProviderRequest =
  ppx_Name :: "string option"
  ppx_AuthenticationFlow :: "string Nullable"
  ppx_AuthorizationFlow :: "string option"
  ppx_InvalidationFlow :: "string option"
  ppx_PropertyMappings :: "string list option"
  ppx_InternalHost :: "string option"
  ppx_ExternalHost :: "string option"
  ppx_InternalHostSslValidation :: "bool option"
  ppx_Certificate :: "string Nullable"
  ppx_SkipPathRegex :: "string option"
  ppx_BasicAuthEnabled :: "bool option"
  ppx_BasicAuthPasswordAttribute :: "string option"
  ppx_BasicAuthUserAttribute :: "string option"
  ppx_Mode :: "ProxyMode option"
  ppx_InterceptHeaderAuth :: "bool option"
  ppx_CookieDomain :: "string option"
  ppx_AccessTokenValidity :: "string option"
  ppx_RefreshTokenValidity :: "string option"

record ProxyProviderRequest =
  rpx_Name :: string
  rpx_AuthenticationFlow :: "string Nullable"
  rpx_AuthorizationFlow :: string
  rpx_InvalidationFlow :: string
  rpx_InternalHost :: "string option"
  rpx_ExternalHost :: string
  rpx_InternalHostSslValidation :: "bool option"
  rpx_Certificate :: "string Nullable"
  rpx_SkipPathRegex :: "string option"
  rpx_BasicAuthEnabled :: "bool option"
  rpx_BasicAuthPasswordAttribute :: "string option"
  rpx_BasicAuthUserAttribute :: "string option"
  rpx_Mode :: "ProxyMode option"
  rpx_InterceptHeaderAuth :: "bool option"
  rpx_CookieDomain :: "string option"
  rpx_AccessTokenValidity :: "string option"
  rpx_RefreshTokenValidity :: "string option"

record RedirectURI =
  ruri_Url :: string
  ruri_MatchingMode :: MatchingModeEnum
  ruri_RedirectUriType :: "RedirectURITypeEnum option"

record OAuth2Provider =
  ox_Pk :: int
  ox_Name :: string
  ox_AuthenticationFlow :: "string Nullable"
  ox_AuthorizationFlow :: string
  ox_InvalidationFlow :: string
  ox_PropertyMappings :: "string list"
  ox_ClientType :: "ClientTypeEnum option"
  ox_GrantTypes :: "GrantTypeEnum list"
  ox_ClientId :: "string option"
  ox_ClientSecret :: "string option"
  ox_AccessCodeValidity :: "string option"
  ox_AccessTokenValidity :: "string option"
  ox_RefreshTokenValidity :: "string option"
  ox_RefreshTokenThreshold :: "string option"
  ox_IncludeClaimsInIdToken :: "bool option"
  ox_SigningKey :: "string Nullable"
  ox_EncryptionKey :: "string Nullable"
  ox_RedirectUris :: "RedirectURI list"
  ox_LogoutUri :: "string option"
  ox_LogoutMethod :: "LogoutMethodEnum option"
  ox_SubMode :: "SubModeEnum option"
  ox_IssuerMode :: "IssuerModeEnum option"
  ox_AssignedApplicationSlug :: "string Nullable"

record PatchedOAuth2ProviderRequest =
  pox_Name :: "string option"
  pox_AuthenticationFlow :: "string Nullable"
  pox_AuthorizationFlow :: "string option"
  pox_InvalidationFlow :: "string option"
  pox_PropertyMappings :: "string list option"
  pox_ClientType :: "ClientTypeEnum option"
  pox_GrantTypes :: "GrantTypeEnum list option"
  pox_ClientId :: "string option"
  pox_ClientSecret :: "string option"
  pox_AccessCodeValidity :: "string option"
  pox_AccessTokenValidity :: "string option"
  pox_RefreshTokenValidity :: "string option"
  pox_RefreshTokenThreshold :: "string option"
  pox_IncludeClaimsInIdToken :: "bool option"
  pox_SigningKey :: "string Nullable"
  pox_EncryptionKey :: "string Nullable"
  pox_RedirectUris :: "RedirectURI list option"
  pox_LogoutUri :: "string option"
  pox_LogoutMethod :: "LogoutMethodEnum option"
  pox_SubMode :: "SubModeEnum option"
  pox_IssuerMode :: "IssuerModeEnum option"

record OAuth2ProviderRequest =
  rox_Name :: string
  rox_AuthenticationFlow :: "string Nullable"
  rox_AuthorizationFlow :: string
  rox_InvalidationFlow :: string
  rox_PropertyMappings :: "string list option"
  rox_ClientType :: "ClientTypeEnum option"
  rox_GrantTypes :: "GrantTypeEnum list option"
  rox_ClientId :: "string option"
  rox_ClientSecret :: "string option"
  rox_AccessCodeValidity :: "string option"
  rox_AccessTokenValidity :: "string option"
  rox_RefreshTokenValidity :: "string option"
  rox_RefreshTokenThreshold :: "string option"
  rox_IncludeClaimsInIdToken :: "bool option"
  rox_SigningKey :: "string Nullable"
  rox_EncryptionKey :: "string Nullable"
  rox_RedirectUris :: "RedirectURI list option"
  rox_LogoutUri :: "string option"
  rox_LogoutMethod :: "LogoutMethodEnum option"
  rox_SubMode :: "SubModeEnum option"
  rox_IssuerMode :: "IssuerModeEnum option"

record PolicyBinding =
  bind_Pk :: string
  bind_Policy :: "string Nullable"
  bind_Group :: "string Nullable"
  bind_User :: "int Nullable"
  bind_Target :: string
  bind_Negate :: "bool option"
  bind_Enabled :: "bool option"
  bind_Order :: int
  bind_Timeout :: "int option"
  bind_FailureResult :: "bool option"

record PatchedPolicyBindingRequest =
  pbind_Policy :: "string Nullable"
  pbind_Group :: "string Nullable"
  pbind_User :: "int Nullable"
  pbind_Target :: "string option"
  pbind_Negate :: "bool option"
  pbind_Enabled :: "bool option"
  pbind_Order :: "int option"
  pbind_Timeout :: "int option"
  pbind_FailureResult :: "bool option"

record PolicyBindingRequest =
  rbind_Policy :: "string Nullable"
  rbind_Group :: "string Nullable"
  rbind_User :: "int Nullable"
  rbind_Target :: string
  rbind_Negate :: "bool option"
  rbind_Enabled :: "bool option"
  rbind_Order :: int
  rbind_Timeout :: "int option"
  rbind_FailureResult :: "bool option"

record Outpost =
  outpost_Pk :: string
  outpost_Name :: string
  outpost_Providers :: "int list"

record Role =
  role_Pk :: string
  role_Name :: string

record RoleObjectPermission =
  perm_AppLabel :: string
  perm_Model :: string
  perm_ObjectPk :: string
  perm_Codename :: string

record RoleAssignedObjectPermission =
  assigned_RolePk :: string
  assigned_ObjectPermissions :: "RoleObjectPermission list"

record Group =
  group_Pk :: string
  group_Name :: string

record User =
  usr_Pk :: int
  usr_Username :: string

record Policy =
  policy_Pk :: string
  policy_Name :: string

record Flow =
  flw_Pk :: string
  flw_Slug :: string

record CertificateKeyPair =
  keypair_Pk :: string
  keypair_Name :: string

record ScopeMapping =
  mapping_Pk :: string
  mapping_ScopeName :: string
  mapping_Managed :: "string Nullable"

section \<open>The client\<close>

text \<open>
  One field per method of the interface, in the order of the embedded interfaces
  \<open>VersionClient\<close>, \<open>ApplicationClient\<close>, \<open>ProxyProviderClient\<close>, \<open>OAuth2ProviderClient\<close>,
  \<open>PolicyBindingClient\<close>, \<open>OutpostClient\<close>, \<open>RBACClient\<close> and \<open>LookupClient\<close>.
\<close>

type_synonym ('a, 'r) call = "('a, goerror, 'r) go"

record 'a Client =
  GetVersion :: "('a, string) call"
  GetApplication :: "string \<Rightarrow> ('a, Application) call"
  CreateApplication :: "ApplicationRequest \<Rightarrow> ('a, Application) call"
  PatchApplication :: "string \<Rightarrow> PatchedApplicationRequest \<Rightarrow> ('a, Application) call"
  DeleteApplication :: "string \<Rightarrow> ('a, unit) call"
  GetProxyProvider :: "int \<Rightarrow> ('a, ProxyProvider) call"
  FindProxyProvidersByName :: "string \<Rightarrow> ('a, ProxyProvider list) call"
  CreateProxyProvider :: "ProxyProviderRequest \<Rightarrow> ('a, ProxyProvider) call"
  PatchProxyProvider :: "int \<Rightarrow> PatchedProxyProviderRequest \<Rightarrow> ('a, ProxyProvider) call"
  DeleteProxyProvider :: "int \<Rightarrow> ('a, unit) call"
  GetOAuth2Provider :: "int \<Rightarrow> ('a, OAuth2Provider) call"
  FindOAuth2ProvidersByName :: "string \<Rightarrow> ('a, OAuth2Provider list) call"
  CreateOAuth2Provider :: "OAuth2ProviderRequest \<Rightarrow> ('a, OAuth2Provider) call"
  PatchOAuth2Provider :: "int \<Rightarrow> PatchedOAuth2ProviderRequest \<Rightarrow> ('a, OAuth2Provider) call"
  DeleteOAuth2Provider :: "int \<Rightarrow> ('a, unit) call"
  GetPolicyBinding :: "string \<Rightarrow> ('a, PolicyBinding) call"
  ListPolicyBindings :: "string \<Rightarrow> ('a, PolicyBinding list) call"
  CreatePolicyBinding :: "PolicyBindingRequest \<Rightarrow> ('a, PolicyBinding) call"
  PatchPolicyBinding :: "string \<Rightarrow> PatchedPolicyBindingRequest \<Rightarrow> ('a, PolicyBinding) call"
  DeletePolicyBinding :: "string \<Rightarrow> ('a, unit) call"
  GetOutpost :: "string \<Rightarrow> ('a, Outpost) call"
  FindOutpostsByName :: "string \<Rightarrow> ('a, Outpost list) call"
  SetOutpostProviders :: "string \<Rightarrow> int list \<Rightarrow> ('a, Outpost) call"
  GetRole :: "string \<Rightarrow> ('a, Role) call"
  FindRolesByName :: "string \<Rightarrow> ('a, Role list) call"
  CreateRole :: "string \<Rightarrow> ('a, Role) call"
  AssignObjectPermission :: "string \<Rightarrow> string \<Rightarrow> string \<Rightarrow> string \<Rightarrow> ('a, unit) call"
  UnassignObjectPermission :: "string \<Rightarrow> string \<Rightarrow> string \<Rightarrow> string \<Rightarrow> ('a, unit) call"
  ListRoleObjectPermissions :: "string \<Rightarrow> ('a, RoleObjectPermission list) call"
  ListObjectPermissionRoles :: "string \<Rightarrow> string \<Rightarrow> ('a, RoleAssignedObjectPermission list) call"
  GetGroup :: "string \<Rightarrow> ('a, Group) call"
  FindGroupsByName :: "string \<Rightarrow> ('a, Group list) call"
  GetUser :: "int \<Rightarrow> ('a, User) call"
  FindUsersByUsername :: "string \<Rightarrow> ('a, User list) call"
  GetPolicy :: "string \<Rightarrow> ('a, Policy) call"
  FindPoliciesByName :: "string \<Rightarrow> ('a, Policy list) call"
  GetFlow :: "string \<Rightarrow> ('a, Flow) call"
  FindFlowsBySlug :: "string \<Rightarrow> ('a, Flow list) call"
  GetCertificateKeyPair :: "string \<Rightarrow> ('a, CertificateKeyPair) call"
  FindCertificateKeyPairsByName :: "string \<Rightarrow> ('a, CertificateKeyPair list) call"
  GetScopeMapping :: "string \<Rightarrow> ('a, ScopeMapping) call"
  FindScopeMappingsByScopeName :: "string \<Rightarrow> ('a, ScopeMapping list) call"

end
