(* ===== verification/Patch.thy ===== *)
theory Patch
  imports Client
begin

text \<open>
  The construction of PATCH requests (\<open>internal/authentik/patch.go\<close>): a field that is unset
  in the desired state is not managed and never sent, a managed field is sent only when its
  value differs from the observed object. \<open>None\<close> is the result \<open>(nil, false)\<close>.
\<close>

section \<open>Field comparison\<close>

definition diffValue :: "'v option \<Rightarrow> 'v \<Rightarrow> 'v option" where
  "diffValue desired observed =
     (case desired of None \<Rightarrow> None | Some d \<Rightarrow> if d = observed then None else desired)"

definition diffPointer :: "'v option \<Rightarrow> 'v option \<Rightarrow> 'v option" where
  "diffPointer desired observed =
     (if desired = None \<or> (observed \<noteq> None \<and> the desired = the observed) then None else desired)"

definition equalPointers :: "'v option \<Rightarrow> 'v option \<Rightarrow> bool" where
  "equalPointers a b =
     (case (a, b) of
        (Some x, Some y) \<Rightarrow> x = y
      | _ \<Rightarrow> a = None \<and> b = None)"

definition diffNullable :: "'v Nullable \<Rightarrow> 'v Nullable \<Rightarrow> 'v Nullable" where
  "diffNullable desired observed =
     (if \<not> IsSet desired \<or> equalPointers (Get desired) (Get observed) then Unset else desired)"

text \<open>The second loop of \<open>sameSet\<close>: the keys of \<open>have\<close> (here \<open>seen\<close>), or an early \<open>return false\<close>.\<close>

fun sameSet_have :: "'v list \<Rightarrow> 'v list \<Rightarrow> 'v list \<Rightarrow> 'v list option" where
  "sameSet_have want seen [] = Some seen"
| "sameSet_have want seen (v # vs) =
     (if v \<in> set want then sameSet_have want (List.insert v seen) vs else None)"

definition sameSet :: "'v list \<Rightarrow> 'v list \<Rightarrow> bool" where
  "sameSet a b =
     (let want = fold List.insert a [] in
      case sameSet_have want [] b of
        None \<Rightarrow> False
      | Some seen \<Rightarrow> length want = length seen)"

definition diffSet :: "'v list option \<Rightarrow> 'v list \<Rightarrow> 'v list option" where
  "diffSet desired observed =
     (case desired of None \<Rightarrow> None | Some d \<Rightarrow> if sameSet d observed then None else desired)"

definition redirectURIType :: "RedirectURITypeEnum option \<Rightarrow> RedirectURITypeEnum" where
  "redirectURIType t = (case t of None \<Rightarrow> REDIRECTURITYPEENUM_AUTHORIZATION | Some x \<Rightarrow> x)"

type_synonym redirectURIKey = "string \<times> MatchingModeEnum \<times> RedirectURITypeEnum"

definition redirectURIKey :: "RedirectURI \<Rightarrow> redirectURIKey" where
  "redirectURIKey u = (ruri_Url u, ruri_MatchingMode u, redirectURIType (ruri_RedirectUriType u))"

definition diffRedirectURIs :: "RedirectURI list option \<Rightarrow> RedirectURI list \<Rightarrow> RedirectURI list option" where
  "diffRedirectURIs desired observed =
     (case desired of
        None \<Rightarrow> None
      | Some d \<Rightarrow>
          if sameSet (map redirectURIKey d) (map redirectURIKey observed) then None else desired)"

fun firstNonNil :: "'v option list \<Rightarrow> 'v option" where
  "firstNonNil [] = None"
| "firstNonNil (Some v # _) = Some v"
| "firstNonNil (None # vs) = firstNonNil vs"

section \<open>Diffs\<close>

definition DiffApplication ::
  "PatchedApplicationRequest \<Rightarrow> Application \<Rightarrow> PatchedApplicationRequest option" where
  "DiffApplication desired observed =
     (let patch = \<lparr>
            papp_Name = diffValue (papp_Name desired) (appl_Name observed),
            papp_Slug = diffValue (papp_Slug desired) (appl_Slug observed),
            papp_Provider = diffNullable (papp_Provider desired) (appl_Provider observed),
            papp_OpenInNewTab = diffPointer (papp_OpenInNewTab desired) (appl_OpenInNewTab observed),
            papp_MetaLaunchUrl = diffPointer (papp_MetaLaunchUrl desired) (appl_MetaLaunchUrl observed),
            papp_MetaIcon = diffPointer (papp_MetaIcon desired) (appl_MetaIcon observed),
            papp_MetaDescription = diffPointer (papp_MetaDescription desired) (appl_MetaDescription observed),
            papp_MetaPublisher = diffPointer (papp_MetaPublisher desired) (appl_MetaPublisher observed),
            papp_PolicyEngineMode = diffPointer (papp_PolicyEngineMode desired) (appl_PolicyEngineMode observed),
            papp_Group = diffPointer (papp_Group desired) (appl_Group observed),
            papp_MetaHide = diffPointer (papp_MetaHide desired) (appl_MetaHide observed) \<rparr>;
          changed = (papp_Name patch \<noteq> None \<or> papp_Slug patch \<noteq> None \<or> IsSet (papp_Provider patch) \<or>
            papp_OpenInNewTab patch \<noteq> None \<or> papp_MetaLaunchUrl patch \<noteq> None \<or> papp_MetaIcon patch \<noteq> None \<or>
            papp_MetaDescription patch \<noteq> None \<or> papp_MetaPublisher patch \<noteq> None \<or>
            papp_PolicyEngineMode patch \<noteq> None \<or> papp_Group patch \<noteq> None \<or> papp_MetaHide patch \<noteq> None)
      in if \<not> changed then None else Some patch)"

definition DiffProxyProvider ::
  "PatchedProxyProviderRequest \<Rightarrow> ProxyProvider \<Rightarrow> PatchedProxyProviderRequest option" where
  "DiffProxyProvider desired observed =
     (let patch = \<lparr>
            ppx_Name = diffValue (ppx_Name desired) (px_Name observed),
            ppx_AuthenticationFlow =
              diffNullable (ppx_AuthenticationFlow desired) (px_AuthenticationFlow observed),
            ppx_AuthorizationFlow = diffValue (ppx_AuthorizationFlow desired) (px_AuthorizationFlow observed),
            ppx_InvalidationFlow = diffValue (ppx_InvalidationFlow desired) (px_InvalidationFlow observed),
            ppx_PropertyMappings = diffSet (ppx_PropertyMappings desired) (px_PropertyMappings observed),
            ppx_InternalHost = diffPointer (ppx_InternalHost desired) (px_InternalHost observed),
            ppx_ExternalHost = diffValue (ppx_ExternalHost desired) (px_ExternalHost observed),
            ppx_InternalHostSslValidation =
              diffPointer (ppx_InternalHostSslValidation desired) (px_InternalHostSslValidation observed),
            ppx_Certificate = diffNullable (ppx_Certificate desired) (px_Certificate observed),
            ppx_SkipPathRegex = diffPointer (ppx_SkipPathRegex desired) (px_SkipPathRegex observed),
            ppx_BasicAuthEnabled = diffPointer (ppx_BasicAuthEnabled desired) (px_BasicAuthEnabled observed),
            ppx_BasicAuthPasswordAttribute =
              diffPointer (ppx_BasicAuthPasswordAttribute desired) (px_BasicAuthPasswordAttribute observed),
            ppx_BasicAuthUserAttribute =
              diffPointer (ppx_BasicAuthUserAttribute desired) (px_BasicAuthUserAttribute observed),
            ppx_Mode = diffPointer (ppx_Mode desired) (px_Mode observed),
            ppx_InterceptHeaderAuth =
              diffPointer (ppx_InterceptHeaderAuth desired) (px_InterceptHeaderAuth observed),
            ppx_CookieDomain = diffPointer (ppx_CookieDomain desired) (px_CookieDomain observed),
            ppx_AccessTokenValidity =
              diffPointer (ppx_AccessTokenValidity desired) (px_AccessTokenValidity observed),
            ppx_RefreshTokenValidity =
              diffPointer (ppx_RefreshTokenValidity desired) (px_RefreshTokenValidity observed) \<rparr>;
          changed = (ppx_Name patch \<noteq> None \<or> IsSet (ppx_AuthenticationFlow patch) \<or>
            ppx_AuthorizationFlow patch \<noteq> None \<or> ppx_InvalidationFlow patch \<noteq> None \<or>
            ppx_PropertyMappings patch \<noteq> None \<or> ppx_InternalHost patch \<noteq> None \<or>
            ppx_ExternalHost patch \<noteq> None \<or> ppx_InternalHostSslValidation patch \<noteq> None \<or>
            IsSet (ppx_Certificate patch) \<or> ppx_SkipPathRegex patch \<noteq> None \<or>
            ppx_BasicAuthEnabled patch \<noteq> None \<or> ppx_BasicAuthPasswordAttribute patch \<noteq> None \<or>
            ppx_BasicAuthUserAttribute patch \<noteq> None \<or> ppx_Mode patch \<noteq> None \<or>
            ppx_InterceptHeaderAuth patch \<noteq> None \<or> ppx_CookieDomain patch \<noteq> None \<or>
            ppx_AccessTokenValidity patch \<noteq> None \<or> ppx_RefreshTokenValidity patch \<noteq> None)
      in if \<not> changed then None
         else Some (patch\<lparr>ppx_Mode := firstNonNil [ppx_Mode desired, px_Mode observed]\<rparr>))"

definition DiffOAuth2Provider ::
  "PatchedOAuth2ProviderRequest \<Rightarrow> OAuth2Provider \<Rightarrow> PatchedOAuth2ProviderRequest option" where
  "DiffOAuth2Provider desired observed =
     (let patch = \<lparr>
            pox_Name = diffValue (pox_Name desired) (ox_Name observed),
            pox_AuthenticationFlow =
              diffNullable (pox_AuthenticationFlow desired) (ox_AuthenticationFlow observed),
            pox_AuthorizationFlow = diffValue (pox_AuthorizationFlow desired) (ox_AuthorizationFlow observed),
            pox_InvalidationFlow = diffValue (pox_InvalidationFlow desired) (ox_InvalidationFlow observed),
            pox_PropertyMappings = diffSet (pox_PropertyMappings desired) (ox_PropertyMappings observed),
            pox_ClientType = diffPointer (pox_ClientType desired) (ox_ClientType observed),
            pox_GrantTypes = diffSet (pox_GrantTypes desired) (ox_GrantTypes observed),
            pox_ClientId = diffPointer (pox_ClientId desired) (ox_ClientId observed),
            pox_ClientSecret = diffPointer (pox_ClientSecret desired) (ox_ClientSecret observed),
            pox_AccessCodeValidity =
              diffPointer (pox_AccessCodeValidity desired) (ox_AccessCodeValidity observed),
            pox_AccessTokenValidity =
              diffPointer (pox_AccessTokenValidity desired) (ox_AccessTokenValidity observed),
            pox_RefreshTokenValidity =
              diffPointer (pox_RefreshTokenValidity desired) (ox_RefreshTokenValidity observed),
            pox_RefreshTokenThreshold =
              diffPointer (pox_RefreshTokenThreshold desired) (ox_RefreshTokenThreshold observed),
            pox_IncludeClaimsInIdToken =
              diffPointer (pox_IncludeClaimsInIdToken desired) (ox_IncludeClaimsInIdToken observed),
            pox_SigningKey = diffNullable (pox_SigningKey desired) (ox_SigningKey observed),
            pox_EncryptionKey = diffNullable (pox_EncryptionKey desired) (ox_EncryptionKey observed),
            pox_RedirectUris = diffRedirectURIs (pox_RedirectUris desired) (ox_RedirectUris observed),
            pox_LogoutUri = diffPointer (pox_LogoutUri desired) (ox_LogoutUri observed),
            pox_LogoutMethod = diffPointer (pox_LogoutMethod desired) (ox_LogoutMethod observed),
            pox_SubMode = diffPointer (pox_SubMode desired) (ox_SubMode observed),
            pox_IssuerMode = diffPointer (pox_IssuerMode desired) (ox_IssuerMode observed) \<rparr>;
          changed = (pox_Name patch \<noteq> None \<or> IsSet (pox_AuthenticationFlow patch) \<or>
            pox_AuthorizationFlow patch \<noteq> None \<or> pox_InvalidationFlow patch \<noteq> None \<or>
            pox_PropertyMappings patch \<noteq> None \<or> pox_ClientType patch \<noteq> None \<or>
            pox_GrantTypes patch \<noteq> None \<or> pox_ClientId patch \<noteq> None \<or> pox_ClientSecret patch \<noteq> None \<or>
            pox_AccessCodeValidity patch \<noteq> None \<or> pox_AccessTokenValidity patch \<noteq> None \<or>
            pox_RefreshTokenValidity patch \<noteq> None \<or> pox_RefreshTokenThreshold patch \<noteq> None \<or>
            pox_IncludeClaimsInIdToken patch \<noteq> None \<or> IsSet (pox_SigningKey patch) \<or>
            IsSet (pox_EncryptionKey patch) \<or> pox_RedirectUris patch \<noteq> None \<or>
            pox_LogoutUri patch \<noteq> None \<or> pox_LogoutMethod patch \<noteq> None \<or>
            pox_SubMode patch \<noteq> None \<or> pox_IssuerMode patch \<noteq> None)
      in if \<not> changed then None else Some patch)"

definition DiffPolicyBinding ::
  "PatchedPolicyBindingRequest \<Rightarrow> PolicyBinding \<Rightarrow> PatchedPolicyBindingRequest option" where
  "DiffPolicyBinding desired observed =
     (let patch = \<lparr>
            pbind_Policy = diffNullable (pbind_Policy desired) (bind_Policy observed),
            pbind_Group = diffNullable (pbind_Group desired) (bind_Group observed),
            pbind_User = diffNullable (pbind_User desired) (bind_User observed),
            pbind_Target = diffValue (pbind_Target desired) (bind_Target observed),
            pbind_Negate = diffPointer (pbind_Negate desired) (bind_Negate observed),
            pbind_Enabled = diffPointer (pbind_Enabled desired) (bind_Enabled observed),
            pbind_Order = diffValue (pbind_Order desired) (bind_Order observed),
            pbind_Timeout = diffPointer (pbind_Timeout desired) (bind_Timeout observed),
            pbind_FailureResult = diffPointer (pbind_FailureResult desired) (bind_FailureResult observed) \<rparr>;
          changed = (IsSet (pbind_Policy patch) \<or> IsSet (pbind_Group patch) \<or> IsSet (pbind_User patch) \<or>
            pbind_Target patch \<noteq> None \<or> pbind_Negate patch \<noteq> None \<or> pbind_Enabled patch \<noteq> None \<or>
            pbind_Order patch \<noteq> None \<or> pbind_Timeout patch \<noteq> None \<or> pbind_FailureResult patch \<noteq> None);
          targeted = patch\<lparr>pbind_Target := firstNonNil [pbind_Target desired, Some (bind_Target observed)]\<rparr>
      in if \<not> changed then None
         else if IsSet (pbind_Policy desired) \<or> IsSet (pbind_Group desired) \<or> IsSet (pbind_User desired)
         then Some (targeted\<lparr>
           pbind_Policy := (if IsSet (pbind_Policy desired) then pbind_Policy desired else SetTo None),
           pbind_Group := (if IsSet (pbind_Group desired) then pbind_Group desired else SetTo None),
           pbind_User := (if IsSet (pbind_User desired) then pbind_User desired else SetTo None)\<rparr>)
         else Some (targeted\<lparr>
           pbind_Policy := bind_Policy observed,
           pbind_Group := bind_Group observed,
           pbind_User := bind_User observed\<rparr>))"

section \<open>What a comparison decides\<close>

lemma equalPointers_iff [simp]: "equalPointers a b \<longleftrightarrow> a = b"
  by (cases a; cases b) (auto simp: equalPointers_def)

text \<open>\<open>sameSet\<close> ignores order and duplicates: it compares the sets of elements.\<close>

lemma sameSet_have_Some:
  "sameSet_have want h b = Some h' \<Longrightarrow>
   set b \<subseteq> set want \<and> set h' = set h \<union> set b \<and> (distinct h \<longrightarrow> distinct h')"
  by (induction want h b rule: sameSet_have.induct) (auto simp: distinct_removeAll_insert split: if_splits)

lemma sameSet_have_None: "sameSet_have want h b = None \<longleftrightarrow> \<not> set b \<subseteq> set want"
  by (induction want h b rule: sameSet_have.induct) auto

lemma fold_insert_set: "set (fold List.insert a acc) = set a \<union> set acc"
  by (induction a arbitrary: acc) auto

lemma fold_insert_distinct: "distinct acc \<Longrightarrow> distinct (fold List.insert a acc)"
  by (induction a arbitrary: acc) (auto simp: distinct_removeAll_insert)

lemma sameSet_iff: "sameSet a b \<longleftrightarrow> set a = set b"
proof (cases "sameSet_have (fold List.insert a []) [] b")
  case None
  then show ?thesis
    using sameSet_have_None [of "fold List.insert a []" "[]" b]
    by (auto simp: sameSet_def fold_insert_set)
next
  case (Some h)
  let ?w = "fold List.insert a []"
  have w: "distinct ?w" "set ?w = set a"
    by (auto simp: fold_insert_distinct fold_insert_set)
  have h: "set h = set b" "distinct h" "set b \<subseteq> set a"
    using sameSet_have_Some [OF Some] w by auto
  have "length ?w = length h \<longleftrightarrow> card (set a) = card (set b)"
    using w h by (metis distinct_card)
  also have "\<dots> \<longleftrightarrow> set a = set b"
    using h(3) by (metis List.finite_set card_subset_eq)
  finally show ?thesis using Some by (simp add: sameSet_def)
qed

lemma diffValue_None: "diffValue d x = None \<longleftrightarrow> d = None \<or> d = Some x"
  by (auto simp: diffValue_def split: option.splits)

lemma diffPointer_None: "diffPointer d x = None \<longleftrightarrow> d = None \<or> d = x"
  by (cases d; cases x) (auto simp: diffPointer_def)

lemma diffNullable_IsSet:
  "IsSet (diffNullable d x) \<longleftrightarrow> IsSet d \<and> Get d \<noteq> Get x"
  by (cases d) (auto simp: diffNullable_def)

lemma diffSet_None: "diffSet d x = None \<longleftrightarrow> (\<forall>ds. d = Some ds \<longrightarrow> set ds = set x)"
  by (auto simp: diffSet_def sameSet_iff split: option.splits)

lemma diffRedirectURIs_None:
  "diffRedirectURIs d x = None \<longleftrightarrow>
   (\<forall>ds. d = Some ds \<longrightarrow> redirectURIKey ` set ds = redirectURIKey ` set x)"
  by (auto simp: diffRedirectURIs_def sameSet_iff split: option.splits)

lemma diff_Some:
  "diffValue d x = Some v \<Longrightarrow> d = Some v" "diffPointer d y = Some v \<Longrightarrow> d = Some v"
  by (auto simp: diffValue_def diffPointer_def split: option.splits if_splits)

end
