(* ===== verification/Json.thy ===== *)
theory Json
  imports Prelude
begin

text \<open>
  JSON values as \<open>encoding/json\<close> decodes them into \<open>any\<close>, and \<open>json.Marshal\<close> of such a
  value. A number keeps the text Go prints for it. Used for the error bodies of the authentik
  API (redaction) and for the values shown in adoption diffs.
\<close>

datatype json =
    JNull
  | JBool bool
  | JNum string
  | JStr string
  | JArr "json list"
  | JObj "(string \<times> json) list"

definition json_char :: "char \<Rightarrow> string" where
  "json_char c =
     (if c = CHR 0x22 then [CHR 0x5C, CHR 0x22]
      else if c = CHR 0x5C then [CHR 0x5C, CHR 0x5C]
      else if c = CHR 0x08 then [CHR 0x5C, CHR ''b'']
      else if c = CHR 0x0C then [CHR 0x5C, CHR ''f'']
      else if c = CHR 0x0A then [CHR 0x5C, CHR ''n'']
      else if c = CHR 0x0D then [CHR 0x5C, CHR ''r'']
      else if c = CHR 0x09 then [CHR 0x5C, CHR ''t'']
      else if of_char c < (32::nat) \<or> c = CHR ''<'' \<or> c = CHR ''>'' \<or> c = CHR ''&''
      then [CHR 0x5C] @ ''u00'' @ [hex_digit (of_char c div 16), hex_digit (of_char c mod 16)]
      else [c])"

definition json_string :: "string \<Rightarrow> string" where
  "json_string s = [CHR 0x22] @ concat (map json_char s) @ [CHR 0x22]"

text \<open>\<open>json.Marshal\<close>: the keys of an object are sorted.\<close>

primrec marshal :: "json \<Rightarrow> string"
  and marshals :: "json list \<Rightarrow> string list"
  and marshal_fields :: "(string \<times> json) list \<Rightarrow> (string \<times> string) list"
  and marshal_field :: "string \<times> json \<Rightarrow> string \<times> string" where
  "marshal JNull = ''null''"
| "marshal (JBool b) = (if b then ''true'' else ''false'')"
| "marshal (JNum t) = t"
| "marshal (JStr s) = json_string s"
| "marshal (JArr js) = ''['' @ join '','' (marshals js) @ '']''"
| "marshal (JObj kvs) =
     [CHR 0x7B] @ join '','' (map (\<lambda>(k, t). json_string k @ '':'' @ t) (sort_key fst (marshal_fields kvs)))
       @ [CHR 0x7D]"
| "marshals [] = []"
| "marshals (j # js) = marshal j # marshals js"
| "marshal_fields [] = []"
| "marshal_fields (kv # kvs) = marshal_field kv # marshal_fields kvs"
| "marshal_field (k, j) = (k, marshal j)"

end
