(* ===== verification/Fake.thy ===== *)
theory Fake
  imports Patch Json "HOL-Library.AList"
begin

text \<open>
  The in-memory authentik server \<open>fake.Client\<close> (\<open>internal/authentik/fake/fake.go\<close>), which
  reproduces the server behaviour the operator depends on, as an instance of \<open>Client\<close>.

  A Go map is an association list with distinct keys (\<open>wf_fake\<close>); its order is one of the
  orders Go may iterate in, and every statement holds for all of them. The mutex makes each
  method one atomic step. \<open>crypto/rand\<close> is a stream of draws.
\<close>

section \<open>State\<close>

record objectPermission =
  op_id :: int
  op_role :: string
  op_model :: string
  op_objectPK :: string
  op_permission :: string

record fake =
  fake_version :: string
  fake_sequence :: int
  fake_applications :: "(string \<times> Application) list"
  fake_proxyProviders :: "(int \<times> ProxyProvider) list"
  fake_oauth2Providers :: "(int \<times> OAuth2Provider) list"
  fake_bindings :: "(string \<times> PolicyBinding) list"
  fake_outposts :: "(string \<times> Outpost) list"
  fake_roles :: "(string \<times> Role) list"
  fake_objectPermissions :: "objectPermission list"
  fake_groups :: "(string \<times> Group) list"
  fake_users :: "(int \<times> User) list"
  fake_policies :: "(string \<times> Policy) list"
  fake_flows :: "(string \<times> Flow) list"
  fake_keyPairs :: "(string \<times> CertificateKeyPair) list"
  fake_scopeMappings :: "(string \<times> ScopeMapping) list"
  fake_random :: "nat \<Rightarrow> nat \<Rightarrow> string" \<comment> \<open>the string of a draw, by its index and its length\<close>
  fake_draws :: nat

type_synonym 'r fcall = "(fake, 'r) call"

definition fake_New :: "(nat \<Rightarrow> nat \<Rightarrow> string) \<Rightarrow> fake" where
  "fake_New rnd = \<lparr> fake_version = ''2026.8.2'', fake_sequence = 0, fake_applications = [],
     fake_proxyProviders = [], fake_oauth2Providers = [], fake_bindings = [], fake_outposts = [],
     fake_roles = [], fake_objectPermissions = [], fake_groups = [], fake_users = [],
     fake_policies = [], fake_flows = [], fake_keyPairs = [], fake_scopeMappings = [],
     fake_random = rnd, fake_draws = 0 \<rparr>"

definition nextPK :: "int fcall" where
  "nextPK = (\<lambda>c. let n = int32_of (fake_sequence c + 1) in (Inr n, c\<lparr>fake_sequence := n\<rparr>))"

text \<open>The verb \<open>%012d\<close>: zero padding to twelve characters.\<close>

definition pad12 :: "int \<Rightarrow> string" where
  "pad12 n =
     (if n < 0 then CHR ''-'' # replicate (11 - length (nat_str (nat (- n)))) (CHR ''0'') @ nat_str (nat (- n))
      else replicate (12 - length (nat_str (nat n))) (CHR ''0'') @ nat_str (nat n))"

definition uuid_of :: "int \<Rightarrow> string" where
  "uuid_of n = ''00000000-0000-4000-8000-'' @ pad12 n"

definition nextUUID :: "string fcall" where
  "nextUUID = bindE nextPK (\<lambda>n. retE (uuid_of n))"

definition notFound :: "string \<Rightarrow> string \<Rightarrow> goerror" where
  "notFound operation model =
     APIError operation 404 (''{'' @ [CHR 0x22] @ ''detail'' @ [CHR 0x22] @ '':'' @ [CHR 0x22] @ ''No '' @ model
       @ '' matches the given query.'' @ [CHR 0x22] @ ''}'')"

definition badRequest :: "string \<Rightarrow> string \<Rightarrow> string \<Rightarrow> goerror" where
  "badRequest operation field message =
     APIError operation 400 (marshal (JObj [(field, JArr [JStr message])]))"

definition lookupE :: "('k \<times> 'v) list \<Rightarrow> 'k \<Rightarrow> goerror \<Rightarrow> 'v fcall" where
  "lookupE m k e = (case map_of m k of None \<Rightarrow> throwE e | Some v \<Rightarrow> retE v)"

definition findAll :: "('k \<times> 'v) list \<Rightarrow> ('v \<Rightarrow> bool) \<Rightarrow> 'v list" where
  "findAll objects keep = filter keep (map snd objects)"

definition invalidPk :: "int \<Rightarrow> string" where
  "invalidPk pk = ''Invalid pk '' @ [CHR 0x22] @ itoa pk @ [CHR 0x22] @ '' - object does not exist.''"

section \<open>Objects that references resolve to\<close>

definition fake_AddGroup :: "string \<Rightarrow> Group fcall" where
  "fake_AddGroup name = bindE nextUUID (\<lambda>pk. let g = \<lparr>group_Pk = pk, group_Name = name\<rparr> in
     thenE (modifyE (\<lambda>c. c\<lparr>fake_groups := AList.update pk g (fake_groups c)\<rparr>)) (retE g))"

definition fake_AddUser :: "string \<Rightarrow> User fcall" where
  "fake_AddUser username = bindE nextPK (\<lambda>pk. let u = \<lparr>usr_Pk = pk, usr_Username = username\<rparr> in
     thenE (modifyE (\<lambda>c. c\<lparr>fake_users := AList.update pk u (fake_users c)\<rparr>)) (retE u))"

definition fake_AddPolicy :: "string \<Rightarrow> Policy fcall" where
  "fake_AddPolicy name = bindE nextUUID (\<lambda>pk. let p = \<lparr>policy_Pk = pk, policy_Name = name\<rparr> in
     thenE (modifyE (\<lambda>c. c\<lparr>fake_policies := AList.update pk p (fake_policies c)\<rparr>)) (retE p))"

definition fake_AddFlow :: "string \<Rightarrow> Flow fcall" where
  "fake_AddFlow slug = bindE nextUUID (\<lambda>pk. let f = \<lparr>flw_Pk = pk, flw_Slug = slug\<rparr> in
     thenE (modifyE (\<lambda>c. c\<lparr>fake_flows := AList.update pk f (fake_flows c)\<rparr>)) (retE f))"

definition fake_AddCertificateKeyPair :: "string \<Rightarrow> CertificateKeyPair fcall" where
  "fake_AddCertificateKeyPair name = bindE nextUUID (\<lambda>pk. let k = \<lparr>keypair_Pk = pk, keypair_Name = name\<rparr> in
     thenE (modifyE (\<lambda>c. c\<lparr>fake_keyPairs := AList.update pk k (fake_keyPairs c)\<rparr>)) (retE k))"

definition fake_AddScopeMapping :: "string \<Rightarrow> ScopeMapping fcall" where
  "fake_AddScopeMapping scopeName = bindE nextUUID (\<lambda>pk.
     let m = \<lparr>mapping_Pk = pk, mapping_ScopeName = scopeName, mapping_Managed = Unset\<rparr> in
     thenE (modifyE (\<lambda>c. c\<lparr>fake_scopeMappings := AList.update pk m (fake_scopeMappings c)\<rparr>)) (retE m))"

definition fake_AddManagedScopeMapping :: "string \<Rightarrow> string \<Rightarrow> ScopeMapping fcall" where
  "fake_AddManagedScopeMapping scopeName managed = bindE nextUUID (\<lambda>pk.
     let m = \<lparr>mapping_Pk = pk, mapping_ScopeName = scopeName, mapping_Managed = SetTo (Some managed)\<rparr> in
     thenE (modifyE (\<lambda>c. c\<lparr>fake_scopeMappings := AList.update pk m (fake_scopeMappings c)\<rparr>)) (retE m))"

definition fake_AddOutpost :: "string \<Rightarrow> Outpost fcall" where
  "fake_AddOutpost name = bindE nextUUID (\<lambda>pk.
     let p = \<lparr>outpost_Pk = pk, outpost_Name = name, outpost_Providers = []\<rparr> in
     thenE (modifyE (\<lambda>c. c\<lparr>fake_outposts := AList.update pk p (fake_outposts c)\<rparr>)) (retE p))"

section \<open>Applications\<close>

definition providerExists :: "fake \<Rightarrow> int \<Rightarrow> bool" where
  "providerExists c pk \<longleftrightarrow>
     map_of (fake_proxyProviders c) pk \<noteq> None \<or> map_of (fake_oauth2Providers c) pk \<noteq> None"

definition checkApplicationProvider :: "string \<Rightarrow> int option \<Rightarrow> string \<Rightarrow> unit fcall" where
  "checkApplicationProvider operation provider exceptSlug =
     (case provider of
        None \<Rightarrow> retE ()
      | Some pk \<Rightarrow> (\<lambda>c.
          if \<not> providerExists c pk then throwE (badRequest operation ''provider'' (invalidPk pk)) c
          else if list_ex (\<lambda>(slug, app). slug \<noteq> exceptSlug \<and> Get (appl_Provider app) = Some pk)
                 (fake_applications c)
          then throwE (badRequest operation ''provider'' ''application with this provider already exists.'') c
          else retE () c))"

definition fake_GetApplication :: "string \<Rightarrow> Application fcall" where
  "fake_GetApplication slug = (\<lambda>c.
     lookupE (fake_applications c) slug (notFound ''GetApplication'' ''Application'') c)"

definition fake_CreateApplication :: "ApplicationRequest \<Rightarrow> Application fcall" where
  "fake_CreateApplication request = (\<lambda>c.
     (if map_of (fake_applications c) (rapp_Slug request) \<noteq> None
      then throwE (badRequest ''CreateApplication'' ''slug'' ''application with this slug already exists.'')
      else thenE (checkApplicationProvider ''CreateApplication'' (Get (rapp_Provider request)) [])
        (bindE nextUUID (\<lambda>pk.
           let app = \<lparr> appl_Pk = pk, appl_PbmUuid = pk, appl_Name = rapp_Name request,
                 appl_Slug = rapp_Slug request, appl_Provider = rapp_Provider request,
                 appl_OpenInNewTab = rapp_OpenInNewTab request,
                 appl_MetaLaunchUrl = rapp_MetaLaunchUrl request, appl_MetaIcon = rapp_MetaIcon request,
                 appl_MetaDescription = rapp_MetaDescription request,
                 appl_MetaPublisher = rapp_MetaPublisher request,
                 appl_PolicyEngineMode = cmp_or (rapp_PolicyEngineMode request) (Some POLICYENGINEMODE_ANY),
                 appl_Group = rapp_Group request, appl_MetaHide = rapp_MetaHide request \<rparr> in
           thenE (modifyE (\<lambda>c. c\<lparr>fake_applications := AList.update (appl_Slug app) app (fake_applications c)\<rparr>))
             (retE app)))) c)"

text \<open>The assignments of a PATCH: \<open>upd\<close> for a plain field, \<open>updp\<close> for a pointer, \<open>updn\<close> for a nullable.\<close>

definition upd :: "'v option \<Rightarrow> 'v \<Rightarrow> 'v" where
  "upd new old = (case new of None \<Rightarrow> old | Some v \<Rightarrow> v)"

definition updp :: "'v option \<Rightarrow> 'v option \<Rightarrow> 'v option" where
  "updp new old = (case new of None \<Rightarrow> old | Some v \<Rightarrow> Some v)"

definition updn :: "'v Nullable \<Rightarrow> 'v Nullable \<Rightarrow> 'v Nullable" where
  "updn new old = (if IsSet new then new else old)"

definition applyApplicationPatch :: "PatchedApplicationRequest \<Rightarrow> Application \<Rightarrow> Application" where
  "applyApplicationPatch request app = app\<lparr>
     appl_Provider := updn (papp_Provider request) (appl_Provider app),
     appl_Name := upd (papp_Name request) (appl_Name app),
     appl_OpenInNewTab := updp (papp_OpenInNewTab request) (appl_OpenInNewTab app),
     appl_MetaLaunchUrl := updp (papp_MetaLaunchUrl request) (appl_MetaLaunchUrl app),
     appl_MetaIcon := updp (papp_MetaIcon request) (appl_MetaIcon app),
     appl_MetaDescription := updp (papp_MetaDescription request) (appl_MetaDescription app),
     appl_MetaPublisher := updp (papp_MetaPublisher request) (appl_MetaPublisher app),
     appl_PolicyEngineMode := updp (papp_PolicyEngineMode request) (appl_PolicyEngineMode app),
     appl_Group := updp (papp_Group request) (appl_Group app),
     appl_MetaHide := updp (papp_MetaHide request) (appl_MetaHide app),
     appl_Slug := upd (papp_Slug request) (appl_Slug app)\<rparr>"

definition fake_PatchApplication :: "string \<Rightarrow> PatchedApplicationRequest \<Rightarrow> Application fcall" where
  "fake_PatchApplication slug request = (\<lambda>c.
     (bindE (lookupE (fake_applications c) slug (notFound ''PatchApplication'' ''Application'')) (\<lambda>app.
      if (case papp_Slug request of None \<Rightarrow> False
          | Some new \<Rightarrow> new \<noteq> slug \<and> map_of (fake_applications c) new \<noteq> None)
      then throwE (badRequest ''PatchApplication'' ''slug'' ''application with this slug already exists.'')
      else thenE (if IsSet (papp_Provider request)
                  then checkApplicationProvider ''PatchApplication'' (Get (papp_Provider request)) slug
                  else retE ())
        (let app' = applyApplicationPatch request app in
         thenE (modifyE (\<lambda>c. c\<lparr>fake_applications :=
             (case papp_Slug request of
                Some new \<Rightarrow>
                  (if new \<noteq> slug then AList.update new app' (AList.delete slug (fake_applications c))
                   else AList.update slug app' (fake_applications c))
              | None \<Rightarrow> AList.update slug app' (fake_applications c))\<rparr>))
           (retE app')))) c)"

definition fake_DeleteApplication :: "string \<Rightarrow> unit fcall" where
  "fake_DeleteApplication slug = (\<lambda>c.
     (bindE (lookupE (fake_applications c) slug (notFound ''DeleteApplication'' ''Application'')) (\<lambda>app.
      modifyE (\<lambda>c. c\<lparr>fake_applications := AList.delete slug (fake_applications c),
        fake_bindings := filter (\<lambda>(uuid, b). bind_Target b \<noteq> appl_PbmUuid app) (fake_bindings c)\<rparr>))) c)"

section \<open>Providers\<close>

definition providerNameTaken :: "fake \<Rightarrow> string \<Rightarrow> int \<Rightarrow> bool" where
  "providerNameTaken c name exceptPK \<longleftrightarrow>
     list_ex (\<lambda>(pk, p). pk \<noteq> exceptPK \<and> px_Name p = name) (fake_proxyProviders c) \<or>
     list_ex (\<lambda>(pk, p). pk \<noteq> exceptPK \<and> ox_Name p = name) (fake_oauth2Providers c)"

definition assignedApplicationSlug :: "fake \<Rightarrow> int \<Rightarrow> string Nullable" where
  "assignedApplicationSlug c pk =
     SetTo (map_option fst (List.find (\<lambda>(slug, app). Get (appl_Provider app) = Some pk) (fake_applications c)))"

definition fake_deleteProvider :: "int \<Rightarrow> fake \<Rightarrow> fake" where
  "fake_deleteProvider pk c = c\<lparr>
     fake_applications := map (\<lambda>(slug, app).
       (slug, if Get (appl_Provider app) = Some pk then app\<lparr>appl_Provider := SetTo None\<rparr> else app))
       (fake_applications c),
     fake_outposts := map (\<lambda>(uuid, o').
       (uuid, o'\<lparr>outpost_Providers := filter (\<lambda>p. p \<noteq> pk) (outpost_Providers o')\<rparr>)) (fake_outposts c)\<rparr>"

definition checkProxyMode :: "string \<Rightarrow> ProxyMode option \<Rightarrow> string option \<Rightarrow> unit fcall" where
  "checkProxyMode operation mode internalHost =
     (if (mode = None \<or> mode = Some PROXYMODE_PROXY) \<and> (internalHost = None \<or> internalHost = Some [])
      then throwE (badRequest operation ''internal_host''
             ''Internal host cannot be empty when forward auth is disabled.'')
      else retE ())"

definition copyProxyProvider :: "fake \<Rightarrow> ProxyProvider \<Rightarrow> ProxyProvider" where
  "copyProxyProvider c p = p\<lparr>px_AssignedApplicationSlug := assignedApplicationSlug c (px_Pk p)\<rparr>"

definition fake_GetProxyProvider :: "int \<Rightarrow> ProxyProvider fcall" where
  "fake_GetProxyProvider pk = (\<lambda>c.
     (bindE (lookupE (fake_proxyProviders c) pk (notFound ''GetProxyProvider'' ''ProxyProvider'')) (\<lambda>p.
      retE (copyProxyProvider c p))) c)"

definition fake_FindProxyProvidersByName :: "string \<Rightarrow> ProxyProvider list fcall" where
  "fake_FindProxyProvidersByName name =
     readE (\<lambda>c. map (copyProxyProvider c) (findAll (fake_proxyProviders c) (\<lambda>p. px_Name p = name)))"

definition fake_CreateProxyProvider :: "ProxyProviderRequest \<Rightarrow> ProxyProvider fcall" where
  "fake_CreateProxyProvider request =
     thenE (checkProxyMode ''CreateProxyProvider'' (rpx_Mode request) (rpx_InternalHost request)) (\<lambda>c.
     (if providerNameTaken c (rpx_Name request) 0
      then throwE (badRequest ''CreateProxyProvider'' ''name'' ''provider with this name already exists.'')
      else bindE nextPK (\<lambda>pk.
        let provider = \<lparr> px_Pk = pk, px_Name = rpx_Name request,
              px_AuthenticationFlow = rpx_AuthenticationFlow request,
              px_AuthorizationFlow = rpx_AuthorizationFlow request,
              px_InvalidationFlow = rpx_InvalidationFlow request,
              px_PropertyMappings = [], px_InternalHost = rpx_InternalHost request,
              px_ExternalHost = rpx_ExternalHost request,
              px_InternalHostSslValidation = rpx_InternalHostSslValidation request,
              px_Certificate = rpx_Certificate request, px_SkipPathRegex = rpx_SkipPathRegex request,
              px_BasicAuthEnabled = rpx_BasicAuthEnabled request,
              px_BasicAuthPasswordAttribute = rpx_BasicAuthPasswordAttribute request,
              px_BasicAuthUserAttribute = rpx_BasicAuthUserAttribute request,
              px_Mode = cmp_or (rpx_Mode request) (Some PROXYMODE_PROXY),
              px_InterceptHeaderAuth = rpx_InterceptHeaderAuth request,
              px_CookieDomain = rpx_CookieDomain request,
              px_AccessTokenValidity = rpx_AccessTokenValidity request,
              px_RefreshTokenValidity = rpx_RefreshTokenValidity request,
              px_AssignedApplicationSlug = Unset \<rparr> in
        thenE (modifyE (\<lambda>c. c\<lparr>fake_proxyProviders := AList.update pk provider (fake_proxyProviders c)\<rparr>))
          (readE (\<lambda>c. copyProxyProvider c provider)))) c)"

definition applyProxyPatch :: "PatchedProxyProviderRequest \<Rightarrow> ProxyProvider \<Rightarrow> ProxyProvider" where
  "applyProxyPatch request p = p\<lparr>
     px_Name := upd (ppx_Name request) (px_Name p),
     px_AuthenticationFlow := updn (ppx_AuthenticationFlow request) (px_AuthenticationFlow p),
     px_AuthorizationFlow := upd (ppx_AuthorizationFlow request) (px_AuthorizationFlow p),
     px_InvalidationFlow := upd (ppx_InvalidationFlow request) (px_InvalidationFlow p),
     px_InternalHost := updp (ppx_InternalHost request) (px_InternalHost p),
     px_ExternalHost := upd (ppx_ExternalHost request) (px_ExternalHost p),
     px_InternalHostSslValidation :=
       updp (ppx_InternalHostSslValidation request) (px_InternalHostSslValidation p),
     px_Certificate := updn (ppx_Certificate request) (px_Certificate p),
     px_SkipPathRegex := updp (ppx_SkipPathRegex request) (px_SkipPathRegex p),
     px_BasicAuthEnabled := updp (ppx_BasicAuthEnabled request) (px_BasicAuthEnabled p),
     px_BasicAuthPasswordAttribute :=
       updp (ppx_BasicAuthPasswordAttribute request) (px_BasicAuthPasswordAttribute p),
     px_BasicAuthUserAttribute := updp (ppx_BasicAuthUserAttribute request) (px_BasicAuthUserAttribute p),
     px_Mode := updp (ppx_Mode request) (px_Mode p),
     px_InterceptHeaderAuth := updp (ppx_InterceptHeaderAuth request) (px_InterceptHeaderAuth p),
     px_CookieDomain := updp (ppx_CookieDomain request) (px_CookieDomain p),
     px_AccessTokenValidity := updp (ppx_AccessTokenValidity request) (px_AccessTokenValidity p),
     px_RefreshTokenValidity := updp (ppx_RefreshTokenValidity request) (px_RefreshTokenValidity p)\<rparr>"

definition fake_PatchProxyProvider :: "int \<Rightarrow> PatchedProxyProviderRequest \<Rightarrow> ProxyProvider fcall" where
  "fake_PatchProxyProvider pk request = (\<lambda>c.
     (bindE (lookupE (fake_proxyProviders c) pk (notFound ''PatchProxyProvider'' ''ProxyProvider'')) (\<lambda>p.
      thenE (checkProxyMode ''PatchProxyProvider'' (ppx_Mode request) (ppx_InternalHost request))
      (if (case ppx_Name request of None \<Rightarrow> False | Some name \<Rightarrow> providerNameTaken c name pk)
       then throwE (badRequest ''PatchProxyProvider'' ''name'' ''provider with this name already exists.'')
       else (let p' = applyProxyPatch request p in
         thenE (modifyE (\<lambda>c. c\<lparr>fake_proxyProviders := AList.update pk p' (fake_proxyProviders c)\<rparr>))
           (readE (\<lambda>c. copyProxyProvider c p')))))) c)"

definition fake_DeleteProxyProvider :: "int \<Rightarrow> unit fcall" where
  "fake_DeleteProxyProvider pk = (\<lambda>c.
     (bindE (lookupE (fake_proxyProviders c) pk (notFound ''DeleteProxyProvider'' ''ProxyProvider'')) (\<lambda>_.
      modifyE (\<lambda>c. fake_deleteProvider pk
        (c\<lparr>fake_proxyProviders := AList.delete pk (fake_proxyProviders c)\<rparr>)))) c)"

definition clientIDTaken :: "fake \<Rightarrow> string \<Rightarrow> int \<Rightarrow> bool" where
  "clientIDTaken c clientID exceptPK \<longleftrightarrow>
     list_ex (\<lambda>(pk, p). pk \<noteq> exceptPK \<and> ox_ClientId p = Some clientID) (fake_oauth2Providers c)"

definition randomString :: "nat \<Rightarrow> string fcall" where
  "randomString len = (\<lambda>c. (Inr (fake_random c (fake_draws c) len), c\<lparr>fake_draws := Suc (fake_draws c)\<rparr>))"

definition toRedirectURIs :: "RedirectURI list option \<Rightarrow> RedirectURI list" where
  "toRedirectURIs requests = (case requests of None \<Rightarrow> [] | Some us \<Rightarrow> us)"

definition copyOAuth2Provider :: "fake \<Rightarrow> OAuth2Provider \<Rightarrow> OAuth2Provider" where
  "copyOAuth2Provider c p = p\<lparr>ox_AssignedApplicationSlug := assignedApplicationSlug c (ox_Pk p)\<rparr>"

definition fake_GetOAuth2Provider :: "int \<Rightarrow> OAuth2Provider fcall" where
  "fake_GetOAuth2Provider pk = (\<lambda>c.
     (bindE (lookupE (fake_oauth2Providers c) pk (notFound ''GetOAuth2Provider'' ''OAuth2Provider'')) (\<lambda>p.
      retE (copyOAuth2Provider c p))) c)"

definition fake_FindOAuth2ProvidersByName :: "string \<Rightarrow> OAuth2Provider list fcall" where
  "fake_FindOAuth2ProvidersByName name =
     readE (\<lambda>c. map (copyOAuth2Provider c) (findAll (fake_oauth2Providers c) (\<lambda>p. ox_Name p = name)))"

definition fake_CreateOAuth2Provider :: "OAuth2ProviderRequest \<Rightarrow> OAuth2Provider fcall" where
  "fake_CreateOAuth2Provider request = (\<lambda>c.
     (if providerNameTaken c (rox_Name request) 0
      then throwE (badRequest ''CreateOAuth2Provider'' ''name'' ''provider with this name already exists.'')
      else bindE (randomString 40) (\<lambda>rid.
        let clientID = (case rox_ClientId request of None \<Rightarrow> rid | Some i \<Rightarrow> i) in
        if clientIDTaken c clientID 0
        then throwE (badRequest ''CreateOAuth2Provider'' ''client_id''
               ''o auth2 provider with this Client ID already exists.'')
        else bindE nextPK (\<lambda>pk. bindE (randomString 128) (\<lambda>rsecret.
          let provider = \<lparr> ox_Pk = pk, ox_Name = rox_Name request,
                ox_AuthenticationFlow = rox_AuthenticationFlow request,
                ox_AuthorizationFlow = rox_AuthorizationFlow request,
                ox_InvalidationFlow = rox_InvalidationFlow request,
                ox_PropertyMappings = (case rox_PropertyMappings request of None \<Rightarrow> [] | Some ms \<Rightarrow> ms),
                ox_ClientType = rox_ClientType request,
                ox_GrantTypes = (case rox_GrantTypes request of None \<Rightarrow> [] | Some gs \<Rightarrow> gs),
                ox_ClientId = Some clientID,
                ox_ClientSecret = cmp_or (rox_ClientSecret request) (Some rsecret),
                ox_AccessCodeValidity = rox_AccessCodeValidity request,
                ox_AccessTokenValidity = rox_AccessTokenValidity request,
                ox_RefreshTokenValidity = rox_RefreshTokenValidity request,
                ox_RefreshTokenThreshold = rox_RefreshTokenThreshold request,
                ox_IncludeClaimsInIdToken = rox_IncludeClaimsInIdToken request,
                ox_SigningKey = rox_SigningKey request, ox_EncryptionKey = rox_EncryptionKey request,
                ox_RedirectUris = toRedirectURIs (rox_RedirectUris request),
                ox_LogoutUri = rox_LogoutUri request, ox_LogoutMethod = rox_LogoutMethod request,
                ox_SubMode = rox_SubMode request, ox_IssuerMode = rox_IssuerMode request,
                ox_AssignedApplicationSlug = Unset \<rparr> in
          thenE (modifyE (\<lambda>c. c\<lparr>fake_oauth2Providers := AList.update pk provider (fake_oauth2Providers c)\<rparr>))
            (readE (\<lambda>c. copyOAuth2Provider c provider)))))) c)"

definition applyOAuth2Patch :: "PatchedOAuth2ProviderRequest \<Rightarrow> OAuth2Provider \<Rightarrow> OAuth2Provider" where
  "applyOAuth2Patch request p = p\<lparr>
     ox_Name := upd (pox_Name request) (ox_Name p),
     ox_AuthenticationFlow := updn (pox_AuthenticationFlow request) (ox_AuthenticationFlow p),
     ox_AuthorizationFlow := upd (pox_AuthorizationFlow request) (ox_AuthorizationFlow p),
     ox_InvalidationFlow := upd (pox_InvalidationFlow request) (ox_InvalidationFlow p),
     ox_PropertyMappings := upd (pox_PropertyMappings request) (ox_PropertyMappings p),
     ox_ClientType := updp (pox_ClientType request) (ox_ClientType p),
     ox_GrantTypes := upd (pox_GrantTypes request) (ox_GrantTypes p),
     ox_ClientId := updp (pox_ClientId request) (ox_ClientId p),
     ox_ClientSecret := updp (pox_ClientSecret request) (ox_ClientSecret p),
     ox_AccessCodeValidity := updp (pox_AccessCodeValidity request) (ox_AccessCodeValidity p),
     ox_AccessTokenValidity := updp (pox_AccessTokenValidity request) (ox_AccessTokenValidity p),
     ox_RefreshTokenValidity := updp (pox_RefreshTokenValidity request) (ox_RefreshTokenValidity p),
     ox_RefreshTokenThreshold := updp (pox_RefreshTokenThreshold request) (ox_RefreshTokenThreshold p),
     ox_IncludeClaimsInIdToken := updp (pox_IncludeClaimsInIdToken request) (ox_IncludeClaimsInIdToken p),
     ox_SigningKey := updn (pox_SigningKey request) (ox_SigningKey p),
     ox_EncryptionKey := updn (pox_EncryptionKey request) (ox_EncryptionKey p),
     ox_RedirectUris := upd (pox_RedirectUris request) (ox_RedirectUris p),
     ox_LogoutUri := updp (pox_LogoutUri request) (ox_LogoutUri p),
     ox_LogoutMethod := updp (pox_LogoutMethod request) (ox_LogoutMethod p),
     ox_SubMode := updp (pox_SubMode request) (ox_SubMode p),
     ox_IssuerMode := updp (pox_IssuerMode request) (ox_IssuerMode p)\<rparr>"

definition fake_PatchOAuth2Provider :: "int \<Rightarrow> PatchedOAuth2ProviderRequest \<Rightarrow> OAuth2Provider fcall" where
  "fake_PatchOAuth2Provider pk request = (\<lambda>c.
     (bindE (lookupE (fake_oauth2Providers c) pk (notFound ''PatchOAuth2Provider'' ''OAuth2Provider'')) (\<lambda>p.
      if (case pox_Name request of None \<Rightarrow> False | Some name \<Rightarrow> providerNameTaken c name pk)
      then throwE (badRequest ''PatchOAuth2Provider'' ''name'' ''provider with this name already exists.'')
      else if (case pox_ClientId request of None \<Rightarrow> False | Some i \<Rightarrow> clientIDTaken c i pk)
      then throwE (badRequest ''PatchOAuth2Provider'' ''client_id''
             ''o auth2 provider with this Client ID already exists.'')
      else (let p' = applyOAuth2Patch request p in
         thenE (modifyE (\<lambda>c. c\<lparr>fake_oauth2Providers := AList.update pk p' (fake_oauth2Providers c)\<rparr>))
           (readE (\<lambda>c. copyOAuth2Provider c p'))))) c)"

definition fake_DeleteOAuth2Provider :: "int \<Rightarrow> unit fcall" where
  "fake_DeleteOAuth2Provider pk = (\<lambda>c.
     (bindE (lookupE (fake_oauth2Providers c) pk (notFound ''DeleteOAuth2Provider'' ''OAuth2Provider'')) (\<lambda>_.
      modifyE (\<lambda>c. fake_deleteProvider pk
        (c\<lparr>fake_oauth2Providers := AList.delete pk (fake_oauth2Providers c)\<rparr>)))) c)"

section \<open>PolicyBindings\<close>

definition nullableStringSet :: "string Nullable \<Rightarrow> bool" where
  "nullableStringSet v \<longleftrightarrow> IsSet v \<and> Get v \<noteq> None \<and> Get v \<noteq> Some []"

definition nullableInt32Set :: "int Nullable \<Rightarrow> bool" where
  "nullableInt32Set v \<longleftrightarrow> IsSet v \<and> Get v \<noteq> None"

definition checkBindingSubject ::
  "string \<Rightarrow> string Nullable \<Rightarrow> string Nullable \<Rightarrow> int Nullable \<Rightarrow> unit fcall" where
  "checkBindingSubject operation policy grp user =
     (let count = length (filter id [nullableStringSet policy, nullableStringSet grp, nullableInt32Set user]) in
      if count > 1 then throwE (badRequest operation ''non_field_errors''
        (''Only one of '' @ [CHR 0x27] @ ''group'' @ [CHR 0x27] @ '', '' @ [CHR 0x27] @ ''policy'' @ [CHR 0x27]
          @ '', '' @ [CHR 0x27] @ ''user'' @ [CHR 0x27] @ '' can be set.''))
      else if count < 1 then throwE (badRequest operation ''non_field_errors''
        (''One of '' @ [CHR 0x27] @ ''group'' @ [CHR 0x27] @ '', '' @ [CHR 0x27] @ ''policy'' @ [CHR 0x27]
          @ '', '' @ [CHR 0x27] @ ''user'' @ [CHR 0x27] @ '' must be set.''))
      else retE ())"

definition bindingOrderTaken :: "fake \<Rightarrow> string Nullable \<Rightarrow> string \<Rightarrow> int \<Rightarrow> string \<Rightarrow> bool" where
  "bindingOrderTaken c policy target order exceptUUID \<longleftrightarrow>
     nullableStringSet policy \<and>
     list_ex (\<lambda>(uuid, b). uuid \<noteq> exceptUUID \<and> nullableStringSet (bind_Policy b) \<and>
       Get (bind_Policy b) = Get policy \<and> bind_Target b = target \<and> bind_Order b = order) (fake_bindings c)"

definition fake_GetPolicyBinding :: "string \<Rightarrow> PolicyBinding fcall" where
  "fake_GetPolicyBinding uuid = (\<lambda>c.
     lookupE (fake_bindings c) uuid (notFound ''GetPolicyBinding'' ''PolicyBinding'') c)"

definition fake_ListPolicyBindings :: "string \<Rightarrow> PolicyBinding list fcall" where
  "fake_ListPolicyBindings target =
     readE (\<lambda>c. sort_key bind_Order (findAll (fake_bindings c) (\<lambda>b. bind_Target b = target)))"

definition fake_CreatePolicyBinding :: "PolicyBindingRequest \<Rightarrow> PolicyBinding fcall" where
  "fake_CreatePolicyBinding request =
     thenE (checkBindingSubject ''CreatePolicyBinding'' (rbind_Policy request) (rbind_Group request)
              (rbind_User request)) (\<lambda>c.
     (if bindingOrderTaken c (rbind_Policy request) (rbind_Target request) (rbind_Order request) []
      then throwE (badRequest ''CreatePolicyBinding'' ''non_field_errors''
             ''The fields policy, target, order must make a unique set.'')
      else bindE nextUUID (\<lambda>pk.
        let b = \<lparr> bind_Pk = pk, bind_Policy = rbind_Policy request, bind_Group = rbind_Group request,
              bind_User = rbind_User request, bind_Target = rbind_Target request,
              bind_Negate = cmp_or (rbind_Negate request) (Some False),
              bind_Enabled = cmp_or (rbind_Enabled request) (Some True),
              bind_Order = rbind_Order request,
              bind_Timeout = cmp_or (rbind_Timeout request) (Some 30),
              bind_FailureResult = cmp_or (rbind_FailureResult request) (Some False) \<rparr> in
        thenE (modifyE (\<lambda>c. c\<lparr>fake_bindings := AList.update pk b (fake_bindings c)\<rparr>)) (retE b))) c)"

definition applyBindingPatch :: "PatchedPolicyBindingRequest \<Rightarrow> PolicyBinding \<Rightarrow> PolicyBinding" where
  "applyBindingPatch request b = b\<lparr>
     bind_Target := upd (pbind_Target request) (bind_Target b),
     bind_Policy := updn (pbind_Policy request) (bind_Policy b),
     bind_Group := updn (pbind_Group request) (bind_Group b),
     bind_User := updn (pbind_User request) (bind_User b),
     bind_Order := upd (pbind_Order request) (bind_Order b),
     bind_Negate := updp (pbind_Negate request) (bind_Negate b),
     bind_Enabled := updp (pbind_Enabled request) (bind_Enabled b),
     bind_Timeout := updp (pbind_Timeout request) (bind_Timeout b),
     bind_FailureResult := updp (pbind_FailureResult request) (bind_FailureResult b)\<rparr>"

definition fake_PatchPolicyBinding :: "string \<Rightarrow> PatchedPolicyBindingRequest \<Rightarrow> PolicyBinding fcall" where
  "fake_PatchPolicyBinding uuid request = (\<lambda>c.
     (bindE (lookupE (fake_bindings c) uuid (notFound ''PatchPolicyBinding'' ''PolicyBinding'')) (\<lambda>b.
      case pbind_Target request of
        None \<Rightarrow> throwE (APIError ''PatchPolicyBinding'' 500 ''Internal Server Error'')
      | Some target \<Rightarrow>
          thenE (checkBindingSubject ''PatchPolicyBinding'' (pbind_Policy request) (pbind_Group request)
                   (pbind_User request))
          (let b' = applyBindingPatch request b in
           if bindingOrderTaken c (bind_Policy b') target (bind_Order b') uuid
           then throwE (badRequest ''PatchPolicyBinding'' ''non_field_errors''
                  ''The fields policy, target, order must make a unique set.'')
           else thenE (modifyE (\<lambda>c. c\<lparr>fake_bindings := AList.update uuid b' (fake_bindings c)\<rparr>)) (retE b')))) c)"

definition fake_DeletePolicyBinding :: "string \<Rightarrow> unit fcall" where
  "fake_DeletePolicyBinding uuid = (\<lambda>c.
     (bindE (lookupE (fake_bindings c) uuid (notFound ''DeletePolicyBinding'' ''PolicyBinding'')) (\<lambda>_.
      modifyE (\<lambda>c. c\<lparr>fake_bindings := AList.delete uuid (fake_bindings c)\<rparr>))) c)"

section \<open>Outposts\<close>

definition fake_GetOutpost :: "string \<Rightarrow> Outpost fcall" where
  "fake_GetOutpost uuid = (\<lambda>c. lookupE (fake_outposts c) uuid (notFound ''GetOutpost'' ''Outpost'') c)"

definition fake_FindOutpostsByName :: "string \<Rightarrow> Outpost list fcall" where
  "fake_FindOutpostsByName name = readE (\<lambda>c. findAll (fake_outposts c) (\<lambda>o'. outpost_Name o' = name))"

definition fake_SetOutpostProviders :: "string \<Rightarrow> int list \<Rightarrow> Outpost fcall" where
  "fake_SetOutpostProviders uuid providers = (\<lambda>c.
     (bindE (lookupE (fake_outposts c) uuid (notFound ''SetOutpostProviders'' ''Outpost'')) (\<lambda>o'.
      case List.find (\<lambda>pk. \<not> providerExists c pk) providers of
        Some pk \<Rightarrow> throwE (badRequest ''SetOutpostProviders'' ''providers'' (invalidPk pk))
      | None \<Rightarrow> (let o'' = o'\<lparr>outpost_Providers := providers\<rparr> in
          thenE (modifyE (\<lambda>c. c\<lparr>fake_outposts := AList.update uuid o'' (fake_outposts c)\<rparr>)) (retE o'')))) c)"

section \<open>RBAC\<close>

definition fake_GetRole :: "string \<Rightarrow> Role fcall" where
  "fake_GetRole uuid = (\<lambda>c. lookupE (fake_roles c) uuid (notFound ''GetRole'' ''Role'') c)"

definition fake_FindRolesByName :: "string \<Rightarrow> Role list fcall" where
  "fake_FindRolesByName name = readE (\<lambda>c. findAll (fake_roles c) (\<lambda>r. role_Name r = name))"

definition fake_CreateRole :: "string \<Rightarrow> Role fcall" where
  "fake_CreateRole name = (\<lambda>c.
     (if list_ex (\<lambda>(uuid, r). role_Name r = name) (fake_roles c)
      then throwE (badRequest ''CreateRole'' ''name'' ''role with this name already exists.'')
      else bindE nextUUID (\<lambda>pk. let r = \<lparr>role_Pk = pk, role_Name = name\<rparr> in
        thenE (modifyE (\<lambda>c. c\<lparr>fake_roles := AList.update pk r (fake_roles c)\<rparr>)) (retE r))) c)"

text \<open>\<open>DeleteRole\<close> is not a method of the interface: the role is deleted in the UI.\<close>

definition fake_DeleteRole :: "string \<Rightarrow> fake \<Rightarrow> fake" where
  "fake_DeleteRole uuid c = c\<lparr>fake_roles := AList.delete uuid (fake_roles c),
     fake_objectPermissions := filter (\<lambda>p. op_role p \<noteq> uuid) (fake_objectPermissions c)\<rparr>"

definition ModelApplication :: string where "ModelApplication = ''authentik_core.application''"
definition ModelProxyProvider :: string where
  "ModelProxyProvider = ''authentik_providers_proxy.proxyprovider''"
definition ModelOAuth2Provider :: string where
  "ModelOAuth2Provider = ''authentik_providers_oauth2.oauth2provider''"
definition ModelPolicyBinding :: string where "ModelPolicyBinding = ''authentik_policies.policybinding''"

lemmas model_defs = ModelApplication_def ModelProxyProvider_def ModelOAuth2Provider_def
  ModelPolicyBinding_def

definition objectExists :: "fake \<Rightarrow> string \<Rightarrow> string \<Rightarrow> bool" where
  "objectExists c model objectPK \<longleftrightarrow>
     (if model = ModelApplication then list_ex (\<lambda>(slug, app). appl_Pk app = objectPK) (fake_applications c)
      else if model = ModelProxyProvider \<or> model = ModelOAuth2Provider
      then list_ex (\<lambda>(pk, p). itoa pk = objectPK \<and> model = ModelProxyProvider) (fake_proxyProviders c) \<or>
           list_ex (\<lambda>(pk, p). itoa pk = objectPK \<and> model = ModelOAuth2Provider) (fake_oauth2Providers c)
      else if model = ModelPolicyBinding then map_of (fake_bindings c) objectPK \<noteq> None
      else False)"

definition samePermission :: "string \<Rightarrow> string \<Rightarrow> string \<Rightarrow> string \<Rightarrow> objectPermission \<Rightarrow> bool" where
  "samePermission role model objectPK permission p \<longleftrightarrow>
     op_role p = role \<and> op_model p = model \<and> op_objectPK p = objectPK \<and> op_permission p = permission"

definition fake_AssignObjectPermission :: "string \<Rightarrow> string \<Rightarrow> string \<Rightarrow> string \<Rightarrow> unit fcall" where
  "fake_AssignObjectPermission roleUUID model objectPK permission = (\<lambda>c.
     (if map_of (fake_roles c) roleUUID = None then throwE (notFound ''AssignObjectPermission'' ''Role'')
      else if \<not> objectExists c model objectPK
      then throwE (badRequest ''AssignObjectPermission'' ''object_pk'' ''Object does not exist.'')
      else if list_ex (samePermission roleUUID model objectPK permission) (fake_objectPermissions c)
      then retE ()
      else bindE nextPK (\<lambda>n. modifyE (\<lambda>c. c\<lparr>fake_objectPermissions := fake_objectPermissions c @
        [\<lparr>op_id = n, op_role = roleUUID, op_model = model, op_objectPK = objectPK,
          op_permission = permission\<rparr>]\<rparr>))) c)"

definition fake_UnassignObjectPermission :: "string \<Rightarrow> string \<Rightarrow> string \<Rightarrow> string \<Rightarrow> unit fcall" where
  "fake_UnassignObjectPermission roleUUID model objectPK permission = (\<lambda>c.
     (if map_of (fake_roles c) roleUUID = None then throwE (notFound ''UnassignObjectPermission'' ''Role'')
      else modifyE (\<lambda>c. c\<lparr>fake_objectPermissions :=
        filter (\<lambda>p. \<not> samePermission roleUUID model objectPK permission p) (fake_objectPermissions c)\<rparr>)) c)"

definition toRoleObjectPermission :: "objectPermission \<Rightarrow> RoleObjectPermission" where
  "toRoleObjectPermission p =
     \<lparr> perm_AppLabel = fst (cut (CHR ''.'') (op_permission p)),
       perm_Model = snd (cut (CHR ''.'') (op_model p)),
       perm_ObjectPk = op_objectPK p,
       perm_Codename = snd (cut (CHR ''.'') (op_permission p)) \<rparr>"

definition fake_ListRoleObjectPermissions :: "string \<Rightarrow> RoleObjectPermission list fcall" where
  "fake_ListRoleObjectPermissions roleUUID =
     readE (\<lambda>c. map toRoleObjectPermission (filter (\<lambda>p. op_role p = roleUUID) (fake_objectPermissions c)))"

definition fake_ListObjectPermissionRoles ::
  "string \<Rightarrow> string \<Rightarrow> RoleAssignedObjectPermission list fcall" where
  "fake_ListObjectPermissionRoles model objectPK =
     readE (\<lambda>c. map (\<lambda>(uuid, role).
         \<lparr> assigned_RolePk = uuid,
           assigned_ObjectPermissions =
             map toRoleObjectPermission (filter (\<lambda>p. op_role p = uuid) (fake_objectPermissions c)) \<rparr>)
       (filter (\<lambda>(uuid, role).
          list_ex (\<lambda>p. op_role p = uuid \<and> op_model p = model \<and> op_objectPK p = objectPK)
            (fake_objectPermissions c)) (fake_roles c)))"

section \<open>The client\<close>

definition fake_client :: "fake Client" where
  "fake_client = \<lparr>
     GetVersion = readE fake_version,
     GetApplication = fake_GetApplication,
     CreateApplication = fake_CreateApplication,
     PatchApplication = fake_PatchApplication,
     DeleteApplication = fake_DeleteApplication,
     GetProxyProvider = fake_GetProxyProvider,
     FindProxyProvidersByName = fake_FindProxyProvidersByName,
     CreateProxyProvider = fake_CreateProxyProvider,
     PatchProxyProvider = fake_PatchProxyProvider,
     DeleteProxyProvider = fake_DeleteProxyProvider,
     GetOAuth2Provider = fake_GetOAuth2Provider,
     FindOAuth2ProvidersByName = fake_FindOAuth2ProvidersByName,
     CreateOAuth2Provider = fake_CreateOAuth2Provider,
     PatchOAuth2Provider = fake_PatchOAuth2Provider,
     DeleteOAuth2Provider = fake_DeleteOAuth2Provider,
     GetPolicyBinding = fake_GetPolicyBinding,
     ListPolicyBindings = fake_ListPolicyBindings,
     CreatePolicyBinding = fake_CreatePolicyBinding,
     PatchPolicyBinding = fake_PatchPolicyBinding,
     DeletePolicyBinding = fake_DeletePolicyBinding,
     GetOutpost = fake_GetOutpost,
     FindOutpostsByName = fake_FindOutpostsByName,
     SetOutpostProviders = fake_SetOutpostProviders,
     GetRole = fake_GetRole,
     FindRolesByName = fake_FindRolesByName,
     CreateRole = fake_CreateRole,
     AssignObjectPermission = fake_AssignObjectPermission,
     UnassignObjectPermission = fake_UnassignObjectPermission,
     ListRoleObjectPermissions = fake_ListRoleObjectPermissions,
     ListObjectPermissionRoles = fake_ListObjectPermissionRoles,
     GetGroup = (\<lambda>uuid c. lookupE (fake_groups c) uuid (notFound ''GetGroup'' ''Group'') c),
     FindGroupsByName = (\<lambda>name. readE (\<lambda>c. findAll (fake_groups c) (\<lambda>x. group_Name x = name))),
     GetUser = (\<lambda>pk c. lookupE (fake_users c) pk (notFound ''GetUser'' ''User'') c),
     FindUsersByUsername = (\<lambda>name. readE (\<lambda>c. findAll (fake_users c) (\<lambda>x. usr_Username x = name))),
     GetPolicy = (\<lambda>uuid c. lookupE (fake_policies c) uuid (notFound ''GetPolicy'' ''Policy'') c),
     FindPoliciesByName = (\<lambda>name. readE (\<lambda>c. findAll (fake_policies c) (\<lambda>x. policy_Name x = name))),
     GetFlow = (\<lambda>uuid c. lookupE (fake_flows c) uuid (notFound ''GetFlow'' ''Flow'') c),
     FindFlowsBySlug = (\<lambda>slug. readE (\<lambda>c. findAll (fake_flows c) (\<lambda>x. flw_Slug x = slug))),
     GetCertificateKeyPair = (\<lambda>uuid c.
       lookupE (fake_keyPairs c) uuid (notFound ''GetCertificateKeyPair'' ''CertificateKeyPair'') c),
     FindCertificateKeyPairsByName = (\<lambda>name.
       readE (\<lambda>c. findAll (fake_keyPairs c) (\<lambda>x. keypair_Name x = name))),
     GetScopeMapping = (\<lambda>uuid c.
       lookupE (fake_scopeMappings c) uuid (notFound ''GetScopeMapping'' ''ScopeMapping'') c),
     FindScopeMappingsByScopeName = (\<lambda>scopeName.
       readE (\<lambda>c. findAll (fake_scopeMappings c) (\<lambda>x. mapping_ScopeName x = scopeName))) \<rparr>"

end
