(* ===== verification/Drift.thy ===== *)
theory Drift
  imports Fake
begin

text \<open>
  Drift repair: what the diffs of \<open>Patch\<close> decide, and what applying them to an object of the
  server achieves. \<open>app_match\<close>, \<open>proxy_match\<close>, \<open>oauth2_match\<close> and \<open>binding_match\<close> are the
  specification: every managed field of the desired state has its value in the object, where a
  field that is unset in the desired state is not managed, and lists are compared as sets.
\<close>

section \<open>Specification\<close>

definition want_value :: "'v option \<Rightarrow> 'v \<Rightarrow> bool" where
  "want_value d x \<longleftrightarrow> d = None \<or> d = Some x"

definition want_pointer :: "'v option \<Rightarrow> 'v option \<Rightarrow> bool" where
  "want_pointer d x \<longleftrightarrow> d = None \<or> d = x"

definition want_nullable :: "'v Nullable \<Rightarrow> 'v Nullable \<Rightarrow> bool" where
  "want_nullable d x \<longleftrightarrow> \<not> IsSet d \<or> Get d = Get x"

definition want_set :: "'v list option \<Rightarrow> 'v list \<Rightarrow> bool" where
  "want_set d x \<longleftrightarrow> d = None \<or> set (the d) = set x"

definition want_uris :: "RedirectURI list option \<Rightarrow> RedirectURI list \<Rightarrow> bool" where
  "want_uris d x \<longleftrightarrow> d = None \<or> redirectURIKey ` set (the d) = redirectURIKey ` set x"

definition app_match :: "PatchedApplicationRequest \<Rightarrow> Application \<Rightarrow> bool" where
  "app_match d x \<longleftrightarrow>
     want_value (papp_Name d) (appl_Name x) \<and> want_value (papp_Slug d) (appl_Slug x) \<and>
     want_nullable (papp_Provider d) (appl_Provider x) \<and>
     want_pointer (papp_OpenInNewTab d) (appl_OpenInNewTab x) \<and>
     want_pointer (papp_MetaLaunchUrl d) (appl_MetaLaunchUrl x) \<and>
     want_pointer (papp_MetaIcon d) (appl_MetaIcon x) \<and>
     want_pointer (papp_MetaDescription d) (appl_MetaDescription x) \<and>
     want_pointer (papp_MetaPublisher d) (appl_MetaPublisher x) \<and>
     want_pointer (papp_PolicyEngineMode d) (appl_PolicyEngineMode x) \<and>
     want_pointer (papp_Group d) (appl_Group x) \<and> want_pointer (papp_MetaHide d) (appl_MetaHide x)"

definition proxy_match :: "PatchedProxyProviderRequest \<Rightarrow> ProxyProvider \<Rightarrow> bool" where
  "proxy_match d x \<longleftrightarrow>
     want_value (ppx_Name d) (px_Name x) \<and>
     want_nullable (ppx_AuthenticationFlow d) (px_AuthenticationFlow x) \<and>
     want_value (ppx_AuthorizationFlow d) (px_AuthorizationFlow x) \<and>
     want_value (ppx_InvalidationFlow d) (px_InvalidationFlow x) \<and>
     want_set (ppx_PropertyMappings d) (px_PropertyMappings x) \<and>
     want_pointer (ppx_InternalHost d) (px_InternalHost x) \<and>
     want_value (ppx_ExternalHost d) (px_ExternalHost x) \<and>
     want_pointer (ppx_InternalHostSslValidation d) (px_InternalHostSslValidation x) \<and>
     want_nullable (ppx_Certificate d) (px_Certificate x) \<and>
     want_pointer (ppx_SkipPathRegex d) (px_SkipPathRegex x) \<and>
     want_pointer (ppx_BasicAuthEnabled d) (px_BasicAuthEnabled x) \<and>
     want_pointer (ppx_BasicAuthPasswordAttribute d) (px_BasicAuthPasswordAttribute x) \<and>
     want_pointer (ppx_BasicAuthUserAttribute d) (px_BasicAuthUserAttribute x) \<and>
     want_pointer (ppx_Mode d) (px_Mode x) \<and>
     want_pointer (ppx_InterceptHeaderAuth d) (px_InterceptHeaderAuth x) \<and>
     want_pointer (ppx_CookieDomain d) (px_CookieDomain x) \<and>
     want_pointer (ppx_AccessTokenValidity d) (px_AccessTokenValidity x) \<and>
     want_pointer (ppx_RefreshTokenValidity d) (px_RefreshTokenValidity x)"

definition oauth2_match :: "PatchedOAuth2ProviderRequest \<Rightarrow> OAuth2Provider \<Rightarrow> bool" where
  "oauth2_match d x \<longleftrightarrow>
     want_value (pox_Name d) (ox_Name x) \<and>
     want_nullable (pox_AuthenticationFlow d) (ox_AuthenticationFlow x) \<and>
     want_value (pox_AuthorizationFlow d) (ox_AuthorizationFlow x) \<and>
     want_value (pox_InvalidationFlow d) (ox_InvalidationFlow x) \<and>
     want_set (pox_PropertyMappings d) (ox_PropertyMappings x) \<and>
     want_pointer (pox_ClientType d) (ox_ClientType x) \<and>
     want_set (pox_GrantTypes d) (ox_GrantTypes x) \<and>
     want_pointer (pox_ClientId d) (ox_ClientId x) \<and>
     want_pointer (pox_ClientSecret d) (ox_ClientSecret x) \<and>
     want_pointer (pox_AccessCodeValidity d) (ox_AccessCodeValidity x) \<and>
     want_pointer (pox_AccessTokenValidity d) (ox_AccessTokenValidity x) \<and>
     want_pointer (pox_RefreshTokenValidity d) (ox_RefreshTokenValidity x) \<and>
     want_pointer (pox_RefreshTokenThreshold d) (ox_RefreshTokenThreshold x) \<and>
     want_pointer (pox_IncludeClaimsInIdToken d) (ox_IncludeClaimsInIdToken x) \<and>
     want_nullable (pox_SigningKey d) (ox_SigningKey x) \<and>
     want_nullable (pox_EncryptionKey d) (ox_EncryptionKey x) \<and>
     want_uris (pox_RedirectUris d) (ox_RedirectUris x) \<and>
     want_pointer (pox_LogoutUri d) (ox_LogoutUri x) \<and>
     want_pointer (pox_LogoutMethod d) (ox_LogoutMethod x) \<and>
     want_pointer (pox_SubMode d) (ox_SubMode x) \<and> want_pointer (pox_IssuerMode d) (ox_IssuerMode x)"

definition binding_match :: "PatchedPolicyBindingRequest \<Rightarrow> PolicyBinding \<Rightarrow> bool" where
  "binding_match d x \<longleftrightarrow>
     want_nullable (pbind_Policy d) (bind_Policy x) \<and> want_nullable (pbind_Group d) (bind_Group x) \<and>
     want_nullable (pbind_User d) (bind_User x) \<and> want_value (pbind_Target d) (bind_Target x) \<and>
     want_pointer (pbind_Negate d) (bind_Negate x) \<and> want_pointer (pbind_Enabled d) (bind_Enabled x) \<and>
     want_value (pbind_Order d) (bind_Order x) \<and> want_pointer (pbind_Timeout d) (bind_Timeout x) \<and>
     want_pointer (pbind_FailureResult d) (bind_FailureResult x)"

section \<open>One field\<close>

text \<open>A comparison is empty exactly when the field has its desired value.\<close>

lemma diffValue_want: "(diffValue d x = None) = want_value d x"
  by (simp add: diffValue_None want_value_def)

lemma diffPointer_want: "(diffPointer d x = None) = want_pointer d x"
  by (simp add: diffPointer_None want_pointer_def)

lemma diffNullable_want: "IsSet (diffNullable d x) = (\<not> want_nullable d x)"
  by (simp add: diffNullable_IsSet want_nullable_def)

lemma diffSet_want: "(diffSet d x = None) = want_set d x"
  by (cases d) (simp_all add: diffSet_None want_set_def)

lemma diffRedirectURIs_want: "(diffRedirectURIs d x = None) = want_uris d x"
  by (cases d) (simp_all add: diffRedirectURIs_None want_uris_def)

lemmas want_simps = diffValue_want diffPointer_want diffNullable_want diffSet_want diffRedirectURIs_want

named_theorems repair "sending the difference of a field gives it its desired value"

lemma repair_value [repair]: "want_value d (upd (diffValue d x) x)"
  by (auto simp: want_value_def diffValue_def upd_def split: option.splits)

lemma repair_pointer [repair]: "want_pointer d (updp (diffPointer d x) x)"
  by (cases d; cases x) (auto simp: want_pointer_def diffPointer_def updp_def)

lemma repair_nullable [repair]: "want_nullable d (updn (diffNullable d x) x)"
  by (auto simp: want_nullable_def diffNullable_def updn_def)

lemma repair_set [repair]: "want_set d (upd (diffSet d x) x)"
  by (auto simp: want_set_def diffSet_def upd_def sameSet_iff split: option.splits)

lemma repair_uris [repair]: "want_uris d (upd (diffRedirectURIs d x) x)"
  by (auto simp: want_uris_def diffRedirectURIs_def upd_def sameSet_iff split: option.splits)

named_theorems unmanaged_field "a field that is not managed is not sent"

lemma unmanaged_value [unmanaged_field]: "upd (diffValue None x) x = x"
  by (simp add: diffValue_def upd_def)

lemma unmanaged_pointer [unmanaged_field]: "updp (diffPointer None x) x = x"
  by (simp add: diffPointer_def updp_def)

lemma unmanaged_nullable [unmanaged_field]: "\<not> IsSet d \<Longrightarrow> updn (diffNullable d x) x = x"
  by (simp add: diffNullable_def updn_def)

lemma unmanaged_set [unmanaged_field]: "upd (diffSet None x) x = x"
  by (simp add: diffSet_def upd_def)

lemma unmanaged_uris [unmanaged_field]: "upd (diffRedirectURIs None x) x = x"
  by (simp add: diffRedirectURIs_def upd_def)

section \<open>Whole objects\<close>

lemma DiffApplication_None: "DiffApplication d x = None \<longleftrightarrow> app_match d x"
  by (simp add: DiffApplication_def Let_def want_simps app_match_def del: not_None_eq)

lemma DiffProxyProvider_None: "DiffProxyProvider d x = None \<longleftrightarrow> proxy_match d x"
  by (simp add: DiffProxyProvider_def Let_def want_simps proxy_match_def del: not_None_eq)

lemma DiffOAuth2Provider_None: "DiffOAuth2Provider d x = None \<longleftrightarrow> oauth2_match d x"
  by (simp add: DiffOAuth2Provider_def Let_def want_simps oauth2_match_def del: not_None_eq)

lemma DiffPolicyBinding_None: "DiffPolicyBinding d x = None \<longleftrightarrow> binding_match d x"
  by (simp add: DiffPolicyBinding_def Let_def want_simps binding_match_def del: not_None_eq)

text \<open>
  Applying a diff: every managed field has its desired value afterwards.
\<close>

lemma diff_SomeD: "(if \<not> c then None else Some q) = Some p \<Longrightarrow> p = q"
  by (simp split: if_splits)

lemma applyApplicationPatch_match:
  assumes "DiffApplication d x = Some p"
  shows "app_match d (applyApplicationPatch p x)"
  using diff_SomeD [OF assms [unfolded DiffApplication_def Let_def]]
  by (simp add: app_match_def applyApplicationPatch_def repair)

lemma firstNonNil_pair: "firstNonNil [a, b] = cmp_or a b"
  by (cases a; cases b) auto

lemma repair_mode: "want_pointer d (updp (cmp_or d x) x)"
  by (cases d; cases x) (auto simp: want_pointer_def updp_def)

lemma applyProxyPatch_match:
  assumes "DiffProxyProvider d x = Some p" and "ppx_PropertyMappings d = None"
  shows "proxy_match d (applyProxyPatch p x)"
  using diff_SomeD [OF assms(1) [unfolded DiffProxyProvider_def Let_def]] assms(2)
  by (simp add: proxy_match_def applyProxyPatch_def repair firstNonNil_pair repair_mode want_set_def)

lemma applyOAuth2Patch_match:
  assumes "DiffOAuth2Provider d x = Some p"
  shows "oauth2_match d (applyOAuth2Patch p x)"
  using diff_SomeD [OF assms [unfolded DiffOAuth2Provider_def Let_def]]
  by (simp add: oauth2_match_def applyOAuth2Patch_def repair)

lemma upd_Some: "upd (Some v) x = v"
  by (simp add: upd_def)

lemma repair_target: "want_value d (upd d x)"
  by (cases d) (auto simp: want_value_def upd_def)

text \<open>The two shapes of a binding patch.\<close>

lemma DiffPolicyBinding_SomeE:
  assumes "DiffPolicyBinding d x = Some p"
  obtains "p = \<lparr>
      pbind_Policy = (if IsSet (pbind_Policy d) \<or> IsSet (pbind_Group d) \<or> IsSet (pbind_User d)
        then (if IsSet (pbind_Policy d) then pbind_Policy d else SetTo None) else bind_Policy x),
      pbind_Group = (if IsSet (pbind_Policy d) \<or> IsSet (pbind_Group d) \<or> IsSet (pbind_User d)
        then (if IsSet (pbind_Group d) then pbind_Group d else SetTo None) else bind_Group x),
      pbind_User = (if IsSet (pbind_Policy d) \<or> IsSet (pbind_Group d) \<or> IsSet (pbind_User d)
        then (if IsSet (pbind_User d) then pbind_User d else SetTo None) else bind_User x),
      pbind_Target = Some (upd (pbind_Target d) (bind_Target x)),
      pbind_Negate = diffPointer (pbind_Negate d) (bind_Negate x),
      pbind_Enabled = diffPointer (pbind_Enabled d) (bind_Enabled x),
      pbind_Order = diffValue (pbind_Order d) (bind_Order x),
      pbind_Timeout = diffPointer (pbind_Timeout d) (bind_Timeout x),
      pbind_FailureResult = diffPointer (pbind_FailureResult d) (bind_FailureResult x) \<rparr>"
proof -
  have target: "firstNonNil [t, Some y] = Some (upd t y)" for t :: "string option" and y
    by (cases t) (auto simp: upd_def)
  have "(if \<not> c then None else if b then Some q else Some r) = Some p \<Longrightarrow> p = (if b then q else r)"
    for c b and q r :: PatchedPolicyBindingRequest
    by (simp split: if_splits)
  from this [OF assms [unfolded DiffPolicyBinding_def Let_def]] show ?thesis
    by (intro that) (simp add: target)
qed

lemma applyBindingPatch_match:
  assumes "DiffPolicyBinding d x = Some p"
  shows "binding_match d (applyBindingPatch p x)"
  using assms
  by (elim DiffPolicyBinding_SomeE)
    (simp add: binding_match_def applyBindingPatch_def repair repair_target upd_Some, simp add: want_nullable_def updn_def)

text \<open>
  \<open>app_frame\<close>, \<open>proxy_frame\<close>, \<open>oauth2_frame\<close> and \<open>binding_frame\<close>: the fields that the desired
  state does not manage are the same in both objects.
\<close>

definition app_frame :: "PatchedApplicationRequest \<Rightarrow> Application \<Rightarrow> Application \<Rightarrow> bool" where
  "app_frame d x y \<longleftrightarrow>
     appl_Pk y = appl_Pk x \<and> appl_PbmUuid y = appl_PbmUuid x \<and>
     (papp_Name d = None \<longrightarrow> appl_Name y = appl_Name x) \<and>
     (papp_Slug d = None \<longrightarrow> appl_Slug y = appl_Slug x) \<and>
     (\<not> IsSet (papp_Provider d) \<longrightarrow> appl_Provider y = appl_Provider x) \<and>
     (papp_OpenInNewTab d = None \<longrightarrow> appl_OpenInNewTab y = appl_OpenInNewTab x) \<and>
     (papp_MetaLaunchUrl d = None \<longrightarrow> appl_MetaLaunchUrl y = appl_MetaLaunchUrl x) \<and>
     (papp_MetaIcon d = None \<longrightarrow> appl_MetaIcon y = appl_MetaIcon x) \<and>
     (papp_MetaDescription d = None \<longrightarrow> appl_MetaDescription y = appl_MetaDescription x) \<and>
     (papp_MetaPublisher d = None \<longrightarrow> appl_MetaPublisher y = appl_MetaPublisher x) \<and>
     (papp_PolicyEngineMode d = None \<longrightarrow> appl_PolicyEngineMode y = appl_PolicyEngineMode x) \<and>
     (papp_Group d = None \<longrightarrow> appl_Group y = appl_Group x) \<and>
     (papp_MetaHide d = None \<longrightarrow> appl_MetaHide y = appl_MetaHide x)"

definition proxy_frame :: "PatchedProxyProviderRequest \<Rightarrow> ProxyProvider \<Rightarrow> ProxyProvider \<Rightarrow> bool" where
  "proxy_frame d x y \<longleftrightarrow>
     px_Pk y = px_Pk x \<and>
     (ppx_Name d = None \<longrightarrow> px_Name y = px_Name x) \<and>
     (\<not> IsSet (ppx_AuthenticationFlow d) \<longrightarrow> px_AuthenticationFlow y = px_AuthenticationFlow x) \<and>
     (ppx_AuthorizationFlow d = None \<longrightarrow> px_AuthorizationFlow y = px_AuthorizationFlow x) \<and>
     (ppx_InvalidationFlow d = None \<longrightarrow> px_InvalidationFlow y = px_InvalidationFlow x) \<and>
     px_PropertyMappings y = px_PropertyMappings x \<and>
     (ppx_InternalHost d = None \<longrightarrow> px_InternalHost y = px_InternalHost x) \<and>
     (ppx_ExternalHost d = None \<longrightarrow> px_ExternalHost y = px_ExternalHost x) \<and>
     (ppx_InternalHostSslValidation d = None \<longrightarrow>
        px_InternalHostSslValidation y = px_InternalHostSslValidation x) \<and>
     (\<not> IsSet (ppx_Certificate d) \<longrightarrow> px_Certificate y = px_Certificate x) \<and>
     (ppx_SkipPathRegex d = None \<longrightarrow> px_SkipPathRegex y = px_SkipPathRegex x) \<and>
     (ppx_BasicAuthEnabled d = None \<longrightarrow> px_BasicAuthEnabled y = px_BasicAuthEnabled x) \<and>
     (ppx_BasicAuthPasswordAttribute d = None \<longrightarrow>
        px_BasicAuthPasswordAttribute y = px_BasicAuthPasswordAttribute x) \<and>
     (ppx_BasicAuthUserAttribute d = None \<longrightarrow> px_BasicAuthUserAttribute y = px_BasicAuthUserAttribute x) \<and>
     (ppx_Mode d = None \<longrightarrow> px_Mode y = px_Mode x) \<and>
     (ppx_InterceptHeaderAuth d = None \<longrightarrow> px_InterceptHeaderAuth y = px_InterceptHeaderAuth x) \<and>
     (ppx_CookieDomain d = None \<longrightarrow> px_CookieDomain y = px_CookieDomain x) \<and>
     (ppx_AccessTokenValidity d = None \<longrightarrow> px_AccessTokenValidity y = px_AccessTokenValidity x) \<and>
     (ppx_RefreshTokenValidity d = None \<longrightarrow> px_RefreshTokenValidity y = px_RefreshTokenValidity x)"

definition oauth2_frame :: "PatchedOAuth2ProviderRequest \<Rightarrow> OAuth2Provider \<Rightarrow> OAuth2Provider \<Rightarrow> bool" where
  "oauth2_frame d x y \<longleftrightarrow>
     ox_Pk y = ox_Pk x \<and>
     (pox_Name d = None \<longrightarrow> ox_Name y = ox_Name x) \<and>
     (\<not> IsSet (pox_AuthenticationFlow d) \<longrightarrow> ox_AuthenticationFlow y = ox_AuthenticationFlow x) \<and>
     (pox_AuthorizationFlow d = None \<longrightarrow> ox_AuthorizationFlow y = ox_AuthorizationFlow x) \<and>
     (pox_InvalidationFlow d = None \<longrightarrow> ox_InvalidationFlow y = ox_InvalidationFlow x) \<and>
     (pox_PropertyMappings d = None \<longrightarrow> ox_PropertyMappings y = ox_PropertyMappings x) \<and>
     (pox_ClientType d = None \<longrightarrow> ox_ClientType y = ox_ClientType x) \<and>
     (pox_GrantTypes d = None \<longrightarrow> ox_GrantTypes y = ox_GrantTypes x) \<and>
     (pox_ClientId d = None \<longrightarrow> ox_ClientId y = ox_ClientId x) \<and>
     (pox_ClientSecret d = None \<longrightarrow> ox_ClientSecret y = ox_ClientSecret x) \<and>
     (pox_AccessCodeValidity d = None \<longrightarrow> ox_AccessCodeValidity y = ox_AccessCodeValidity x) \<and>
     (pox_AccessTokenValidity d = None \<longrightarrow> ox_AccessTokenValidity y = ox_AccessTokenValidity x) \<and>
     (pox_RefreshTokenValidity d = None \<longrightarrow> ox_RefreshTokenValidity y = ox_RefreshTokenValidity x) \<and>
     (pox_RefreshTokenThreshold d = None \<longrightarrow> ox_RefreshTokenThreshold y = ox_RefreshTokenThreshold x) \<and>
     (pox_IncludeClaimsInIdToken d = None \<longrightarrow> ox_IncludeClaimsInIdToken y = ox_IncludeClaimsInIdToken x) \<and>
     (\<not> IsSet (pox_SigningKey d) \<longrightarrow> ox_SigningKey y = ox_SigningKey x) \<and>
     (\<not> IsSet (pox_EncryptionKey d) \<longrightarrow> ox_EncryptionKey y = ox_EncryptionKey x) \<and>
     (pox_RedirectUris d = None \<longrightarrow> ox_RedirectUris y = ox_RedirectUris x) \<and>
     (pox_LogoutUri d = None \<longrightarrow> ox_LogoutUri y = ox_LogoutUri x) \<and>
     (pox_LogoutMethod d = None \<longrightarrow> ox_LogoutMethod y = ox_LogoutMethod x) \<and>
     (pox_SubMode d = None \<longrightarrow> ox_SubMode y = ox_SubMode x) \<and>
     (pox_IssuerMode d = None \<longrightarrow> ox_IssuerMode y = ox_IssuerMode x)"

text \<open>
  A binding has one subject: when the desired state names one, the other subjects are cleared.
\<close>

definition binding_frame :: "PatchedPolicyBindingRequest \<Rightarrow> PolicyBinding \<Rightarrow> PolicyBinding \<Rightarrow> bool" where
  "binding_frame d x y \<longleftrightarrow>
     bind_Pk y = bind_Pk x \<and>
     (\<not> IsSet (pbind_Policy d) \<and> \<not> IsSet (pbind_Group d) \<and> \<not> IsSet (pbind_User d) \<longrightarrow>
        bind_Policy y = bind_Policy x \<and> bind_Group y = bind_Group x \<and> bind_User y = bind_User x) \<and>
     (pbind_Target d = None \<longrightarrow> bind_Target y = bind_Target x) \<and>
     (pbind_Negate d = None \<longrightarrow> bind_Negate y = bind_Negate x) \<and>
     (pbind_Enabled d = None \<longrightarrow> bind_Enabled y = bind_Enabled x) \<and>
     (pbind_Order d = None \<longrightarrow> bind_Order y = bind_Order x) \<and>
     (pbind_Timeout d = None \<longrightarrow> bind_Timeout y = bind_Timeout x) \<and>
     (pbind_FailureResult d = None \<longrightarrow> bind_FailureResult y = bind_FailureResult x)"

lemma applyApplicationPatch_frame:
  assumes "DiffApplication d x = Some p"
  shows "app_frame d x (applyApplicationPatch p x)"
  using diff_SomeD [OF assms [unfolded DiffApplication_def Let_def]]
  by (simp add: app_frame_def applyApplicationPatch_def unmanaged_field)

lemma updp_unset_mode: "updp (cmp_or None x) x = x"
  by (cases x) (auto simp: updp_def)

lemma applyProxyPatch_frame:
  assumes "DiffProxyProvider d x = Some p"
  shows "proxy_frame d x (applyProxyPatch p x)"
  using diff_SomeD [OF assms [unfolded DiffProxyProvider_def Let_def]]
  by (simp add: proxy_frame_def applyProxyPatch_def unmanaged_field firstNonNil_pair updp_unset_mode del: cmp_or.simps)

lemma applyOAuth2Patch_frame:
  assumes "DiffOAuth2Provider d x = Some p"
  shows "oauth2_frame d x (applyOAuth2Patch p x)"
  using diff_SomeD [OF assms [unfolded DiffOAuth2Provider_def Let_def]]
  by (simp add: oauth2_frame_def applyOAuth2Patch_def unmanaged_field)

lemma updn_same: "updn x x = x"
  by (simp add: updn_def)

lemma applyBindingPatch_frame:
  assumes "DiffPolicyBinding d x = Some p"
  shows "binding_frame d x (applyBindingPatch p x)"
  using assms
  by (elim DiffPolicyBinding_SomeE)
    (simp add: binding_frame_def applyBindingPatch_def unmanaged_field updn_same upd_Some, simp add: upd_def)

end
