(* ===== verification/Server.thy ===== *)
theory Server
  imports Drift
begin

text \<open>
  Facts about a client and about the in-memory server: which calls only read, which part of the
  state each write touches, and the well-formedness invariant of the server that every call keeps.

  The locale \<open>reads\<close> is the contract of the read calls of \<open>authentik.Client\<close>: they leave the
  server as it is, whether they succeed or fail. It is interpreted by the in-memory server.
\<close>

section \<open>Read calls\<close>

abbreviation pure :: "('s, 'e, 'r) go \<Rightarrow> bool" where
  "pure m \<equiv> keeps (\<lambda>s. s) m"

lemma pureD: "pure m \<Longrightarrow> m s = (r, t) \<Longrightarrow> t = s"
  by (auto dest: keepsD)

locale reads =
  fixes client :: "'a Client"
  assumes pure_GetVersion: "pure (GetVersion client)"
    and pure_GetApplication: "pure (GetApplication client slug)"
    and pure_GetProxyProvider: "pure (GetProxyProvider client pk)"
    and pure_FindProxyProvidersByName: "pure (FindProxyProvidersByName client name)"
    and pure_GetOAuth2Provider: "pure (GetOAuth2Provider client pk)"
    and pure_FindOAuth2ProvidersByName: "pure (FindOAuth2ProvidersByName client name)"
    and pure_GetPolicyBinding: "pure (GetPolicyBinding client uuid)"
    and pure_ListPolicyBindings: "pure (ListPolicyBindings client uuid)"
    and pure_GetOutpost: "pure (GetOutpost client uuid)"
    and pure_FindOutpostsByName: "pure (FindOutpostsByName client name)"
    and pure_GetRole: "pure (GetRole client uuid)"
    and pure_FindRolesByName: "pure (FindRolesByName client name)"
    and pure_ListRoleObjectPermissions: "pure (ListRoleObjectPermissions client uuid)"
    and pure_ListObjectPermissionRoles: "pure (ListObjectPermissionRoles client model objectPK)"
    and pure_GetGroup: "pure (GetGroup client uuid)"
    and pure_FindGroupsByName: "pure (FindGroupsByName client name)"
    and pure_GetUser: "pure (GetUser client pk)"
    and pure_FindUsersByUsername: "pure (FindUsersByUsername client name)"
    and pure_GetPolicy: "pure (GetPolicy client uuid)"
    and pure_FindPoliciesByName: "pure (FindPoliciesByName client name)"
    and pure_GetFlow: "pure (GetFlow client uuid)"
    and pure_FindFlowsBySlug: "pure (FindFlowsBySlug client name)"
    and pure_GetCertificateKeyPair: "pure (GetCertificateKeyPair client uuid)"
    and pure_FindCertificateKeyPairsByName: "pure (FindCertificateKeyPairsByName client name)"
    and pure_GetScopeMapping: "pure (GetScopeMapping client uuid)"
    and pure_FindScopeMappingsByScopeName: "pure (FindScopeMappingsByScopeName client name)"
begin

lemmas pure_reads = pure_GetVersion pure_GetApplication pure_GetProxyProvider
  pure_FindProxyProvidersByName pure_GetOAuth2Provider pure_FindOAuth2ProvidersByName
  pure_GetPolicyBinding pure_ListPolicyBindings pure_GetOutpost pure_FindOutpostsByName pure_GetRole
  pure_FindRolesByName pure_ListRoleObjectPermissions pure_ListObjectPermissionRoles pure_GetGroup
  pure_FindGroupsByName pure_GetUser pure_FindUsersByUsername pure_GetPolicy pure_FindPoliciesByName
  pure_GetFlow pure_FindFlowsBySlug pure_GetCertificateKeyPair pure_FindCertificateKeyPairsByName
  pure_GetScopeMapping pure_FindScopeMappingsByScopeName

end

lemma run_lookup [run_simps]:
  "lookupE m k e s = (case map_of m k of None \<Rightarrow> (Inl e, s) | Some v \<Rightarrow> (Inr v, s))"
  by (simp add: lookupE_def run_simps split: option.split)

named_theorems fake_get "the read calls of the in-memory server"

lemmas [fake_get] = fake_GetApplication_def fake_GetProxyProvider_def fake_FindProxyProvidersByName_def
  fake_GetOAuth2Provider_def fake_FindOAuth2ProvidersByName_def fake_GetPolicyBinding_def
  fake_ListPolicyBindings_def fake_GetOutpost_def fake_FindOutpostsByName_def fake_GetRole_def
  fake_FindRolesByName_def fake_ListRoleObjectPermissions_def fake_ListObjectPermissionRoles_def

lemma fake_client_simps [simp]:
  "GetVersion fake_client = readE fake_version"
  "GetApplication fake_client = fake_GetApplication"
  "CreateApplication fake_client = fake_CreateApplication"
  "PatchApplication fake_client = fake_PatchApplication"
  "DeleteApplication fake_client = fake_DeleteApplication"
  "GetProxyProvider fake_client = fake_GetProxyProvider"
  "FindProxyProvidersByName fake_client = fake_FindProxyProvidersByName"
  "CreateProxyProvider fake_client = fake_CreateProxyProvider"
  "PatchProxyProvider fake_client = fake_PatchProxyProvider"
  "DeleteProxyProvider fake_client = fake_DeleteProxyProvider"
  "GetOAuth2Provider fake_client = fake_GetOAuth2Provider"
  "FindOAuth2ProvidersByName fake_client = fake_FindOAuth2ProvidersByName"
  "CreateOAuth2Provider fake_client = fake_CreateOAuth2Provider"
  "PatchOAuth2Provider fake_client = fake_PatchOAuth2Provider"
  "DeleteOAuth2Provider fake_client = fake_DeleteOAuth2Provider"
  "GetPolicyBinding fake_client = fake_GetPolicyBinding"
  "ListPolicyBindings fake_client = fake_ListPolicyBindings"
  "CreatePolicyBinding fake_client = fake_CreatePolicyBinding"
  "PatchPolicyBinding fake_client = fake_PatchPolicyBinding"
  "DeletePolicyBinding fake_client = fake_DeletePolicyBinding"
  "GetOutpost fake_client = fake_GetOutpost"
  "FindOutpostsByName fake_client = fake_FindOutpostsByName"
  "SetOutpostProviders fake_client = fake_SetOutpostProviders"
  "GetRole fake_client = fake_GetRole"
  "FindRolesByName fake_client = fake_FindRolesByName"
  "CreateRole fake_client = fake_CreateRole"
  "AssignObjectPermission fake_client = fake_AssignObjectPermission"
  "UnassignObjectPermission fake_client = fake_UnassignObjectPermission"
  "ListRoleObjectPermissions fake_client = fake_ListRoleObjectPermissions"
  "ListObjectPermissionRoles fake_client = fake_ListObjectPermissionRoles"
  by (simp_all add: fake_client_def)

interpretation fake: reads fake_client
  by unfold_locales
    (auto simp: fake_client_def fake_get steps_def same_def run_simps split: option.split)

section \<open>What the writes leave alone\<close>

text \<open>The part of the state behind the RBAC calls, and the rest of it.\<close>

definition rbac_part :: "fake \<Rightarrow> (string \<times> Role) list \<times> objectPermission list" where
  "rbac_part c = (fake_roles c, fake_objectPermissions c)"

lemmas fake_write_defs = fake_CreateApplication_def fake_PatchApplication_def fake_DeleteApplication_def
  fake_CreateProxyProvider_def fake_PatchProxyProvider_def fake_DeleteProxyProvider_def
  fake_CreateOAuth2Provider_def fake_PatchOAuth2Provider_def fake_DeleteOAuth2Provider_def
  fake_CreatePolicyBinding_def fake_PatchPolicyBinding_def fake_DeletePolicyBinding_def
  fake_SetOutpostProviders_def

lemmas fake_aux_defs = checkApplicationProvider_def checkProxyMode_def checkBindingSubject_def
  nextUUID_def nextPK_def randomString_def fake_deleteProvider_def Let_def

lemma pure_checks:
  "pure (checkApplicationProvider op prov sl)" "pure (checkProxyMode op mode host)"
  "pure (checkBindingSubject op pol grp usr)"
  by (auto simp: steps_def same_def fake_aux_defs run_simps split: option.split)

text \<open>A computation that first reads the state it runs on.\<close>

lemma steps_self: "(\<And>c. steps R (f c)) \<Longrightarrow> steps R (\<lambda>c. f c c)"
  by (simp add: steps_def)

lemma keeps_lookup [frame_intros]: "keeps f (lookupE m k e)"
  by (auto simp: steps_def same_def run_simps split: option.split)

lemma stable_lookup [frame_intros]: "stable I (lookupE m k e)"
  by (auto simp: steps_def pres_def run_simps split: option.split)

lemma pure_keeps: "pure m \<Longrightarrow> keeps f m"
  by (simp add: steps_def same_def)

lemma pure_stable: "pure m \<Longrightarrow> stable I m"
  by (simp add: steps_def same_def pres_def)

lemma keeps_next:
  "(\<And>c n. f (c\<lparr>fake_sequence := n\<rparr>) = f c) \<Longrightarrow> keeps f nextPK"
  "(\<And>c n. f (c\<lparr>fake_sequence := n\<rparr>) = f c) \<Longrightarrow> keeps f nextUUID"
  "(\<And>c n. f (c\<lparr>fake_draws := n\<rparr>) = f c) \<Longrightarrow> keeps f (randomString len)"
  by (auto simp: steps_def same_def nextUUID_def nextPK_def randomString_def Let_def run_simps)

lemmas fake_frame = frame_intros pure_checks [THEN pure_keeps] keeps_next

definition footprint :: "fake \<Rightarrow> (string \<times> Application) list \<times> (int \<times> ProxyProvider) list \<times>
    (int \<times> OAuth2Provider) list \<times> (string \<times> PolicyBinding) list \<times> (string \<times> Outpost) list \<times>
    (string \<times> Role) list \<times> objectPermission list" where
  "footprint c = (fake_applications c, fake_proxyProviders c, fake_oauth2Providers c, fake_bindings c,
     fake_outposts c, fake_roles c, fake_objectPermissions c)"

lemma keeps_comp: "keeps f m \<Longrightarrow> (\<And>s t. f s = f t \<Longrightarrow> g s = g t) \<Longrightarrow> keeps g m"
  unfolding steps_def same_def by blast

text \<open>Application calls: only the Applications, and on deletion the bindings of the deleted one.\<close>

lemma frame_CreateApplication:
  "keeps (\<lambda>c. footprint (c\<lparr>fake_applications := []\<rparr>)) (fake_CreateApplication r)"
  unfolding fake_CreateApplication_def Let_def
  by (rule steps_self, intro fake_frame; simp add: footprint_def)

lemma frame_PatchApplication:
  "keeps (\<lambda>c. footprint (c\<lparr>fake_applications := []\<rparr>)) (fake_PatchApplication slug r)"
  unfolding fake_PatchApplication_def Let_def
  by (rule steps_self, intro fake_frame; simp add: footprint_def split: option.split)

lemma frame_DeleteApplication:
  "keeps (\<lambda>c. footprint (c\<lparr>fake_applications := [], fake_bindings := []\<rparr>)) (fake_DeleteApplication slug)"
  unfolding fake_DeleteApplication_def
  by (rule steps_self, intro fake_frame; simp add: footprint_def)

text \<open>Provider calls: only the providers, and on deletion the references to the deleted one.\<close>

lemma frame_CreateProxyProvider:
  "keeps (\<lambda>c. footprint (c\<lparr>fake_proxyProviders := []\<rparr>)) (fake_CreateProxyProvider r)"
  unfolding fake_CreateProxyProvider_def Let_def
  by (intro fake_frame, rule steps_self, intro fake_frame; simp add: footprint_def)

lemma frame_PatchProxyProvider:
  "keeps (\<lambda>c. footprint (c\<lparr>fake_proxyProviders := []\<rparr>)) (fake_PatchProxyProvider pk r)"
  unfolding fake_PatchProxyProvider_def Let_def
  by (rule steps_self, intro fake_frame; simp add: footprint_def)

lemma frame_DeleteProxyProvider:
  "keeps (\<lambda>c. footprint (c\<lparr>fake_proxyProviders := [], fake_applications := [], fake_outposts := []\<rparr>))
     (fake_DeleteProxyProvider pk)"
  unfolding fake_DeleteProxyProvider_def
  by (rule steps_self, intro fake_frame; simp add: footprint_def fake_deleteProvider_def)

lemma frame_CreateOAuth2Provider:
  "keeps (\<lambda>c. footprint (c\<lparr>fake_oauth2Providers := []\<rparr>)) (fake_CreateOAuth2Provider r)"
  unfolding fake_CreateOAuth2Provider_def Let_def
  by (rule steps_self, intro fake_frame; simp add: footprint_def)

lemma frame_PatchOAuth2Provider:
  "keeps (\<lambda>c. footprint (c\<lparr>fake_oauth2Providers := []\<rparr>)) (fake_PatchOAuth2Provider pk r)"
  unfolding fake_PatchOAuth2Provider_def Let_def
  by (rule steps_self, intro fake_frame; simp add: footprint_def)

lemma frame_DeleteOAuth2Provider:
  "keeps (\<lambda>c. footprint (c\<lparr>fake_oauth2Providers := [], fake_applications := [], fake_outposts := []\<rparr>))
     (fake_DeleteOAuth2Provider pk)"
  unfolding fake_DeleteOAuth2Provider_def
  by (rule steps_self, intro fake_frame; simp add: footprint_def fake_deleteProvider_def)

text \<open>Binding, Outpost and RBAC calls: only the bindings, the Outposts, the roles, the permissions.\<close>

lemma frame_CreatePolicyBinding:
  "keeps (\<lambda>c. footprint (c\<lparr>fake_bindings := []\<rparr>)) (fake_CreatePolicyBinding r)"
  unfolding fake_CreatePolicyBinding_def Let_def
  by (intro fake_frame, rule steps_self, intro fake_frame; simp add: footprint_def)

lemma frame_PatchPolicyBinding:
  "keeps (\<lambda>c. footprint (c\<lparr>fake_bindings := []\<rparr>)) (fake_PatchPolicyBinding uuid r)"
  unfolding fake_PatchPolicyBinding_def Let_def
  by (rule steps_self, intro fake_frame; simp add: footprint_def)

lemma frame_DeletePolicyBinding:
  "keeps (\<lambda>c. footprint (c\<lparr>fake_bindings := []\<rparr>)) (fake_DeletePolicyBinding uuid)"
  unfolding fake_DeletePolicyBinding_def
  by (rule steps_self, intro fake_frame; simp add: footprint_def)

lemma frame_SetOutpostProviders:
  "keeps (\<lambda>c. footprint (c\<lparr>fake_outposts := []\<rparr>)) (fake_SetOutpostProviders uuid ps)"
  unfolding fake_SetOutpostProviders_def Let_def
  by (rule steps_self, intro fake_frame; simp add: footprint_def)

lemma frame_CreateRole:
  "keeps (\<lambda>c. footprint (c\<lparr>fake_roles := []\<rparr>)) (fake_CreateRole name)"
  unfolding fake_CreateRole_def Let_def
  by (rule steps_self, intro fake_frame; simp add: footprint_def)

lemma frame_AssignObjectPermission:
  "keeps (\<lambda>c. footprint (c\<lparr>fake_objectPermissions := []\<rparr>)) (fake_AssignObjectPermission r m pk perm)"
  unfolding fake_AssignObjectPermission_def
  by (rule steps_self, intro fake_frame; simp add: footprint_def)

lemma frame_UnassignObjectPermission:
  "keeps (\<lambda>c. footprint (c\<lparr>fake_objectPermissions := []\<rparr>)) (fake_UnassignObjectPermission r m pk perm)"
  unfolding fake_UnassignObjectPermission_def
  by (rule steps_self, intro fake_frame; simp add: footprint_def)

lemmas fake_frames = frame_CreateApplication frame_PatchApplication frame_DeleteApplication
  frame_CreateProxyProvider frame_PatchProxyProvider frame_DeleteProxyProvider
  frame_CreateOAuth2Provider frame_PatchOAuth2Provider frame_DeleteOAuth2Provider
  frame_CreatePolicyBinding frame_PatchPolicyBinding frame_DeletePolicyBinding
  frame_SetOutpostProviders frame_CreateRole frame_AssignObjectPermission frame_UnassignObjectPermission

text \<open>No call but those of the RBAC API touches the roles and the object permissions.\<close>

lemma rbac_frames:
  "keeps rbac_part (fake_CreateApplication ra)"
  "keeps rbac_part (fake_PatchApplication slug pa)"
  "keeps rbac_part (fake_DeleteApplication slug)"
  "keeps rbac_part (fake_CreateProxyProvider rp)"
  "keeps rbac_part (fake_PatchProxyProvider pk pp)"
  "keeps rbac_part (fake_DeleteProxyProvider pk)"
  "keeps rbac_part (fake_CreateOAuth2Provider ro)"
  "keeps rbac_part (fake_PatchOAuth2Provider pk po)"
  "keeps rbac_part (fake_DeleteOAuth2Provider pk)"
  "keeps rbac_part (fake_CreatePolicyBinding rb)"
  "keeps rbac_part (fake_PatchPolicyBinding uuid pb)"
  "keeps rbac_part (fake_DeletePolicyBinding uuid)"
  "keeps rbac_part (fake_SetOutpostProviders uuid ps)"
  by (rule fake_frames [THEN keeps_comp], simp add: rbac_part_def footprint_def)+

section \<open>The invariant of the server\<close>

text \<open>
  Every map has one entry per key, the key of an entry is the primary key of its object (the slug
  of an Application), and no two roles have the same name.
\<close>

definition wf_map :: "('v \<Rightarrow> 'k) \<Rightarrow> ('k \<times> 'v) list \<Rightarrow> bool" where
  "wf_map key m \<longleftrightarrow> distinct (map fst m) \<and> (\<forall>k v. map_of m k = Some v \<longrightarrow> key v = k)"

definition wf_fake :: "fake \<Rightarrow> bool" where
  "wf_fake c \<longleftrightarrow>
     wf_map appl_Slug (fake_applications c) \<and> wf_map px_Pk (fake_proxyProviders c) \<and>
     wf_map ox_Pk (fake_oauth2Providers c) \<and> wf_map bind_Pk (fake_bindings c) \<and>
     wf_map outpost_Pk (fake_outposts c) \<and> wf_map role_Pk (fake_roles c) \<and>
     distinct (map (role_Name \<circ> snd) (fake_roles c))"

lemma wf_map_update: "wf_map key m \<Longrightarrow> key v = k \<Longrightarrow> wf_map key (AList.update k v m)"
  by (auto simp: wf_map_def AList.distinct_update AList.update_conv')

lemma wf_map_lookup: "wf_map key m \<Longrightarrow> map_of m k = Some v \<Longrightarrow> key v = k"
  by (simp add: wf_map_def)

lemma wf_map_in: "wf_map key m \<Longrightarrow> (k, v) \<in> set m \<longleftrightarrow> map_of m k = Some v"
  by (simp add: wf_map_def map_of_eq_Some_iff)

lemma wf_map_filter: "wf_map key m \<Longrightarrow> wf_map key (filter P m)"
  by (auto simp: wf_map_def distinct_map_filter dest!: map_of_SomeD)

lemma wf_map_delete: "wf_map key m \<Longrightarrow> wf_map key (AList.delete k m)"
  by (simp add: AList.delete_eq wf_map_filter)

lemma map_pair_map_of: "map_of (map (\<lambda>(k, v). (k, g v)) m) k = map_option g (map_of m k)"
  by (simp add: map_of_map)

lemma wf_map_map:
  "wf_map key m \<Longrightarrow> (\<And>v. key (g v) = key v) \<Longrightarrow> wf_map key (map (\<lambda>(k, v). (k, g v)) m)"
  by (auto simp: wf_map_def map_pair_map_of comp_def case_prod_beta)

lemmas wf_maps = wf_map_update wf_map_filter wf_map_delete wf_map_map

lemma stable_keeps: "keeps f m \<Longrightarrow> (\<And>s t. f s = f t \<Longrightarrow> I s = I t) \<Longrightarrow> stable I m"
  unfolding steps_def same_def pres_def by blast

lemma wf_next: "stable wf_fake nextPK" "stable wf_fake nextUUID" "stable wf_fake (randomString n)"
  by (rule stable_keeps [OF keeps_next(1) [of footprint]] stable_keeps [OF keeps_next(2) [of footprint]]
      stable_keeps [OF keeps_next(3) [of footprint]]; simp add: footprint_def wf_fake_def)+

lemma upd_slug: "upd x s = (case x of None \<Rightarrow> s | Some v \<Rightarrow> v)"
  by (simp add: upd_def)

lemma update_images: "g ` snd ` set (AList.update k v m) \<subseteq> insert (g v) (g ` snd ` set m)"
  by (induction m) auto

lemma update_distinct_names:
  "distinct (map (g \<circ> snd) m) \<Longrightarrow> g v \<notin> g ` snd ` set m \<Longrightarrow>
   distinct (map (g \<circ> snd) (AList.update k v m))"
proof (induction m)
  case (Cons x m)
  show ?case
  proof (cases "fst x = k")
    case True
    with Cons.prems show ?thesis by (cases x) (auto simp: image_image)
  next
    case False
    have "g (snd x) \<notin> g ` snd ` set (AList.update k v m)"
      using Cons.prems update_images [of g k v m] by (auto simp: image_image)
    with False Cons show ?thesis by (cases x) (auto simp: image_image)
  qed
qed simp

lemmas wf_run = pres_def wf_fake_def run_simps fake_aux_defs applyApplicationPatch_def
  applyProxyPatch_def applyOAuth2Patch_def applyBindingPatch_def upd_slug list_ex_iff

lemmas wf_split = option.splits if_splits prod.splits sum.splits

lemma wf_CreateApplication: "stable wf_fake (fake_CreateApplication r)"
  by (rule stepsI)
    (auto simp: fake_CreateApplication_def wf_run split: wf_split intro!: wf_maps dest: wf_map_lookup)

lemma wf_PatchApplication: "stable wf_fake (fake_PatchApplication slug r)"
  by (rule stepsI)
    (auto simp: fake_PatchApplication_def wf_run split: wf_split intro!: wf_maps dest: wf_map_lookup)

lemma wf_DeleteApplication: "stable wf_fake (fake_DeleteApplication slug)"
  by (rule stepsI)
    (auto simp: fake_DeleteApplication_def wf_run split: wf_split intro!: wf_maps dest: wf_map_lookup)

lemma wf_CreateProxyProvider: "stable wf_fake (fake_CreateProxyProvider r)"
  by (rule stepsI)
    (auto simp: fake_CreateProxyProvider_def wf_run split: wf_split intro!: wf_maps dest: wf_map_lookup)

lemma wf_PatchProxyProvider: "stable wf_fake (fake_PatchProxyProvider pk r)"
  by (rule stepsI)
    (auto simp: fake_PatchProxyProvider_def wf_run split: wf_split intro!: wf_maps dest: wf_map_lookup)

lemma wf_DeleteProxyProvider: "stable wf_fake (fake_DeleteProxyProvider pk)"
  by (rule stepsI)
    (auto simp: fake_DeleteProxyProvider_def wf_run split: wf_split intro!: wf_maps dest: wf_map_lookup)

lemma wf_CreateOAuth2Provider: "stable wf_fake (fake_CreateOAuth2Provider r)"
  by (rule stepsI)
    (auto simp: fake_CreateOAuth2Provider_def wf_run split: wf_split intro!: wf_maps dest: wf_map_lookup)

lemma wf_PatchOAuth2Provider: "stable wf_fake (fake_PatchOAuth2Provider pk r)"
  by (rule stepsI)
    (auto simp: fake_PatchOAuth2Provider_def wf_run split: wf_split intro!: wf_maps dest: wf_map_lookup)

lemma wf_DeleteOAuth2Provider: "stable wf_fake (fake_DeleteOAuth2Provider pk)"
  by (rule stepsI)
    (auto simp: fake_DeleteOAuth2Provider_def wf_run split: wf_split intro!: wf_maps dest: wf_map_lookup)

lemma wf_CreatePolicyBinding: "stable wf_fake (fake_CreatePolicyBinding r)"
  by (rule stepsI)
    (auto simp: fake_CreatePolicyBinding_def wf_run split: wf_split intro!: wf_maps dest: wf_map_lookup)

lemma wf_PatchPolicyBinding: "stable wf_fake (fake_PatchPolicyBinding uuid r)"
  by (rule stepsI)
    (auto simp: fake_PatchPolicyBinding_def wf_run split: wf_split intro!: wf_maps dest: wf_map_lookup)

lemma wf_DeletePolicyBinding: "stable wf_fake (fake_DeletePolicyBinding uuid)"
  by (rule stepsI)
    (auto simp: fake_DeletePolicyBinding_def wf_run split: wf_split intro!: wf_maps dest: wf_map_lookup)

lemma wf_SetOutpostProviders: "stable wf_fake (fake_SetOutpostProviders uuid ps)"
  by (rule stepsI)
    (auto simp: fake_SetOutpostProviders_def wf_run split: wf_split intro!: wf_maps dest: wf_map_lookup)

lemma wf_CreateRole: "stable wf_fake (fake_CreateRole name)"
  by (rule stepsI)
    (auto simp: fake_CreateRole_def wf_run split: wf_split intro!: wf_maps update_distinct_names)

lemma wf_AssignObjectPermission: "stable wf_fake (fake_AssignObjectPermission r m pk perm)"
  by (rule stepsI) (auto simp: fake_AssignObjectPermission_def wf_run split: wf_split)

lemma wf_UnassignObjectPermission: "stable wf_fake (fake_UnassignObjectPermission r m pk perm)"
  by (rule stepsI) (auto simp: fake_UnassignObjectPermission_def wf_run split: wf_split)

lemmas wf_writes = wf_CreateApplication wf_PatchApplication wf_DeleteApplication wf_CreateProxyProvider wf_PatchProxyProvider wf_DeleteProxyProvider wf_CreateOAuth2Provider wf_PatchOAuth2Provider wf_DeleteOAuth2Provider wf_CreatePolicyBinding wf_PatchPolicyBinding wf_DeletePolicyBinding wf_SetOutpostProviders wf_CreateRole wf_AssignObjectPermission
  wf_UnassignObjectPermission

end
