(* ===== verification/Ownership.thy ===== *)
theory Ownership
  imports Server
begin

text \<open>
  Ownership markers (\<open>internal/ownership/marker.go\<close>): an object is managed when a dedicated role
  holds the view permission on it. \<open>marker_state\<close> is the state of a \<open>Marker\<close> together with the
  server it talks to; the states of the components built on it extend this record.

  The locale \<open>rbac_api\<close> is the contract of \<open>RBACClient\<close> in terms of two abstract
  observations of the server: the roles that have a name and the objects marked by a role. The
  methods of \<open>Marker\<close> are specified inside it; the in-memory server interprets it.
\<close>

section \<open>Model\<close>

definition roleNamePrefix :: string where "roleNamePrefix = ''authentik-operator-''"

definition RoleName :: "string \<Rightarrow> string \<Rightarrow> goerror + string" where
  "RoleName clusterName ownerRole =
     (if ownerRole \<noteq> [] then Inr ownerRole
      else if clusterName = [] then Inl (PlainError ''either --cluster-name or --owner-role must be specified'')
      else Inr (roleNamePrefix @ clusterName))"

record Object =
  obj_Model :: string
  obj_PK :: string

definition viewPermission :: "string \<Rightarrow> string" where
  "viewPermission model = (case cut (CHR ''.'') model of (appLabel, name) \<Rightarrow> appLabel @ ''.view_'' @ name)"

definition modelOf :: "string \<Rightarrow> string \<Rightarrow> string" where
  "modelOf appLabel model = appLabel @ ''.'' @ model"

record 'a Marker =
  marker_client :: "'a Client"
  marker_roleName :: string

record 'a marker_state =
  server :: 'a
  roleUUID :: string

text \<open>A call of the client, on the server inside a state.\<close>

definition srv :: "('a, 'r) call \<Rightarrow> (('a, 'z) marker_state_scheme, goerror, 'r) go" where
  "srv m = (\<lambda>s. case m (server s) of (r, a) \<Rightarrow> (r, s\<lparr>server := a\<rparr>))"

definition findRole :: "'a Marker \<Rightarrow> (('a, 'z) marker_state_scheme, goerror, string option) go" where
  "findRole m =
     bindE (wrapE (''failed to find role '' @ quote (marker_roleName m))
              (srv (FindRolesByName (marker_client m) (marker_roleName m)))) (\<lambda>roles.
     case roles of
       [] \<Rightarrow> retE None
     | [role] \<Rightarrow> retE (Some (role_Pk role))
     | _ \<Rightarrow> throwE (PlainError (''found '' @ itoa (int (length roles)) @ '' roles named ''
              @ quote (marker_roleName m))))"

definition findOrCreateRole :: "'a Marker \<Rightarrow> (('a, 'z) marker_state_scheme, goerror, string) go" where
  "findOrCreateRole m =
     bindE (findRole m) (\<lambda>found. case found of
       Some uuid \<Rightarrow> retE uuid
     | None \<Rightarrow>
         bindE (attempt (srv (CreateRole (marker_client m) (marker_roleName m)))) (\<lambda>created. case created of
           Inr role \<Rightarrow> retE (role_Pk role)
         | Inl createErr \<Rightarrow>
             bindE (findRole m) (\<lambda>found. case found of
               None \<Rightarrow> throwE (WrapError (''failed to create role '' @ quote (marker_roleName m)) createErr)
             | Some uuid \<Rightarrow> retE uuid)))"

definition EnsureRole :: "'a Marker \<Rightarrow> (('a, 'z) marker_state_scheme, goerror, string \<times> string) go" where
  "EnsureRole m =
     bindE (findOrCreateRole m) (\<lambda>uuid.
     bindE (readE roleUUID) (\<lambda>previous.
     thenE (modifyE (\<lambda>s. s\<lparr>roleUUID := uuid\<rparr>)) (retE (uuid, previous))))"

definition marker_role :: "'a Marker \<Rightarrow> (('a, 'z) marker_state_scheme, goerror, string) go" where
  "marker_role m =
     bindE (readE roleUUID) (\<lambda>uuid.
     if uuid \<noteq> [] then retE uuid else bindE (EnsureRole m) (\<lambda>(current, previous). retE current))"

definition Mark :: "'a Marker \<Rightarrow> Object \<Rightarrow> (('a, 'z) marker_state_scheme, goerror, unit) go" where
  "Mark m object =
     bindE (marker_role m) (\<lambda>role.
     wrapE (''failed to mark '' @ obj_Model object @ '' '' @ obj_PK object)
       (srv (AssignObjectPermission (marker_client m) role (obj_Model object) (obj_PK object)
          (viewPermission (obj_Model object)))))"

definition objectMissing :: "goerror \<Rightarrow> bool" where
  "objectMissing err =
     (case AsAPIError err of
        Some (op, code, body) \<Rightarrow> code = 400 \<and> contains body ''object_pk''
      | None \<Rightarrow> False)"

definition MarkIfExists :: "'a Marker \<Rightarrow> Object \<Rightarrow> (('a, 'z) marker_state_scheme, goerror, bool) go" where
  "MarkIfExists m object =
     bindE (marker_role m) (\<lambda>role.
     bindE (attempt (srv (AssignObjectPermission (marker_client m) role (obj_Model object) (obj_PK object)
          (viewPermission (obj_Model object))))) (\<lambda>r. case r of
       Inl err \<Rightarrow>
         (if objectMissing err then retE False
          else throwE (WrapError (''failed to mark '' @ obj_Model object @ '' '' @ obj_PK object) err))
     | Inr _ \<Rightarrow> retE True))"

definition Unmark :: "'a Marker \<Rightarrow> Object \<Rightarrow> (('a, 'z) marker_state_scheme, goerror, unit) go" where
  "Unmark m object =
     bindE (marker_role m) (\<lambda>role.
     wrapE (''failed to unmark '' @ obj_Model object @ '' '' @ obj_PK object)
       (srv (UnassignObjectPermission (marker_client m) role (obj_Model object) (obj_PK object)
          (viewPermission (obj_Model object)))))"

text \<open>The two loops of \<open>IsManaged\<close>.\<close>

definition holdsObject :: "Object \<Rightarrow> RoleObjectPermission \<Rightarrow> bool" where
  "holdsObject object permission \<longleftrightarrow>
     modelOf (perm_AppLabel permission) (perm_Model permission) = obj_Model object \<and>
     perm_ObjectPk permission = obj_PK object"

fun assignedTo :: "string \<Rightarrow> Object \<Rightarrow> RoleAssignedObjectPermission list \<Rightarrow> bool" where
  "assignedTo role object [] = False"
| "assignedTo role object (assignment # rest) =
     (if assigned_RolePk assignment \<noteq> role then assignedTo role object rest
      else if list_ex (holdsObject object) (assigned_ObjectPermissions assignment) then True
      else assignedTo role object rest)"

definition IsManaged :: "'a Marker \<Rightarrow> Object \<Rightarrow> (('a, 'z) marker_state_scheme, goerror, bool) go" where
  "IsManaged m object =
     bindE (marker_role m) (\<lambda>role.
     bindE (wrapE (''failed to look up the owner of '' @ obj_Model object @ '' '' @ obj_PK object)
              (srv (ListObjectPermissionRoles (marker_client m) (obj_Model object) (obj_PK object))))
       (\<lambda>assignments. retE (assignedTo role object assignments)))"

text \<open>A \<open>Set\<close> is the list of its objects in the order Go happens to iterate in.\<close>

definition permissionObject :: "RoleObjectPermission \<Rightarrow> Object" where
  "permissionObject permission =
     \<lparr> obj_Model = modelOf (perm_AppLabel permission) (perm_Model permission),
       obj_PK = perm_ObjectPk permission \<rparr>"

definition ListManaged :: "'a Marker \<Rightarrow> (('a, 'z) marker_state_scheme, goerror, Object list) go" where
  "ListManaged m =
     bindE (marker_role m) (\<lambda>role.
     bindE (wrapE (''failed to list the markers of role '' @ quote (marker_roleName m))
              (srv (ListRoleObjectPermissions (marker_client m) role))) (\<lambda>permissions.
     retE (fold (\<lambda>permission. List.insert (permissionObject permission)) permissions [])))"

section \<open>Calls on the server inside a state\<close>

lemma run_srv [run_simps]: "srv m s = (case m (server s) of (r, a) \<Rightarrow> (r, s\<lparr>server := a\<rparr>))"
  by (simp add: srv_def)

lemma keeps_srv_pure [frame_intros]: "pure m \<Longrightarrow> pure (srv m)"
  by (simp add: steps_def same_def run_simps case_prod_beta)

lemma stable_srv: "stable I m \<Longrightarrow> stable (\<lambda>s. I (server s)) (srv m)"
  by (simp add: steps_def pres_def run_simps case_prod_beta)

lemma keeps_srv: "keeps f m \<Longrightarrow> keeps (\<lambda>s. f (server s)) (srv m)"
  by (simp add: steps_def same_def run_simps case_prod_beta)

section \<open>The contract of the RBAC API\<close>

text \<open>
  \<open>named a n\<close>: the UUIDs of the roles named \<open>n\<close>. \<open>marked a r\<close>: the objects that carry the view
  permission of role \<open>r\<close>. \<open>present a\<close>: the objects that exist. A call that fails changes nothing.
\<close>

locale rbac_api =
  fixes client :: "'a Client"
    and inv :: "'a \<Rightarrow> bool"
    and named :: "'a \<Rightarrow> string \<Rightarrow> string set"
    and marked :: "'a \<Rightarrow> string \<Rightarrow> Object set"
    and present :: "'a \<Rightarrow> Object \<Rightarrow> bool"
    and markable :: "string \<Rightarrow> bool"
  assumes find_roles:
      "FindRolesByName client n a = (rx, a') \<Longrightarrow> inv a \<Longrightarrow>
       a' = a \<and> (\<forall>roles. rx = Inr roles \<longrightarrow> distinct (map role_Pk roles) \<and> role_Pk ` set roles = named a n)"
    and create_role:
      "CreateRole client n a = (Inr role, a') \<Longrightarrow> inv a \<Longrightarrow>
       inv a' \<and> role_Pk role \<noteq> [] \<and> named a n = {} \<and> named a' n = {role_Pk role} \<and>
       marked a' = marked a \<and> present a' = present a"
    and create_role_error: "CreateRole client n a = (Inl e, a') \<Longrightarrow> inv a \<Longrightarrow> a' = a"
    and assign:
      "AssignObjectPermission client r m pk (viewPermission m) a = (Inr x, a') \<Longrightarrow> inv a \<Longrightarrow> markable m \<Longrightarrow>
       inv a' \<and> named a' = named a \<and> present a' = present a \<and> present a \<lparr>obj_Model = m, obj_PK = pk\<rparr> \<and>
       marked a' = (marked a)(r := insert \<lparr>obj_Model = m, obj_PK = pk\<rparr> (marked a r))"
    and assign_error:
      "AssignObjectPermission client r m pk (viewPermission m) a = (Inl e, a') \<Longrightarrow> inv a \<Longrightarrow>
       a' = a \<and> (objectMissing e \<longrightarrow> \<not> present a \<lparr>obj_Model = m, obj_PK = pk\<rparr>)"
    and unassign:
      "UnassignObjectPermission client r m pk (viewPermission m) a = (Inr x, a') \<Longrightarrow> inv a \<Longrightarrow>
       inv a' \<and> named a' = named a \<and> present a' = present a \<and>
       marked a' = (marked a)(r := marked a r - {\<lparr>obj_Model = m, obj_PK = pk\<rparr>})"
    and unassign_error:
      "UnassignObjectPermission client r m pk (viewPermission m) a = (Inl e, a') \<Longrightarrow> inv a \<Longrightarrow> a' = a"
    and list_permissions:
      "ListRoleObjectPermissions client r a = (px, a') \<Longrightarrow> inv a \<Longrightarrow>
       a' = a \<and> (\<forall>ps. px = Inr ps \<longrightarrow> permissionObject ` set ps = marked a r)"
    and list_roles:
      "ListObjectPermissionRoles client m pk a = (ax, a') \<Longrightarrow> inv a \<Longrightarrow>
       a' = a \<and> (\<forall>as. ax = Inr as \<longrightarrow>
         (\<exists>as' \<in> set as. assigned_RolePk as' = r \<and>
           (\<exists>p \<in> set (assigned_ObjectPermissions as'). permissionObject p = \<lparr>obj_Model = m, obj_PK = pk\<rparr>)) \<longleftrightarrow>
         \<lparr>obj_Model = m, obj_PK = pk\<rparr> \<in> marked a r)"
    and named_ne: "inv a \<Longrightarrow> u \<in> named a n \<Longrightarrow> u \<noteq> []"
    and markable_marked: "inv a \<Longrightarrow> ob \<in> marked a r \<Longrightarrow> markable (obj_Model ob)"
begin

lemma obj_eta [simp]: "\<lparr>obj_Model = obj_Model ob, obj_PK = obj_PK ob\<rparr> = ob"
  by simp

end

section \<open>What the methods of Marker do\<close>

lemma holdsObject_iff: "holdsObject ob p \<longleftrightarrow> permissionObject p = ob"
  by (cases ob) (auto simp: holdsObject_def permissionObject_def)

locale marker = rbac_api "marker_client m" inv named marked present markable
  for m :: "'a Marker" and inv named marked present markable
begin

lemma findRole_spec:
  assumes "findRole m s = (x, t)" and "inv (server s)"
  shows "t = s" and "x = Inr (Some u) \<Longrightarrow> named (server s) (marker_roleName m) = {u}"
    and "x = Inr None \<Longrightarrow> named (server s) (marker_roleName m) = {}"
proof -
  obtain rx a where r: "FindRolesByName (marker_client m) (marker_roleName m) (server s) = (rx, a)"
    by (metis surj_pair)
  note f = find_roles [OF r assms(2)]
  from f have a: "a = server s" by simp
  show "t = s" using assms(1) r a
    by (auto simp: findRole_def run_simps split: sum.splits list.splits)
  show "named (server s) (marker_roleName m) = {u}" if "x = Inr (Some u)"
    using assms(1) r f that by (auto simp: findRole_def run_simps split: sum.splits list.splits)
  show "named (server s) (marker_roleName m) = {}" if "x = Inr None"
    using assms(1) r f that by (auto simp: findRole_def run_simps split: sum.splits list.splits)
qed

lemma findOrCreateRole_spec:
  assumes "findOrCreateRole m s = (x, t)" and "inv (server s)"
  shows "t = s\<lparr>server := server t\<rparr> \<and> inv (server t) \<and> marked (server t) = marked (server s) \<and>
     present (server t) = present (server s) \<and> (\<forall>e. x = Inl e \<longrightarrow> t = s) \<and>
     (\<forall>u. x = Inr u \<longrightarrow> named (server t) (marker_roleName m) = {u}) \<and>
     (named (server s) (marker_roleName m) \<noteq> {} \<longrightarrow> t = s)"
proof -
  obtain y t1 where f: "findRole m s = (y, t1)" by (metis surj_pair)
  note f1 = findRole_spec [OF f assms(2)]
  show ?thesis
  proof (cases "y = Inr None")
    case False
    then show ?thesis using assms f f1
      by (auto simp: findOrCreateRole_def run_simps split: sum.splits option.splits)
  next
    case True
    note none = f1(3) [OF True]
    obtain z a where c: "CreateRole (marker_client m) (marker_roleName m) (server s) = (z, a)"
      by (metis surj_pair)
    show ?thesis
    proof (cases z)
      case (Inr role)
      show ?thesis using assms f f1(1) True none c Inr create_role [OF c [unfolded Inr] assms(2)]
        by (auto simp: findOrCreateRole_def run_simps)
    next
      case (Inl e)
      have a: "a = server s" using create_role_error [OF c [unfolded Inl] assms(2)] .
      have s: "s\<lparr>server := server s\<rparr> = s" by simp
      show ?thesis using assms f f1 True none c Inl a
        by (simp add: findOrCreateRole_def run_simps s) (auto split: option.splits)
    qed
  qed
qed

lemma EnsureRole_spec:
  assumes "EnsureRole m s = (x, t)" and "inv (server s)"
  shows "inv (server t) \<and> marked (server t) = marked (server s) \<and> present (server t) = present (server s) \<and>
     t = s\<lparr>server := server t, roleUUID := roleUUID t\<rparr> \<and> (\<forall>e. x = Inl e \<longrightarrow> t = s) \<and>
     (\<forall>u v. x = Inr (u, v) \<longrightarrow>
        roleUUID t = u \<and> u \<noteq> [] \<and> v = roleUUID s \<and> named (server t) (marker_roleName m) = {u})"
proof -
  obtain y t1 where f: "findOrCreateRole m s = (y, t1)" by (metis surj_pair)
  have f1: "t1 = s\<lparr>server := server t1\<rparr>" "inv (server t1)" "marked (server t1) = marked (server s)"
    "present (server t1) = present (server s)" "\<And>e. y = Inl e \<Longrightarrow> t1 = s"
    "\<And>u. y = Inr u \<Longrightarrow> named (server t1) (marker_roleName m) = {u}"
    using findOrCreateRole_spec [OF f assms(2)] by auto
  from f1(1) have r: "roleUUID t1 = roleUUID s" by (metis marker_state.select_convs(2) marker_state.surjective marker_state.update_convs(1))
  show ?thesis
  proof (cases y)
    case (Inl e)
    with assms f f1 show ?thesis by (auto simp: EnsureRole_def run_simps)
  next
    case (Inr u)
    have x: "x = Inr (u, roleUUID s)" and t: "t = t1\<lparr>roleUUID := u\<rparr>"
      using assms(1) f Inr r by (auto simp: EnsureRole_def run_simps)
    have "t = s\<lparr>server := server t1, roleUUID := u\<rparr>"
      unfolding t by (subst f1(1)) simp
    moreover have "u \<noteq> []" using named_ne [OF f1(2), of u "marker_roleName m"] f1(6) [OF Inr] by simp
    ultimately show ?thesis using x t f1 Inr by simp
  qed
qed

text \<open>\<open>same_role\<close>: only the server and the remembered role changed, and a remembered role stays.\<close>

definition role_kept :: "('a, 'z) marker_state_scheme \<Rightarrow> ('a, 'z) marker_state_scheme \<Rightarrow> bool" where
  "role_kept s t \<longleftrightarrow> t = s\<lparr>server := server t, roleUUID := roleUUID t\<rparr> \<and>
     (roleUUID s \<noteq> [] \<longrightarrow> roleUUID t = roleUUID s)"

lemma role_kept_server: "role_kept s t \<Longrightarrow> role_kept s (t\<lparr>server := a\<rparr>)"
  by (cases s; cases t) (simp add: role_kept_def)

lemma marker_role_spec:
  assumes "marker_role m s = (x, t)" and "inv (server s)"
  shows "inv (server t)" and "marked (server t) = marked (server s)" and "present (server t) = present (server s)"
    and "role_kept s t" and "x = Inr u \<Longrightarrow> roleUUID t = u \<and> u \<noteq> []" and "roleUUID s \<noteq> [] \<Longrightarrow> t = s \<and> x = Inr (roleUUID s)"
proof -
  obtain y t1 where e: "EnsureRole m s = (y, t1)" by (metis surj_pair)
  note spec = EnsureRole_spec [OF e assms(2)]
  have "(roleUUID s \<noteq> [] \<and> t = s \<and> x = Inr (roleUUID s)) \<or>
    (roleUUID s = [] \<and> t = t1 \<and> x = (case y of Inl e \<Rightarrow> Inl e | Inr (u, v) \<Rightarrow> Inr u))"
    using assms(1) e by (auto simp: marker_role_def run_simps split: sum.splits prod.splits if_splits)
  then show "inv (server t)" "marked (server t) = marked (server s)" "present (server t) = present (server s)"
    "role_kept s t" "x = Inr u \<Longrightarrow> roleUUID t = u \<and> u \<noteq> []" "roleUUID s \<noteq> [] \<Longrightarrow> t = s \<and> x = Inr (roleUUID s)"
    using spec assms(2) by (auto simp: role_kept_def split: sum.splits)
qed

lemma Mark_spec:
  assumes "Mark m ob s = (x, t)" and "inv (server s)" and "markable (obj_Model ob)"
  shows "inv (server t)" and "role_kept s t" and "present (server t) = present (server s)"
    and "x = Inr () \<Longrightarrow> marked (server t) = (marked (server s))(roleUUID t := insert ob (marked (server s) (roleUUID t))) \<and>
           present (server s) ob"
    and "x = Inl e \<Longrightarrow> marked (server t) = marked (server s)"
proof -
  obtain y t1 where r: "marker_role m s = (y, t1)" by (metis surj_pair)
  note r1 = marker_role_spec [OF r assms(2)]
  have *: "inv (server t) \<and> role_kept s t \<and> present (server t) = present (server s) \<and>
    (x = Inr () \<longrightarrow> marked (server t) = (marked (server s))(roleUUID t := insert ob (marked (server s) (roleUUID t))) \<and>
           present (server s) ob) \<and> (\<forall>e. x = Inl e \<longrightarrow> marked (server t) = marked (server s))"
  proof (cases y)
    case (Inl e)
    with assms r r1 show ?thesis by (auto simp: Mark_def run_simps)
  next
    case (Inr u)
    obtain z a where c: "AssignObjectPermission (marker_client m) u (obj_Model ob) (obj_PK ob)
        (viewPermission (obj_Model ob)) (server t1) = (z, a)"
      by (metis surj_pair)
    have t: "t = t1\<lparr>server := a\<rparr>"
      using assms(1) r c Inr by (auto simp: Mark_def run_simps split: sum.splits)
    have k: "role_kept s t" using r1(4) unfolding t by (rule role_kept_server)
    show ?thesis
    proof (cases z)
      case (Inl e)
      then have "a = server t1" using assign_error [OF c [unfolded Inl] r1(1)] by simp
      with k t r1 assms(1) r c Inr Inl show ?thesis by (auto simp: Mark_def run_simps)
    next
      case z: (Inr v)
      show ?thesis
        using assign [OF c [unfolded z] r1(1) assms(3)] k t r1(2,3) r1(5) [OF Inr] assms(1) r c Inr z
        by (auto simp: Mark_def run_simps)
    qed
  qed
  then show "inv (server t)" "role_kept s t" "present (server t) = present (server s)"
    "x = Inr () \<Longrightarrow> marked (server t) = (marked (server s))(roleUUID t := insert ob (marked (server s) (roleUUID t))) \<and>
           present (server s) ob"
    "x = Inl e \<Longrightarrow> marked (server t) = marked (server s)"
    by auto
qed

lemma IsManaged_spec:
  assumes "IsManaged m ob s = (x, t)" and "inv (server s)"
  shows "inv (server t)" and "role_kept s t" and "marked (server t) = marked (server s)"
    and "present (server t) = present (server s)"
    and "x = Inr b \<Longrightarrow> b \<longleftrightarrow> ob \<in> marked (server s) (roleUUID t)"
proof -
  have a: "assignedTo r ob as \<longleftrightarrow> (\<exists>a \<in> set as. assigned_RolePk a = r \<and>
      (\<exists>p \<in> set (assigned_ObjectPermissions a). permissionObject p = ob))" for r as
    by (induction r ob as rule: assignedTo.induct)
      (auto simp: holdsObject_iff list_ex_iff)
  obtain y t1 where r: "marker_role m s = (y, t1)" by (metis surj_pair)
  note r1 = marker_role_spec [OF r assms(2)]
  have *: "inv (server t) \<and> role_kept s t \<and> marked (server t) = marked (server s) \<and>
    present (server t) = present (server s) \<and> (\<forall>b. x = Inr b \<longrightarrow> (b \<longleftrightarrow> ob \<in> marked (server s) (roleUUID t)))"
  proof (cases y)
    case (Inl e)
    with assms r r1 show ?thesis by (auto simp: IsManaged_def run_simps)
  next
    case (Inr u)
    obtain z a' where c: "ListObjectPermissionRoles (marker_client m) (obj_Model ob) (obj_PK ob) (server t1) = (z, a')"
      by (metis surj_pair)
    note l = list_roles [OF c r1(1), of u, simplified obj_eta]
    have t: "t = t1" and x: "\<forall>b. x = Inr b \<longrightarrow> (\<exists>as. z = Inr as \<and> b = assignedTo u ob as)"
      using assms(1) r c Inr l by (auto simp: IsManaged_def run_simps split: sum.splits)
    have "b \<longleftrightarrow> ob \<in> marked (server t1) u" if "x = Inr b" for b
    proof -
      from x that obtain as where "z = Inr as" "b = assignedTo u ob as" by auto
      with l show ?thesis by (simp only: a)
    qed
    with t r1(1-4) r1(5) [OF Inr] show ?thesis by simp
  qed
  then show "inv (server t)" "role_kept s t" "marked (server t) = marked (server s)"
    "present (server t) = present (server s)"
    "x = Inr b \<Longrightarrow> b \<longleftrightarrow> ob \<in> marked (server s) (roleUUID t)" by auto
qed

lemma ListManaged_spec:
  assumes "ListManaged m s = (x, t)" and "inv (server s)"
  shows "inv (server t)" and "role_kept s t" and "marked (server t) = marked (server s)"
    and "present (server t) = present (server s)"
    and "x = Inr obs \<Longrightarrow> set obs = marked (server s) (roleUUID t) \<and> distinct obs"
proof -
  have f: "set (fold (\<lambda>p. List.insert (permissionObject p)) ps acc) = permissionObject ` set ps \<union> set acc"
    "distinct acc \<Longrightarrow> distinct (fold (\<lambda>p. List.insert (permissionObject p)) ps acc)" for ps acc
    by (induction ps arbitrary: acc) auto
  obtain y t1 where r: "marker_role m s = (y, t1)" by (metis surj_pair)
  note r1 = marker_role_spec [OF r assms(2)]
  have *: "inv (server t) \<and> role_kept s t \<and> marked (server t) = marked (server s) \<and>
    present (server t) = present (server s) \<and>
    (\<forall>obs. x = Inr obs \<longrightarrow> set obs = marked (server s) (roleUUID t) \<and> distinct obs)"
  proof (cases y)
    case (Inl e)
    with assms r r1 show ?thesis by (auto simp: ListManaged_def run_simps)
  next
    case (Inr u)
    obtain z a' where c: "ListRoleObjectPermissions (marker_client m) u (server t1) = (z, a')"
      by (metis surj_pair)
    note l = list_permissions [OF c r1(1)]
    show ?thesis using assms(1) r c Inr l r1(1-4) r1(5) [OF Inr]
      by (auto simp: ListManaged_def run_simps f split: sum.splits)
  qed
  then show "inv (server t)" "role_kept s t" "marked (server t) = marked (server s)"
    "present (server t) = present (server s)"
    "x = Inr obs \<Longrightarrow> set obs = marked (server s) (roleUUID t) \<and> distinct obs" by auto
qed

lemma Unmark_spec:
  assumes "Unmark m ob s = (x, t)" and "inv (server s)"
  shows "inv (server t)" and "role_kept s t" and "present (server t) = present (server s)"
    and "x = Inr () \<Longrightarrow> marked (server t) = (marked (server s))(roleUUID t := marked (server s) (roleUUID t) - {ob})"
    and "x = Inl e \<Longrightarrow> marked (server t) = marked (server s)"
proof -
  obtain y t1 where r: "marker_role m s = (y, t1)" by (metis surj_pair)
  note r1 = marker_role_spec [OF r assms(2)]
  have *: "inv (server t) \<and> role_kept s t \<and> present (server t) = present (server s) \<and>
    (x = Inr () \<longrightarrow> marked (server t) = (marked (server s))(roleUUID t := marked (server s) (roleUUID t) - {ob})) \<and>
    (\<forall>e. x = Inl e \<longrightarrow> marked (server t) = marked (server s))"
  proof (cases y)
    case (Inl e)
    with assms r r1 show ?thesis by (auto simp: Unmark_def run_simps)
  next
    case (Inr u)
    obtain z a where c: "UnassignObjectPermission (marker_client m) u (obj_Model ob) (obj_PK ob)
        (viewPermission (obj_Model ob)) (server t1) = (z, a)"
      by (metis surj_pair)
    have t: "t = t1\<lparr>server := a\<rparr>"
      using assms(1) r c Inr by (auto simp: Unmark_def run_simps split: sum.splits)
    have k: "role_kept s t" using r1(4) unfolding t by (rule role_kept_server)
    show ?thesis
    proof (cases z)
      case (Inl e)
      then have "a = server t1" using unassign_error [OF c [unfolded Inl] r1(1)] by simp
      with k t r1 assms(1) r c Inr Inl show ?thesis by (auto simp: Unmark_def run_simps)
    next
      case z: (Inr v)
      show ?thesis
        using unassign [OF c [unfolded z] r1(1)] k t r1(2,3) r1(5) [OF Inr] assms(1) r c Inr z
        by (auto simp: Unmark_def run_simps)
    qed
  qed
  then show "inv (server t)" "role_kept s t" "present (server t) = present (server s)"
    "x = Inr () \<Longrightarrow> marked (server t) = (marked (server s))(roleUUID t := marked (server s) (roleUUID t) - {ob})"
    "x = Inl e \<Longrightarrow> marked (server t) = marked (server s)"
    by auto
qed

lemma MarkIfExists_inv:
  assumes "MarkIfExists m ob s = (x, t)" and "inv (server s)" and "markable (obj_Model ob)"
  shows "inv (server t)" and "role_kept s t" and "present (server t) = present (server s)"
proof -
  obtain y t1 where r: "marker_role m s = (y, t1)" by (metis surj_pair)
  note r1 = marker_role_spec [OF r assms(2)]
  have "inv (server t) \<and> role_kept s t \<and> present (server t) = present (server s)"
  proof (cases y)
    case (Inl e)
    with assms r r1 show ?thesis by (auto simp: MarkIfExists_def run_simps)
  next
    case (Inr u)
    obtain z a where c: "AssignObjectPermission (marker_client m) u (obj_Model ob) (obj_PK ob)
        (viewPermission (obj_Model ob)) (server t1) = (z, a)"
      by (metis surj_pair)
    have t: "t = t1\<lparr>server := a\<rparr>"
      using assms(1) r c Inr by (auto simp: MarkIfExists_def run_simps split: sum.splits if_splits)
    have k: "role_kept s t" using r1(4) unfolding t by (rule role_kept_server)
    show ?thesis
    proof (cases z)
      case (Inl e)
      with assign_error [OF c [unfolded Inl] r1(1)] k t r1 show ?thesis by simp
    next
      case z: (Inr v)
      with assign [OF c [unfolded z] r1(1) assms(3)] k t r1 show ?thesis by simp
    qed
  qed
  then show "inv (server t)" "role_kept s t" "present (server t) = present (server s)" by auto
qed

text \<open>For a marked object \<open>MarkIfExists\<close> decides existence and changes nothing.\<close>

lemma MarkIfExists_spec:
  assumes "MarkIfExists m ob s = (x, t)" and "inv (server s)"
    and "roleUUID s \<noteq> []" and "ob \<in> marked (server s) (roleUUID s)"
  shows "inv (server t)" and "t = s\<lparr>server := server t\<rparr>" and "present (server t) = present (server s)"
    and "marked (server t) = marked (server s)"
    and "x = Inr b \<Longrightarrow> b \<longleftrightarrow> present (server s) ob"
proof -
  have r: "marker_role m s = (Inr (roleUUID s), s)"
    using assms(3) by (simp add: marker_role_def run_simps)
  obtain z a where c: "AssignObjectPermission (marker_client m) (roleUUID s) (obj_Model ob) (obj_PK ob)
        (viewPermission (obj_Model ob)) (server s) = (z, a)"
    by (metis surj_pair)
  have t: "t = s\<lparr>server := a\<rparr>"
    using assms(1) r c by (auto simp: MarkIfExists_def run_simps split: sum.splits if_splits)
  have *: "inv (server t) \<and> t = s\<lparr>server := server t\<rparr> \<and> present (server t) = present (server s) \<and>
    marked (server t) = marked (server s) \<and> (\<forall>b. x = Inr b \<longrightarrow> (b \<longleftrightarrow> present (server s) ob))"
  proof (cases z)
    case (Inl e)
    show ?thesis
      using assign_error [OF c [unfolded Inl] assms(2)] t assms(1,2) r c Inl
      by (auto simp: MarkIfExists_def run_simps split: if_splits)
  next
    case (Inr v)
    have "x = Inr True" using assms(1) r c Inr by (auto simp: MarkIfExists_def run_simps)
    with assign [OF c [unfolded Inr] assms(2) markable_marked [OF assms(2,4)]] t assms(4)
    show ?thesis by (simp add: insert_absorb)
  qed
  then show "inv (server t)" "t = s\<lparr>server := server t\<rparr>" "present (server t) = present (server s)"
    "marked (server t) = marked (server s)" "x = Inr b \<Longrightarrow> b \<longleftrightarrow> present (server s) ob"
    by auto
qed

end

text \<open>The markable models: an app label without a dot, a dot, and the name of the model.\<close>

definition markable_model :: "string \<Rightarrow> bool" where
  "markable_model m \<longleftrightarrow>
     m \<in> {ModelApplication, ModelProxyProvider, ModelOAuth2Provider, ModelPolicyBinding}"

lemma viewPermission_modelOf:
  "CHR ''.'' \<notin> set appLabel \<Longrightarrow> viewPermission (modelOf appLabel name) = modelOf appLabel (''view_'' @ name)"
  by (simp add: viewPermission_def modelOf_def cut_append)

lemma model_modelOf:
  "ModelApplication = modelOf ''authentik_core'' ''application''"
  "ModelProxyProvider = modelOf ''authentik_providers_proxy'' ''proxyprovider''"
  "ModelOAuth2Provider = modelOf ''authentik_providers_oauth2'' ''oauth2provider''"
  "ModelPolicyBinding = modelOf ''authentik_policies'' ''policybinding''"
  by (simp_all add: model_defs modelOf_def)

lemma markable_modelOf:
  assumes "markable_model m"
  obtains appLabel name where "m = modelOf appLabel name" "CHR ''.'' \<notin> set appLabel"
proof -
  have "\<exists>l n. m = modelOf l n \<and> CHR ''.'' \<notin> set l"
    using assms unfolding markable_model_def model_modelOf
    by (elim insertE emptyE) ((intro exI conjI, assumption, simp)+)
  then show ?thesis using that by blast
qed

section \<open>The in-memory server\<close>

definition fake_named :: "fake \<Rightarrow> string \<Rightarrow> string set" where
  "fake_named c n = {u. \<exists>r. map_of (fake_roles c) u = Some r \<and> role_Name r = n}"

definition fake_marked :: "fake \<Rightarrow> string \<Rightarrow> Object set" where
  "fake_marked c r =
     (\<lambda>p. \<lparr>obj_Model = op_model p, obj_PK = op_objectPK p\<rparr>) ` {p \<in> set (fake_objectPermissions c). op_role p = r}"

definition fake_present :: "fake \<Rightarrow> Object \<Rightarrow> bool" where
  "fake_present c ob = objectExists c (obj_Model ob) (obj_PK ob)"

text \<open>
  The invariant of the server under the operator: every object permission is the marker of a
  markable model, held by a role that exists.
\<close>

definition wf_marks :: "fake \<Rightarrow> bool" where
  "wf_marks c \<longleftrightarrow>
     wf_fake c \<and> map_of (fake_roles c) [] = None \<and>
     (\<forall>p \<in> set (fake_objectPermissions c).
        markable_model (op_model p) \<and> op_permission p = viewPermission (op_model p) \<and>
        map_of (fake_roles c) (op_role p) \<noteq> None)"

lemma fake_marked_list:
  "fake_marked c r = set (map (\<lambda>p. \<lparr>obj_Model = op_model p, obj_PK = op_objectPK p\<rparr>)
     (filter (\<lambda>p. op_role p = r) (fake_objectPermissions c)))"
  by (simp add: fake_marked_def)

lemma permissionObject_toRole:
  assumes "markable_model (op_model p)" and "op_permission p = viewPermission (op_model p)"
  shows "permissionObject (toRoleObjectPermission p) = \<lparr>obj_Model = op_model p, obj_PK = op_objectPK p\<rparr>"
proof -
  obtain l n where m: "op_model p = modelOf l n" "CHR ''.'' \<notin> set l"
    using markable_modelOf [OF assms(1)] .
  then show ?thesis
    using assms(2)
    by (simp add: permissionObject_def toRoleObjectPermission_def viewPermission_modelOf)
       (simp add: modelOf_def cut_append)
qed

lemma wf_marks_frame: "stable wf_fake m \<Longrightarrow> keeps rbac_part m \<Longrightarrow> stable wf_marks m"
  unfolding steps_def pres_def same_def wf_marks_def rbac_part_def by simp

lemma fake_views [simp]:
  "fake_present (c\<lparr>fake_objectPermissions := ps\<rparr>) = fake_present c"
  "fake_present (c\<lparr>fake_sequence := n\<rparr>) = fake_present c"
  "fake_present (c\<lparr>fake_roles := rs\<rparr>) = fake_present c"
  "fake_named (c\<lparr>fake_objectPermissions := ps\<rparr>) = fake_named c"
  "fake_named (c\<lparr>fake_sequence := n\<rparr>) = fake_named c"
  "fake_marked (c\<lparr>fake_sequence := n\<rparr>) = fake_marked c"
  "fake_marked (c\<lparr>fake_roles := rs\<rparr>) = fake_marked c"
  by (simp_all add: fun_eq_iff fake_present_def fake_named_def fake_marked_def objectExists_def)

text \<open>The laws of the contract, one call at a time.\<close>

lemma fake_find_roles:
  assumes "FindRolesByName fake_client n c = (x, c')" and "wf_marks c"
  shows "c' = c \<and> (\<forall>roles. x = Inr roles \<longrightarrow> distinct (map role_Pk roles) \<and> role_Pk ` set roles = fake_named c n)"
proof -
  have wf: "wf_map role_Pk (fake_roles c)"
    using assms(2) by (simp add: wf_marks_def wf_fake_def)
  have x: "x = Inr (findAll (fake_roles c) (\<lambda>r. role_Name r = n))" "c' = c"
    using assms(1) by (auto simp: fake_FindRolesByName_def run_simps)
  have mem: "role_Pk r = u" if "(u, r) \<in> set (fake_roles c)" for u r
    using that wf_map_lookup [OF wf] by (simp add: wf_map_in [OF wf])
  have keys: "map (role_Pk \<circ> snd) (fake_roles c) = map fst (fake_roles c)"
    by (intro map_cong) (auto dest: mem)
  have "distinct (map (role_Pk \<circ> snd) (fake_roles c))"
    using wf by (simp add: keys wf_map_def)
  then have d: "distinct (map role_Pk (findAll (fake_roles c) P))" for P
    by (simp add: findAll_def distinct_map_filter comp_def)
  have "role_Pk ` set (findAll (fake_roles c) (\<lambda>r. role_Name r = n)) = fake_named c n"
    unfolding fake_named_def wf_map_in [OF wf, symmetric] findAll_def using mem by force
  with x d show ?thesis by simp
qed

lemma uuid_of_ne [simp]: "uuid_of n \<noteq> []" "[] \<noteq> uuid_of n"
  by (simp_all add: uuid_of_def)

lemma fake_create_role:
  assumes "CreateRole fake_client n c = (Inr role, c')" and "wf_marks c"
  shows "wf_marks c' \<and> role_Pk role \<noteq> [] \<and> fake_named c n = {} \<and> fake_named c' n = {role_Pk role} \<and>
     fake_marked c' = fake_marked c \<and> fake_present c' = fake_present c"
proof -
  have wf: "wf_map role_Pk (fake_roles c)"
    using assms(2) by (simp add: wf_marks_def wf_fake_def)
  let ?pk = "uuid_of (int32_of (fake_sequence c + 1))"
  let ?r = "\<lparr>role_Pk = ?pk, role_Name = n\<rparr>"
  have run: "\<not> list_ex (\<lambda>(uuid, r). role_Name r = n) (fake_roles c)" "role = ?r"
    "c' = c\<lparr>fake_sequence := int32_of (fake_sequence c + 1), fake_roles := AList.update ?pk ?r (fake_roles c)\<rparr>"
    using assms(1)
    by (auto simp: fake_CreateRole_def run_simps nextUUID_def nextPK_def Let_def split: if_splits)
  have none: "fake_named c n = {}"
    using run(1) by (auto simp: fake_named_def list_ex_iff dest!: map_of_SomeD)
  have "wf_fake c'"
    using stableD [OF wf_CreateRole, of n c "Inr role" c'] assms by (simp add: wf_marks_def)
  then have "wf_marks c'"
    using assms(2) unfolding wf_marks_def run(3) by (auto simp: AList.update_conv')
  moreover have "fake_named c' n = {?pk}"
    using none unfolding run(3) by (auto simp: fake_named_def AList.update_conv')
  moreover have "fake_marked c' = fake_marked c" "fake_present c' = fake_present c"
    unfolding run(3) by simp_all
  ultimately show ?thesis using none run(2) by (simp add: uuid_of_ne)
qed

lemma fake_create_role_error: "CreateRole fake_client n c = (Inl e, c') \<Longrightarrow> wf_marks c \<Longrightarrow> c' = c"
  by (auto simp: fake_CreateRole_def run_simps nextUUID_def nextPK_def Let_def split: if_splits)

lemma samePermission_view:
  "wf_marks c \<Longrightarrow> p \<in> set (fake_objectPermissions c) \<Longrightarrow>
   samePermission r m pk (viewPermission m) p \<longleftrightarrow>
   op_role p = r \<and> \<lparr>obj_Model = op_model p, obj_PK = op_objectPK p\<rparr> = \<lparr>obj_Model = m, obj_PK = pk\<rparr>"
  by (auto simp: samePermission_def wf_marks_def)

lemma fake_assign:
  assumes "AssignObjectPermission fake_client r m pk (viewPermission m) c = (Inr x, c')"
    and "wf_marks c" and "markable_model m"
  shows "wf_marks c' \<and> fake_named c' = fake_named c \<and> fake_present c' = fake_present c \<and>
     fake_present c \<lparr>obj_Model = m, obj_PK = pk\<rparr> \<and>
     fake_marked c' = (fake_marked c)(r := insert \<lparr>obj_Model = m, obj_PK = pk\<rparr> (fake_marked c r))"
proof -
  have ok: "map_of (fake_roles c) r \<noteq> None" "objectExists c m pk"
    using assms(1) by (auto simp: fake_AssignObjectPermission_def run_simps split: if_splits)
  show ?thesis
  proof (cases "list_ex (samePermission r m pk (viewPermission m)) (fake_objectPermissions c)")
    case True
    then have c: "c' = c"
      using assms(1) ok by (auto simp: fake_AssignObjectPermission_def run_simps split: if_splits)
    have "\<lparr>obj_Model = m, obj_PK = pk\<rparr> \<in> fake_marked c r"
      using True samePermission_view [OF assms(2)] by (auto simp: list_ex_iff fake_marked_def image_iff)
    then show ?thesis using assms(2) ok c by (simp add: fake_present_def insert_absorb)
  next
    case False
    then have c: "c' = c\<lparr>fake_sequence := int32_of (fake_sequence c + 1),
        fake_objectPermissions := fake_objectPermissions c @
          [\<lparr>op_id = int32_of (fake_sequence c + 1), op_role = r, op_model = m, op_objectPK = pk,
            op_permission = viewPermission m\<rparr>]\<rparr>"
      using assms(1) ok
      by (auto simp: fake_AssignObjectPermission_def run_simps nextPK_def Let_def split: if_splits)
    have "wf_marks c'"
      using assms(2,3) ok unfolding c wf_marks_def wf_fake_def by auto
    moreover have "fake_marked c' = (fake_marked c)(r := insert \<lparr>obj_Model = m, obj_PK = pk\<rparr> (fake_marked c r))"
      unfolding c by (simp add: fake_marked_list fun_eq_iff)
    ultimately show ?thesis
      using ok unfolding c by (simp add: fake_present_def)
  qed
qed

lemma object_pk_missing: "objectMissing (badRequest op ''object_pk'' ''Object does not exist.'')"
  by (simp add: objectMissing_def badRequest_def json_string_def json_char_def)

lemma fake_assign_error:
  assumes "AssignObjectPermission fake_client r m pk (viewPermission m) c = (Inl e, c')" and "wf_marks c"
  shows "c' = c \<and> (objectMissing e \<longrightarrow> \<not> fake_present c \<lparr>obj_Model = m, obj_PK = pk\<rparr>)"
  using assms
  by (auto simp: fake_AssignObjectPermission_def run_simps nextPK_def Let_def fake_present_def
      objectMissing_def notFound_def split: if_splits)

lemma fake_unassign:
  assumes "UnassignObjectPermission fake_client r m pk (viewPermission m) c = (Inr x, c')" and "wf_marks c"
  shows "wf_marks c' \<and> fake_named c' = fake_named c \<and> fake_present c' = fake_present c \<and>
     fake_marked c' = (fake_marked c)(r := fake_marked c r - {\<lparr>obj_Model = m, obj_PK = pk\<rparr>})"
proof -
  have c: "c' = c\<lparr>fake_objectPermissions :=
      filter (\<lambda>p. \<not> samePermission r m pk (viewPermission m) p) (fake_objectPermissions c)\<rparr>"
    using assms(1) by (auto simp: fake_UnassignObjectPermission_def run_simps split: if_splits)
  have "filter (\<lambda>p. \<not> samePermission r m pk (viewPermission m) p) (fake_objectPermissions c) =
    filter (\<lambda>p. \<not> (op_role p = r \<and> op_model p = m \<and> op_objectPK p = pk)) (fake_objectPermissions c)"
    using samePermission_view [OF assms(2)] by (intro filter_cong) auto
  then have "fake_marked c' = (fake_marked c)(r := fake_marked c r - {\<lparr>obj_Model = m, obj_PK = pk\<rparr>})"
    unfolding c by (auto simp: fake_marked_def fun_eq_iff)
  moreover have "wf_marks c'"
    using assms(2) unfolding c wf_marks_def wf_fake_def by auto
  ultimately show ?thesis
    unfolding c by simp
qed

lemma fake_unassign_error:
  "UnassignObjectPermission fake_client r m pk (viewPermission m) c = (Inl e, c') \<Longrightarrow> wf_marks c \<Longrightarrow> c' = c"
  by (auto simp: fake_UnassignObjectPermission_def run_simps split: if_splits)

lemma held_marked:
  assumes "wf_marks c"
  shows "permissionObject ` set (map toRoleObjectPermission (filter (\<lambda>p. op_role p = r)
           (fake_objectPermissions c))) = fake_marked c r"
  unfolding fake_marked_def set_map image_image set_filter using assms
  by (intro image_cong) (auto simp: wf_marks_def permissionObject_toRole)

lemma fake_list_permissions:
  assumes "ListRoleObjectPermissions fake_client r c = (x, c')" and "wf_marks c"
  shows "c' = c \<and> (\<forall>ps. x = Inr ps \<longrightarrow> permissionObject ` set ps = fake_marked c r)"
  using assms(1) held_marked [OF assms(2), of r]
  by (auto simp: fake_ListRoleObjectPermissions_def run_simps simp del: set_map)

lemma fake_list_roles:
  assumes "ListObjectPermissionRoles fake_client m pk c = (x, c')" and "wf_marks c"
  shows "c' = c \<and> (\<forall>as. x = Inr as \<longrightarrow>
     (\<exists>a \<in> set as. assigned_RolePk a = r \<and>
       (\<exists>p \<in> set (assigned_ObjectPermissions a). permissionObject p = \<lparr>obj_Model = m, obj_PK = pk\<rparr>)) \<longleftrightarrow>
     \<lparr>obj_Model = m, obj_PK = pk\<rparr> \<in> fake_marked c r)"
proof -
  let ?held = "\<lambda>u. map toRoleObjectPermission (filter (\<lambda>p. op_role p = u) (fake_objectPermissions c))"
  have held: "(\<exists>p \<in> set (?held u). permissionObject p = ob) \<longleftrightarrow> ob \<in> fake_marked c u" for u ob
    unfolding held_marked [OF assms(2), symmetric] by (auto simp del: set_map)
  have role: "\<exists>ro. (r, ro) \<in> set (fake_roles c)" if "ob \<in> fake_marked c r" for ob
    using that assms(2) by (force simp: fake_marked_def wf_marks_def dest: map_of_SomeD)
  have x: "c' = c" "x = Inr (map (\<lambda>(u, ro). \<lparr> assigned_RolePk = u, assigned_ObjectPermissions = ?held u \<rparr>)
      (filter (\<lambda>(u, ro). list_ex (\<lambda>p. op_role p = u \<and> op_model p = m \<and> op_objectPK p = pk)
         (fake_objectPermissions c)) (fake_roles c)))"
    using assms(1) by (auto simp: fake_ListObjectPermissionRoles_def run_simps)
  have on: "list_ex (\<lambda>p. op_role p = u \<and> op_model p = m \<and> op_objectPK p = pk) (fake_objectPermissions c) \<longleftrightarrow>
      \<lparr>obj_Model = m, obj_PK = pk\<rparr> \<in> fake_marked c u" for u
    by (auto simp: list_ex_iff fake_marked_def image_iff)
  show ?thesis unfolding x on using role held by (auto simp: Bex_def)
qed

lemma fake_named_ne: "wf_marks c \<Longrightarrow> u \<in> fake_named c n \<Longrightarrow> u \<noteq> []"
  by (auto simp: fake_named_def wf_marks_def)

lemma fake_markable: "wf_marks c \<Longrightarrow> ob \<in> fake_marked c r \<Longrightarrow> markable_model (obj_Model ob)"
  by (auto simp: fake_marked_def wf_marks_def)

interpretation fake_rbac: rbac_api fake_client wf_marks fake_named fake_marked fake_present markable_model
  by unfold_locales (fact fake_find_roles fake_create_role fake_create_role_error fake_assign
      fake_assign_error fake_unassign fake_unassign_error fake_list_permissions fake_list_roles
      fake_named_ne fake_markable)+

text \<open>The marker of an operator that talks to the in-memory server.\<close>

definition fake_marker :: "string \<Rightarrow> fake Marker" where
  "fake_marker name = \<lparr> marker_client = fake_client, marker_roleName = name \<rparr>"

interpretation fake_mk: marker "fake_marker name" wf_marks fake_named fake_marked fake_present markable_model
  for name
  unfolding marker_def fake_marker_def Marker.select_convs by (rule fake_rbac.rbac_api_axioms)

end
