(* ===== verification/MarkerCache.thy ===== *)
theory MarkerCache
  imports Ownership
begin

text \<open>
  The cached marker list shared by every reconcile (\<open>internal/controller/markers.go\<close>) and the
  collection of orphaned markers (\<open>internal/controller/gc.go\<close>). The state extends the one of
  \<open>Marker\<close> with the list (\<open>None\<close> is a nil map), the time it was read, and the clock, a stream of
  readings. Each method holds the mutex from its first to its last step, so it is one atomic step;
  \<open>collect\<close> releases the mutex between objects and is a sequence of such steps.

  The locale \<open>marker_cache\<close> proves, for every client that satisfies \<open>rbac_api\<close>, also one whose
  calls may fail, that the list agrees with the server: \<open>cache_ok\<close> is the invariant.
\<close>

section \<open>Model\<close>

record 'a cache_state = "'a marker_state" +
  objects :: "Object list option"
  fetched :: int
  clock :: "nat \<Rightarrow> int"
  ticks :: nat

text \<open>The settings of a \<open>markerCache\<close>, over a state \<open>'s\<close> that extends \<open>cache_state\<close>.\<close>

record ('a, 's) markerCacheOn =
  cache_marker :: "'a Marker"
  cache_ttl :: int
  cache_onRoleRecreated :: "'s \<Rightarrow> 's"

type_synonym ('a, 'z) markerCache = "('a, ('a, 'z) cache_state_scheme) markerCacheOn"

definition nowE :: "(('a, 'z) cache_state_scheme, goerror, int) go" where
  "nowE = (\<lambda>s. (Inr (clock s (ticks s)), s\<lparr>ticks := Suc (ticks s)\<rparr>))"

definition refreshLocked :: "('a, 'z) markerCache \<Rightarrow> (('a, 'z) cache_state_scheme, goerror, unit) go" where
  "refreshLocked c =
     bindE (readE objects) (\<lambda>obs.
     bindE (if obs = None then retE False
            else bindE nowE (\<lambda>now. bindE (readE fetched) (\<lambda>at. retE (now - at < cache_ttl c)))) (\<lambda>current.
     if current then retE ()
     else
       bindE (EnsureRole (cache_marker c)) (\<lambda>(uuid, previous).
       thenE (if previous \<noteq> [] \<and> previous \<noteq> uuid then modifyE (cache_onRoleRecreated c) else retE ())
       (bindE (ListManaged (cache_marker c)) (\<lambda>listed.
        thenE (modifyE (\<lambda>s. s\<lparr>objects := Some listed\<rparr>))
        (bindE nowE (\<lambda>now. modifyE (\<lambda>s. s\<lparr>fetched := now\<rparr>))))))))"

definition cached :: "Object \<Rightarrow> ('a, 'z) cache_state_scheme \<Rightarrow> bool" where
  "cached ob s = (case objects s of None \<Rightarrow> False | Some obs \<Rightarrow> ob \<in> set obs)"

text \<open>\<open>c.objects[object] = struct{}{}\<close>, which panics on a nil map.\<close>

definition addObject :: "Object \<Rightarrow> (('a, 'z) cache_state_scheme, goerror, unit) go" where
  "addObject ob =
     bindE (readE objects) (\<lambda>obs. case obs of
       None \<Rightarrow> throwE (PlainError ''panic: assignment to entry in nil map'')
     | Some l \<Rightarrow> modifyE (\<lambda>s. s\<lparr>objects := Some (List.insert ob l)\<rparr>))"

definition deleteObject :: "Object \<Rightarrow> (('a, 'z) cache_state_scheme, goerror, unit) go" where
  "deleteObject ob = modifyE (\<lambda>s. s\<lparr>objects := map_option (removeAll ob) (objects s)\<rparr>)"

definition cache_contains :: "('a, 'z) markerCache \<Rightarrow> Object \<Rightarrow> (('a, 'z) cache_state_scheme, goerror, bool) go" where
  "cache_contains c ob = thenE (refreshLocked c) (readE (cached ob))"

definition cache_isManaged :: "('a, 'z) markerCache \<Rightarrow> Object \<Rightarrow> (('a, 'z) cache_state_scheme, goerror, bool) go" where
  "cache_isManaged c ob =
     thenE (refreshLocked c)
     (bindE (readE (cached ob)) (\<lambda>ok.
      if ok then retE True
      else bindE (IsManaged (cache_marker c) ob) (\<lambda>managed.
        if \<not> managed then retE False else thenE (addObject ob) (retE True))))"

definition cache_ensure :: "('a, 'z) markerCache \<Rightarrow> Object \<Rightarrow> (('a, 'z) cache_state_scheme, goerror, unit) go" where
  "cache_ensure c ob =
     thenE (refreshLocked c)
     (bindE (readE (cached ob)) (\<lambda>ok.
      if ok then retE () else thenE (Mark (cache_marker c) ob) (addObject ob)))"

definition cache_remove :: "('a, 'z) markerCache \<Rightarrow> Object \<Rightarrow> (('a, 'z) cache_state_scheme, goerror, unit) go" where
  "cache_remove c ob = thenE (Unmark (cache_marker c) ob) (deleteObject ob)"

definition removeIfOrphaned :: "('a, 'z) markerCache \<Rightarrow> Object \<Rightarrow> (('a, 'z) cache_state_scheme, goerror, bool) go" where
  "removeIfOrphaned c ob =
     bindE (readE (cached ob)) (\<lambda>ok.
     if \<not> ok then retE False
     else bindE (MarkIfExists (cache_marker c) ob) (\<lambda>exists.
       if exists then retE False
       else thenE (Unmark (cache_marker c) ob) (thenE (deleteObject ob) (retE True))))"

text \<open>The first critical section of \<open>collect\<close>: the objects to check.\<close>

definition collect_begin :: "('a, 'z) markerCache \<Rightarrow> (('a, 'z) cache_state_scheme, goerror, Object list) go" where
  "collect_begin c =
     thenE (modifyE (\<lambda>s. s\<lparr>objects := None\<rparr>))
     (thenE (refreshLocked c) (readE (\<lambda>s. case objects s of None \<Rightarrow> [] | Some obs \<Rightarrow> obs)))"

definition collect_one :: "('a, 'z) markerCache \<Rightarrow> nat \<Rightarrow> Object \<Rightarrow> (('a, 'z) cache_state_scheme, goerror, nat) go" where
  "collect_one c removed ob =
     bindE (removeIfOrphaned c ob) (\<lambda>orphaned. retE (if orphaned then Suc removed else removed))"

definition collect :: "('a, 'z) markerCache \<Rightarrow> (('a, 'z) cache_state_scheme, goerror, nat) go" where
  "collect c =
     bindE (collect_begin c) (\<lambda>obs.
     foldE obs (collect_one c) 0)"

section \<open>The list agrees with the server\<close>

lemma run_collect_one:
  "collect_one c k ob s = (case removeIfOrphaned c ob s of
     (Inl e, t) \<Rightarrow> (Inl e, t) | (Inr orphaned, t) \<Rightarrow> (Inr (if orphaned then Suc k else k), t))"
  by (auto simp: collect_one_def run_simps split: prod.splits sum.splits)

lemma run_fold_Cons:
  "foldE (x # xs) f b s = (case f b x s of (Inl e, t) \<Rightarrow> (Inl e, t) | (Inr b', t) \<Rightarrow> foldE xs f b' t)"
  by (simp add: run_simps)

lemma run_now [run_simps]: "nowE s = (Inr (clock s (ticks s)), s\<lparr>ticks := Suc (ticks s)\<rparr>)"
  by (simp add: nowE_def)

definition is_fresh :: "('a, 'z) markerCache \<Rightarrow> ('a, 'z) cache_state_scheme \<Rightarrow> bool" where
  "is_fresh c s \<longleftrightarrow> clock s (ticks s) - fetched s < cache_ttl c"

text \<open>The list is read at most once per TTL: while it is fresh, no call is made.\<close>

lemma refresh_fresh:
  "objects s = Some obs \<Longrightarrow> is_fresh c s \<Longrightarrow> refreshLocked c s = (Inr (), s\<lparr>ticks := Suc (ticks s)\<rparr>)"
  by (simp add: refreshLocked_def run_simps is_fresh_def)

lemma refresh_stale:
  assumes "objects s = None \<or> \<not> is_fresh c s"
  shows "refreshLocked c s =
    bindE (EnsureRole (cache_marker c)) (\<lambda>(uuid, previous).
       thenE (if previous \<noteq> [] \<and> previous \<noteq> uuid then modifyE (cache_onRoleRecreated c) else retE ())
       (bindE (ListManaged (cache_marker c)) (\<lambda>listed.
        thenE (modifyE (\<lambda>s. s\<lparr>objects := Some listed\<rparr>))
        (bindE nowE (\<lambda>now. modifyE (\<lambda>s. s\<lparr>fetched := now\<rparr>))))))
     (if objects s = None then s else s\<lparr>ticks := Suc (ticks s)\<rparr>)"
  using assms by (auto simp: refreshLocked_def run_simps is_fresh_def)

text \<open>
  \<open>list_synced\<close>: the list is exactly the set of objects that the server has marked for the role.
  \<open>list_ok\<close>: that holds whenever the list is fresh; a list that could not be read again after it
  expired may be out of date, but then every method reads it again before using it.
\<close>

definition list_synced :: "('a \<Rightarrow> bool) \<Rightarrow> ('a \<Rightarrow> string \<Rightarrow> Object set) \<Rightarrow> ('a, 'z) cache_state_scheme \<Rightarrow> bool" where
  "list_synced good marked s \<longleftrightarrow> good (server s) \<and> mono (clock s) \<and> roleUUID s \<noteq> [] \<and>
     (\<exists>obs. objects s = Some obs \<and> distinct obs \<and> set obs = marked (server s) (roleUUID s))"

definition list_ok :: "('a, 'z) markerCache \<Rightarrow> ('a \<Rightarrow> bool) \<Rightarrow> ('a \<Rightarrow> string \<Rightarrow> Object set) \<Rightarrow> (string \<Rightarrow> bool) \<Rightarrow>
    ('a, 'z) cache_state_scheme \<Rightarrow> bool" where
  "list_ok c good marked markable s \<longleftrightarrow> good (server s) \<and> mono (clock s) \<and>
     (\<forall>obs. objects s = Some obs \<longrightarrow>
        distinct obs \<and> (\<forall>ob \<in> set obs. markable (obj_Model ob)) \<and> roleUUID s \<noteq> [] \<and>
        (is_fresh c s \<longrightarrow> set obs = marked (server s) (roleUUID s)))"

text \<open>
  The interleavings of the methods with the other work of the operator: each method is one step,
  \<open>collect\<close> is a \<open>start\<close> step and one \<open>orphan\<close> step per object, a write of the controller leaves the
  markers alone, and time passes.
\<close>

inductive cache_step ::
  "('a, 'z) markerCache \<Rightarrow> ('a \<Rightarrow> bool) \<Rightarrow> ('a \<Rightarrow> string \<Rightarrow> Object set) \<Rightarrow> (string \<Rightarrow> bool) \<Rightarrow>
   ('a, 'z) cache_state_scheme \<Rightarrow> ('a, 'z) cache_state_scheme \<Rightarrow> bool"
  for c good marked markable where
  contains: "cache_contains c ob s = (x, t) \<Longrightarrow> cache_step c good marked markable s t"
| isManaged: "cache_isManaged c ob s = (x, t) \<Longrightarrow> cache_step c good marked markable s t"
| ensure: "cache_ensure c ob s = (y, t) \<Longrightarrow> markable (obj_Model ob) \<Longrightarrow> cache_step c good marked markable s t"
| remove: "cache_remove c ob s = (y, t) \<Longrightarrow> cache_step c good marked markable s t"
| start: "collect_begin c s = (z, t) \<Longrightarrow> cache_step c good marked markable s t"
| orphan: "removeIfOrphaned c ob s = (x, t) \<Longrightarrow> cache_step c good marked markable s t"
| other: "good a \<Longrightarrow> marked a = marked (server s) \<Longrightarrow> cache_step c good marked markable s (s\<lparr>server := a\<rparr>)"
| pass: "ticks s \<le> n \<Longrightarrow> cache_step c good marked markable s (s\<lparr>ticks := n\<rparr>)"

locale marker_cache = marker "cache_marker c" inv named marked present markable
  for c :: "('a, 'z) markerCache" and inv named marked present markable +
  assumes onRoleRecreated_frame:
    "cache_state.truncate (cache_onRoleRecreated c s) = cache_state.truncate s"
begin

abbreviation synced :: "('a, 'z) cache_state_scheme \<Rightarrow> bool" where
  "synced \<equiv> list_synced inv marked"

abbreviation cache_ok :: "('a, 'z) cache_state_scheme \<Rightarrow> bool" where
  "cache_ok \<equiv> list_ok c inv marked markable"

lemma synced_ok: "synced s \<Longrightarrow> cache_ok s"
  by (auto simp: list_synced_def list_ok_def dest: markable_marked)

lemma hook_frame:
  "server (cache_onRoleRecreated c s) = server s" "roleUUID (cache_onRoleRecreated c s) = roleUUID s"
  "objects (cache_onRoleRecreated c s) = objects s" "fetched (cache_onRoleRecreated c s) = fetched s"
  "clock (cache_onRoleRecreated c s) = clock s" "ticks (cache_onRoleRecreated c s) = ticks s"
  using onRoleRecreated_frame [of s] by (simp_all add: cache_state.defs)

text \<open>Only the server and the role change in a method of \<open>Marker\<close>.\<close>

lemma role_kept_frame:
  assumes "role_kept s t"
  shows "objects t = objects s" "fetched t = fetched s" "clock t = clock s" "ticks t = ticks s"
  using assms by (cases s; cases t; simp add: role_kept_def)+

lemma stale_tick:
  assumes "mono (clock s)" and "\<not> is_fresh c s"
  shows "\<not> is_fresh c (s\<lparr>ticks := Suc (ticks s)\<rparr>)"
  using assms monoD [OF assms(1), of "ticks s" "Suc (ticks s)"] by (simp add: is_fresh_def)

lemma fresh_same:
  "clock t = clock s \<Longrightarrow> ticks t = ticks s \<Longrightarrow> fetched t = fetched s \<Longrightarrow> is_fresh c t = is_fresh c s"
  by (simp add: is_fresh_def)

text \<open>The part of \<open>refreshLocked\<close> that talks to the server.\<close>

lemma reread_spec:
  fixes s :: "('a, 'z) cache_state_scheme"
  assumes run: "bindE (EnsureRole (cache_marker c)) (\<lambda>(uuid, previous).
       thenE (if previous \<noteq> [] \<and> previous \<noteq> uuid then modifyE (cache_onRoleRecreated c) else retE ())
       (bindE (ListManaged (cache_marker c)) (\<lambda>listed.
        thenE (modifyE (\<lambda>s. s\<lparr>objects := Some listed\<rparr>))
        (bindE nowE (\<lambda>now. modifyE (\<lambda>s. s\<lparr>fetched := now\<rparr>)))))) s = (x, t)"
    and ok: "inv (server s)" "mono (clock s)"
  shows "inv (server t) \<and> marked (server t) = marked (server s) \<and> present (server t) = present (server s) \<and>
    clock t = clock s \<and> (x = Inr () \<longrightarrow> synced t) \<and>
    (x \<noteq> Inr () \<longrightarrow> objects t = objects s \<and> fetched t = fetched s \<and> ticks t = ticks s \<and>
       (roleUUID s \<noteq> [] \<longrightarrow> roleUUID t \<noteq> []))"
proof -
  obtain y s1 where e: "EnsureRole (cache_marker c) s = (y, s1)" by (metis surj_pair)
  note e1 = EnsureRole_spec [OF e ok(1)]
  have f1: "objects s1 = objects s" "fetched s1 = fetched s" "clock s1 = clock s" "ticks s1 = ticks s"
    using e1 by (cases s; cases s1; simp)+
  show ?thesis
  proof (cases y)
    case (Inl err)
    with run e e1 ok show ?thesis by (auto simp: run_simps)
  next
    case (Inr uv)
    obtain u v where uv: "uv = (u, v)" by (cases uv)
    define s2 where "s2 = (if v \<noteq> [] \<and> v \<noteq> u then cache_onRoleRecreated c s1 else s1)"
    have f2: "server s2 = server s1" "roleUUID s2 = u" "u \<noteq> []" "objects s2 = objects s" "fetched s2 = fetched s"
      "clock s2 = clock s" "ticks s2 = ticks s"
      using e1 Inr uv f1 by (auto simp: s2_def hook_frame)
    obtain z s3 where l: "ListManaged (cache_marker c) s2 = (z, s3)" by (metis surj_pair)
    have ok2: "inv (server s2)" using e1 f2 by simp
    note l1 = ListManaged_spec [OF l ok2] and f3 = role_kept_frame [OF ListManaged_spec(2) [OF l ok2]]
    have r3: "roleUUID s3 = u" using l1(2) f2(2,3) by (simp add: role_kept_def)
    have after: "bindE (ListManaged (cache_marker c)) (\<lambda>listed.
        thenE (modifyE (\<lambda>s. s\<lparr>objects := Some listed\<rparr>))
        (bindE nowE (\<lambda>now. modifyE (\<lambda>s. s\<lparr>fetched := now\<rparr>)))) s2 = (x, t)"
      using run e Inr uv by (auto simp: run_simps s2_def split: if_splits)
    show ?thesis
    proof (cases z)
      case (Inl err)
      with after l l1 f3 f2 e1 r3 show ?thesis by (auto simp: run_simps)
    next
      case (Inr listed)
      with after l have t: "t = s3\<lparr>objects := Some listed, ticks := Suc (ticks s3), fetched := clock s3 (ticks s3)\<rparr>"
        "x = Inr ()"
        by (auto simp: run_simps)
      show ?thesis using l1(1,3,4) l1(5) [OF Inr] f3 f2 e1 r3 ok unfolding t by (auto simp: list_synced_def)
    qed
  qed
qed

lemma refresh_spec:
  assumes "refreshLocked c s = (x, t)" and "cache_ok s"
  shows "cache_ok t" and "marked (server t) = marked (server s)" and "present (server t) = present (server s)"
    and "x = Inr () \<Longrightarrow> synced t"
proof -
  have ok: "inv (server s)" "mono (clock s)" using assms(2) by (auto simp: list_ok_def)
  have "cache_ok t \<and> marked (server t) = marked (server s) \<and> present (server t) = present (server s) \<and>
    (x = Inr () \<longrightarrow> synced t)"
  proof (cases "objects s = None \<or> \<not> is_fresh c s")
    case False
    then obtain obs where obs: "objects s = Some obs" "is_fresh c s" by auto
    have "x = Inr ()" "t = s\<lparr>ticks := Suc (ticks s)\<rparr>"
      using assms(1) refresh_fresh [OF obs] by auto
    moreover have "synced (s\<lparr>ticks := Suc (ticks s)\<rparr>)"
      using assms(2) obs by (auto simp: list_synced_def list_ok_def)
    ultimately show ?thesis using synced_ok by auto
  next
    case True
    let ?s = "if objects s = None then s else s\<lparr>ticks := Suc (ticks s)\<rparr>"
    note r = reread_spec [OF assms(1) [unfolded refresh_stale [OF True]]]
    have r': "inv (server t)" "marked (server t) = marked (server s)" "present (server t) = present (server s)"
      "clock t = clock s" "x = Inr () \<Longrightarrow> synced t"
      "x \<noteq> Inr () \<Longrightarrow> objects t = objects s \<and> fetched t = fetched s \<and> ticks t = ticks ?s \<and>
         (roleUUID s \<noteq> [] \<longrightarrow> roleUUID t \<noteq> [])"
      using r ok by (auto split: if_splits)
    have "cache_ok t" if x: "x \<noteq> Inr ()"
    proof -
      have "\<not> is_fresh c t" if "objects s \<noteq> None"
        using True that stale_tick [OF ok(2)] r'(4) r'(6) [OF x] by (simp add: is_fresh_def)
      then show ?thesis
        using assms(2) r'(1,4) r'(6) [OF x] unfolding list_ok_def by auto
    qed
    with r' synced_ok show ?thesis by blast
  qed
  then show "cache_ok t" "marked (server t) = marked (server s)" "present (server t) = present (server s)"
    "x = Inr () \<Longrightarrow> synced t" by auto
qed

text \<open>The methods: the invariant, what changes on the server, and the result.\<close>

lemma syncedE:
  assumes "synced s"
  obtains obs where "inv (server s)" "mono (clock s)" "roleUUID s \<noteq> []" "objects s = Some obs" "distinct obs"
    "set obs = marked (server s) (roleUUID s)"
  using assms unfolding list_synced_def by (elim conjE exE)

lemma cached_synced: "synced s \<Longrightarrow> cached ob s \<longleftrightarrow> ob \<in> marked (server s) (roleUUID s)"
  by (erule syncedE) (simp add: cached_def)

lemma contains_spec:
  assumes "cache_contains c ob s = (x, t)" and "cache_ok s"
  shows "cache_ok t" and "marked (server t) = marked (server s)" and "present (server t) = present (server s)"
    and "x = Inr b \<Longrightarrow> synced t \<and> (b \<longleftrightarrow> ob \<in> marked (server t) (roleUUID t))"
proof -
  obtain y s1 where r: "refreshLocked c s = (y, s1)" by (metis surj_pair)
  have t: "t = s1" "x = Inr b \<Longrightarrow> y = Inr () \<and> b = cached ob s1"
    using assms(1) r by (auto simp: cache_contains_def run_simps split: sum.splits)
  note r1 = refresh_spec [OF r assms(2)]
  show "cache_ok t" "marked (server t) = marked (server s)" "present (server t) = present (server s)"
    using r1 by (simp_all add: t)
  show "synced t \<and> (b \<longleftrightarrow> ob \<in> marked (server t) (roleUUID t))" if "x = Inr b"
    using t(2) [OF that] r1(4) cached_synced by (simp add: t(1))
qed

lemma isManaged_spec:
  assumes "cache_isManaged c ob s = (x, t)" and "cache_ok s"
  shows "cache_ok t" and "marked (server t) = marked (server s)" and "present (server t) = present (server s)"
    and "x = Inr b \<Longrightarrow> synced t \<and> (b \<longleftrightarrow> ob \<in> marked (server t) (roleUUID t))"
proof -
  obtain y s1 where r: "refreshLocked c s = (y, s1)" by (metis surj_pair)
  note r1 = refresh_spec [OF r assms(2)]
  have *: "cache_ok t \<and> marked (server t) = marked (server s) \<and> present (server t) = present (server s) \<and>
    (\<forall>b. x = Inr b \<longrightarrow> synced t \<and> (b \<longleftrightarrow> ob \<in> marked (server t) (roleUUID t)))"
  proof (cases y)
    case (Inl e)
    with assms r r1 show ?thesis by (auto simp: cache_isManaged_def run_simps)
  next
    case (Inr u)
    note sy = r1(4) [unfolded Inr, simplified]
    then obtain obs where obs: "objects s1 = Some obs" "set obs = marked (server s1) (roleUUID s1)" "distinct obs"
      by (elim syncedE)
    show ?thesis
    proof (cases "cached ob s1")
      case True
      with assms r Inr r1 sy obs show ?thesis
        by (auto simp: cache_isManaged_def run_simps cached_def)
    next
      case False
      obtain z s2 where i: "IsManaged (cache_marker c) ob s1 = (z, s2)" by (metis surj_pair)
      have inv: "inv (server s1)" using sy by (simp add: list_synced_def)
      note i1 = IsManaged_spec [OF i inv]
      have k: "roleUUID s2 = roleUUID s1" using i1(2) sy by (auto simp: role_kept_def list_synced_def)
      have sy2: "synced s2" using sy i1 role_kept_frame [OF i1(2)] k by (auto simp: list_synced_def)
      have nb: "z \<noteq> Inr True"
        using i1(5) [of True] False obs k by (auto simp: cached_def)
      have "t = s2" "\<forall>b. x = Inr b \<longrightarrow> z = Inr b"
        using assms(1) r Inr i False nb
        by (auto simp: cache_isManaged_def run_simps split: sum.splits if_splits)
      with i1 r1 sy2 synced_ok k show ?thesis by auto
    qed
  qed
  then show "cache_ok t" "marked (server t) = marked (server s)" "present (server t) = present (server s)"
    "x = Inr b \<Longrightarrow> synced t \<and> (b \<longleftrightarrow> ob \<in> marked (server t) (roleUUID t))" by auto
qed

lemma ensure_spec:
  assumes "cache_ensure c ob s = (x, t)" and "cache_ok s" and "markable (obj_Model ob)"
  shows "cache_ok t" and "present (server t) = present (server s)"
    and "marked (server t) = marked (server s) \<or>
         marked (server t) = (marked (server s))(roleUUID t := insert ob (marked (server s) (roleUUID t)))"
    and "x = Inr () \<Longrightarrow> synced t \<and> ob \<in> marked (server t) (roleUUID t)"
proof -
  obtain y s1 where r: "refreshLocked c s = (y, s1)" by (metis surj_pair)
  note r1 = refresh_spec [OF r assms(2)]
  have *: "cache_ok t \<and> present (server t) = present (server s) \<and>
    (marked (server t) = marked (server s) \<or>
     marked (server t) = (marked (server s))(roleUUID t := insert ob (marked (server s) (roleUUID t)))) \<and>
    (x = Inr () \<longrightarrow> synced t \<and> ob \<in> marked (server t) (roleUUID t))"
  proof (cases y)
    case (Inl e)
    with assms r r1 show ?thesis by (auto simp: cache_ensure_def run_simps)
  next
    case (Inr u)
    note sy = r1(4) [unfolded Inr, simplified]
    then obtain obs where obs: "objects s1 = Some obs" "set obs = marked (server s1) (roleUUID s1)" "distinct obs"
      by (elim syncedE)
    show ?thesis
    proof (cases "cached ob s1")
      case True
      with assms r Inr r1 sy obs show ?thesis
        by (auto simp: cache_ensure_def run_simps cached_def)
    next
      case False
      obtain z s2 where i: "Mark (cache_marker c) ob s1 = (z, s2)" by (metis surj_pair)
      have inv: "inv (server s1)" using sy by (simp add: list_synced_def)
      note i1 = Mark_spec [OF i inv assms(3)] and f = role_kept_frame [OF Mark_spec(2) [OF i inv assms(3)]]
      have k: "roleUUID s2 = roleUUID s1" using i1(2) sy by (auto simp: role_kept_def list_synced_def)
      show ?thesis
      proof (cases z)
        case (Inl e)
        then have "t = s2" "x = Inl e"
          using assms(1) r Inr i False by (auto simp: cache_ensure_def run_simps)
        moreover have "synced s2" using sy i1(1) i1(5) [OF Inl] f k by (auto simp: list_synced_def)
        ultimately show ?thesis using i1(3) i1(5) [OF Inl] r1 synced_ok by auto
      next
        case z: (Inr v)
        have t: "t = s2\<lparr>objects := Some (List.insert ob obs)\<rparr>" "x = Inr ()"
          using assms(1) r Inr i False z f obs
          by (auto simp: cache_ensure_def run_simps addObject_def)
        have m: "marked (server s2) = (marked (server s1))(roleUUID s2 := insert ob (marked (server s1) (roleUUID s2)))"
          using i1(4) z by simp
        have "synced t" using sy i1(1) f k obs unfolding t by (auto simp: list_synced_def m)
        then show ?thesis using i1(3) r1 m synced_ok unfolding t by auto
      qed
    qed
  qed
  then show "cache_ok t" "present (server t) = present (server s)"
    "marked (server t) = marked (server s) \<or>
         marked (server t) = (marked (server s))(roleUUID t := insert ob (marked (server s) (roleUUID t)))"
    "x = Inr () \<Longrightarrow> synced t \<and> ob \<in> marked (server t) (roleUUID t)" by auto
qed

lemma remove_spec:
  assumes "cache_remove c ob s = (x, t)" and "cache_ok s"
  shows "cache_ok t" and "present (server t) = present (server s)"
    and "x = Inr () \<Longrightarrow> marked (server t) = (marked (server s))(roleUUID t := marked (server s) (roleUUID t) - {ob})"
    and "x = Inl e \<Longrightarrow> marked (server t) = marked (server s)"
proof -
  obtain y s1 where r: "Unmark (cache_marker c) ob s = (y, s1)" by (metis surj_pair)
  have inv: "inv (server s)" using assms(2) by (simp add: list_ok_def)
  note r1 = Unmark_spec [OF r inv] and f = role_kept_frame [OF Unmark_spec(2) [OF r inv]]
  have k: "roleUUID s \<noteq> [] \<Longrightarrow> roleUUID s1 = roleUUID s" using r1(2) by (auto simp: role_kept_def)
  have fr: "is_fresh c s1 = is_fresh c s" using f by (simp add: is_fresh_def)
  have *: "cache_ok t \<and> present (server t) = present (server s) \<and>
    (x = Inr () \<longrightarrow> marked (server t) = (marked (server s))(roleUUID t := marked (server s) (roleUUID t) - {ob})) \<and>
    (\<forall>e. x = Inl e \<longrightarrow> marked (server t) = marked (server s))"
  proof (cases y)
    case (Inl e)
    then have "t = s1" "x = Inl e" using assms(1) r by (auto simp: cache_remove_def run_simps)
    moreover have "cache_ok s1"
      using assms(2) r1(1) r1(5) [OF Inl] f k fr by (auto simp: list_ok_def)
    ultimately show ?thesis using r1(3) r1(5) [OF Inl] by auto
  next
    case (Inr u)
    then have t: "t = s1\<lparr>objects := map_option (removeAll ob) (objects s1)\<rparr>" "x = Inr ()"
      using assms(1) r by (auto simp: cache_remove_def run_simps deleteObject_def)
    have m: "marked (server s1) = (marked (server s))(roleUUID s1 := marked (server s) (roleUUID s1) - {ob})"
      using r1(4) Inr by simp
    have frt: "is_fresh c t = is_fresh c s" using fr by (simp add: t is_fresh_def)
    have "cache_ok t" unfolding list_ok_def frt
      using assms(2) r1(1) m f k unfolding t list_ok_def by (auto simp: distinct_removeAll)
    then show ?thesis using r1(3) m t by auto
  qed
  then show "cache_ok t" "present (server t) = present (server s)"
    "x = Inr () \<Longrightarrow> marked (server t) = (marked (server s))(roleUUID t := marked (server s) (roleUUID t) - {ob})"
    "x = Inl e \<Longrightarrow> marked (server t) = marked (server s)" by auto
qed

lemma removeIfOrphaned_synced:
  assumes "removeIfOrphaned c ob s = (x, t)" and "synced s"
  shows "synced t" and "roleUUID t = roleUUID s" and "present (server t) = present (server s)"
    and "x = Inr b \<Longrightarrow> b \<longleftrightarrow> ob \<in> marked (server s) (roleUUID s) \<and> \<not> present (server s) ob"
    and "x = Inr b \<Longrightarrow> marked (server t) =
           (if b then (marked (server s))(roleUUID s := marked (server s) (roleUUID s) - {ob}) else marked (server s))"
proof -
  obtain obs where s: "inv (server s)" "mono (clock s)" "roleUUID s \<noteq> []" "objects s = Some obs" "distinct obs"
    "set obs = marked (server s) (roleUUID s)" using assms(2) by (elim syncedE)
  have *: "synced t \<and> roleUUID t = roleUUID s \<and> present (server t) = present (server s) \<and>
    (\<forall>b. x = Inr b \<longrightarrow> (b \<longleftrightarrow> ob \<in> marked (server s) (roleUUID s) \<and> \<not> present (server s) ob) \<and>
       marked (server t) = (if b then (marked (server s))(roleUUID s := marked (server s) (roleUUID s) - {ob})
         else marked (server s)))"
  proof (cases "cached ob s")
    case False
    with assms cached_synced [OF assms(2)] show ?thesis by (auto simp: removeIfOrphaned_def run_simps)
  next
    case True
    then have mk: "ob \<in> marked (server s) (roleUUID s)" using cached_synced [OF assms(2)] by simp
    obtain y s1 where e: "MarkIfExists (cache_marker c) ob s = (y, s1)" by (metis surj_pair)
    note e1 = MarkIfExists_spec [OF e s(1,3) mk]
    have f1: "roleUUID s1 = roleUUID s" "objects s1 = objects s" "clock s1 = clock s"
      using e1(2) by (cases s; cases s1; simp)+
    have sy1: "synced s1" using s e1(1,4) f1 by (simp add: list_synced_def)
    show ?thesis
    proof (cases "y = Inr False")
      case False
      with assms(1) e True have "t = s1" "\<forall>b. x = Inr b \<longrightarrow> b = False \<and> y = Inr True"
        by (auto simp: removeIfOrphaned_def run_simps split: sum.splits if_splits)
      with sy1 e1(3,4) e1(5) [of True] f1 show ?thesis by auto
    next
      case gone: True
      obtain z s2 where u: "Unmark (cache_marker c) ob s1 = (z, s2)" by (metis surj_pair)
      note u1 = Unmark_spec [OF u e1(1)] and f2 = role_kept_frame [OF Unmark_spec(2) [OF u e1(1)]]
      have k: "roleUUID s2 = roleUUID s" using u1(2) s(3) f1 by (auto simp: role_kept_def)
      show ?thesis
      proof (cases z)
        case (Inl err)
        then have "t = s2" "\<forall>b. x \<noteq> Inr b"
          using assms(1) e True gone u by (auto simp: removeIfOrphaned_def run_simps)
        moreover have "synced s2"
          using s u1(1) u1(5) [OF Inl] e1(4) f1 f2 k by (simp add: list_synced_def)
        ultimately show ?thesis using u1(3) e1(3) k by auto
      next
        case (Inr v)
        have t: "t = s2\<lparr>objects := Some (removeAll ob obs)\<rparr>" "x = Inr True"
          using assms(1) e True gone u Inr s(4) f1 f2
          by (auto simp: removeIfOrphaned_def run_simps deleteObject_def)
        have m: "marked (server s2) = (marked (server s))(roleUUID s := marked (server s) (roleUUID s) - {ob})"
          using u1(4) Inr k e1(4) by simp
        have "synced t" using s u1(1) m f1 f2 k unfolding t by (simp add: list_synced_def distinct_removeAll)
        then show ?thesis using t m u1(3) e1(3) e1(5) [OF gone] k mk by simp
      qed
    qed
  qed
  then show "synced t" "roleUUID t = roleUUID s" "present (server t) = present (server s)"
    "x = Inr b \<Longrightarrow> b \<longleftrightarrow> ob \<in> marked (server s) (roleUUID s) \<and> \<not> present (server s) ob"
    "x = Inr b \<Longrightarrow> marked (server t) =
       (if b then (marked (server s))(roleUUID s := marked (server s) (roleUUID s) - {ob}) else marked (server s))"
    by auto
qed

lemma removeIfOrphaned_ok:
  assumes "removeIfOrphaned c ob s = (x, t)" and "cache_ok s"
  shows "cache_ok t"
proof (cases "synced s \<or> objects s = None")
  case True
  then show ?thesis
    using removeIfOrphaned_synced [OF assms(1)] synced_ok assms
    by (auto simp: removeIfOrphaned_def run_simps cached_def)
next
  case False
  with assms(2) have s: "inv (server s)" "mono (clock s)" "\<not> is_fresh c s"
    by (auto simp: list_ok_def list_synced_def)
  show ?thesis
  proof (cases "cached ob s")
    case nc: False
    with assms show ?thesis by (auto simp: removeIfOrphaned_def run_simps)
  next
    case True
    then have mk: "markable (obj_Model ob)"
      using assms(2) by (auto simp: cached_def list_ok_def split: option.splits)
    obtain y s1 where e: "MarkIfExists (cache_marker c) ob s = (y, s1)" by (metis surj_pair)
    note e1 = MarkIfExists_inv [OF e s(1) mk] and f1 = role_kept_frame [OF MarkIfExists_inv(2) [OF e s(1) mk]]
    obtain z s2 where u: "Unmark (cache_marker c) ob s1 = (z, s2)" by (metis surj_pair)
    note u1 = Unmark_spec [OF u e1(1)] and f2 = role_kept_frame [OF Unmark_spec(2) [OF u e1(1)]]
    have "t = s1 \<or> t = s2 \<or> t = s2\<lparr>objects := map_option (removeAll ob) (objects s2)\<rparr>"
      using assms(1) True e u
      by (auto simp: removeIfOrphaned_def run_simps deleteObject_def split: sum.splits if_splits)
    moreover have "cache_ok s1" "cache_ok s2" "cache_ok (s2\<lparr>objects := map_option (removeAll ob) (objects s2)\<rparr>)"
      using assms(2) s e1 f1 u1(1,2) f2
      by (auto simp: list_ok_def role_kept_def is_fresh_def distinct_removeAll)
    ultimately show ?thesis by auto
  qed
qed

lemma collect_begin_spec:
  assumes "collect_begin c s = (x, t)" and "cache_ok s"
  shows "cache_ok t" and "marked (server t) = marked (server s)" and "present (server t) = present (server s)"
    and "x = Inr obs \<Longrightarrow> synced t \<and> objects t = Some obs"
proof -
  have ok: "cache_ok (s\<lparr>objects := None\<rparr>)" using assms(2) by (simp add: list_ok_def)
  obtain y s1 where r: "refreshLocked c (s\<lparr>objects := None\<rparr>) = (y, s1)" by (metis surj_pair)
  note r1 = refresh_spec [OF r ok]
  have "t = s1" and x: "x = Inr obs \<Longrightarrow> y = Inr () \<and> obs = (case objects s1 of None \<Rightarrow> [] | Some l \<Rightarrow> l)"
    using assms(1) r by (auto simp: collect_begin_def run_simps split: sum.splits)
  with r1 show "cache_ok t" "marked (server t) = marked (server s)" "present (server t) = present (server s)"
    by simp_all
  show "synced t \<and> objects t = Some obs" if "x = Inr obs"
    using x [OF that] r1(4) \<open>t = s1\<close> by (auto elim: syncedE)
qed

lemma collect_loop:
  assumes "foldE obs (collect_one c) k s = (Inr n, t)"
    and "synced s" and "distinct obs" and "set obs \<subseteq> marked (server s) (roleUUID s)"
  shows "synced t \<and> roleUUID t = roleUUID s \<and> present (server t) = present (server s) \<and>
    marked (server t) = (marked (server s))(roleUUID s :=
      marked (server s) (roleUUID s) - {ob \<in> set obs. \<not> present (server s) ob}) \<and>
    n = k + card {ob \<in> set obs. \<not> present (server s) ob}"
  using assms
proof (induction obs arbitrary: k s)
  case Nil
  then show ?case by (auto simp: run_simps)
next
  case (Cons ob obs)
  obtain y s1 where r: "removeIfOrphaned c ob s = (y, s1)" by (metis surj_pair)
  with Cons.prems(1) obtain b where y: "y = Inr b" by (cases y) (auto simp: run_simps collect_one_def)
  note r1 = removeIfOrphaned_synced [OF r Cons.prems(2)]
  have b: "b \<longleftrightarrow> \<not> present (server s) ob" using r1(4) [OF y] Cons.prems(4) by simp
  let ?gone = "{ob \<in> set obs. \<not> present (server s) ob}"
  have run: "foldE obs (collect_one c) (if b then Suc k else k) s1 = (Inr n, t)"
    using Cons.prems(1) unfolding run_fold_Cons run_collect_one [of c k ob s] r y by simp
  have sub: "set obs \<subseteq> marked (server s1) (roleUUID s1)"
    using Cons.prems(3,4) r1(2) r1(5) [OF y] by auto
  have ih: "synced t" "roleUUID t = roleUUID s" "present (server t) = present (server s)"
    "marked (server t) = (marked (server s1))(roleUUID s := marked (server s1) (roleUUID s) - ?gone)"
    "n = (if b then Suc k else k) + card ?gone"
    using Cons.IH [OF run r1(1) _ sub] Cons.prems(3) r1(2,3) by auto
  have set: "{x \<in> set (ob # obs). \<not> present (server s) x} = (if b then insert ob ?gone else ?gone)"
    using b by auto
  have "card (if b then insert ob ?gone else ?gone) = (if b then Suc (card ?gone) else card ?gone)"
    using Cons.prems(3) by simp
  moreover have "marked (server s1) (roleUUID s) - ?gone =
      marked (server s) (roleUUID s) - (if b then insert ob ?gone else ?gone)"
    using r1(5) [OF y] by auto
  moreover have "(marked (server s1))(roleUUID s := v) = (marked (server s))(roleUUID s := v)" for v
    using r1(5) [OF y] by auto
  ultimately show ?case unfolding set using ih by simp
qed

lemma collect_spec:
  assumes "collect c s = (Inr n, t)" and "cache_ok s"
  shows "synced t \<and> present (server t) = present (server s) \<and>
    marked (server t) = (marked (server s))(roleUUID t :=
      {ob \<in> marked (server s) (roleUUID t). present (server s) ob}) \<and>
    n = card {ob \<in> marked (server s) (roleUUID t). \<not> present (server s) ob}"
proof -
  obtain y s1 where b: "collect_begin c s = (y, s1)" by (metis surj_pair)
  with assms(1) obtain obs where y: "y = Inr obs" by (cases y) (auto simp: collect_def run_simps)
  note b1 = collect_begin_spec [OF b assms(2)]
  have s1: "synced s1" "objects s1 = Some obs" using b1(4) [OF y] by auto
  then have d: "distinct obs" "set obs = marked (server s1) (roleUUID s1)" by (auto elim: syncedE)
  have run: "foldE obs (collect_one c) 0 s1 = (Inr n, t)"
    using assms(1) b y by (simp add: collect_def run_simps)
  have "A - {x \<in> A. \<not> P x} = {x \<in> A. P x}" for A :: "Object set" and P by auto
  then show ?thesis
    using collect_loop [OF run s1(1) d(1)] d(2) b1(2,3) by simp
qed

lemma step_ok:
  assumes "cache_step c inv marked markable s t" and "cache_ok s"
  shows "cache_ok t"
  using assms
proof (induction rule: cache_step.induct)
  case (contains ob s x t)
  then show ?case using contains_spec(1) by blast
next
  case (isManaged ob s x t)
  then show ?case using isManaged_spec(1) by blast
next
  case (ensure ob s y t)
  then show ?case using ensure_spec(1) by blast
next
  case (remove ob s y t)
  then show ?case using remove_spec(1) by blast
next
  case (start s z t)
  then show ?case using collect_begin_spec(1) by blast
next
  case (orphan ob s x t)
  then show ?case using removeIfOrphaned_ok by blast
next
  case (other a s)
  then show ?case by (auto simp: list_ok_def is_fresh_def)
next
  case (pass s n)
  then have "clock s (ticks s) \<le> clock s n" by (auto simp: list_ok_def dest: monoD)
  with pass show ?case by (auto simp: list_ok_def is_fresh_def)
qed

lemma steps_ok: "(cache_step c inv marked markable)\<^sup>*\<^sup>* s t \<Longrightarrow> cache_ok s \<Longrightarrow> cache_ok t"
  by (induction rule: rtranclp_induct) (auto intro: step_ok)

end

end
