(* ===== verification/Reference.thy ===== *)
theory Reference
  imports MarkerCache
begin

text \<open>
  The resolution of references (\<open>internal/reference/resolver.go\<close>, \<open>internal/reference/error.go\<close>):
  every reference of a spec is turned into the identifier of the object it names. Failures are
  collected, so that the error of \<open>Resolve\<close> lists all of them.

  The Kubernetes client is not part of the repository: \<open>KubeClient\<close> has the calls the operator
  makes, as functions on a cluster state \<open>'k\<close>, and every definition takes it as an argument. The
  state adds the cluster and the collector of the running resolution.
\<close>

section \<open>The Kubernetes client\<close>

record Secret =
  secret_Namespace :: string
  secret_Name :: string
  secret_Data :: "(string \<times> string) list"
  secret_OwnerUID :: "string option"

type_synonym ('k, 'r) kcall = "('k, goerror, 'r) go"

record 'k KubeClient =
  KGet :: "string \<Rightarrow> string \<Rightarrow> ('k, AuthentikApplication) kcall" \<comment> \<open>by namespace and name\<close>
  KList :: "('k, AuthentikApplication list) kcall"
  KListBySlug :: "string \<Rightarrow> ('k, AuthentikApplication list) kcall" \<comment> \<open>by the index of \<open>spec.slug\<close>\<close>
  KListBySecret :: "string \<Rightarrow> string \<Rightarrow> ('k, AuthentikApplication list) kcall" \<comment> \<open>by namespace and Secret index\<close>
  KPatch :: "AuthentikApplication \<Rightarrow> AuthentikApplication \<Rightarrow> ('k, AuthentikApplication) kcall"
    \<comment> \<open>base and object; the answer is stored in the object\<close>
  KStatusPatch :: "AuthentikApplication \<Rightarrow> AuthentikApplication \<Rightarrow> ('k, AuthentikApplication) kcall"
  KGetSecret :: "string \<Rightarrow> string \<Rightarrow> ('k, Secret) kcall"
  KCreateSecret :: "Secret \<Rightarrow> ('k, unit) kcall"

record ('a, 'k) resolve_state = "'a cache_state" +
  kube :: 'k
  failures :: "Failure list" \<comment> \<open>the collector\<close>

type_synonym ('a, 'k, 'z, 'r) rcall = "(('a, 'k, 'z) resolve_state_scheme, goerror, 'r) go"

definition kapi :: "('k, 'r) kcall \<Rightarrow> ('a, 'k, 'z, 'r) rcall" where
  "kapi m = (\<lambda>s. case m (kube s) of (r, k) \<Rightarrow> (r, s\<lparr>kube := k\<rparr>))"

section \<open>Data\<close>

record Flows =
  flws_Authorization :: string
  flws_Invalidation :: string
  flws_Authentication :: "string option"

record ProxyReferences =
  proxyrefs_Certificate :: "string option"
  proxyrefs_Outpost :: string

record Credentials =
  creds_SecretExists :: bool
  creds_ClientID :: string
  creds_ClientSecret :: string

record OAuth2References =
  oauth2refs_Scopes :: "string list option"
  oauth2refs_SigningKey :: "string option"
  oauth2refs_EncryptionKey :: "string option"
  oauth2refs_Credentials :: "Credentials option"

record Rule =
  rl_Group :: "string option"
  rl_User :: "int option"
  rl_Policy :: "string option"
  rl_Negate :: bool

record Resolved =
  resolved_Flows :: "Flows option"
  resolved_Proxy :: "ProxyReferences option"
  resolved_OAuth2 :: "OAuth2References option"
  resolved_Rules :: "Rule list"

record CreationDefaults =
  defaults_Scopes :: "string list option"
  defaults_SigningKey :: "string option"

record ('a, 'k) Resolver =
  rs_authentik :: "'a Client"
  rs_kube :: "'k KubeClient"

definition EmbeddedOutpostName :: string where "EmbeddedOutpostName = ''authentik Embedded Outpost''"
definition DefaultSigningKeyName :: string where
  "DefaultSigningKeyName = ''authentik Self-signed Certificate''"
definition DefaultClientIDKey :: string where "DefaultClientIDKey = ''client-id''"
definition DefaultClientSecretKey :: string where "DefaultClientSecretKey = ''client-secret''"
definition defaultScopeNames :: "string list" where
  "defaultScopeNames = [''openid'', ''email'', ''profile'']"
definition managedScopeMappingPrefix :: string where
  "managedScopeMappingPrefix = ''goauthentik.io/providers/oauth2/scope-''"

section \<open>The collector\<close>

definition collector_add :: "string \<Rightarrow> string \<Rightarrow> int \<Rightarrow> ('a, 'k, 'z, unit) rcall" where
  "collector_add path target matches =
     modifyE (\<lambda>s. s\<lparr>failures := failures s @
       [\<lparr> fail_Path = path, fail_Target = target, fail_Matches = matches \<rparr>]\<rparr>)"

definition collector_err :: "('a, 'k, 'z, unit) rcall" where
  "collector_err =
     bindE (readE failures) (\<lambda>fs. if fs = [] then retE () else throwE (ReferenceError fs))"

text \<open>Reading through a pointer, which panics when it is nil.\<close>

definition deref :: "'v option \<Rightarrow> ('s, goerror, 'v) go" where
  "deref p = (case p of
      None \<Rightarrow> throwE (PlainError ''panic: invalid memory address or nil pointer dereference'')
    | Some v \<Rightarrow> retE v)"

section \<open>One reference\<close>

definition getOne :: "string \<Rightarrow> string \<Rightarrow> ('a, 't) call \<Rightarrow> ('a, 'k, 'z, 't option) rcall" where
  "getOne path target get =
     bindE (attempt (srv get)) (\<lambda>r. case r of
       Inl err \<Rightarrow>
         (if IsNotFound err then thenE (collector_add path target 0) (retE None)
          else throwE (WrapError (''failed to resolve '' @ path) err))
     | Inr object \<Rightarrow> retE (Some object))"

definition findOne :: "string \<Rightarrow> string \<Rightarrow> ('a, 't list) call \<Rightarrow> ('a, 'k, 'z, 't option) rcall" where
  "findOne path target search =
     bindE (wrapE (''failed to resolve '' @ path) (srv search)) (\<lambda>objects. case objects of
       [object] \<Rightarrow> retE (Some object)
     | _ \<Rightarrow> thenE (collector_add path target (int (length objects))) (retE None))"

record ('a, 't) stringLookup =
  lookup_kind :: string
  lookup_keyName :: string
  lookup_get :: "string \<Rightarrow> ('a, 't) call"
  lookup_find :: "string \<Rightarrow> ('a, 't list) call"
  lookup_pk :: "'t \<Rightarrow> string"

definition flowLookup :: "('a, 'k) Resolver \<Rightarrow> ('a, Flow) stringLookup" where
  "flowLookup r = \<lparr> lookup_kind = ''Flow'', lookup_keyName = ''slug'', lookup_get = GetFlow (rs_authentik r),
     lookup_find = FindFlowsBySlug (rs_authentik r), lookup_pk = flw_Pk \<rparr>"

definition keyPairLookup :: "('a, 'k) Resolver \<Rightarrow> ('a, CertificateKeyPair) stringLookup" where
  "keyPairLookup r = \<lparr> lookup_kind = ''CertificateKeyPair'', lookup_keyName = ''name'',
     lookup_get = GetCertificateKeyPair (rs_authentik r),
     lookup_find = FindCertificateKeyPairsByName (rs_authentik r), lookup_pk = keypair_Pk \<rparr>"

definition outpostLookup :: "('a, 'k) Resolver \<Rightarrow> ('a, Outpost) stringLookup" where
  "outpostLookup r = \<lparr> lookup_kind = ''Outpost'', lookup_keyName = ''name'',
     lookup_get = GetOutpost (rs_authentik r),
     lookup_find = FindOutpostsByName (rs_authentik r), lookup_pk = outpost_Pk \<rparr>"

definition scopeMappingLookup :: "('a, 'k) Resolver \<Rightarrow> ('a, ScopeMapping) stringLookup" where
  "scopeMappingLookup r = \<lparr> lookup_kind = ''ScopeMapping'', lookup_keyName = ''scopeName'',
     lookup_get = GetScopeMapping (rs_authentik r),
     lookup_find = FindScopeMappingsByScopeName (rs_authentik r), lookup_pk = mapping_Pk \<rparr>"

definition groupLookup :: "('a, 'k) Resolver \<Rightarrow> ('a, Group) stringLookup" where
  "groupLookup r = \<lparr> lookup_kind = ''Group'', lookup_keyName = ''name'', lookup_get = GetGroup (rs_authentik r),
     lookup_find = FindGroupsByName (rs_authentik r), lookup_pk = group_Pk \<rparr>"

definition policyLookup :: "('a, 'k) Resolver \<Rightarrow> ('a, Policy) stringLookup" where
  "policyLookup r = \<lparr> lookup_kind = ''Policy'', lookup_keyName = ''name'', lookup_get = GetPolicy (rs_authentik r),
     lookup_find = FindPoliciesByName (rs_authentik r), lookup_pk = policy_Pk \<rparr>"

definition resolveByString ::
  "string \<Rightarrow> ('a, 't) stringLookup \<Rightarrow> string option \<Rightarrow> string option \<Rightarrow> ('a, 'k, 'z, string) rcall" where
  "resolveByString path lookup uuid key =
     bindE (case uuid of
         Some u \<Rightarrow> getOne path (lookup_kind lookup @ '' uuid '' @ quote u) (lookup_get lookup u)
       | None \<Rightarrow> bindE (deref key) (\<lambda>k.
           findOne path (lookup_kind lookup @ '' '' @ lookup_keyName lookup @ '' '' @ quote k) (lookup_find lookup k)))
     (\<lambda>object. case object of None \<Rightarrow> retE [] | Some x \<Rightarrow> retE (lookup_pk lookup x))"

definition resolveNamed ::
  "string \<Rightarrow> ('a, 't) stringLookup \<Rightarrow> NamedReference option \<Rightarrow> ('a, 'k, 'z, string option) rcall" where
  "resolveNamed path lookup ref =
     (case ref of
        None \<Rightarrow> retE None
      | Some x \<Rightarrow>
          bindE (readE (length \<circ> failures)) (\<lambda>before.
          bindE (resolveByString path lookup (ref_UUID x) (ref_Name x)) (\<lambda>pk.
          bindE (readE (length \<circ> failures)) (\<lambda>after.
          retE (if after > before then None else Some pk)))))"

definition resolveUser :: "('a, 'k) Resolver \<Rightarrow> string \<Rightarrow> UserReference \<Rightarrow> ('a, 'k, 'z, int option) rcall" where
  "resolveUser r path ref =
     (case user_PK ref of
        Some pk \<Rightarrow>
          (let target = ''User pk '' @ itoa pk in
           if pk < 1 \<or> pk > 2 ^ 31 - 1 then thenE (collector_add path target 0) (retE None)
           else bindE (getOne path target (GetUser (rs_authentik r) (int32_of pk)))
                  (\<lambda>user. retE (map_option usr_Pk user)))
      | None \<Rightarrow>
          bindE (deref (user_Username ref)) (\<lambda>name.
          bindE (findOne path (''User username '' @ quote name) (FindUsersByUsername (rs_authentik r) name))
            (\<lambda>user. retE (map_option usr_Pk user))))"

definition resolveDefaultScopeMapping :: "('a, 'k) Resolver \<Rightarrow> string \<Rightarrow> ('a, 'k, 'z, string) rcall" where
  "resolveDefaultScopeMapping r scopeName =
     bindE (wrapE ''failed to resolve provider.oauth2.scopes''
              (srv (FindScopeMappingsByScopeName (rs_authentik r) scopeName))) (\<lambda>mappings.
     let managed = managedScopeMappingPrefix @ scopeName;
         found = filter (\<lambda>m. Get (mapping_Managed m) = Some managed) mappings in
     case found of
       [m] \<Rightarrow> retE (mapping_Pk m)
     | _ \<Rightarrow> thenE (collector_add ''provider.oauth2.scopes'' (''ScopeMapping managed '' @ quote managed)
              (int (length found))) (retE []))"

section \<open>A whole spec\<close>

definition resolveFlows :: "('a, 'k) Resolver \<Rightarrow> ProviderFlows \<Rightarrow> ('a, 'k, 'z, Flows) rcall" where
  "resolveFlows r flows =
     bindE (resolveByString ''provider.flows.authorization'' (flowLookup r)
              (flow_UUID (flows_Authorization flows)) (flow_Slug (flows_Authorization flows))) (\<lambda>authorization.
     bindE (resolveByString ''provider.flows.invalidation'' (flowLookup r)
              (flow_UUID (flows_Invalidation flows)) (flow_Slug (flows_Invalidation flows))) (\<lambda>invalidation.
     case flows_Authentication flows of
       None \<Rightarrow> retE \<lparr> flws_Authorization = authorization, flws_Invalidation = invalidation,
                 flws_Authentication = None \<rparr>
     | Some ref \<Rightarrow>
         bindE (resolveByString ''provider.flows.authentication'' (flowLookup r) (flow_UUID ref) (flow_Slug ref))
           (\<lambda>authentication. retE \<lparr> flws_Authorization = authorization, flws_Invalidation = invalidation,
              flws_Authentication = Some authentication \<rparr>)))"

definition embeddedOutpost :: NamedReference where
  "embeddedOutpost = \<lparr> ref_Name = Some EmbeddedOutpostName, ref_UUID = None \<rparr>"

definition resolveProxy :: "('a, 'k) Resolver \<Rightarrow> ProxyProviderSpec \<Rightarrow> ('a, 'k, 'z, ProxyReferences) rcall" where
  "resolveProxy r proxy =
     bindE (resolveNamed ''provider.proxy.certificate'' (keyPairLookup r) (proxy_Certificate proxy)) (\<lambda>certificate.
     let outpost = (case proxy_Outpost proxy of None \<Rightarrow> embeddedOutpost | Some x \<Rightarrow> x) in
     bindE (resolveByString ''provider.proxy.outpost'' (outpostLookup r) (ref_UUID outpost) (ref_Name outpost))
       (\<lambda>uuid. retE \<lparr> proxyrefs_Certificate = certificate, proxyrefs_Outpost = uuid \<rparr>))"

definition readKey ::
  "Secret \<Rightarrow> OAuth2CredentialsSecretReference \<Rightarrow> string \<Rightarrow> string option \<Rightarrow> string \<Rightarrow> ('a, 'k, 'z, string) rcall" where
  "readKey secret ref path key defaultKey =
     (let name = (case key of None \<Rightarrow> defaultKey | Some k \<Rightarrow> k) in
      case map_of (secret_Data secret) name of
        None \<Rightarrow> thenE (collector_add path (''key '' @ quote name @ '' in Secret '' @ quote (secretref_Name ref)) 0)
                  (retE [])
      | Some v \<Rightarrow> retE v)"

definition resolveCredentials ::
  "('a, 'k) Resolver \<Rightarrow> string \<Rightarrow> OAuth2CredentialsSpec \<Rightarrow> ('a, 'k, 'z, Credentials) rcall" where
  "resolveCredentials r namespace spec =
     (let ref = cred_SecretRef spec in
      bindE (attempt (kapi (KGetSecret (rs_kube r) namespace (secretref_Name ref)))) (\<lambda>got. case got of
        Inl err \<Rightarrow>
          (if KubeIsNotFound err
           then retE \<lparr> creds_SecretExists = False,
                  creds_ClientID = (case cred_ClientID spec of None \<Rightarrow> [] | Some i \<Rightarrow> i),
                  creds_ClientSecret = [] \<rparr>
           else throwE (WrapError (''failed to get Secret '' @ namespace @ ''/'' @ secretref_Name ref) err))
      | Inr secret \<Rightarrow>
          bindE (case cred_ClientID spec of
              Some i \<Rightarrow> retE i
            | None \<Rightarrow> readKey secret ref ''provider.oauth2.credentials.secretRef.clientIDKey''
                        (secretref_ClientIDKey ref) DefaultClientIDKey) (\<lambda>clientID.
          bindE (readKey secret ref ''provider.oauth2.credentials.secretRef.clientSecretKey''
                   (secretref_ClientSecretKey ref) DefaultClientSecretKey) (\<lambda>clientSecret.
          retE \<lparr> creds_SecretExists = True, creds_ClientID = clientID, creds_ClientSecret = clientSecret \<rparr>))))"

definition indexed :: "string \<Rightarrow> nat \<Rightarrow> string" where
  "indexed path i = path @ ''['' @ itoa (int i) @ '']''"

definition resolveOAuth2 ::
  "('a, 'k) Resolver \<Rightarrow> string \<Rightarrow> OAuth2ProviderSpec \<Rightarrow> ('a, 'k, 'z, OAuth2References) rcall" where
  "resolveOAuth2 r namespace oauth2 =
     bindE (case oauth2_Scopes oauth2 of
         None \<Rightarrow> retE None
       | Some scopes \<Rightarrow>
           bindE (mapE (enumerate 0 scopes) (\<lambda>(i, ref).
             resolveByString (indexed ''provider.oauth2.scopes'' i) (scopeMappingLookup r)
               (scope_UUID ref) (scope_ScopeName ref))) (\<lambda>pks. retE (Some pks))) (\<lambda>scopes.
     bindE (resolveNamed ''provider.oauth2.signingKey'' (keyPairLookup r) (oauth2_SigningKey oauth2)) (\<lambda>signingKey.
     bindE (resolveNamed ''provider.oauth2.encryptionKey'' (keyPairLookup r) (oauth2_EncryptionKey oauth2))
       (\<lambda>encryptionKey.
     bindE (case oauth2_Credentials oauth2 of
         None \<Rightarrow> retE None
       | Some spec \<Rightarrow> bindE (resolveCredentials r namespace spec) (\<lambda>c. retE (Some c))) (\<lambda>credentials.
     retE \<lparr> oauth2refs_Scopes = scopes, oauth2refs_SigningKey = signingKey,
       oauth2refs_EncryptionKey = encryptionKey, oauth2refs_Credentials = credentials \<rparr>))))"

definition resolveRule :: "('a, 'k) Resolver \<Rightarrow> string \<Rightarrow> AccessRule \<Rightarrow> ('a, 'k, 'z, Rule) rcall" where
  "resolveRule r path rule =
     (let base = \<lparr> rl_Group = None, rl_User = None, rl_Policy = None, rl_Negate = is_true (rule_Negate rule) \<rparr> in
      if rule_Group rule \<noteq> None
      then bindE (resolveNamed (path @ ''.group'') (groupLookup r) (rule_Group rule)) (\<lambda>g. retE (base\<lparr>rl_Group := g\<rparr>))
      else case rule_User rule of
        Some u \<Rightarrow> bindE (resolveUser r (path @ ''.user'') u) (\<lambda>pk. retE (base\<lparr>rl_User := pk\<rparr>))
      | None \<Rightarrow>
          (if rule_Policy rule \<noteq> None
           then bindE (resolveNamed (path @ ''.policy'') (policyLookup r) (rule_Policy rule))
                  (\<lambda>p. retE (base\<lparr>rl_Policy := p\<rparr>))
           else retE base))"

definition Resolve :: "('a, 'k) Resolver \<Rightarrow> AuthentikApplication \<Rightarrow> ('a, 'k, 'z, Resolved) rcall" where
  "Resolve r app =
     thenE (modifyE (\<lambda>s. s\<lparr>failures := []\<rparr>))
     (bindE (case spec_Provider (app_Spec app) of
         None \<Rightarrow> retE (None, None, None)
       | Some provider \<Rightarrow>
           bindE (resolveFlows r (provider_Flows provider)) (\<lambda>flows.
           bindE (case provider_Proxy provider of
               None \<Rightarrow> retE None
             | Some proxy \<Rightarrow> bindE (resolveProxy r proxy) (\<lambda>x. retE (Some x))) (\<lambda>proxy.
           bindE (case provider_OAuth2 provider of
               None \<Rightarrow> retE None
             | Some oauth2 \<Rightarrow> bindE (resolveOAuth2 r (meta_Namespace app) oauth2) (\<lambda>x. retE (Some x))) (\<lambda>oauth2.
           retE (Some flows, proxy, oauth2))))) (\<lambda>(flows, proxy, oauth2).
      bindE (mapE (enumerate 0 (access_Rules (spec_Access (app_Spec app)))) (\<lambda>(i, rule).
          resolveRule r (indexed ''access.rules'' i) rule)) (\<lambda>rules.
      thenE collector_err
      (retE \<lparr> resolved_Flows = flows, resolved_Proxy = proxy, resolved_OAuth2 = oauth2, resolved_Rules = rules \<rparr>))))"

definition ResolveCreationDefaults ::
  "('a, 'k) Resolver \<Rightarrow> AuthentikApplication \<Rightarrow> ('a, 'k, 'z, CreationDefaults) rcall" where
  "ResolveCreationDefaults r app =
     (case Option.bind (spec_Provider (app_Spec app)) provider_OAuth2 of
        None \<Rightarrow> retE \<lparr> defaults_Scopes = None, defaults_SigningKey = None \<rparr>
      | Some oauth2 \<Rightarrow>
          thenE (modifyE (\<lambda>s. s\<lparr>failures := []\<rparr>))
          (bindE (if oauth2_Scopes oauth2 = None
                  then bindE (mapE defaultScopeNames (resolveDefaultScopeMapping r)) (\<lambda>pks. retE (Some pks))
                  else retE None) (\<lambda>scopes.
           bindE (if oauth2_SigningKey oauth2 = None
                  then bindE (resolveByString ''provider.oauth2.signingKey'' (keyPairLookup r) None
                         (Some DefaultSigningKeyName)) (\<lambda>pk. retE (Some pk))
                  else retE None) (\<lambda>signingKey.
           thenE collector_err
           (retE \<lparr> defaults_Scopes = scopes, defaults_SigningKey = signingKey \<rparr>)))))"

section \<open>Resolution only reads\<close>

text \<open>
  Everything but the collector: the server, the marker cache and what extends the state, and of the
  cluster whatever a read of a Secret leaves as it is.
\<close>

definition but_failures :: "('k \<Rightarrow> 'b) \<Rightarrow> ('a, 'k, 'z) resolve_state_scheme \<Rightarrow> 'a cache_state \<times> 'b \<times> 'z" where
  "but_failures view s = (cache_state.truncate s, view (kube s), resolve_state.more s)"

lemma keeps_add [frame_intros]: "keeps (but_failures view) (collector_add path target n)"
  unfolding collector_add_def by (intro frame_intros) (simp add: but_failures_def cache_state.defs)

lemma keeps_err [frame_intros]: "keeps (but_failures view) collector_err"
  unfolding collector_err_def by (intro frame_intros)

lemma keeps_deref [frame_intros]: "keeps f (deref p)"
  unfolding deref_def by (intro frame_intros)

lemma keeps_reset [frame_intros]: "keeps (but_failures view) (modifyE (\<lambda>s. s\<lparr>failures := fs\<rparr>))"
  by (intro frame_intros) (simp add: but_failures_def cache_state.defs)

lemma keeps_kapi: "keeps view m \<Longrightarrow> keeps (but_failures view) (kapi m)"
  by (simp add: steps_def same_def kapi_def but_failures_def cache_state.defs case_prod_beta)

lemma keeps_getOne: "pure get \<Longrightarrow> keeps (but_failures view) (getOne path target get)"
  unfolding getOne_def by (intro frame_intros keeps_srv_pure [THEN pure_keeps])

lemma keeps_findOne: "pure search \<Longrightarrow> keeps (but_failures view) (findOne path target search)"
  unfolding findOne_def by (intro frame_intros keeps_srv_pure [THEN pure_keeps])

lemma keeps_resolveByString:
  "(\<And>u. pure (lookup_get lookup u)) \<Longrightarrow> (\<And>k. pure (lookup_find lookup k)) \<Longrightarrow>
   keeps (but_failures view) (resolveByString path lookup uuid key)"
  unfolding resolveByString_def by (intro frame_intros keeps_getOne keeps_findOne)

lemma keeps_resolveNamed:
  "(\<And>u. pure (lookup_get lookup u)) \<Longrightarrow> (\<And>k. pure (lookup_find lookup k)) \<Longrightarrow>
   keeps (but_failures view) (resolveNamed path lookup ref)"
  unfolding resolveNamed_def by (intro frame_intros keeps_resolveByString)

text \<open>The contract of the two readers that a \<open>Resolver\<close> has.\<close>

locale resolver = reads "rs_authentik r" for r :: "('a, 'k) Resolver" +
  fixes view :: "'k \<Rightarrow> 'b"
  assumes keeps_KGetSecret: "keeps view (KGetSecret (rs_kube r) namespace name)"
begin

lemma pure_lookups:
  "pure (lookup_get (flowLookup r) u)" "pure (lookup_find (flowLookup r) u)"
  "pure (lookup_get (keyPairLookup r) u)" "pure (lookup_find (keyPairLookup r) u)"
  "pure (lookup_get (outpostLookup r) u)" "pure (lookup_find (outpostLookup r) u)"
  "pure (lookup_get (scopeMappingLookup r) u)" "pure (lookup_find (scopeMappingLookup r) u)"
  "pure (lookup_get (groupLookup r) u)" "pure (lookup_find (groupLookup r) u)"
  "pure (lookup_get (policyLookup r) u)" "pure (lookup_find (policyLookup r) u)"
  by (simp_all add: flowLookup_def keyPairLookup_def outpostLookup_def scopeMappingLookup_def
      groupLookup_def policyLookup_def pure_reads)

lemmas resolve_intros = frame_intros keeps_resolveByString keeps_resolveNamed keeps_getOne keeps_findOne
  pure_lookups pure_reads keeps_srv_pure [THEN pure_keeps] keeps_kapi keeps_KGetSecret

lemma keeps_resolveUser: "keeps (but_failures view) (resolveUser r path ref)"
  unfolding resolveUser_def by (intro resolve_intros)

lemma keeps_resolveFlows: "keeps (but_failures view) (resolveFlows r flows)"
  unfolding resolveFlows_def by (intro resolve_intros)

lemma keeps_resolveProxy: "keeps (but_failures view) (resolveProxy r proxy)"
  unfolding resolveProxy_def by (intro resolve_intros)

lemma keeps_readKey: "keeps (but_failures view) (readKey secret ref path key dflt)"
  unfolding readKey_def by (intro resolve_intros)

lemma keeps_resolveCredentials: "keeps (but_failures view) (resolveCredentials r ns spec)"
  unfolding resolveCredentials_def by (intro resolve_intros keeps_readKey)

lemma keeps_resolveOAuth2: "keeps (but_failures view) (resolveOAuth2 r ns oauth2)"
  unfolding resolveOAuth2_def by (intro resolve_intros keeps_resolveCredentials)

lemma keeps_resolveRule: "keeps (but_failures view) (resolveRule r path rule)"
  unfolding resolveRule_def by (intro resolve_intros keeps_resolveUser)

lemma keeps_Resolve: "keeps (but_failures view) (Resolve r app)"
  unfolding Resolve_def
  by (intro resolve_intros keeps_resolveFlows keeps_resolveProxy keeps_resolveOAuth2 keeps_resolveRule)

lemma keeps_resolveDefaultScopeMapping: "keeps (but_failures view) (resolveDefaultScopeMapping r scopeName)"
  unfolding resolveDefaultScopeMapping_def by (intro resolve_intros)

lemma keeps_ResolveCreationDefaults: "keeps (but_failures view) (ResolveCreationDefaults r app)"
  unfolding ResolveCreationDefaults_def by (intro resolve_intros keeps_resolveDefaultScopeMapping)

end

text \<open>The in-memory server, with any Kubernetes client.\<close>

definition fake_resolver :: "'k KubeClient \<Rightarrow> (fake, 'k) Resolver" where
  "fake_resolver k = \<lparr> rs_authentik = fake_client, rs_kube = k \<rparr>"

interpretation fake_resolver: resolver "fake_resolver k" "\<lambda>_. ()" for k :: "'k KubeClient"
proof (rule resolver.intro)
  show "reads (rs_authentik (fake_resolver k))" by (simp add: fake_resolver_def fake.reads_axioms)
  show "resolver_axioms (fake_resolver k) (\<lambda>_. ())" by unfold_locales (simp add: steps_def same_def)
qed

end
