(* ===== verification/Desired.thy ===== *)
theory Desired
  imports Reference
begin

text \<open>
  The desired state of the authentik objects (\<open>internal/controller/desired.go\<close>): the managed
  fields computed from the spec and the resolved references, and the requests that create the
  objects. An enum table is a function on the spec's datatype, total because the validation of the
  custom resource admits no other value.
\<close>

section \<open>Enum tables\<close>

fun policyEngineModes :: "AccessMode \<Rightarrow> PolicyEngineMode" where
  "policyEngineModes AccessModeAny = POLICYENGINEMODE_ANY"
| "policyEngineModes AccessModeAll = POLICYENGINEMODE_ALL"

fun clientTypes :: "ClientType \<Rightarrow> ClientTypeEnum" where
  "clientTypes ClientTypeConfidential = CLIENTTYPEENUM_CONFIDENTIAL"
| "clientTypes ClientTypePublic = CLIENTTYPEENUM_PUBLIC"

fun grantTypes :: "GrantType \<Rightarrow> GrantTypeEnum" where
  "grantTypes GrantTypeAuthorizationCode = GRANTTYPEENUM_AUTHORIZATION_CODE"
| "grantTypes GrantTypeImplicit = GRANTTYPEENUM_IMPLICIT"
| "grantTypes GrantTypeHybrid = GRANTTYPEENUM_HYBRID"
| "grantTypes GrantTypeRefreshToken = GRANTTYPEENUM_REFRESH_TOKEN"
| "grantTypes GrantTypeClientCredentials = GRANTTYPEENUM_CLIENT_CREDENTIALS"
| "grantTypes GrantTypePassword = GRANTTYPEENUM_PASSWORD"
| "grantTypes GrantTypeDeviceCode = GRANTTYPEENUM_DEVICE_CODE"
| "grantTypes GrantTypeTokenExchange = GRANTTYPEENUM_TOKEN_EXCHANGE"

fun subjectModes :: "SubjectMode \<Rightarrow> SubModeEnum" where
  "subjectModes SubjectModeHashedUserID = SUBMODEENUM_HASHED_USER_ID"
| "subjectModes SubjectModeUserID = SUBMODEENUM_USER_ID"
| "subjectModes SubjectModeUserUUID = SUBMODEENUM_USER_UUID"
| "subjectModes SubjectModeUserUsername = SUBMODEENUM_USER_USERNAME"
| "subjectModes SubjectModeUserEmail = SUBMODEENUM_USER_EMAIL"
| "subjectModes SubjectModeUserUPN = SUBMODEENUM_USER_UPN"

fun issuerModes :: "IssuerMode \<Rightarrow> IssuerModeEnum" where
  "issuerModes IssuerModeGlobal = ISSUERMODEENUM_GLOBAL"
| "issuerModes IssuerModePerProvider = ISSUERMODEENUM_PER_PROVIDER"

fun logoutMethods :: "LogoutMethod \<Rightarrow> LogoutMethodEnum" where
  "logoutMethods LogoutMethodBackChannel = LOGOUTMETHODENUM_BACKCHANNEL"
| "logoutMethods LogoutMethodFrontChannel = LOGOUTMETHODENUM_FRONTCHANNEL"

fun matchingModes :: "MatchingMode \<Rightarrow> MatchingModeEnum" where
  "matchingModes MatchingModeStrict = MATCHINGMODEENUM_STRICT"
| "matchingModes MatchingModeRegex = MATCHINGMODEENUM_REGEX"

fun redirectURITypes :: "RedirectURIType \<Rightarrow> RedirectURITypeEnum" where
  "redirectURITypes RedirectURITypeAuthorization = REDIRECTURITYPEENUM_AUTHORIZATION"
| "redirectURITypes RedirectURITypePostLogout = REDIRECTURITYPEENUM_LOGOUT"

text \<open>\<open>mapEnum\<close> and \<open>nullableString\<close>.\<close>

definition mapEnum :: "('k \<Rightarrow> 'v) \<Rightarrow> 'k option \<Rightarrow> 'v option" where
  "mapEnum table value = map_option table value"

definition nullableString :: "string option \<Rightarrow> string Nullable" where
  "nullableString value = (case value of None \<Rightarrow> Unset | Some s \<Rightarrow> SetTo (Some s))"

section \<open>Application\<close>

definition desiredApplication :: "AuthentikApplicationSpec \<Rightarrow> int option \<Rightarrow> PatchedApplicationRequest" where
  "desiredApplication spec providerPK =
     \<lparr> papp_Name = Some (spec_Name spec), papp_Slug = None,
       papp_Provider = (case providerPK of None \<Rightarrow> Unset | Some pk \<Rightarrow> SetTo (Some pk)),
       papp_OpenInNewTab = spec_OpenInNewTab spec, papp_MetaLaunchUrl = spec_LaunchURL spec,
       papp_MetaIcon = spec_Icon spec, papp_MetaDescription = spec_Description spec,
       papp_MetaPublisher = spec_Publisher spec,
       papp_PolicyEngineMode = mapEnum policyEngineModes (access_Mode (spec_Access spec)),
       papp_Group = spec_Group spec, papp_MetaHide = spec_HideFromApplicationDashboard spec \<rparr>"

definition createApplicationRequest :: "string \<Rightarrow> PatchedApplicationRequest \<Rightarrow> ApplicationRequest" where
  "createApplicationRequest slug desired =
     \<lparr> rapp_Name = the (papp_Name desired), rapp_Slug = slug, rapp_Provider = papp_Provider desired,
       rapp_OpenInNewTab = papp_OpenInNewTab desired, rapp_MetaLaunchUrl = papp_MetaLaunchUrl desired,
       rapp_MetaIcon = papp_MetaIcon desired, rapp_MetaDescription = papp_MetaDescription desired,
       rapp_MetaPublisher = papp_MetaPublisher desired,
       rapp_PolicyEngineMode = papp_PolicyEngineMode desired, rapp_Group = papp_Group desired,
       rapp_MetaHide = papp_MetaHide desired \<rparr>"

text \<open>Only called on a spec with a provider.\<close>

definition providerName :: "AuthentikApplicationSpec \<Rightarrow> string" where
  "providerName spec =
     (case provider_Name (the (spec_Provider spec)) of Some name \<Rightarrow> name | None \<Rightarrow> spec_Slug spec)"

section \<open>Providers\<close>

definition desiredProxyProvider ::
  "ProviderSpec \<Rightarrow> ProxyProviderSpec \<Rightarrow> Flows \<Rightarrow> ProxyReferences \<Rightarrow> PatchedProxyProviderRequest" where
  "desiredProxyProvider provider proxy flows refs =
     (let desired = \<lparr>
        ppx_Name = provider_Name provider,
        ppx_AuthenticationFlow = nullableString (flws_Authentication flows),
        ppx_AuthorizationFlow = Some (flws_Authorization flows),
        ppx_InvalidationFlow = Some (flws_Invalidation flows),
        ppx_PropertyMappings = None, ppx_InternalHost = None, ppx_ExternalHost = None,
        ppx_InternalHostSslValidation = None,
        ppx_Certificate = nullableString (proxyrefs_Certificate refs),
        ppx_SkipPathRegex = None, ppx_BasicAuthEnabled = None, ppx_BasicAuthPasswordAttribute = None,
        ppx_BasicAuthUserAttribute = None, ppx_Mode = None,
        ppx_InterceptHeaderAuth = proxy_InterceptHeaderAuth proxy, ppx_CookieDomain = None,
        ppx_AccessTokenValidity = proxy_AccessTokenValidity proxy,
        ppx_RefreshTokenValidity = proxy_RefreshTokenValidity proxy \<rparr>;
      desired = (case proxy_Proxy proxy of
          Some m \<Rightarrow> desired\<lparr>
            ppx_Mode := Some PROXYMODE_PROXY,
            ppx_ExternalHost := Some (proxymode_ExternalHost m),
            ppx_InternalHost := Some (proxymode_InternalHost m),
            ppx_InternalHostSslValidation := proxymode_InternalHostSSLValidation m\<rparr>
        | None \<Rightarrow> (case proxy_ForwardAuthSingle proxy of
            Some m \<Rightarrow> desired\<lparr>
              ppx_Mode := Some PROXYMODE_FORWARD_SINGLE,
              ppx_ExternalHost := Some (single_ExternalHost m)\<rparr>
          | None \<Rightarrow> (case proxy_ForwardAuthDomain proxy of
              Some m \<Rightarrow> desired\<lparr>
                ppx_Mode := Some PROXYMODE_FORWARD_DOMAIN,
                ppx_ExternalHost := Some (domain_AuthenticationURL m),
                ppx_CookieDomain := Some (domain_CookieDomain m)\<rparr>
            | None \<Rightarrow> desired)));
      desired = (case proxy_UnauthenticatedPaths proxy of
          Some paths \<Rightarrow> desired\<lparr>ppx_SkipPathRegex := Some (join [CHR 0x0A] paths)\<rparr>
        | None \<Rightarrow> desired)
      in case proxy_BasicAuth proxy of
          Some b \<Rightarrow> desired\<lparr>
            ppx_BasicAuthEnabled := Some True,
            ppx_BasicAuthUserAttribute := Some (basic_UserAttribute b),
            ppx_BasicAuthPasswordAttribute := Some (basic_PasswordAttribute b)\<rparr>
        | None \<Rightarrow> desired)"

definition createProxyProviderRequest :: "string \<Rightarrow> PatchedProxyProviderRequest \<Rightarrow> ProxyProviderRequest" where
  "createProxyProviderRequest name desired =
     \<lparr> rpx_Name = name, rpx_AuthenticationFlow = ppx_AuthenticationFlow desired,
       rpx_AuthorizationFlow = the (ppx_AuthorizationFlow desired),
       rpx_InvalidationFlow = the (ppx_InvalidationFlow desired),
       rpx_InternalHost = ppx_InternalHost desired,
       rpx_ExternalHost = the (cmp_or (ppx_ExternalHost desired) (Some [])),
       rpx_InternalHostSslValidation = ppx_InternalHostSslValidation desired,
       rpx_Certificate = ppx_Certificate desired, rpx_SkipPathRegex = ppx_SkipPathRegex desired,
       rpx_BasicAuthEnabled = ppx_BasicAuthEnabled desired,
       rpx_BasicAuthPasswordAttribute = ppx_BasicAuthPasswordAttribute desired,
       rpx_BasicAuthUserAttribute = ppx_BasicAuthUserAttribute desired,
       rpx_Mode = ppx_Mode desired, rpx_InterceptHeaderAuth = ppx_InterceptHeaderAuth desired,
       rpx_CookieDomain = ppx_CookieDomain desired,
       rpx_AccessTokenValidity = ppx_AccessTokenValidity desired,
       rpx_RefreshTokenValidity = ppx_RefreshTokenValidity desired \<rparr>"

definition desiredRedirectURI :: "RedirectURISpec \<Rightarrow> RedirectURI" where
  "desiredRedirectURI uri =
     \<lparr> ruri_Url = uri_URL uri,
       ruri_MatchingMode = the (mapEnum matchingModes (cmp_or (uri_MatchingMode uri) (Some MatchingModeStrict))),
       ruri_RedirectUriType =
         mapEnum redirectURITypes (cmp_or (uri_Type uri) (Some RedirectURITypeAuthorization)) \<rparr>"

definition desiredOAuth2Provider ::
  "ProviderSpec \<Rightarrow> OAuth2ProviderSpec \<Rightarrow> Flows \<Rightarrow> OAuth2References \<Rightarrow> PatchedOAuth2ProviderRequest" where
  "desiredOAuth2Provider provider oauth2 flows refs =
     \<lparr> pox_Name = provider_Name provider,
       pox_AuthenticationFlow = nullableString (flws_Authentication flows),
       pox_AuthorizationFlow = Some (flws_Authorization flows),
       pox_InvalidationFlow = Some (flws_Invalidation flows),
       pox_PropertyMappings = oauth2refs_Scopes refs,
       pox_ClientType = mapEnum clientTypes (oauth2_ClientType oauth2),
       pox_GrantTypes = map_option (map grantTypes) (oauth2_GrantTypes oauth2),
       pox_ClientId = (case oauth2refs_Credentials refs of
           Some credentials \<Rightarrow> if creds_ClientID credentials \<noteq> [] then Some (creds_ClientID credentials) else None
         | None \<Rightarrow> None),
       pox_ClientSecret = (case oauth2refs_Credentials refs of
           Some credentials \<Rightarrow> if creds_SecretExists credentials then Some (creds_ClientSecret credentials) else None
         | None \<Rightarrow> None),
       pox_AccessCodeValidity = oauth2_AccessCodeValidity oauth2,
       pox_AccessTokenValidity = oauth2_AccessTokenValidity oauth2,
       pox_RefreshTokenValidity = oauth2_RefreshTokenValidity oauth2,
       pox_RefreshTokenThreshold = oauth2_RefreshTokenThreshold oauth2,
       pox_IncludeClaimsInIdToken = oauth2_IncludeClaimsInIDToken oauth2,
       pox_SigningKey = nullableString (oauth2refs_SigningKey refs),
       pox_EncryptionKey = nullableString (oauth2refs_EncryptionKey refs),
       pox_RedirectUris = map_option (map desiredRedirectURI) (oauth2_RedirectURIs oauth2),
       pox_LogoutUri = oauth2_LogoutURI oauth2,
       pox_LogoutMethod = mapEnum logoutMethods (oauth2_LogoutMethod oauth2),
       pox_SubMode = mapEnum subjectModes (oauth2_SubjectMode oauth2),
       pox_IssuerMode = mapEnum issuerModes (oauth2_IssuerMode oauth2) \<rparr>"

definition createOAuth2ProviderRequest ::
  "string \<Rightarrow> PatchedOAuth2ProviderRequest \<Rightarrow> CreationDefaults \<Rightarrow> OAuth2ProviderRequest" where
  "createOAuth2ProviderRequest name desired defaults =
     \<lparr> rox_Name = name, rox_AuthenticationFlow = pox_AuthenticationFlow desired,
       rox_AuthorizationFlow = the (pox_AuthorizationFlow desired),
       rox_InvalidationFlow = the (pox_InvalidationFlow desired),
       rox_PropertyMappings =
         (if pox_PropertyMappings desired = None then defaults_Scopes defaults else pox_PropertyMappings desired),
       rox_ClientType = pox_ClientType desired, rox_GrantTypes = pox_GrantTypes desired,
       rox_ClientId = pox_ClientId desired, rox_ClientSecret = pox_ClientSecret desired,
       rox_AccessCodeValidity = pox_AccessCodeValidity desired,
       rox_AccessTokenValidity = pox_AccessTokenValidity desired,
       rox_RefreshTokenValidity = pox_RefreshTokenValidity desired,
       rox_RefreshTokenThreshold = pox_RefreshTokenThreshold desired,
       rox_IncludeClaimsInIdToken = pox_IncludeClaimsInIdToken desired,
       rox_SigningKey =
         (if \<not> IsSet (pox_SigningKey desired) \<and> defaults_SigningKey defaults \<noteq> None
          then SetTo (defaults_SigningKey defaults) else pox_SigningKey desired),
       rox_EncryptionKey = pox_EncryptionKey desired,
       rox_RedirectUris =
         (if pox_RedirectUris desired = None then Some [] else pox_RedirectUris desired),
       rox_LogoutUri = pox_LogoutUri desired, rox_LogoutMethod = pox_LogoutMethod desired,
       rox_SubMode = pox_SubMode desired, rox_IssuerMode = pox_IssuerMode desired \<rparr>"

section \<open>Bindings\<close>

record bindingSubject =
  subject_group :: string
  subject_user :: int
  subject_policy :: string

definition noSubject :: bindingSubject where
  "noSubject = \<lparr> subject_group = [], subject_user = 0, subject_policy = [] \<rparr>"

text \<open>The default case reads through the policy pointer: a rule has one subject (\<open>valid_AccessRule\<close>).\<close>

definition ruleSubject :: "Rule \<Rightarrow> bindingSubject" where
  "ruleSubject rule =
     (case rl_Group rule of
        Some g \<Rightarrow> noSubject\<lparr>subject_group := g\<rparr>
      | None \<Rightarrow> (case rl_User rule of
          Some u \<Rightarrow> noSubject\<lparr>subject_user := u\<rparr>
        | None \<Rightarrow> noSubject\<lparr>subject_policy := the (rl_Policy rule)\<rparr>))"

definition observedSubject :: "PolicyBinding \<Rightarrow> bindingSubject" where
  "observedSubject binding =
     (if Get (bind_Group binding) \<noteq> None \<and> Get (bind_Group binding) \<noteq> Some []
      then noSubject\<lparr>subject_group := the (Get (bind_Group binding))\<rparr>
      else if Get (bind_User binding) \<noteq> None
      then noSubject\<lparr>subject_user := the (Get (bind_User binding))\<rparr>
      else if Get (bind_Policy binding) \<noteq> None
      then noSubject\<lparr>subject_policy := the (Get (bind_Policy binding))\<rparr>
      else noSubject)"

definition desiredBinding :: "string \<Rightarrow> Rule \<Rightarrow> PatchedPolicyBindingRequest" where
  "desiredBinding target rule =
     (let desired = \<lparr> pbind_Policy = Unset, pbind_Group = Unset, pbind_User = Unset,
          pbind_Target = Some target, pbind_Negate = Some (rl_Negate rule), pbind_Enabled = None,
          pbind_Order = None, pbind_Timeout = None, pbind_FailureResult = None \<rparr> in
      if rl_Group rule \<noteq> None then desired\<lparr>pbind_Group := SetTo (rl_Group rule)\<rparr>
      else if rl_User rule \<noteq> None then desired\<lparr>pbind_User := SetTo (rl_User rule)\<rparr>
      else desired\<lparr>pbind_Policy := SetTo (rl_Policy rule)\<rparr>)"

definition createBindingRequest :: "PatchedPolicyBindingRequest \<Rightarrow> int \<Rightarrow> PolicyBindingRequest" where
  "createBindingRequest desired order =
     \<lparr> rbind_Policy = pbind_Policy desired, rbind_Group = pbind_Group desired,
       rbind_User = pbind_User desired, rbind_Target = the (pbind_Target desired),
       rbind_Negate = pbind_Negate desired, rbind_Enabled = None, rbind_Order = order,
       rbind_Timeout = None, rbind_FailureResult = None \<rparr>"

end
