(* ===== verification/World.thy ===== *)
theory World
  imports Desired
begin

text \<open>
  The reconciler \<open>AuthentikApplicationReconciler\<close> and the state it runs in
  (\<open>internal/controller/authentikapplication_controller.go\<close>): the authentik server, the marker
  cache, the cluster, the recorded Events, the queue fed after a role was recreated, and the
  \<open>reconcileState\<close> of the running reconcile. This theory has the parts that every step uses:
  writing the status and setting conditions.

  Code outside the repository is a field of \<open>Reconciler\<close>: both clients, the helpers of
  \<open>k8s.io/apimachinery\<close> and \<open>controller-runtime\<close>, the hash of the spec, and the JSON form of the
  generated API models.
\<close>

section \<open>State\<close>

datatype EventType = EventTypeNormal | EventTypeWarning

record event =
  ev_type :: EventType
  ev_reason :: string
  ev_action :: string
  ev_message :: string

record ('a, 'k) sys = "('a, 'k) resolve_state" +
  events :: "event list"
  roleQueue :: "AuthentikApplication list"
  st_app :: AuthentikApplication
  st_base :: AuthentikApplication
  st_resolved :: Resolved

type_synonym ('a, 'k, 'r) step = "(('a, 'k) sys, goerror, 'r) go"

record ('a, 'k) Reconciler =
  Authentik :: "'a Client"
  Kube :: "'k KubeClient"
  ownerRoleName :: string
  ResyncInterval :: int
  hasRoleEvents :: bool \<comment> \<open>\<open>r.roleEvents != nil\<close>\<close>
  FindStatusCondition :: "Condition list \<Rightarrow> string \<Rightarrow> Condition option"
  SetStatusCondition :: "Condition list \<Rightarrow> Condition \<Rightarrow> Condition list"
  RemoveStatusCondition :: "Condition list \<Rightarrow> string \<Rightarrow> Condition list"
  StatusDeepEqual :: "AuthentikApplicationStatus \<Rightarrow> AuthentikApplicationStatus \<Rightarrow> bool"
  AddFinalizer :: "AuthentikApplication \<Rightarrow> string \<Rightarrow> bool \<times> AuthentikApplication"
  ContainsFinalizer :: "AuthentikApplication \<Rightarrow> string \<Rightarrow> bool"
  RemoveFinalizer :: "AuthentikApplication \<Rightarrow> string \<Rightarrow> AuthentikApplication"
  SetControllerReference :: "AuthentikApplication \<Rightarrow> Secret \<Rightarrow> goerror + Secret"
  specHash :: "AuthentikApplicationSpec \<Rightarrow> string"
  applicationFields :: "Application \<Rightarrow> (string \<times> json) list"
  patchedApplicationFields :: "PatchedApplicationRequest \<Rightarrow> (string \<times> json) list"
  proxyFields :: "ProxyProvider \<Rightarrow> (string \<times> json) list"
  patchedProxyFields :: "PatchedProxyProviderRequest \<Rightarrow> (string \<times> json) list"
  oauth2Fields :: "OAuth2Provider \<Rightarrow> (string \<times> json) list"
  patchedOAuth2Fields :: "PatchedOAuth2ProviderRequest \<Rightarrow> (string \<times> json) list"

definition resolver_of :: "('a, 'k) Reconciler \<Rightarrow> ('a, 'k) Resolver" where
  "resolver_of r = \<lparr> rs_authentik = Authentik r, rs_kube = Kube r \<rparr>"

section \<open>The marker cache of the reconciler\<close>

text \<open>
  \<open>requeueAll\<close> hands every resource to a goroutine that sends it to the queue. An error of the
  list call is only logged.
\<close>

definition requeueAll :: "('a, 'k) Reconciler \<Rightarrow> ('a, 'k) sys \<Rightarrow> ('a, 'k) sys" where
  "requeueAll r s =
     (if \<not> hasRoleEvents r then s
      else case KList (Kube r) (kube s) of
          (Inl e, k) \<Rightarrow> s\<lparr>kube := k\<rparr>
        | (Inr items, k) \<Rightarrow> s\<lparr>kube := k, roleQueue := roleQueue s @ items\<rparr>)"

definition markers :: "('a, 'k) Reconciler \<Rightarrow> ('a, ('a, 'k) sys) markerCacheOn" where
  "markers r = \<lparr> cache_marker = \<lparr> marker_client = Authentik r, marker_roleName = ownerRoleName r \<rparr>,
     cache_ttl = ResyncInterval r, cache_onRoleRecreated = requeueAll r \<rparr>"

section \<open>Events, conditions and the status\<close>

definition eventReasonCreated :: string where "eventReasonCreated = ''Created''"
definition eventReasonRecreated :: string where "eventReasonRecreated = ''Recreated''"
definition eventReasonAdopted :: string where "eventReasonAdopted = ''Adopted''"
definition eventActionReconcile :: string where "eventActionReconcile = ''Reconcile''"

text \<open>\<open>r.Recorder.Eventf\<close>\<close>

definition Eventf :: "EventType \<Rightarrow> string \<Rightarrow> string \<Rightarrow> string \<Rightarrow> ('a, 'k, unit) step" where
  "Eventf ty reason action message =
     modifyE (\<lambda>s. s\<lparr>events := events s @
       [\<lparr> ev_type = ty, ev_reason = reason, ev_action = action, ev_message = message \<rparr>]\<rparr>)"

definition updStatus :: "(AuthentikApplicationStatus \<Rightarrow> AuthentikApplicationStatus) \<Rightarrow> ('a, 'k, unit) step" where
  "updStatus f = modifyE (\<lambda>s. s\<lparr>st_app := (st_app s)\<lparr>app_Status := f (app_Status (st_app s))\<rparr>\<rparr>)"

definition sys_status :: "('a, 'k) sys \<Rightarrow> AuthentikApplicationStatus" where
  "sys_status s = app_Status (st_app s)"

definition sys_spec :: "('a, 'k) sys \<Rightarrow> AuthentikApplicationSpec" where
  "sys_spec s = app_Spec (st_app s)"

definition setCondition ::
  "('a, 'k) Reconciler \<Rightarrow> string \<Rightarrow> bool \<Rightarrow> string \<Rightarrow> string \<Rightarrow> ('a, 'k, unit) step" where
  "setCondition r conditionType condStatus reason message =
     bindE (readE sys_status) (\<lambda>st.
     bindE (readE (meta_Generation \<circ> st_app)) (\<lambda>generation.
     let previous = FindStatusCondition r (status_Conditions st) conditionType;
         changed = (case previous of
             None \<Rightarrow> True
           | Some p \<Rightarrow> cond_Status p \<noteq> condStatus \<or> cond_Reason p \<noteq> reason) in
     thenE (updStatus (\<lambda>st. st\<lparr>status_Conditions := SetStatusCondition r (status_Conditions st)
         \<lparr> cond_Type = conditionType, cond_Status = condStatus, cond_Reason = reason,
           cond_Message = message, cond_ObservedGeneration = generation, cond_LastTransitionTime = 0 \<rparr>\<rparr>))
     (if \<not> changed then retE ()
      else Eventf (if conditionType = ConditionTypeReady \<and> condStatus then EventTypeNormal else EventTypeWarning)
             reason eventActionReconcile message)))"

definition setReady :: "('a, 'k) Reconciler \<Rightarrow> bool \<Rightarrow> string \<Rightarrow> string \<Rightarrow> ('a, 'k, unit) step" where
  "setReady r condStatus reason message = setCondition r ConditionTypeReady condStatus reason message"

definition removeCondition :: "('a, 'k) Reconciler \<Rightarrow> string \<Rightarrow> ('a, 'k, unit) step" where
  "removeCondition r conditionType =
     updStatus (\<lambda>st. st\<lparr>status_Conditions := RemoveStatusCondition r (status_Conditions st) conditionType\<rparr>)"

text \<open>A patch call of the Kubernetes client, which stores the answer in the object it was given.\<close>

definition patchApp ::
  "(AuthentikApplication \<Rightarrow> AuthentikApplication \<Rightarrow> ('k, AuthentikApplication) kcall) \<Rightarrow>
   AuthentikApplication \<Rightarrow> ('a, 'k, unit) step" where
  "patchApp call from =
     bindE (readE st_app) (\<lambda>a. bindE (kapi (call from a)) (\<lambda>a'. modifyE (\<lambda>s. s\<lparr>st_app := a'\<rparr>)))"

definition patchStatus :: "('a, 'k) Reconciler \<Rightarrow> ('a, 'k, unit) step" where
  "patchStatus r =
     bindE (readE st_base) (\<lambda>b. bindE (readE st_app) (\<lambda>a.
     if StatusDeepEqual r (app_Status b) (app_Status a) then retE ()
     else thenE (wrapE ''failed to update the status'' (patchApp (KStatusPatch (Kube r)) b))
            (modifyE (\<lambda>s. s\<lparr>st_base := st_app s\<rparr>))))"

end
