(* ===== verification/Conflict.thy ===== *)
theory Conflict
  imports World "HOL-Library.Product_Lexorder"
begin

text \<open>
  Slug conflicts (\<open>internal/controller/conflict.go\<close>): among the resources that share a slug one
  manages the Application, and every resource agrees on which one. The comparison of the code is
  shown to be the lexicographic order of \<open>conflict_key\<close>, of which the winner is the minimum.
\<close>

section \<open>Model\<close>

definition cmp_Compare :: "'b::linorder \<Rightarrow> 'b \<Rightarrow> int" where
  "cmp_Compare x y = (if x < y then - 1 else if y < x then 1 else 0)"

fun cmp_Or :: "int list \<Rightarrow> int" where
  "cmp_Or [] = 0"
| "cmp_Or (v # vs) = (if v \<noteq> 0 then v else cmp_Or vs)"

definition conflictCompare :: "AuthentikApplication \<Rightarrow> AuthentikApplication \<Rightarrow> int" where
  "conflictCompare a b =
     (let aRecorded = (status_ApplicationPK (app_Status a) \<noteq> []);
          bRecorded = (status_ApplicationPK (app_Status b) \<noteq> []) in
      if aRecorded \<noteq> bRecorded then (if aRecorded then - 1 else 1)
      else cmp_Or [cmp_Compare (meta_CreationTimestamp a) (meta_CreationTimestamp b),
             cmp_Compare (meta_Namespace a) (meta_Namespace b), cmp_Compare (meta_Name a) (meta_Name b)])"

text \<open>\<open>slices.MinFunc\<close> on a list that is not empty.\<close>

fun MinFunc :: "('b \<Rightarrow> 'b \<Rightarrow> int) \<Rightarrow> 'b \<Rightarrow> 'b list \<Rightarrow> 'b" where
  "MinFunc cmp m [] = m"
| "MinFunc cmp m (x # xs) = MinFunc cmp (if cmp x m < 0 then x else m) xs"

definition conflictWinner :: "AuthentikApplication list \<Rightarrow> AuthentikApplication option" where
  "conflictWinner candidates =
     (case candidates of [] \<Rightarrow> None | c # cs \<Rightarrow> Some (MinFunc conflictCompare c cs))"

definition conflictCandidates :: "AuthentikApplication \<Rightarrow> AuthentikApplication list \<Rightarrow> AuthentikApplication list" where
  "conflictCandidates a items =
     a # filter (\<lambda>other. meta_UID other \<noteq> meta_UID a \<and> meta_DeletionTimestamp other = None) items"

definition checkConflict :: "('a, 'k) Reconciler \<Rightarrow> ('a, 'k, unit) step" where
  "checkConflict r =
     bindE (readE st_app) (\<lambda>a.
     let slug = spec_Slug (app_Spec a) in
     bindE (wrapE (''failed to list resources with slug '' @ quote slug) (kapi (KListBySlug (Kube r) slug)))
       (\<lambda>items. case conflictWinner (conflictCandidates a items) of
          None \<Rightarrow> retE ()
        | Some winner \<Rightarrow>
            (if meta_UID winner = meta_UID a then retE ()
             else throwE (StopError ReasonConflict
               (''slug '' @ quote slug @ '' is managed by '' @ meta_Namespace winner @ ''/'' @ meta_Name winner)))))"

text \<open>The requests of a watched event: the namespaces and names to reconcile.\<close>

definition sameSlugRequests ::
  "('a, 'k) Reconciler \<Rightarrow> AuthentikApplication \<Rightarrow> ('a, 'k, (string \<times> string) list) step" where
  "sameSlugRequests r a =
     bindE (attempt (kapi (KListBySlug (Kube r) (spec_Slug (app_Spec a))))) (\<lambda>listed. case listed of
       Inl e \<Rightarrow> retE []
     | Inr items \<Rightarrow> retE (map (\<lambda>other. (meta_Namespace other, meta_Name other))
         (filter (\<lambda>other. meta_UID other \<noteq> meta_UID a) items)))"

definition conflictUpdate :: "AuthentikApplication \<Rightarrow> AuthentikApplication \<Rightarrow> bool" where
  "conflictUpdate oldApp newApp \<longleftrightarrow>
     status_ApplicationPK (app_Status oldApp) \<noteq> status_ApplicationPK (app_Status newApp) \<or>
     (meta_DeletionTimestamp oldApp = None) \<noteq> (meta_DeletionTimestamp newApp = None)"

section \<open>The order\<close>

definition conflict_key :: "AuthentikApplication \<Rightarrow> bool \<times> int \<times> string \<times> string" where
  "conflict_key a =
     (status_ApplicationPK (app_Status a) = [], meta_CreationTimestamp a, meta_Namespace a, meta_Name a)"

lemma conflictCompare_key: "conflictCompare a b < 0 \<longleftrightarrow> conflict_key a < conflict_key b"
  by (auto simp: conflictCompare_def conflict_key_def Let_def cmp_Compare_def less_prod_def')

lemma MinFunc_key:
  assumes "\<And>a b. cmp a b < 0 \<longleftrightarrow> key a < (key b :: 'c::linorder)"
  shows "MinFunc cmp m xs \<in> set (m # xs) \<and> (\<forall>x \<in> set (m # xs). key (MinFunc cmp m xs) \<le> key x)"
proof (induction xs arbitrary: m)
  case (Cons x xs)
  show ?case
  proof (cases "cmp x m < 0")
    case True
    then show ?thesis using Cons [of x] assms by fastforce
  next
    case False
    then show ?thesis using Cons [of m] assms by fastforce
  qed
qed simp

text \<open>The winner is the candidate with the least key.\<close>

lemma conflictWinner_least:
  assumes "conflictWinner cs = Some w"
  shows "w \<in> set cs" and "c \<in> set cs \<Longrightarrow> conflict_key w \<le> conflict_key c"
  using assms MinFunc_key [of conflictCompare conflict_key, OF conflictCompare_key]
  by (auto simp: conflictWinner_def split: list.splits)

lemma conflictWinner_Some: "cs \<noteq> [] \<Longrightarrow> \<exists>w. conflictWinner cs = Some w"
  by (auto simp: conflictWinner_def split: list.splits)

text \<open>Two candidate lists with the same resources have the same winner, whatever their order.\<close>

lemma conflictWinner_set:
  assumes "set cs = set ds"
    and "\<And>x y. x \<in> set cs \<Longrightarrow> y \<in> set cs \<Longrightarrow> meta_Namespace x = meta_Namespace y \<Longrightarrow>
      meta_Name x = meta_Name y \<Longrightarrow> x = y"
  shows "conflictWinner cs = conflictWinner ds"
proof (cases "cs = []")
  case True
  with assms(1) show ?thesis by simp
next
  case False
  with assms(1) obtain w v where w: "conflictWinner cs = Some w" and v: "conflictWinner ds = Some v"
    using conflictWinner_Some by (metis set_empty)
  have "conflict_key w = conflict_key v"
    using conflictWinner_least [OF w] conflictWinner_least [OF v] assms(1) by (metis order_antisym)
  then have "w = v"
    using assms(2) conflictWinner_least(1) [OF w] conflictWinner_least(1) [OF v] assms(1)
    by (simp add: conflict_key_def)
  with w v show ?thesis by simp
qed

text \<open>The winner depends on the keys of the candidates only.\<close>

lemma MinFunc_rel:
  assumes "list_all2 (\<lambda>x y. conflict_key x = conflict_key y \<and> meta_UID x = meta_UID y) xs ys"
    and "conflict_key m = conflict_key n" and "meta_UID m = meta_UID n"
  shows "meta_UID (MinFunc conflictCompare m xs) = meta_UID (MinFunc conflictCompare n ys)"
  using assms
proof (induction xs ys arbitrary: m n rule: list_all2_induct)
  case (Cons x xs y ys)
  show ?case
    using Cons.hyps Cons.prems
      Cons.IH [of "if conflictCompare x m < 0 then x else m" "if conflictCompare y n < 0 then y else n"]
    by (simp add: conflictCompare_key split: if_splits)
qed simp

lemma conflictWinner_rel:
  assumes "list_all2 (\<lambda>x y. conflict_key x = conflict_key y \<and> meta_UID x = meta_UID y) cs ds"
  shows "map_option meta_UID (conflictWinner cs) = map_option meta_UID (conflictWinner ds)"
  using assms by (cases cs; cases ds) (auto simp: conflictWinner_def intro: MinFunc_rel)

section \<open>Properties\<close>

lemma conflictCandidates_set:
  assumes "a \<in> set items" and "distinct (map meta_UID items)"
    and "\<And>b. b \<in> set items \<Longrightarrow> meta_DeletionTimestamp b = None"
  shows "set (conflictCandidates a items) = set items"
  using assms by (auto simp: conflictCandidates_def distinct_map dest: inj_onD)

lemma checkConflict_run:
  assumes "KListBySlug (Kube r) (spec_Slug (app_Spec (st_app s))) (kube s) = (Inr items, k)"
    and "conflictWinner (conflictCandidates (st_app s) items) = Some w"
  shows "checkConflict r s = ((if meta_UID w = meta_UID (st_app s) then Inr ()
      else Inl (StopError ReasonConflict (''slug '' @ quote (spec_Slug (app_Spec (st_app s))) @
        '' is managed by '' @ meta_Namespace w @ ''/'' @ meta_Name w))), s\<lparr>kube := k\<rparr>)"
  using assms by (simp add: checkConflict_def run_simps kapi_def Let_def)

text \<open>
  C14: of the resources that share a slug exactly one passes the conflict check and all others
  stop with the reason Conflict, in whatever order the cluster lists them to each of them.
\<close>

theorem conflict_one_winner:
  assumes "items \<noteq> []" and "distinct (map meta_UID items)"
    and "\<And>a. a \<in> set items \<Longrightarrow> spec_Slug (app_Spec a) = slug \<and> meta_DeletionTimestamp a = None"
    and "\<And>a b. a \<in> set items \<Longrightarrow> b \<in> set items \<Longrightarrow> meta_Namespace a = meta_Namespace b \<Longrightarrow>
      meta_Name a = meta_Name b \<Longrightarrow> a = b"
    and "\<And>a. a \<in> set items \<Longrightarrow> KListBySlug (Kube r) slug (k a) = (Inr (listed a), k' a) \<and> set (listed a) = set items
      \<and> distinct (map meta_UID (listed a))"
  shows "\<exists>w \<in> set items. \<forall>a \<in> set items.
    (if a = w then fst (checkConflict r (s\<lparr>st_app := a, kube := k a\<rparr>)) = Inr ()
     else \<exists>msg. fst (checkConflict r (s\<lparr>st_app := a, kube := k a\<rparr>)) = Inl (StopError ReasonConflict msg))"
proof -
  obtain w where w: "conflictWinner items = Some w" using conflictWinner_Some [OF assms(1)] by blast
  have "w \<in> set items" using conflictWinner_least(1) [OF w] .
  moreover have "conflictWinner (conflictCandidates a (listed a)) = Some w" if "a \<in> set items" for a
  proof -
    have "set (conflictCandidates a (listed a)) = set items"
      using conflictCandidates_set [of a "listed a"] assms(3,5) that by auto
    then show ?thesis using conflictWinner_set [of "conflictCandidates a (listed a)" items] assms(4) w by auto
  qed
  ultimately show ?thesis
    using assms(2,3,5) by (intro bexI [of _ w]) (auto simp: checkConflict_run distinct_map dest: inj_onD)
qed

text \<open>
  C15: the watch on resources with the same slug misses no change of the winner: an update that
  the predicate filters out leaves the winner of every candidate list as it is.
\<close>

theorem conflictUpdate_complete:
  assumes "\<not> conflictUpdate old new"
    and "meta_UID new = meta_UID old" and "meta_CreationTimestamp new = meta_CreationTimestamp old"
    and "meta_Namespace new = meta_Namespace old" and "meta_Name new = meta_Name old"
  shows "map_option meta_UID (conflictWinner (conflictCandidates a (pre @ new # post))) =
    map_option meta_UID (conflictWinner (conflictCandidates a (pre @ old # post)))"
proof (rule conflictWinner_rel)
  have "conflict_key new = conflict_key old"
    "(meta_DeletionTimestamp new = None) = (meta_DeletionTimestamp old = None)"
    using assms by (auto simp: conflictUpdate_def conflict_key_def)
  then show "list_all2 (\<lambda>x y. conflict_key x = conflict_key y \<and> meta_UID x = meta_UID y)
      (conflictCandidates a (pre @ new # post)) (conflictCandidates a (pre @ old # post))"
    using assms(2) by (auto simp: conflictCandidates_def list.rel_refl intro!: list_all2_appendI list.rel_refl)
qed

end
