(* ===== verification/Provider.thy ===== *)
theory Provider
  imports Conflict
begin

text \<open>
  Providers and adoption (\<open>internal/controller/provider.go\<close>, \<open>internal/controller/adoption.go\<close>).
  The interface \<open>providerHandler\<close> is a record of operations with one value per Provider type, and
  an \<open>observedProvider\<close> carries its closures \<open>sync\<close> and \<open>diffs\<close> as fields.
\<close>

section \<open>Adoption diffs\<close>

definition redacted :: string where "redacted = ''(redacted)''"

definition ConfidentialFields :: "string list" where
  "ConfidentialFields = [''client_secret'', ''password'', ''token'']"

definition applicationFieldPaths :: "(string \<times> string) list" where
  "applicationFieldPaths =
     [(''name'', ''name''), (''meta_launch_url'', ''launchURL''), (''meta_icon'', ''icon''),
      (''meta_description'', ''description''), (''meta_publisher'', ''publisher''), (''group'', ''group''),
      (''open_in_new_tab'', ''openInNewTab''), (''meta_hide'', ''hideFromApplicationDashboard''),
      (''policy_engine_mode'', ''access.mode'')]"

definition providerFieldPaths :: "(string \<times> string) list" where
  "providerFieldPaths =
     [(''name'', ''provider.name''), (''authorization_flow'', ''provider.flows.authorization''),
      (''invalidation_flow'', ''provider.flows.invalidation''),
      (''authentication_flow'', ''provider.flows.authentication'')]"

definition proxyFieldPaths :: "(string \<times> string) list" where
  "proxyFieldPaths =
     [(''mode'', ''provider.proxy''), (''internal_host'', ''provider.proxy.proxy.internalHost''),
      (''internal_host_ssl_validation'', ''provider.proxy.proxy.internalHostSSLValidation''),
      (''cookie_domain'', ''provider.proxy.forwardAuthDomain.cookieDomain''),
      (''skip_path_regex'', ''provider.proxy.unauthenticatedPaths''),
      (''basic_auth_enabled'', ''provider.proxy.basicAuth''),
      (''basic_auth_user_attribute'', ''provider.proxy.basicAuth.userAttribute''),
      (''basic_auth_password_attribute'', ''provider.proxy.basicAuth.passwordAttribute''),
      (''intercept_header_auth'', ''provider.proxy.interceptHeaderAuth''),
      (''access_token_validity'', ''provider.proxy.accessTokenValidity''),
      (''refresh_token_validity'', ''provider.proxy.refreshTokenValidity''),
      (''certificate'', ''provider.proxy.certificate'')]"

definition oauth2FieldPaths :: "(string \<times> string) list" where
  "oauth2FieldPaths =
     [(''property_mappings'', ''provider.oauth2.scopes''), (''client_type'', ''provider.oauth2.clientType''),
      (''grant_types'', ''provider.oauth2.grantTypes''),
      (''client_id'', ''provider.oauth2.credentials.clientID''),
      (''client_secret'', ''provider.oauth2.credentials.secretRef.clientSecretKey''),
      (''access_code_validity'', ''provider.oauth2.accessCodeValidity''),
      (''access_token_validity'', ''provider.oauth2.accessTokenValidity''),
      (''refresh_token_validity'', ''provider.oauth2.refreshTokenValidity''),
      (''refresh_token_threshold'', ''provider.oauth2.refreshTokenThreshold''),
      (''include_claims_in_id_token'', ''provider.oauth2.includeClaimsInIDToken''),
      (''signing_key'', ''provider.oauth2.signingKey''), (''encryption_key'', ''provider.oauth2.encryptionKey''),
      (''redirect_uris'', ''provider.oauth2.redirectURIs''), (''logout_uri'', ''provider.oauth2.logoutURI''),
      (''logout_method'', ''provider.oauth2.logoutMethod''), (''sub_mode'', ''provider.oauth2.subjectMode''),
      (''issuer_mode'', ''provider.oauth2.issuerMode'')]"

definition proxyFieldPathsFor :: "ProxyProviderSpec \<Rightarrow> (string \<times> string) list" where
  "proxyFieldPathsFor proxy =
     (if proxy_Proxy proxy \<noteq> None then [(''external_host'', ''provider.proxy.proxy.externalHost'')]
      else if proxy_ForwardAuthSingle proxy \<noteq> None
      then [(''external_host'', ''provider.proxy.forwardAuthSingle.externalHost'')]
      else if proxy_ForwardAuthDomain proxy \<noteq> None
      then [(''external_host'', ''provider.proxy.forwardAuthDomain.authenticationURL'')]
      else []) @ proxyFieldPaths @ providerFieldPaths"

definition oauth2FieldPathsFor :: "(string \<times> string) list" where
  "oauth2FieldPathsFor = oauth2FieldPaths @ providerFieldPaths"

definition formatValue :: "json \<Rightarrow> string" where
  "formatValue v = (case v of JNull \<Rightarrow> [] | JStr s \<Rightarrow> s | _ \<Rightarrow> marshal v)"

text \<open>A missing key of \<open>map[string]any\<close> reads as nil.\<close>

definition fieldOf :: "(string \<times> json) list \<Rightarrow> string \<Rightarrow> json" where
  "fieldOf fs key = (case map_of fs key of None \<Rightarrow> JNull | Some v \<Rightarrow> v)"

definition fieldDiff :: "(string \<times> string) list \<Rightarrow> (string \<times> json) list \<Rightarrow> (string \<times> json) list \<Rightarrow> string \<Rightarrow> FieldDiff" where
  "fieldDiff paths desired observed key =
     (let path = (case map_of paths key of None \<Rightarrow> key | Some p \<Rightarrow> p) in
      if key \<in> set ConfidentialFields
      then \<lparr> diff_Field = path, diff_Desired = redacted, diff_Actual = redacted \<rparr>
      else \<lparr> diff_Field = path, diff_Desired = formatValue (fieldOf desired key),
             diff_Actual = formatValue (fieldOf observed key) \<rparr>)"

definition fieldDiffs :: "(string \<times> string) list \<Rightarrow> (string \<times> json) list \<Rightarrow> (string \<times> json) list \<Rightarrow> FieldDiff list" where
  "fieldDiffs paths desired observed =
     map (fieldDiff paths desired observed)
       (filter (\<lambda>key. fieldOf desired key \<noteq> fieldOf observed key) (sort (remdups (map fst desired))))"

section \<open>Provider handlers\<close>

record ('a, 'k) observedProvider =
  observed_pk :: int
  observed_assignedApplication :: "string option"
  observed_sync :: "('a, 'k, unit) step"
  observed_diffs :: "FieldDiff list"

record ('a, 'k) providerHandler =
  handler_kind :: string
  handler_model :: string
  handler_get :: "int \<Rightarrow> ('a, 'k, ('a, 'k) observedProvider) step"
  handler_findByName :: "string \<Rightarrow> ('a, 'k, ('a, 'k) observedProvider list) step"
  handler_create :: "string \<Rightarrow> ('a, 'k, int) step"
  handler_existsAsOtherType :: "int \<Rightarrow> ('a, 'k, bool) step"

text \<open>\<open>exists\<close>: whether a Get call found the object.\<close>

definition existsE :: "('a, 'k, 'r) step \<Rightarrow> ('a, 'k, bool) step" where
  "existsE m =
     bindE (attempt m) (\<lambda>r. case r of
       Inl err \<Rightarrow> (if IsNotFound err then retE False else throwE err)
     | Inr _ \<Rightarrow> retE True)"

definition proxy_observe ::
  "('a, 'k) Reconciler \<Rightarrow> ProxyProviderSpec \<Rightarrow> PatchedProxyProviderRequest \<Rightarrow> ProxyProvider \<Rightarrow> ('a, 'k) observedProvider" where
  "proxy_observe r spec desired provider =
     \<lparr> observed_pk = px_Pk provider,
       observed_assignedApplication = Get (px_AssignedApplicationSlug provider),
       observed_sync = (case DiffProxyProvider desired provider of
           None \<Rightarrow> retE ()
         | Some patch \<Rightarrow> thenE (srv (PatchProxyProvider (Authentik r) (px_Pk provider) patch)) (retE ())),
       observed_diffs = (case DiffProxyProvider desired provider of
           None \<Rightarrow> []
         | Some patch \<Rightarrow> fieldDiffs (proxyFieldPathsFor spec) (patchedProxyFields r patch) (proxyFields r provider)) \<rparr>"

definition proxyProviderHandler ::
  "('a, 'k) Reconciler \<Rightarrow> ProxyProviderSpec \<Rightarrow> PatchedProxyProviderRequest \<Rightarrow> ('a, 'k) providerHandler" where
  "proxyProviderHandler r spec desired =
     \<lparr> handler_kind = ''Proxy'',
       handler_model = ModelProxyProvider,
       handler_get = (\<lambda>pk. bindE (srv (GetProxyProvider (Authentik r) pk)) (\<lambda>provider.
         retE (proxy_observe r spec desired provider))),
       handler_findByName = (\<lambda>name. bindE (srv (FindProxyProvidersByName (Authentik r) name)) (\<lambda>providers.
         retE (map (proxy_observe r spec desired) providers))),
       handler_create = (\<lambda>name.
         bindE (srv (CreateProxyProvider (Authentik r) (createProxyProviderRequest name desired))) (\<lambda>provider.
         retE (px_Pk provider))),
       handler_existsAsOtherType = (\<lambda>pk. existsE (srv (GetOAuth2Provider (Authentik r) pk))) \<rparr>"

definition oauth2_observe ::
  "('a, 'k) Reconciler \<Rightarrow> PatchedOAuth2ProviderRequest \<Rightarrow> OAuth2Provider \<Rightarrow> ('a, 'k) observedProvider" where
  "oauth2_observe r desired provider =
     \<lparr> observed_pk = ox_Pk provider,
       observed_assignedApplication = Get (ox_AssignedApplicationSlug provider),
       observed_sync = (case DiffOAuth2Provider desired provider of
           None \<Rightarrow> retE ()
         | Some patch \<Rightarrow> thenE (srv (PatchOAuth2Provider (Authentik r) (ox_Pk provider) patch)) (retE ())),
       observed_diffs = (case DiffOAuth2Provider desired provider of
           None \<Rightarrow> []
         | Some patch \<Rightarrow> fieldDiffs oauth2FieldPathsFor (patchedOAuth2Fields r patch) (oauth2Fields r provider)) \<rparr>"

definition oauth2ProviderHandler ::
  "('a, 'k) Reconciler \<Rightarrow> AuthentikApplication \<Rightarrow> PatchedOAuth2ProviderRequest \<Rightarrow> ('a, 'k) providerHandler" where
  "oauth2ProviderHandler r a desired =
     \<lparr> handler_kind = ''OAuth2'',
       handler_model = ModelOAuth2Provider,
       handler_get = (\<lambda>pk. bindE (srv (GetOAuth2Provider (Authentik r) pk)) (\<lambda>provider.
         retE (oauth2_observe r desired provider))),
       handler_findByName = (\<lambda>name. bindE (srv (FindOAuth2ProvidersByName (Authentik r) name)) (\<lambda>providers.
         retE (map (oauth2_observe r desired) providers))),
       handler_create = (\<lambda>name.
         bindE (ResolveCreationDefaults (resolver_of r) a) (\<lambda>defaults.
         bindE (srv (CreateOAuth2Provider (Authentik r) (createOAuth2ProviderRequest name desired defaults))) (\<lambda>provider.
         retE (ox_Pk provider)))),
       handler_existsAsOtherType = (\<lambda>pk. existsE (srv (GetProxyProvider (Authentik r) pk))) \<rparr>"

text \<open>Only called on a spec with a provider, after its references were resolved.\<close>

definition handlerFor :: "('a, 'k) Reconciler \<Rightarrow> AuthentikApplication \<Rightarrow> Resolved \<Rightarrow> ('a, 'k) providerHandler" where
  "handlerFor r a refs =
     (let provider = the (spec_Provider (app_Spec a)) in
      case provider_Proxy provider of
        Some proxy \<Rightarrow> proxyProviderHandler r proxy
          (desiredProxyProvider provider proxy (the (resolved_Flows refs)) (the (resolved_Proxy refs)))
      | None \<Rightarrow> oauth2ProviderHandler r a
          (desiredOAuth2Provider provider (the (provider_OAuth2 provider)) (the (resolved_Flows refs))
             (the (resolved_OAuth2 refs))))"

definition getHandler :: "('a, 'k) Reconciler \<Rightarrow> ('a, 'k, ('a, 'k) providerHandler) step" where
  "getHandler r = readE (\<lambda>s. handlerFor r (st_app s) (st_resolved s))"

definition providerTypeMismatch :: "string \<Rightarrow> int \<Rightarrow> string \<Rightarrow> goerror" where
  "providerTypeMismatch slug pk kind =
     StopError ReasonProviderTypeMismatch
       (''Application '' @ quote slug @ '' has a Provider '' @ itoa pk @ '' that is not a '' @ kind @ '' Provider'')"

text \<open>
  The lookup of the attached Provider shared by \<open>attachedProvider\<close> and \<open>findProvider\<close>: a Provider
  of the type of the spec, nothing, or an error when it has the other type.
\<close>

definition getAttached ::
  "('a, 'k) providerHandler \<Rightarrow> string \<Rightarrow> int \<Rightarrow> ('a, 'k, ('a, 'k) observedProvider option) step" where
  "getAttached handler slug pk =
     bindE (attempt (handler_get handler pk)) (\<lambda>got. case got of
       Inr provider \<Rightarrow> retE (Some provider)
     | Inl err \<Rightarrow>
         (if \<not> IsNotFound err then throwE err
          else bindE (handler_existsAsOtherType handler pk) (\<lambda>otherType.
            if otherType then throwE (providerTypeMismatch slug pk (handler_kind handler)) else retE None)))"

definition attachedProvider ::
  "('a, 'k) Reconciler \<Rightarrow> Application \<Rightarrow> ('a, 'k, ('a, 'k) observedProvider option) step" where
  "attachedProvider r application =
     bindE (readE sys_spec) (\<lambda>sp.
     case Get (appl_Provider application) of
       None \<Rightarrow> retE None
     | Some pk \<Rightarrow>
         (if spec_Provider sp = None then retE None
          else bindE (getHandler r) (\<lambda>handler. getAttached handler (appl_Slug application) pk)))"

definition adoptName :: "AdoptionPolicy \<Rightarrow> string" where
  "adoptName policy = (case policy of AdoptionPolicyNever \<Rightarrow> ''Never'' | AdoptionPolicyIfMatch \<Rightarrow> ''IfMatch''
     | AdoptionPolicyForce \<Rightarrow> ''Force'')"

definition adoptApplication :: "('a, 'k) Reconciler \<Rightarrow> Application \<Rightarrow> ('a, 'k, unit) step" where
  "adoptApplication r observed =
     bindE (readE sys_spec) (\<lambda>sp.
     let policy = (case spec_Adopt sp of None \<Rightarrow> AdoptionPolicyNever | Some p \<Rightarrow> p) in
     if policy = AdoptionPolicyNever
     then throwE (StopError ReasonUnmanaged (''Application '' @ quote (appl_Slug observed)
            @ '' exists in authentik and is not managed by the operator; set spec.adopt to adopt it''))
     else bindE (attachedProvider r observed) (\<lambda>provider.
       let diffs =
         (if policy = AdoptionPolicyIfMatch
          then (case DiffApplication (desiredApplication sp None) observed of
              None \<Rightarrow> []
            | Some patch \<Rightarrow> fieldDiffs applicationFieldPaths (patchedApplicationFields r patch)
                (applicationFields r observed)) @
            (case provider of None \<Rightarrow> [] | Some p \<Rightarrow> observed_diffs p)
          else []) in
       if diffs \<noteq> []
       then thenE (updStatus (\<lambda>st. st\<lparr>status_AdoptionDiff := diffs\<rparr>))
              (throwE (StopError ReasonAdoptionDiff (itoa (int (length diffs)) @ '' fields differ'')))
       else Eventf EventTypeNormal eventReasonAdopted eventActionReconcile
              (''Adopted Application '' @ quote (appl_Slug observed) @ '' with adopt '' @ adoptName policy)))"

section \<open>The Provider of a resource\<close>

definition findProvider ::
  "('a, 'k) providerHandler \<Rightarrow> Application option \<Rightarrow> ('a, 'k, ('a, 'k) observedProvider option) step" where
  "findProvider handler application =
     bindE (readE sys_status) (\<lambda>st. bindE (readE sys_spec) (\<lambda>sp.
     bindE (case status_ProviderPK st of
         None \<Rightarrow> retE None
       | Some recorded \<Rightarrow>
           (let pk = int32_of recorded in
            bindE (attempt (handler_get handler pk)) (\<lambda>got. case got of
              Inr provider \<Rightarrow> retE (Some provider)
            | Inl err \<Rightarrow>
                (if \<not> IsNotFound err then throwE err
                 else thenE (Eventf EventTypeWarning eventReasonRecreated eventActionReconcile
                        (handler_kind handler @ '' Provider '' @ itoa pk
                          @ '' was deleted outside the operator and is recreated''))
                   (thenE (updStatus (\<lambda>st. st\<lparr>status_ProviderPK := None\<rparr>)) (retE None)))))) (\<lambda>recorded.
     if recorded \<noteq> None then retE recorded
     else bindE (case application of
         None \<Rightarrow> retE None
       | Some a \<Rightarrow> (case Get (appl_Provider a) of
           None \<Rightarrow> retE None
         | Some pk \<Rightarrow> getAttached handler (appl_Slug a) pk)) (\<lambda>attached.
     if attached \<noteq> None then retE attached
     else bindE (handler_findByName handler (providerName sp)) (\<lambda>candidates.
       retE (List.find (\<lambda>c. observed_assignedApplication c = None \<or>
                observed_assignedApplication c = Some (spec_Slug sp)) candidates))))))"

definition reconcileProvider :: "('a, 'k) Reconciler \<Rightarrow> Application option \<Rightarrow> ('a, 'k, int) step" where
  "reconcileProvider r application =
     bindE (getHandler r) (\<lambda>handler.
     bindE (findProvider handler application) (\<lambda>provider.
     bindE (readE sys_spec) (\<lambda>sp.
     bindE (case provider of
         Some p \<Rightarrow> retE (observed_pk p)
       | None \<Rightarrow>
           (let name = providerName sp in
            bindE (handler_create handler name) (\<lambda>pk.
            thenE (Eventf EventTypeNormal eventReasonCreated eventActionReconcile
                (''Created '' @ handler_kind handler @ '' Provider '' @ quote name)) (retE pk)))) (\<lambda>pk.
     bindE (readE sys_status) (\<lambda>st.
     thenE (if status_ProviderPK st \<noteq> Some pk
            then thenE (updStatus (\<lambda>st. st\<lparr>status_ProviderPK := Some pk\<rparr>)) (patchStatus r)
            else retE ())
     (thenE (cache_ensure (markers r) \<lparr> obj_Model = handler_model handler, obj_PK = itoa pk \<rparr>)
     (thenE (case provider of Some p \<Rightarrow> observed_sync p | None \<Rightarrow> retE ())
     (retE pk))))))))"

end
