(* ===== verification/Controller.thy ===== *)
theory Controller
  imports Provider
begin

text \<open>
  The steps of one reconcile on the Application, the Outpost and the credentials Secret
  (\<open>internal/controller/application.go\<close>, \<open>outpost.go\<close>, \<open>credentials.go\<close>, and the Outpost helpers of
  \<open>deletion.go\<close>).
\<close>

section \<open>Application\<close>

definition applicationObject :: "Application \<Rightarrow> Object" where
  "applicationObject application = \<lparr> obj_Model = ModelApplication, obj_PK = appl_Pk application \<rparr>"

definition recordApplication :: "Application \<Rightarrow> ('a, 'k, unit) step" where
  "recordApplication a =
     updStatus (\<lambda>st. st\<lparr>status_ApplicationSlug := appl_Slug a, status_ApplicationPK := appl_Pk a\<rparr>)"

definition observeApplication :: "('a, 'k) Reconciler \<Rightarrow> ('a, 'k, Application option) step" where
  "observeApplication r =
     bindE (readE sys_spec) (\<lambda>sp. bindE (readE sys_status) (\<lambda>st.
     let slug = spec_Slug sp in
     bindE (attempt (srv (GetApplication (Authentik r) slug))) (\<lambda>got. case got of
       Inl err \<Rightarrow>
         (if IsNotFound err
          then (if status_ApplicationPK st \<noteq> []
                then thenE (Eventf EventTypeWarning eventReasonRecreated eventActionReconcile
                       (''Application '' @ quote slug @ '' was deleted outside the operator and is recreated''))
                  (thenE (updStatus (\<lambda>st. st\<lparr>status_ApplicationSlug := [], status_ApplicationPK := []\<rparr>)) (retE None))
                else retE None)
          else throwE err)
     | Inr observed \<Rightarrow>
         (if status_ApplicationPK st = appl_Pk observed
          then thenE (cache_ensure (markers r) (applicationObject observed)) (retE (Some observed))
          else bindE (cache_isManaged (markers r) (applicationObject observed)) (\<lambda>managed.
            thenE (if \<not> managed then adoptApplication r observed else retE ())
            (thenE (recordApplication observed)
            (thenE (patchStatus r)
            (thenE (cache_ensure (markers r) (applicationObject observed))
            (retE (Some observed))))))))))"

definition reconcileApplication ::
  "('a, 'k) Reconciler \<Rightarrow> Application option \<Rightarrow> int option \<Rightarrow> ('a, 'k, Application) step" where
  "reconcileApplication r observed providerPK =
     bindE (readE sys_spec) (\<lambda>sp.
     let desired = desiredApplication sp providerPK in
     case observed of
       None \<Rightarrow>
         bindE (srv (CreateApplication (Authentik r) (createApplicationRequest (spec_Slug sp) desired))) (\<lambda>created.
         thenE (recordApplication created)
         (thenE (patchStatus r)
         (thenE (cache_ensure (markers r) (applicationObject created))
         (thenE (Eventf EventTypeNormal eventReasonCreated eventActionReconcile
             (''Created Application '' @ quote (appl_Slug created)))
         (retE created)))))
     | Some o' \<Rightarrow>
         (case DiffApplication desired o' of
            None \<Rightarrow> retE o'
          | Some patch \<Rightarrow> srv (PatchApplication (Authentik r) (appl_Slug o') patch)))"

section \<open>Outpost\<close>

definition removeProviderFromOutpost :: "('a, 'k) Reconciler \<Rightarrow> Outpost \<Rightarrow> int \<Rightarrow> ('a, 'k, unit) step" where
  "removeProviderFromOutpost r outpost pk =
     (if pk \<notin> set (outpost_Providers outpost) then retE ()
      else ignoreNotFound (srv (SetOutpostProviders (Authentik r) (outpost_Pk outpost)
             (filter (\<lambda>p. \<not> p = pk) (outpost_Providers outpost)))))"

definition leaveOutpostByUUID :: "('a, 'k) Reconciler \<Rightarrow> string \<Rightarrow> int \<Rightarrow> ('a, 'k, unit) step" where
  "leaveOutpostByUUID r uuid pk =
     bindE (attempt (srv (GetOutpost (Authentik r) uuid))) (\<lambda>got. case got of
       Inl err \<Rightarrow> (if IsNotFound err then retE () else throwE err)
     | Inr outpost \<Rightarrow> removeProviderFromOutpost r outpost pk)"

definition leaveOutpost :: "('a, 'k) Reconciler \<Rightarrow> NamedReference option \<Rightarrow> int \<Rightarrow> ('a, 'k, unit) step" where
  "leaveOutpost r ref pk =
     (let ref' = the (cmp_or ref (Some embeddedOutpost)) in
      case ref_UUID ref' of
        Some uuid \<Rightarrow> leaveOutpostByUUID r uuid pk
      | None \<Rightarrow>
          bindE (deref (ref_Name ref')) (\<lambda>name.
          bindE (srv (FindOutpostsByName (Authentik r) name)) (\<lambda>found. case found of
            [outpost] \<Rightarrow> removeProviderFromOutpost r outpost pk
          | _ \<Rightarrow> retE ())))"

definition reconcileOutpost :: "('a, 'k) Reconciler \<Rightarrow> int \<Rightarrow> ('a, 'k, unit) step" where
  "reconcileOutpost r providerPK =
     bindE (readE (\<lambda>s. proxyrefs_Outpost (the (resolved_Proxy (st_resolved s))))) (\<lambda>uuid.
     bindE (srv (GetOutpost (Authentik r) uuid)) (\<lambda>outpost.
     thenE (if providerPK \<notin> set (outpost_Providers outpost)
            then thenE (srv (SetOutpostProviders (Authentik r) uuid (outpost_Providers outpost @ [providerPK])))
                   (retE ())
            else retE ())
     (bindE (readE sys_status) (\<lambda>st.
      let previous = status_OutpostUUID st in
      thenE (if previous \<noteq> [] \<and> previous \<noteq> uuid then leaveOutpostByUUID r previous providerPK else retE ())
      (updStatus (\<lambda>st. st\<lparr>status_OutpostUUID := uuid\<rparr>))))))"

section \<open>Credentials\<close>

text \<open>The indexer of \<open>IndexCredentialsSecret\<close>, and the requests of a watched Secret.\<close>

definition credentialsSecretIndex :: "AuthentikApplication \<Rightarrow> string list" where
  "credentialsSecretIndex a =
     (case Option.bind (Option.bind (spec_Provider (app_Spec a)) provider_OAuth2) oauth2_Credentials of
        None \<Rightarrow> []
      | Some c \<Rightarrow> [secretref_Name (cred_SecretRef c)])"

definition credentialsSecretRequests ::
  "('a, 'k) Reconciler \<Rightarrow> string \<Rightarrow> string \<Rightarrow> ('a, 'k, (string \<times> string) list) step" where
  "credentialsSecretRequests r namespace name =
     bindE (attempt (kapi (KListBySecret (Kube r) namespace name))) (\<lambda>listed. case listed of
       Inl e \<Rightarrow> retE []
     | Inr items \<Rightarrow> retE (map (\<lambda>a. (meta_Namespace a, meta_Name a)) items))"

text \<open>The Secret written for a Provider; the client ID only when the spec does not have one.\<close>

definition credentialsSecret :: "AuthentikApplication \<Rightarrow> OAuth2CredentialsSpec \<Rightarrow> OAuth2Provider \<Rightarrow> Secret" where
  "credentialsSecret a cred provider =
     (let ref = cred_SecretRef cred;
          idKey = the (cmp_or (secretref_ClientIDKey ref) (Some DefaultClientIDKey));
          secretKey = the (cmp_or (secretref_ClientSecretKey ref) (Some DefaultClientSecretKey));
          withID = (case ox_ClientId provider of
              Some i \<Rightarrow> if cred_ClientID cred = None then AList.update idKey i [] else []
            | None \<Rightarrow> []);
          contents = (case ox_ClientSecret provider of
              Some v \<Rightarrow> AList.update secretKey v withID
            | None \<Rightarrow> withID) in
      \<lparr> secret_Namespace = meta_Namespace a, secret_Name = secretref_Name ref,
        secret_Data = contents, secret_OwnerUID = None \<rparr>)"

definition exportCredentials :: "('a, 'k) Reconciler \<Rightarrow> int \<Rightarrow> ('a, 'k, unit) step" where
  "exportCredentials r providerPK =
     bindE (readE st_app) (\<lambda>a.
     let cred = the (oauth2_Credentials (the (provider_OAuth2 (the (spec_Provider (app_Spec a)))))) in
     bindE (srv (GetOAuth2Provider (Authentik r) providerPK)) (\<lambda>provider.
     let secret = credentialsSecret a cred provider in
     bindE (wrapE (''failed to set the owner of Secret '' @ secret_Name secret)
              (liftE (SetControllerReference r a secret))) (\<lambda>owned.
     thenE (wrapE (''failed to create Secret '' @ secret_Namespace secret @ ''/'' @ secret_Name secret)
              (kapi (KCreateSecret (Kube r) owned)))
     (Eventf EventTypeNormal eventReasonCreated eventActionReconcile
        (''Created Secret '' @ quote (secret_Name secret) @ '' with the credentials of the OAuth2 Provider'')))))"

end
