(* ===== verification/Bindings.thy ===== *)
theory Bindings
  imports Controller
begin

text \<open>
  The policy bindings of an Application (\<open>internal/controller/bindings.go\<close>): matching existing
  bindings with access rules, creating and repairing bindings, and only then deleting the ones
  that no rule needs.
\<close>

section \<open>Matching\<close>

definition orderStep :: int where "orderStep = 10"

definition bindingObject :: "string \<Rightarrow> Object" where
  "bindingObject uuid = \<lparr> obj_Model = ModelPolicyBinding, obj_PK = uuid \<rparr>"

text \<open>Whether the inner loop of \<open>assign\<close> takes the binding for the rule.\<close>

definition assignable :: "bool \<Rightarrow> Rule \<Rightarrow> string list \<Rightarrow> PolicyBinding \<Rightarrow> bool" where
  "assignable exactNegate rule used binding \<longleftrightarrow>
     \<not> (bind_Pk binding \<in> set used \<or> observedSubject binding \<noteq> ruleSubject rule \<or>
        (exactNegate \<and> is_true (bind_Negate binding) \<noteq> rl_Negate rule))"

text \<open>One pass of \<open>assign\<close> over the rules and their matches so far.\<close>

fun assign_pass ::
  "bool \<Rightarrow> PolicyBinding list \<Rightarrow> Rule list \<Rightarrow> PolicyBinding option list \<Rightarrow> string list \<Rightarrow>
   PolicyBinding option list \<times> string list" where
  "assign_pass exact bindings (rule # rules) (Some b # ms) used =
     (let (ms', used') = assign_pass exact bindings rules ms used in (Some b # ms', used'))"
| "assign_pass exact bindings (rule # rules) (None # ms) used =
     (case List.find (assignable exact rule used) bindings of
        None \<Rightarrow> (let (ms', used') = assign_pass exact bindings rules ms used in (None # ms', used'))
      | Some b \<Rightarrow> (let (ms', used') = assign_pass exact bindings rules ms (bind_Pk b # used) in (Some b # ms', used')))"
| "assign_pass exact bindings _ _ used = ([], used)"

definition matchBindings :: "Rule list \<Rightarrow> PolicyBinding list \<Rightarrow> bool \<Rightarrow> PolicyBinding option list" where
  "matchBindings rules bindings exactOnly =
     (let (matched, used) = assign_pass True bindings rules (replicate (length rules) None) [] in
      if exactOnly then matched else fst (assign_pass False bindings rules matched used))"

section \<open>Reconciling\<close>

definition union_string :: "string list \<Rightarrow> string \<Rightarrow> string list" where
  "union_string vs v = (if v \<in> set vs then vs else vs @ [v])"

text \<open>\<open>managed\<close>, \<open>unmanaged\<close> and \<open>maxOrder\<close> of the loop of \<open>managedBindings\<close>.\<close>

definition managedBindings ::
  "('a, 'k) Reconciler \<Rightarrow> PolicyBinding list \<Rightarrow>
   ('a, 'k, PolicyBinding list \<times> PolicyBinding list \<times> int) step" where
  "managedBindings r existing =
     foldE existing (\<lambda>(managed, unmanaged, maxOrder) binding.
       let maxOrder' = max maxOrder (bind_Order binding);
           object = bindingObject (bind_Pk binding) in
       bindE (readE sys_status) (\<lambda>st.
       if bind_Pk binding \<in> set (status_BindingUUIDs st)
       then thenE (cache_ensure (markers r) object) (retE (managed @ [binding], unmanaged, maxOrder'))
       else bindE (cache_contains (markers r) object) (\<lambda>marked.
         retE (if marked then (managed @ [binding], unmanaged, maxOrder')
               else (managed, unmanaged @ [binding], maxOrder'))))) ([], [], 0)"

definition adoptBindings ::
  "('a, 'k) Reconciler \<Rightarrow> PolicyBinding option list \<Rightarrow> PolicyBinding option list \<Rightarrow>
   ('a, 'k, PolicyBinding option list) step" where
  "adoptBindings r matched candidates =
     mapE (zip matched candidates) (\<lambda>(m, candidate).
       case (m, candidate) of
         (None, Some binding) \<Rightarrow>
           thenE (cache_ensure (markers r) (bindingObject (bind_Pk binding))) (retE (Some binding))
       | _ \<Rightarrow> retE m)"

definition syncBinding ::
  "('a, 'k) Reconciler \<Rightarrow> PatchedPolicyBindingRequest \<Rightarrow> PolicyBinding \<Rightarrow> ('a, 'k, unit) step" where
  "syncBinding r desired binding =
     (case DiffPolicyBinding desired binding of
        None \<Rightarrow> retE ()
      | Some patch \<Rightarrow> thenE (srv (PatchPolicyBinding (Authentik r) (bind_Pk binding) patch)) (retE ()))"

definition createBinding ::
  "('a, 'k) Reconciler \<Rightarrow> PatchedPolicyBindingRequest \<Rightarrow> int \<Rightarrow> ('a, 'k, string) step" where
  "createBinding r desired order =
     bindE (srv (CreatePolicyBinding (Authentik r) (createBindingRequest desired order))) (\<lambda>created.
     thenE (updStatus (\<lambda>st. st\<lparr>status_BindingUUIDs := union_string (status_BindingUUIDs st) (bind_Pk created)\<rparr>))
     (thenE (patchStatus r)
     (thenE (cache_ensure (markers r) (bindingObject (bind_Pk created)))
     (retE (bind_Pk created)))))"

text \<open>The loop over the rules, carrying \<open>kept\<close> and \<open>maxOrder\<close>.\<close>

definition applyRule ::
  "('a, 'k) Reconciler \<Rightarrow> string \<Rightarrow> string list \<times> int \<Rightarrow> Rule \<times> PolicyBinding option \<Rightarrow> ('a, 'k, string list \<times> int) step" where
  "applyRule r target = (\<lambda>(kept, maxOrder) (rule, matched).
     let desired = desiredBinding target rule in
     case matched of
       Some binding \<Rightarrow> thenE (syncBinding r desired binding) (retE (kept @ [bind_Pk binding], maxOrder))
     | None \<Rightarrow>
         (let order = int32_of (maxOrder + orderStep) in
          bindE (createBinding r desired order) (\<lambda>uuid. retE (kept @ [uuid], order))))"

definition deleteBinding :: "('a, 'k) Reconciler \<Rightarrow> string \<Rightarrow> ('a, 'k, unit) step" where
  "deleteBinding r uuid =
     thenE (ignoreNotFound (srv (DeletePolicyBinding (Authentik r) uuid)))
       (cache_remove (markers r) (bindingObject uuid))"

section \<open>Bindings of others\<close>

definition describeSubject :: "('a, 'k) Reconciler \<Rightarrow> PolicyBinding \<Rightarrow> ('a, 'k, string) step" where
  "describeSubject r binding =
     (let subject = observedSubject binding;
          describe = (\<lambda>kind ident got. case got of
             Inl err \<Rightarrow> (if IsNotFound err then retE (kind @ ''/'' @ ident) else throwE err)
           | Inr name \<Rightarrow> retE (kind @ ''/'' @ name)) in
      if subject_group subject \<noteq> []
      then bindE (attempt (srv (GetGroup (Authentik r) (subject_group subject)))) (\<lambda>got.
        describe ''group'' (subject_group subject) (map_sum id group_Name got))
      else if subject_policy subject \<noteq> []
      then bindE (attempt (srv (GetPolicy (Authentik r) (subject_policy subject)))) (\<lambda>got.
        describe ''policy'' (subject_policy subject) (map_sum id policy_Name got))
      else bindE (attempt (srv (GetUser (Authentik r) (subject_user subject)))) (\<lambda>got.
        describe ''user'' (itoa (subject_user subject)) (map_sum id usr_Username got)))"

text \<open>\<open>strings.Replace(s, "/", "=", 1)\<close>\<close>

fun replaceSlash :: "string \<Rightarrow> string" where
  "replaceSlash [] = []"
| "replaceSlash (c # s) = (if c = CHR ''/'' then CHR ''='' # s else c # replaceSlash s)"

definition unmanagedBindingsMessage :: "UnmanagedBinding list \<Rightarrow> string" where
  "unmanagedBindingsMessage bs =
     itoa (int (length bs)) @ '' '' @ (if length bs = 1 then ''binding'' else ''bindings'') @ '' (''
       @ join '', '' (map (replaceSlash \<circ> unmanaged_Target) bs) @ '')''"

definition reportUnmanaged :: "('a, 'k) Reconciler \<Rightarrow> PolicyBinding list \<Rightarrow> ('a, 'k, UnmanagedBinding list) step" where
  "reportUnmanaged r unmanaged =
     mapE unmanaged (\<lambda>binding. bindE (describeSubject r binding) (\<lambda>target.
       retE \<lparr> unmanaged_UUID = bind_Pk binding, unmanaged_Target = target \<rparr>))"

definition handleUnmanagedBindings :: "('a, 'k) Reconciler \<Rightarrow> PolicyBinding list \<Rightarrow> ('a, 'k, unit) step" where
  "handleUnmanagedBindings r unmanaged =
     bindE (readE (spec_Access \<circ> sys_spec)) (\<lambda>access.
     bindE (if is_true (access_Prune access)
            then thenE (forE unmanaged (\<lambda>binding.
                   ignoreNotFound (srv (DeletePolicyBinding (Authentik r) (bind_Pk binding))))) (retE [])
            else retE unmanaged) (\<lambda>left.
     bindE (reportUnmanaged r left) (\<lambda>reported.
     thenE (updStatus (\<lambda>st. st\<lparr>status_UnmanagedBindings := reported\<rparr>))
     (if reported = [] then removeCondition r ConditionTypeUnmanagedBindings
      else if is_true (access_Public access)
      then thenE (removeCondition r ConditionTypeUnmanagedBindings)
             (throwE (StopError ReasonUnmanagedBindings (unmanagedBindingsMessage reported
               @ '' keep the Application from being public; set access.prune or delete them'')))
      else setCondition r ConditionTypeUnmanagedBindings True ReasonUnmanagedBindings
             (unmanagedBindingsMessage reported)))))"

definition reconcileBindings :: "('a, 'k) Reconciler \<Rightarrow> Application \<Rightarrow> ('a, 'k, unit) step" where
  "reconcileBindings r application =
     (let target = appl_PbmUuid application in
      bindE (srv (ListPolicyBindings (Authentik r) target)) (\<lambda>existing.
      bindE (managedBindings r existing) (\<lambda>(managed, unmanaged, maxOrder).
      bindE (readE (resolved_Rules \<circ> st_resolved)) (\<lambda>rules.
      bindE (adoptBindings r (matchBindings rules managed False) (matchBindings rules unmanaged True)) (\<lambda>matched.
      bindE (foldE (zip rules matched) (applyRule r target) ([], maxOrder)) (\<lambda>(kept, _).
      thenE (forE (filter (\<lambda>binding. bind_Pk binding \<notin> set kept) managed) (\<lambda>binding. deleteBinding r (bind_Pk binding)))
      (thenE (updStatus (\<lambda>st. st\<lparr>status_BindingUUIDs := kept\<rparr>))
      (thenE (patchStatus r)
      (handleUnmanagedBindings r (filter (\<lambda>binding. bind_Pk binding \<notin> set kept) unmanaged))))))))))"

end
