(* ===== verification/Reconcile.thy ===== *)
theory Reconcile
  imports Bindings
begin

text \<open>
  Deletion (\<open>internal/controller/deletion.go\<close>) and the reconcile itself with its outcome
  (\<open>internal/controller/authentikapplication_controller.go\<close>).
\<close>

section \<open>Deletion\<close>

definition finalizer :: string where "finalizer = ''authentik.starry.blue/finalizer''"

definition ensureFinalizer :: "('a, 'k) Reconciler \<Rightarrow> ('a, 'k, unit) step" where
  "ensureFinalizer r =
     bindE (readE st_app) (\<lambda>prior.
     case AddFinalizer r prior finalizer of (added, a) \<Rightarrow>
       thenE (modifyE (\<lambda>s. s\<lparr>st_app := a\<rparr>))
       (if \<not> added then retE ()
        else wrapE ''failed to add the finalizer'' (patchApp (KPatch (Kube r)) prior)))"

definition deleteApplication :: "('a, 'k) Reconciler \<Rightarrow> ('a, 'k, unit) step" where
  "deleteApplication r =
     bindE (readE st_app) (\<lambda>a.
     let slug = (if status_ApplicationSlug (app_Status a) \<noteq> [] then status_ApplicationSlug (app_Status a)
                 else spec_Slug (app_Spec a)) in
     bindE (attempt (srv (GetApplication (Authentik r) slug))) (\<lambda>got. case got of
       Inl err \<Rightarrow> (if IsNotFound err then retE () else throwE err)
     | Inr observed \<Rightarrow>
         (if appl_Pk observed \<noteq> status_ApplicationPK (app_Status a) then retE ()
          else ignoreNotFound (srv (DeleteApplication (Authentik r) slug)))))"

definition deleteProvider :: "('a, 'k) Reconciler \<Rightarrow> ProviderSpec \<Rightarrow> int \<Rightarrow> ('a, 'k, unit) step" where
  "deleteProvider r provider pk =
     (case provider_Proxy provider of
        Some proxy \<Rightarrow>
          thenE (leaveOutpost r (proxy_Outpost proxy) pk) (ignoreNotFound (srv (DeleteProxyProvider (Authentik r) pk)))
      | None \<Rightarrow> ignoreNotFound (srv (DeleteOAuth2Provider (Authentik r) pk)))"

definition release :: "('a, 'k) Reconciler \<Rightarrow> ('a, 'k, unit) step" where
  "release r =
     bindE (readE st_app) (\<lambda>a.
     let st = app_Status a;
         remove = (spec_DeletionPolicy (app_Spec a) = Some DeletionPolicyDelete) in
     bindE (mapE (status_BindingUUIDs st) (\<lambda>uuid.
         thenE (if remove then ignoreNotFound (srv (DeletePolicyBinding (Authentik r) uuid)) else retE ())
           (retE (bindingObject uuid)))) (\<lambda>bindings.
     bindE (if status_ApplicationPK st \<noteq> []
            then thenE (if remove then deleteApplication r else retE ())
                   (retE [\<lparr> obj_Model = ModelApplication, obj_PK = status_ApplicationPK st \<rparr>])
            else retE []) (\<lambda>application.
     bindE (case (status_ProviderPK st, spec_Provider (app_Spec a)) of
         (Some recorded, Some provider) \<Rightarrow>
           (let pk = int32_of recorded;
                model = (if provider_Proxy provider \<noteq> None then ModelProxyProvider else ModelOAuth2Provider) in
            thenE (if remove then deleteProvider r provider pk else retE ())
              (retE [\<lparr> obj_Model = model, obj_PK = itoa pk \<rparr>]))
       | _ \<Rightarrow> retE []) (\<lambda>provider.
     thenE (forE (bindings @ application @ provider) (cache_remove (markers r)))
     (if remove then Eventf EventTypeNormal ''Deleted'' ''Delete'' ''Deleted the objects in authentik''
      else retE ())))))"

text \<open>\<open>ctrl.Result\<close>: when the resource is reconciled again without an event.\<close>

record Result =
  RequeueAfter :: int

definition finalize :: "('a, 'k) Reconciler \<Rightarrow> ('a, 'k, Result) step" where
  "finalize r =
     bindE (readE st_app) (\<lambda>a.
     if \<not> ContainsFinalizer r a finalizer then retE \<lparr> RequeueAfter = 0 \<rparr>
     else bindE (attempt (release r)) (\<lambda>released. case released of
       Inl err \<Rightarrow>
         thenE (modifyE (\<lambda>s. s\<lparr>st_base := st_app s\<rparr>))
         (thenE (updStatus (\<lambda>st. st\<lparr>status_ObservedGeneration := meta_Generation a\<rparr>))
         (thenE (setReady r False ReasonAPIError (''Failed to release the objects in authentik: '' @ ErrorText err))
         (bindE (attempt (patchStatus r)) (\<lambda>patched. throwE (case patched of
             Inl patchErr \<Rightarrow> JoinError [err, patchErr]
           | Inr _ \<Rightarrow> JoinError [err])))))
     | Inr _ \<Rightarrow>
         bindE (readE st_app) (\<lambda>prior.
         thenE (modifyE (\<lambda>s. s\<lparr>st_app := RemoveFinalizer r prior finalizer\<rparr>))
         (bindE (attempt (wrapE ''failed to remove the finalizer'' (patchApp (KPatch (Kube r)) prior))) (\<lambda>patched.
          case patched of
            Inl err \<Rightarrow> (if KubeIsNotFound err then retE \<lparr> RequeueAfter = 0 \<rparr> else throwE err)
          | Inr _ \<Rightarrow> retE \<lparr> RequeueAfter = 0 \<rparr>)))))"

section \<open>Reconcile\<close>

definition reconcileSpec :: "('a, 'k) Reconciler \<Rightarrow> ('a, 'k, unit) step" where
  "reconcileSpec r =
     thenE (checkConflict r)
     (bindE (readE st_app) (\<lambda>a.
      bindE (Resolve (resolver_of r) a) (\<lambda>refs.
      thenE (modifyE (\<lambda>s. s\<lparr>st_resolved := refs\<rparr>))
      (bindE (observeApplication r) (\<lambda>observed.
       bindE (readE sys_spec) (\<lambda>sp.
       bindE (case spec_Provider sp of
           None \<Rightarrow> retE None
         | Some provider \<Rightarrow>
             bindE (reconcileProvider r observed) (\<lambda>pk.
             thenE (if provider_Proxy provider \<noteq> None then reconcileOutpost r pk else retE ())
             (thenE (case Option.bind (resolved_OAuth2 refs) oauth2refs_Credentials of
                 None \<Rightarrow> retE ()
               | Some c \<Rightarrow> (if \<not> creds_SecretExists c then exportCredentials r pk else retE ()))
             (retE (Some pk))))) (\<lambda>providerPK.
       bindE (reconcileApplication r observed providerPK) (\<lambda>application.
       reconcileBindings r application))))))))"

definition finish :: "('a, 'k) Reconciler \<Rightarrow> goerror + unit \<Rightarrow> ('a, 'k, Result) step" where
  "finish r outcome =
     (let stop = (case outcome of Inr _ \<Rightarrow> None | Inl err \<Rightarrow> AsStopError err) in
      bindE (readE st_app) (\<lambda>a.
      thenE (updStatus (\<lambda>st. st\<lparr>status_ObservedGeneration := meta_Generation a\<rparr>))
      (thenE (if (case stop of Some (reason, msg) \<Rightarrow> reason \<noteq> ReasonAdoptionDiff | None \<Rightarrow> True)
              then updStatus (\<lambda>st. st\<lparr>status_AdoptionDiff := []\<rparr>) else retE ())
      (thenE (case outcome of
          Inr _ \<Rightarrow>
            thenE (updStatus (\<lambda>st. st\<lparr>status_LastAppliedHash := specHash r (app_Spec a)\<rparr>))
              (setReady r True ReasonReconciled ''The Application, the Provider, and the Bindings match the spec'')
        | Inl err \<Rightarrow> (case stop of
            Some (reason, msg) \<Rightarrow> setReady r False reason msg
          | None \<Rightarrow> (case AsReferenceError err of
              Some fs \<Rightarrow> setReady r False (Reason fs) (Reference_Error fs)
            | None \<Rightarrow> setReady r False ReasonAPIError (ErrorText err))))
      (bindE (attempt (patchStatus r)) (\<lambda>patched. case patched of
         Inl patchErr \<Rightarrow> throwE (JoinError ((case outcome of Inl err \<Rightarrow> [err] | Inr _ \<Rightarrow> []) @ [patchErr]))
       | Inr _ \<Rightarrow> (case outcome of
             Inr _ \<Rightarrow> retE \<lparr> RequeueAfter = ResyncInterval r \<rparr>
           | Inl err \<Rightarrow>
               (if stop \<noteq> None then retE \<lparr> RequeueAfter = ResyncInterval r \<rparr> else throwE err))))))))"

definition Reconcile :: "('a, 'k) Reconciler \<Rightarrow> string \<Rightarrow> string \<Rightarrow> ('a, 'k, Result) step" where
  "Reconcile r namespace name =
     bindE (attempt (kapi (KGet (Kube r) namespace name))) (\<lambda>got. case got of
       Inl err \<Rightarrow> (if KubeIsNotFound err then retE \<lparr> RequeueAfter = 0 \<rparr> else throwE err)
     | Inr a \<Rightarrow>
         thenE (modifyE (\<lambda>s. s\<lparr>st_app := a\<rparr>))
         (if meta_DeletionTimestamp a \<noteq> None then finalize r
          else thenE (ensureFinalizer r)
            (thenE (modifyE (\<lambda>s. s\<lparr>st_base := st_app s\<rparr>))
            (bindE (attempt (reconcileSpec r)) (finish r)))))"

text \<open>
  The watch predicate \<open>deletionStarted\<close>.
\<close>

definition deletionStarted :: "AuthentikApplication \<Rightarrow> AuthentikApplication \<Rightarrow> bool" where
  "deletionStarted old new \<longleftrightarrow> meta_DeletionTimestamp old = None \<and> meta_DeletionTimestamp new \<noteq> None"

end
