(* ===== verification/Invariant.thy ===== *)
theory Invariant
  imports Reconcile
begin

text \<open>
  Invariants of a whole reconcile. The locale \<open>reconcile_invariant\<close> lists what a reconcile can do to
  the state: the write calls of the client, the four methods of the marker cache, and changes of the
  cluster and of the local variables. A predicate that survives each of these survives every
  operation of the controller, whether it returns or fails at any point, up to \<open>Reconcile\<close> itself.
\<close>

section \<open>Computations that return computations\<close>

text \<open>Every value that a computation returns satisfies \<open>P\<close>.\<close>

definition yields :: "('a \<Rightarrow> bool) \<Rightarrow> ('s, 'e, 'a) go \<Rightarrow> bool" where
  "yields P m \<longleftrightarrow> (\<forall>s x t. m s = (Inr x, t) \<longrightarrow> P x)"

named_theorems yield_intros

lemma yields_ret [yield_intros]: "P x \<Longrightarrow> yields P (retE x)"
  by (simp add: yields_def run_simps)

lemma yields_throw [yield_intros]: "yields P (throwE e)"
  by (simp add: yields_def run_simps)

lemma yieldsI: "(\<And>s x t. m s = (Inr x, t) \<Longrightarrow> P x) \<Longrightarrow> yields P m"
  by (auto simp: yields_def)

lemma yieldsD: "yields P m \<Longrightarrow> m s = (Inr x, t) \<Longrightarrow> P x"
  unfolding yields_def by blast

lemma yields_bind: "yields Q m \<Longrightarrow> (\<And>x. Q x \<Longrightarrow> yields P (f x)) \<Longrightarrow> yields P (bindE m f)"
  by (rule yieldsI, erule bind_InrE) (blast dest: yieldsD)

lemma yields_bind_any [yield_intros]: "(\<And>x. yields P (f x)) \<Longrightarrow> yields P (bindE m f)"
  by (rule yields_bind [of "\<lambda>_. True"]) (simp_all add: yields_def)

lemma yields_then [yield_intros]: "yields P k \<Longrightarrow> yields P (thenE m k)"
  unfolding thenE_def by (rule yields_bind_any)

lemma yields_attempt: "yields P m \<Longrightarrow> yields (\<lambda>r. \<forall>x. r = Inr x \<longrightarrow> P x) (attempt m)"
  by (rule yieldsI) (auto simp: run_attempt prod_eq_iff intro: yieldsD prod_eqI)

lemma yields_if [yield_intros]:
  "(c \<Longrightarrow> yields P m) \<Longrightarrow> (\<not> c \<Longrightarrow> yields P k) \<Longrightarrow> yields P (if c then m else k)"
  by simp

lemma yields_Let [yield_intros]: "(\<And>x. x = v \<Longrightarrow> yields P (m x)) \<Longrightarrow> yields P (let x = v in m x)"
  by simp

lemma yields_case_option [yield_intros]:
  "(v = None \<Longrightarrow> yields P m) \<Longrightarrow> (\<And>x. v = Some x \<Longrightarrow> yields P (k x)) \<Longrightarrow>
   yields P (case v of None \<Rightarrow> m | Some x \<Rightarrow> k x)"
  by (cases v) auto

lemma yields_case_sum [yield_intros]:
  "(\<And>e. v = Inl e \<Longrightarrow> yields P (m e)) \<Longrightarrow> (\<And>x. v = Inr x \<Longrightarrow> yields P (k x)) \<Longrightarrow>
   yields P (case v of Inl e \<Rightarrow> m e | Inr x \<Rightarrow> k x)"
  by (cases v) auto

lemma yields_or_else:
  assumes "yields (\<lambda>p. \<forall>x. p = Some x \<longrightarrow> Q x) m" and "yields (\<lambda>p. \<forall>x. p = Some x \<longrightarrow> Q x) k"
  shows "yields (\<lambda>p. \<forall>x. p = Some x \<longrightarrow> Q x) (bindE m (\<lambda>v. if v \<noteq> None then retE v else k))"
  by (rule yields_bind [OF assms(1)]) (auto intro: yields_ret assms(2))

lemma yields_any: "yields (\<lambda>_. True) m"
  by (simp add: yields_def)

lemma stable_bind_yields:
  assumes "stable I m" and "yields P m" and "\<And>x. P x \<Longrightarrow> stable I (f x)"
  shows "stable I (bindE m f)"
proof (rule stepsI)
  fix s r t assume run: "bindE m f s = (r, t)"
  obtain y u where m: "m s = (y, u)" by (metis surj_pair)
  show "pres I s t"
  proof (cases y)
    case (Inl e)
    with run m have "t = u" by (simp add: run_simps)
    with stepsD [OF assms(1) m] show ?thesis by simp
  next
    case (Inr x)
    then have "P x" using assms(2) m unfolding yields_def by blast
    moreover have "f x u = (r, t)" using run m Inr by (simp add: run_simps)
    ultimately show ?thesis
      using stableD [OF assms(3)] stableD [OF assms(1) m] unfolding pres_def by blast
  qed
qed

lemma steps_case_prod_app [frame_intros]:
  "(\<And>a b. v = (a, b) \<Longrightarrow> steps R (m a b x)) \<Longrightarrow> steps R ((case v of (a, b) \<Rightarrow> m a b) x)"
  by (cases v) auto

section \<open>The contract\<close>

locale reconcile_invariant = reads "Authentik r"
  for r :: "('a, 'k) Reconciler" +
  fixes I :: "('a, 'k) sys \<Rightarrow> bool"
    and markable :: "string \<Rightarrow> bool"
  assumes srv_applications:
      "stable I (srv (CreateApplication (Authentik r) ra))"
      "stable I (srv (PatchApplication (Authentik r) slug pa))"
      "stable I (srv (DeleteApplication (Authentik r) slug))"
    and srv_proxies:
      "stable I (srv (CreateProxyProvider (Authentik r) rp))"
      "stable I (srv (PatchProxyProvider (Authentik r) pk pp))"
      "stable I (srv (DeleteProxyProvider (Authentik r) pk))"
    and srv_oauth2:
      "stable I (srv (CreateOAuth2Provider (Authentik r) ro))"
      "stable I (srv (PatchOAuth2Provider (Authentik r) pk po))"
      "stable I (srv (DeleteOAuth2Provider (Authentik r) pk))"
    and srv_bindings:
      "stable I (srv (CreatePolicyBinding (Authentik r) rb))"
      "stable I (srv (PatchPolicyBinding (Authentik r) uuid pb))"
      "stable I (srv (DeletePolicyBinding (Authentik r) uuid))"
    and srv_outposts: "stable I (srv (SetOutpostProviders (Authentik r) uuid ps))"
    and cache_calls:
      "stable I (cache_contains (markers r) ob)"
      "stable I (cache_isManaged (markers r) ob)"
      "markable (obj_Model ob) \<Longrightarrow> stable I (cache_ensure (markers r) ob)"
      "stable I (cache_remove (markers r) ob)"
    and local_state:
      "I s \<Longrightarrow> I (s\<lparr>kube := k\<rparr>)" "I s \<Longrightarrow> I (s\<lparr>failures := fs\<rparr>)" "I s \<Longrightarrow> I (s\<lparr>events := es\<rparr>)"
      "I s \<Longrightarrow> I (s\<lparr>st_app := a\<rparr>)" "I s \<Longrightarrow> I (s\<lparr>st_base := a\<rparr>)" "I s \<Longrightarrow> I (s\<lparr>st_resolved := refs\<rparr>)"
    and markable_models: "m \<in> {ModelApplication, ModelProxyProvider, ModelOAuth2Provider, ModelPolicyBinding} \<Longrightarrow> markable m"
begin

lemma stable_kapi: "stable I (kapi m)"
  by (rule stepsI) (auto simp: kapi_def pres_def local_state split: prod.splits)

lemma stable_pure: "pure m \<Longrightarrow> stable I (srv m)"
  by (rule stepsI) (auto simp: srv_def pres_def dest: pureD split: prod.splits)

lemma stable_deref: "stable I (deref p)"
  unfolding deref_def by (intro frame_intros)

lemma stable_collector:
  "stable I (collector_add path target n)" "stable I collector_err" "stable I (modifyE (\<lambda>s. s\<lparr>failures := fs\<rparr>))"
  unfolding collector_add_def collector_err_def by (intro frame_intros; simp add: local_state)+

lemma stable_local:
  "stable I (updStatus f)" "stable I (Eventf ty reason action msg)"
  "stable I (modifyE (\<lambda>s. s\<lparr>st_app := g s\<rparr>))" "stable I (modifyE (\<lambda>s. s\<lparr>st_base := g s\<rparr>))"
  "stable I (modifyE (\<lambda>s. s\<lparr>st_resolved := refs\<rparr>))"
  unfolding updStatus_def Eventf_def by (intro stable_modify; simp add: local_state)+

lemmas ok_intros = srv_applications srv_proxies srv_oauth2 srv_bindings srv_outposts cache_calls
  stable_kapi stable_pure stable_deref stable_collector stable_local pure_reads frame_intros

lemma stable_setCondition: "stable I (setCondition r c b reason msg)"
  unfolding setCondition_def by (intro ok_intros)

lemma stable_setReady: "stable I (setReady r b reason msg)"
  unfolding setReady_def by (rule stable_setCondition)

lemma stable_removeCondition: "stable I (removeCondition r c)"
  unfolding removeCondition_def by (intro ok_intros)

lemma stable_patchApp: "stable I (patchApp call from)"
  unfolding patchApp_def by (intro ok_intros)

lemma stable_patchStatus: "stable I (patchStatus r)"
  unfolding patchStatus_def by (intro ok_intros stable_patchApp)

lemmas ok_status = stable_setCondition stable_setReady stable_removeCondition stable_patchApp stable_patchStatus

section \<open>References\<close>

lemma stable_getOne: "pure get \<Longrightarrow> stable I (getOne path target get)"
  unfolding getOne_def by (intro ok_intros)

lemma stable_findOne: "pure search \<Longrightarrow> stable I (findOne path target search)"
  unfolding findOne_def by (intro ok_intros)

lemma pure_lookups:
  "pure (lookup_get (flowLookup (resolver_of r)) u)" "pure (lookup_find (flowLookup (resolver_of r)) u)"
  "pure (lookup_get (keyPairLookup (resolver_of r)) u)" "pure (lookup_find (keyPairLookup (resolver_of r)) u)"
  "pure (lookup_get (outpostLookup (resolver_of r)) u)" "pure (lookup_find (outpostLookup (resolver_of r)) u)"
  "pure (lookup_get (scopeMappingLookup (resolver_of r)) u)" "pure (lookup_find (scopeMappingLookup (resolver_of r)) u)"
  "pure (lookup_get (groupLookup (resolver_of r)) u)" "pure (lookup_find (groupLookup (resolver_of r)) u)"
  "pure (lookup_get (policyLookup (resolver_of r)) u)" "pure (lookup_find (policyLookup (resolver_of r)) u)"
  by (simp_all add: flowLookup_def keyPairLookup_def outpostLookup_def scopeMappingLookup_def
      groupLookup_def policyLookup_def resolver_of_def pure_reads)

lemma pure_resolver_of: "rs_authentik (resolver_of r) = Authentik r"
  by (simp add: resolver_of_def)

lemma stable_resolveByString:
  "(\<And>u. pure (lookup_get lookup u)) \<Longrightarrow> (\<And>k. pure (lookup_find lookup k)) \<Longrightarrow>
   stable I (resolveByString path lookup uuid key)"
  unfolding resolveByString_def by (intro ok_intros stable_getOne stable_findOne)

lemma stable_resolveNamed:
  "(\<And>u. pure (lookup_get lookup u)) \<Longrightarrow> (\<And>k. pure (lookup_find lookup k)) \<Longrightarrow>
   stable I (resolveNamed path lookup ref)"
  unfolding resolveNamed_def by (intro ok_intros stable_resolveByString)

lemmas ref_intros = ok_intros stable_getOne stable_findOne stable_resolveByString stable_resolveNamed pure_lookups

lemma stable_resolveUser: "stable I (resolveUser (resolver_of r) path ref)"
  unfolding resolveUser_def pure_resolver_of by (intro ref_intros)

lemma stable_resolveFlows: "stable I (resolveFlows (resolver_of r) flows)"
  unfolding resolveFlows_def by (intro ref_intros)

lemma stable_resolveProxy: "stable I (resolveProxy (resolver_of r) proxy)"
  unfolding resolveProxy_def by (intro ref_intros)

lemma stable_readKey: "stable I (readKey secret ref path key dflt)"
  unfolding readKey_def by (intro ref_intros)

lemma stable_resolveCredentials: "stable I (resolveCredentials (resolver_of r) ns spec)"
  unfolding resolveCredentials_def by (intro ref_intros stable_readKey)

lemma stable_resolveOAuth2: "stable I (resolveOAuth2 (resolver_of r) ns oauth2)"
  unfolding resolveOAuth2_def by (intro ref_intros stable_resolveCredentials)

lemma stable_resolveRule: "stable I (resolveRule (resolver_of r) path rule)"
  unfolding resolveRule_def by (intro ref_intros stable_resolveUser)

lemma stable_Resolve: "stable I (Resolve (resolver_of r) app)"
  unfolding Resolve_def
  by (intro ref_intros stable_resolveFlows stable_resolveProxy stable_resolveOAuth2 stable_resolveRule)

lemma stable_resolveDefaultScopeMapping: "stable I (resolveDefaultScopeMapping (resolver_of r) scopeName)"
  unfolding resolveDefaultScopeMapping_def pure_resolver_of by (intro ref_intros)

lemma stable_ResolveCreationDefaults: "stable I (ResolveCreationDefaults (resolver_of r) app)"
  unfolding ResolveCreationDefaults_def by (intro ref_intros stable_resolveDefaultScopeMapping)

section \<open>The controller\<close>

lemma stable_checkConflict: "stable I (checkConflict r)"
  unfolding checkConflict_def by (intro ok_intros)

definition safe_provider :: "('a, 'k) observedProvider \<Rightarrow> bool" where
  "safe_provider p \<longleftrightarrow> stable I (observed_sync p)"

definition safe_handler :: "('a, 'k) providerHandler \<Rightarrow> bool" where
  "safe_handler h \<longleftrightarrow> markable (handler_model h) \<and>
     (\<forall>pk. stable I (handler_get h pk) \<and> yields safe_provider (handler_get h pk) \<and>
        stable I (handler_existsAsOtherType h pk)) \<and>
     (\<forall>name. stable I (handler_findByName h name) \<and> yields (\<lambda>ps. \<forall>p \<in> set ps. safe_provider p) (handler_findByName h name) \<and>
        stable I (handler_create h name))"

lemma safe_proxy_observe: "safe_provider (proxy_observe r spec desired provider)"
  unfolding safe_provider_def proxy_observe_def observedProvider.select_convs by (intro ok_intros)

lemma safe_oauth2_observe: "safe_provider (oauth2_observe r desired provider)"
  unfolding safe_provider_def oauth2_observe_def observedProvider.select_convs by (intro ok_intros)

lemma stable_existsE: "stable I m \<Longrightarrow> stable I (existsE m)"
  unfolding existsE_def by (intro ok_intros)

lemma safe_proxyProviderHandler: "safe_handler (proxyProviderHandler r spec desired)"
  unfolding safe_handler_def proxyProviderHandler_def providerHandler.select_convs
  by (intro conjI allI ok_intros yield_intros stable_existsE)
    (simp_all add: markable_models safe_proxy_observe)

lemma safe_oauth2ProviderHandler: "safe_handler (oauth2ProviderHandler r a desired)"
  unfolding safe_handler_def oauth2ProviderHandler_def providerHandler.select_convs
  by (intro conjI allI ok_intros yield_intros stable_existsE stable_ResolveCreationDefaults)
    (simp_all add: markable_models safe_oauth2_observe)

lemma safe_getHandler: "yields safe_handler (getHandler r)"
  unfolding getHandler_def handlerFor_def
  by (rule yieldsI)
    (auto simp: run_read Let_def safe_proxyProviderHandler safe_oauth2ProviderHandler split: option.split)

lemma stable_getHandler: "stable I (getHandler r)"
  unfolding getHandler_def by (intro ok_intros)

lemma stable_getAttached: "safe_handler h \<Longrightarrow> stable I (getAttached h slug pk)"
  unfolding getAttached_def safe_handler_def by (intro ok_intros) auto

lemma yields_getAttached:
  "safe_handler h \<Longrightarrow> yields (\<lambda>p. \<forall>x. p = Some x \<longrightarrow> safe_provider x) (getAttached h slug pk)"
  unfolding getAttached_def
  by (rule yields_bind [OF yields_attempt [of safe_provider]]) (auto simp: safe_handler_def intro!: yield_intros)

lemma stable_attachedProvider: "stable I (attachedProvider r application)"
  unfolding attachedProvider_def
  by (intro ok_intros stable_bind_yields [OF stable_getHandler safe_getHandler] stable_getAttached)

lemma stable_adoptApplication: "stable I (adoptApplication r observed)"
  unfolding adoptApplication_def by (intro ok_intros stable_attachedProvider)

lemma stable_observeApplication: "stable I (observeApplication r)"
  unfolding observeApplication_def recordApplication_def
  by (intro ok_intros ok_status stable_adoptApplication; simp add: applicationObject_def markable_models)

lemma stable_findProvider: "safe_handler h \<Longrightarrow> stable I (findProvider h application)"
  unfolding findProvider_def
  by (intro ok_intros stable_getAttached; simp add: safe_handler_def)

lemma yields_findProvider:
  assumes "safe_handler h"
  shows "yields (\<lambda>p. \<forall>x. p = Some x \<longrightarrow> safe_provider x) (findProvider h application)"
proof -
  have get: "yields safe_provider (handler_get h pk)"
    and search: "yields (\<lambda>ps. \<forall>p \<in> set ps. safe_provider p) (handler_findByName h name)" for pk name
    using assms by (simp_all add: safe_handler_def)
  note attempted = yields_bind [OF yields_attempt [OF get]]
  show ?thesis
    unfolding findProvider_def
    by (rule yields_bind_any, rule yields_bind_any, rule yields_or_else)
      (intro yields_or_else yield_intros attempted yields_getAttached assms yields_bind [OF search];
        auto simp: find_Some_iff intro!: yield_intros)+
qed

lemma stable_reconcileProvider: "stable I (reconcileProvider r application)"
  unfolding reconcileProvider_def
  by (rule stable_bind_yields [OF stable_getHandler safe_getHandler],
      rule stable_bind_yields [OF stable_findProvider yields_findProvider], assumption, assumption)
    (intro ok_intros ok_status; auto simp: safe_handler_def safe_provider_def)

lemma stable_reconcileApplication: "stable I (reconcileApplication r observed pk)"
  unfolding reconcileApplication_def recordApplication_def
  by (intro ok_intros ok_status; simp add: applicationObject_def markable_models)

lemma stable_leaveOutpost:
  "stable I (removeProviderFromOutpost r outpost pk)" "stable I (leaveOutpostByUUID r uuid pk)"
  "stable I (leaveOutpost r ref pk)"
  unfolding removeProviderFromOutpost_def leaveOutpostByUUID_def leaveOutpost_def by (intro ok_intros)+

lemma stable_reconcileOutpost: "stable I (reconcileOutpost r pk)"
  unfolding reconcileOutpost_def by (intro ok_intros stable_leaveOutpost)

lemma stable_exportCredentials: "stable I (exportCredentials r pk)"
  unfolding exportCredentials_def by (intro ok_intros)

lemma stable_managedBindings: "stable I (managedBindings r existing)"
  unfolding managedBindings_def by (intro ok_intros; simp add: bindingObject_def markable_models)

lemma stable_adoptBindings: "stable I (adoptBindings r matched candidates)"
  unfolding adoptBindings_def by (intro ok_intros; simp add: bindingObject_def markable_models)

lemma stable_applyRule: "stable I (applyRule r target x y)"
  unfolding applyRule_def syncBinding_def createBinding_def
  by (cases x; cases y; simp only: case_prod_conv)
    (intro ok_intros ok_status; simp add: bindingObject_def markable_models)

lemma stable_deleteBinding: "stable I (deleteBinding r uuid)"
  unfolding deleteBinding_def by (intro ok_intros)

lemma stable_describeSubject: "stable I (describeSubject r binding)"
  unfolding describeSubject_def by (intro ok_intros) (simp_all add: steps_case_sum frame_intros)

lemma stable_handleUnmanagedBindings: "stable I (handleUnmanagedBindings r unmanaged)"
  unfolding handleUnmanagedBindings_def reportUnmanaged_def
  by (intro ok_intros ok_status stable_describeSubject)

lemma stable_reconcileBindings: "stable I (reconcileBindings r application)"
  unfolding reconcileBindings_def
  by (intro ok_intros ok_status stable_managedBindings stable_adoptBindings stable_applyRule
      stable_deleteBinding stable_handleUnmanagedBindings)

lemma stable_release: "stable I (release r)"
  unfolding release_def deleteApplication_def deleteProvider_def
  by (intro ok_intros stable_leaveOutpost)

lemma stable_finalize: "stable I (finalize r)"
  unfolding finalize_def by (intro ok_intros ok_status stable_release)

lemma stable_ensureFinalizer: "stable I (ensureFinalizer r)"
  unfolding ensureFinalizer_def by (intro ok_intros ok_status)

lemma stable_reconcileSpec: "stable I (reconcileSpec r)"
  unfolding reconcileSpec_def
  by (intro ok_intros stable_checkConflict stable_Resolve stable_observeApplication stable_reconcileProvider
      stable_reconcileOutpost stable_exportCredentials stable_reconcileApplication stable_reconcileBindings)

lemma stable_finish: "stable I (finish r outcome)"
  unfolding finish_def by (intro ok_intros ok_status)

theorem stable_Reconcile: "stable I (Reconcile r namespace name)"
  unfolding Reconcile_def
  by (intro ok_intros stable_finalize stable_ensureFinalizer stable_reconcileSpec stable_finish)

end

end
