(* ===== verification/Samples.thy ===== *)
theory Samples
  imports Reconcile
begin

text \<open>
  A concrete environment for the examples: an in-memory cluster for the calls of the Kubernetes
  client, the helpers of \<open>k8s.io/apimachinery\<close> and \<open>controller-runtime\<close> with their documented
  behaviour, a small authentik server, and a few resources. Every theorem that has a hypothesis is
  applied to these values by its witness.
\<close>

section \<open>Cluster\<close>

record cluster =
  cluster_apps :: "AuthentikApplication list"
  cluster_secrets :: "Secret list"

definition kubeNotFound :: goerror where "kubeNotFound = KubeError True ''not found''"

definition sameResource :: "AuthentikApplication \<Rightarrow> AuthentikApplication \<Rightarrow> bool" where
  "sameResource a b \<longleftrightarrow> meta_Namespace a = meta_Namespace b \<and> meta_Name a = meta_Name b"

definition found :: "'r option \<Rightarrow> ('k, 'r) kcall" where
  "found v = (case v of None \<Rightarrow> throwE kubeNotFound | Some x \<Rightarrow> retE x)"

definition storeApp :: "AuthentikApplication \<Rightarrow> (cluster, AuthentikApplication) kcall" where
  "storeApp a =
     thenE (modifyE (\<lambda>k. k\<lparr>cluster_apps := map (\<lambda>b. if sameResource a b then a else b) (cluster_apps k)\<rparr>)) (retE a)"

definition cluster_client :: "cluster KubeClient" where
  "cluster_client = \<lparr>
     KGet = (\<lambda>ns n k. found (List.find (\<lambda>a. meta_Namespace a = ns \<and> meta_Name a = n) (cluster_apps k)) k),
     KList = readE cluster_apps,
     KListBySlug = (\<lambda>slug. readE (filter (\<lambda>a. spec_Slug (app_Spec a) = slug) \<circ> cluster_apps)),
     KListBySecret = (\<lambda>ns n. readE (filter (\<lambda>a. meta_Namespace a = ns \<and> n \<in> set (credentialsSecretIndex a)) \<circ> cluster_apps)),
     KPatch = (\<lambda>base a. storeApp a),
     KStatusPatch = (\<lambda>base a. storeApp a),
     KGetSecret = (\<lambda>ns n k. found (List.find (\<lambda>x. secret_Namespace x = ns \<and> secret_Name x = n) (cluster_secrets k)) k),
     KCreateSecret = (\<lambda>x. modifyE (\<lambda>k. k\<lparr>cluster_secrets := cluster_secrets k @ [x]\<rparr>)) \<rparr>"

lemma pure_cluster_secret: "pure (KGetSecret cluster_client ns n)"
  by (auto simp: cluster_client_def found_def steps_def same_def run_simps split: option.split)

section \<open>Reconciler\<close>

definition sample_reconciler :: "(fake, cluster) Reconciler" where
  "sample_reconciler = \<lparr>
     Authentik = fake_client, Kube = cluster_client,
     ownerRoleName = ''authentik-operator'', ResyncInterval = 600, hasRoleEvents = True,
     FindStatusCondition = (\<lambda>cs ty. List.find (\<lambda>c. cond_Type c = ty) cs),
     SetStatusCondition = (\<lambda>cs c. if \<exists>d \<in> set cs. cond_Type d = cond_Type c
       then map (\<lambda>d. if cond_Type d = cond_Type c then c else d) cs else cs @ [c]),
     RemoveStatusCondition = (\<lambda>cs ty. filter (\<lambda>c. cond_Type c \<noteq> ty) cs),
     StatusDeepEqual = (=),
     AddFinalizer = (\<lambda>a f. (f \<notin> set (meta_Finalizers a), a\<lparr>meta_Finalizers := List.insert f (meta_Finalizers a)\<rparr>)),
     ContainsFinalizer = (\<lambda>a f. f \<in> set (meta_Finalizers a)),
     RemoveFinalizer = (\<lambda>a f. a\<lparr>meta_Finalizers := removeAll f (meta_Finalizers a)\<rparr>),
     SetControllerReference = (\<lambda>a x. Inr (x\<lparr>secret_OwnerUID := Some (meta_UID a)\<rparr>)),
     specHash = (\<lambda>sp. spec_Slug sp @ spec_Name sp),
     applicationFields = (\<lambda>a. [(''name'', JStr (appl_Name a)), (''slug'', JStr (appl_Slug a))]),
     patchedApplicationFields = (\<lambda>p. case papp_Name p of None \<Rightarrow> [] | Some n \<Rightarrow> [(''name'', JStr n)]),
     proxyFields = (\<lambda>p. [(''name'', JStr (px_Name p))]),
     patchedProxyFields = (\<lambda>p. case ppx_Name p of None \<Rightarrow> [] | Some n \<Rightarrow> [(''name'', JStr n)]),
     oauth2Fields = (\<lambda>p. [(''name'', JStr (ox_Name p))]),
     patchedOAuth2Fields = (\<lambda>p. case pox_Name p of None \<Rightarrow> [] | Some n \<Rightarrow> [(''name'', JStr n)]) \<rparr>"

section \<open>Resources\<close>

definition sample_spec :: AuthentikApplicationSpec where
  "sample_spec = \<lparr>
     spec_Slug = ''wiki'', spec_Name = ''Wiki'', spec_LaunchURL = None, spec_Icon = None,
     spec_Description = None, spec_Publisher = None, spec_Group = None, spec_OpenInNewTab = None,
     spec_HideFromApplicationDashboard = None, spec_DeletionPolicy = Some DeletionPolicyDelete, spec_Adopt = None,
     spec_Provider = None,
     spec_Access = \<lparr> access_Mode = None, access_Rules = [], access_Public = Some True, access_Prune = None \<rparr> \<rparr>"

definition empty_status :: AuthentikApplicationStatus where
  "empty_status = \<lparr>
     status_ObservedGeneration = 0, status_ApplicationSlug = [], status_ApplicationPK = [],
     status_ProviderPK = None, status_OutpostUUID = [], status_BindingUUIDs = [],
     status_LastAppliedHash = [], status_AdoptionDiff = [], status_UnmanagedBindings = [],
     status_Conditions = [] \<rparr>"

definition sample_app :: AuthentikApplication where
  "sample_app = \<lparr>
     meta_Namespace = ''web'', meta_Name = ''wiki'', meta_UID = ''u1'', meta_Generation = 1,
     meta_CreationTimestamp = 100, meta_DeletionTimestamp = None, meta_Finalizers = [],
     app_Spec = sample_spec, app_Status = empty_status \<rparr>"

section \<open>Objects in authentik\<close>

definition sample_application :: Application where
  "sample_application = \<lparr>
     appl_Pk = ''a1'', appl_PbmUuid = ''a1'', appl_Name = ''Old name'', appl_Slug = ''wiki'', appl_Provider = Unset,
     appl_OpenInNewTab = Some False, appl_MetaLaunchUrl = Some [], appl_MetaIcon = Some [],
     appl_MetaDescription = Some [], appl_MetaPublisher = Some [], appl_PolicyEngineMode = None,
     appl_Group = Some ''tools'', appl_MetaHide = Some False \<rparr>"

definition sample_proxy :: ProxyProvider where
  "sample_proxy = \<lparr>
     px_Pk = 1, px_Name = ''wiki'', px_AuthenticationFlow = Unset, px_AuthorizationFlow = ''f1'',
     px_InvalidationFlow = ''f2'', px_PropertyMappings = [], px_InternalHost = Some ''http://wiki'',
     px_ExternalHost = ''https://old'', px_InternalHostSslValidation = None, px_Certificate = Unset,
     px_SkipPathRegex = None, px_BasicAuthEnabled = None, px_BasicAuthPasswordAttribute = None,
     px_BasicAuthUserAttribute = None, px_Mode = Some PROXYMODE_PROXY, px_InterceptHeaderAuth = None,
     px_CookieDomain = None, px_AccessTokenValidity = None, px_RefreshTokenValidity = None,
     px_AssignedApplicationSlug = Unset \<rparr>"

definition sample_oauth2 :: OAuth2Provider where
  "sample_oauth2 = \<lparr>
     ox_Pk = 2, ox_Name = ''chat'', ox_AuthenticationFlow = Unset, ox_AuthorizationFlow = ''f1'',
     ox_InvalidationFlow = ''f3'', ox_PropertyMappings = [''m1''], ox_ClientType = None, ox_GrantTypes = [],
     ox_ClientId = Some ''id'', ox_ClientSecret = Some ''s3cret'', ox_AccessCodeValidity = None,
     ox_AccessTokenValidity = None, ox_RefreshTokenValidity = None, ox_RefreshTokenThreshold = None,
     ox_IncludeClaimsInIdToken = None, ox_SigningKey = Unset, ox_EncryptionKey = Unset,
     ox_RedirectUris = [], ox_LogoutUri = None, ox_LogoutMethod = None, ox_SubMode = None,
     ox_IssuerMode = None, ox_AssignedApplicationSlug = Unset \<rparr>"

definition sample_binding :: PolicyBinding where
  "sample_binding = \<lparr>
     bind_Pk = ''b1'', bind_Policy = Unset, bind_Group = SetTo (Some ''g1''), bind_User = Unset,
     bind_Target = ''a1'', bind_Negate = Some False, bind_Enabled = Some True, bind_Order = 0,
     bind_Timeout = Some 30, bind_FailureResult = Some False \<rparr>"

definition sample_flows :: ProviderFlows where
  "sample_flows = \<lparr>
     flows_Authorization = \<lparr> flow_Slug = None, flow_UUID = Some ''f1'' \<rparr>,
     flows_Invalidation = \<lparr> flow_Slug = None, flow_UUID = Some ''f2'' \<rparr>, flows_Authentication = None \<rparr>"

definition sample_proxy_spec :: ProxyProviderSpec where
  "sample_proxy_spec = \<lparr>
     proxy_Proxy = Some \<lparr> proxymode_ExternalHost = ''https://new'', proxymode_InternalHost = ''http://wiki'',
       proxymode_InternalHostSSLValidation = None \<rparr>,
     proxy_ForwardAuthSingle = None, proxy_ForwardAuthDomain = None, proxy_UnauthenticatedPaths = None,
     proxy_BasicAuth = None, proxy_InterceptHeaderAuth = None, proxy_AccessTokenValidity = None,
     proxy_RefreshTokenValidity = None, proxy_Certificate = None, proxy_Outpost = None \<rparr>"

definition sample_forward_spec :: ProxyProviderSpec where
  "sample_forward_spec = sample_proxy_spec
     \<lparr>proxy_Proxy := None, proxy_ForwardAuthSingle := Some \<lparr> single_ExternalHost = ''https://new'' \<rparr>\<rparr>"

definition sample_oauth2_spec :: OAuth2ProviderSpec where
  "sample_oauth2_spec = \<lparr>
     oauth2_ClientType = None, oauth2_RedirectURIs = None, oauth2_Scopes = None, oauth2_SigningKey = None,
     oauth2_EncryptionKey = None, oauth2_GrantTypes = None, oauth2_SubjectMode = None,
     oauth2_IssuerMode = None, oauth2_IncludeClaimsInIDToken = None, oauth2_AccessCodeValidity = None,
     oauth2_AccessTokenValidity = None, oauth2_RefreshTokenValidity = None,
     oauth2_RefreshTokenThreshold = None, oauth2_LogoutURI = None, oauth2_LogoutMethod = None,
     oauth2_Credentials = None \<rparr>"

definition sample_provider_spec :: ProviderSpec where
  "sample_provider_spec = \<lparr> provider_Name = None, provider_Flows = sample_flows,
     provider_Proxy = Some sample_proxy_spec, provider_OAuth2 = None \<rparr>"

definition sample_resolved_flows :: Flows where
  "sample_resolved_flows = \<lparr> flws_Authorization = ''f1'', flws_Invalidation = ''f2'', flws_Authentication = None \<rparr>"

definition sample_proxy_refs :: ProxyReferences where
  "sample_proxy_refs = \<lparr> proxyrefs_Certificate = None, proxyrefs_Outpost = ''o1'' \<rparr>"

definition sample_oauth2_refs :: OAuth2References where
  "sample_oauth2_refs = \<lparr> oauth2refs_Scopes = None, oauth2refs_SigningKey = None,
     oauth2refs_EncryptionKey = None, oauth2refs_Credentials = None \<rparr>"

section \<open>State\<close>

definition sample_fake :: fake where
  "sample_fake = (fake_New (\<lambda>draw n. replicate n (CHR ''x'')))
     \<lparr>fake_groups := [(''g1'', \<lparr>group_Pk = ''g1'', group_Name = ''staff''\<rparr>)],
      fake_users := [(7, \<lparr>usr_Pk = 7, usr_Username = ''alice''\<rparr>)],
      fake_applications := [(''wiki'', sample_application)],
      fake_proxyProviders := [(1, sample_proxy)], fake_oauth2Providers := [(2, sample_oauth2)],
      fake_bindings := [(''b1'', sample_binding)],
      fake_outposts := [(''o1'', \<lparr>outpost_Pk = ''o1'', outpost_Name = EmbeddedOutpostName, outpost_Providers = [5]\<rparr>)]\<rparr>"

definition sample_state :: "(fake, cluster) sys" where
  "sample_state = \<lparr>
     server = sample_fake, roleUUID = [], objects = None, fetched = 0, clock = int, ticks = 0,
     kube = \<lparr> cluster_apps = [sample_app], cluster_secrets = [] \<rparr>, failures = [],
     events = [], roleQueue = [], st_app = sample_app, st_base = sample_app,
     st_resolved = \<lparr> resolved_Flows = None, resolved_Proxy = None, resolved_OAuth2 = None, resolved_Rules = [] \<rparr> \<rparr>"

lemmas sample_defs = sample_reconciler_def cluster_client_def sample_spec_def empty_status_def sample_app_def
  sample_application_def sample_proxy_def sample_oauth2_def sample_binding_def sample_flows_def
  sample_proxy_spec_def sample_forward_spec_def sample_oauth2_spec_def sample_provider_spec_def
  sample_resolved_flows_def sample_proxy_refs_def sample_oauth2_refs_def sample_fake_def sample_state_def fake_New_def found_def storeApp_def sameResource_def kubeNotFound_def

end
