(* ===== verification/Coherence.thy ===== *)
theory Coherence
  imports Invariant Samples
begin

text \<open>
  The operator on the in-memory server. The contracts of the marker cache and of a reconcile are
  interpreted for a reconciler whose client is the server of \<open>internal/authentik/fake\<close>; what the
  proofs about the library's locales then say of the code is stated here.
\<close>

section \<open>Interpretations\<close>

definition on_fake :: "(fake, 'k) Reconciler \<Rightarrow> (fake, 'k) Reconciler" where
  "on_fake r = r\<lparr>Authentik := fake_client\<rparr>"

lemma Authentik_on_fake [simp]: "Authentik (on_fake r) = fake_client"
  by (simp add: on_fake_def)

lemma requeueAll_frame: "cache_state.truncate (requeueAll r s) = cache_state.truncate s"
  by (simp add: requeueAll_def cache_state.defs split: prod.split sum.split)

lemma marker_of_fake: "cache_marker (markers (on_fake r)) = fake_marker (ownerRoleName r)"
  by (simp add: markers_def on_fake_def fake_marker_def)

interpretation fake_cache: marker_cache "markers (on_fake r)" wf_marks fake_named fake_marked fake_present markable_model
  for r :: "(fake, 'k) Reconciler"
proof (intro marker_cache.intro marker_cache_axioms.intro)
  show "marker (cache_marker (markers (on_fake r))) wf_marks fake_named fake_marked fake_present markable_model"
    unfolding marker_of_fake by (rule fake_mk.marker_axioms)
  show "cache_state.truncate (cache_onRoleRecreated (markers (on_fake r)) s) = cache_state.truncate s" for s
    by (simp add: markers_def requeueAll_frame)
qed

abbreviation coherent :: "(fake, 'k) Reconciler \<Rightarrow> (fake, 'k) sys \<Rightarrow> bool" where
  "coherent r \<equiv> list_ok (markers (on_fake r)) wf_marks fake_marked markable_model"

text \<open>A call outside the RBAC API leaves the markers alone.\<close>

lemma coherent_srv:
  assumes "stable wf_fake m" and "keeps rbac_part m"
  shows "stable (coherent (r :: (fake, 'k) Reconciler)) (srv m)"
proof (rule stepsI)
  fix s t :: "(fake, 'k) sys" and x assume run: "srv m s = (x, t)"
  obtain y a where m: "m (server s) = (y, a)" by (metis surj_pair)
  with run have t: "t = s\<lparr>server := a\<rparr>" by (simp add: srv_def)
  have "wf_marks a" if "wf_marks (server s)"
    using stableD [OF wf_marks_frame [OF assms] m that] .
  moreover have "fake_marked a = fake_marked (server s)"
    using keepsD [OF assms(2) m] by (simp add: rbac_part_def fake_marked_def fun_eq_iff)
  ultimately show "pres (coherent r) s t"
    unfolding t pres_def by (auto simp: list_ok_def is_fresh_def)
qed

interpretation reconcile_coherent: reconcile_invariant "on_fake r" "coherent r" markable_model
  for r :: "(fake, 'k) Reconciler"
proof (intro reconcile_invariant.intro reconcile_invariant_axioms.intro, goal_cases)
  case 1
  show ?case by (simp add: fake.reads_axioms)
next
  case (15 ob)
  show ?case by (rule stepsI) (auto simp: pres_def intro: fake_cache.contains_spec)
next
  case (16 ob)
  show ?case by (rule stepsI) (auto simp: pres_def intro: fake_cache.isManaged_spec)
next
  case (17 ob)
  then show ?case by (intro stepsI) (auto simp: pres_def intro: fake_cache.ensure_spec)
next
  case (18 ob)
  show ?case by (rule stepsI) (auto simp: pres_def intro: fake_cache.remove_spec)
qed (simp_all add: coherent_srv wf_writes rbac_frames list_ok_def is_fresh_def markable_model_def)

section \<open>The ownership role\<close>

lemma fake_named_unique:
  assumes "wf_fake c"
  shows "\<exists>u. fake_named c n \<subseteq> {u}"
proof -
  have "u = v" if "u \<in> fake_named c n" "v \<in> fake_named c n" for u v
  proof -
    from that obtain r q where m: "map_of (fake_roles c) u = Some r" "map_of (fake_roles c) v = Some q"
      "role_Name r = role_Name q" by (auto simp: fake_named_def)
    then have "(u, r) \<in> set (fake_roles c)" "(v, q) \<in> set (fake_roles c)" by (auto dest: map_of_SomeD)
    moreover have "inj_on (role_Name \<circ> snd) (set (fake_roles c))"
      using assms by (simp add: wf_fake_def distinct_map)
    ultimately have "(u, r) = (v, q)" using inj_onD [of "role_Name \<circ> snd" _ "(u, r)" "(v, q)"] m(3) by simp
    then show ?thesis by simp
  qed
  then show ?thesis by blast
qed

lemma fake_find_role:
  assumes "wf_marks c"
  shows "\<exists>roles. FindRolesByName fake_client n c = (Inr roles, c) \<and> length roles \<le> 1"
proof -
  obtain x c' where run: "FindRolesByName fake_client n c = (x, c')" by (metis surj_pair)
  then obtain roles where x: "x = Inr roles" by (auto simp: fake_FindRolesByName_def run_simps)
  have r: "c' = c" "distinct (map role_Pk roles)" "role_Pk ` set roles = fake_named c n"
    using fake_find_roles [OF run assms] x by auto
  obtain u where "fake_named c n \<subseteq> {u}"
    using fake_named_unique [of c n] assms unfolding wf_marks_def by blast
  then have "set (map role_Pk roles) \<subseteq> {u}" using r(3) by auto
  then have "length roles \<le> 1"
    using distinct_card [OF r(2)] card_mono [of "{u}" "set (map role_Pk roles)"] by simp
  with run x r show ?thesis by auto
qed

lemma EnsureRole_succeeds:
  assumes "wf_marks (server s)"
  shows "\<exists>u v t. EnsureRole (fake_marker n) s = (Inr (u, v), t)"
proof -
  obtain roles where f: "FindRolesByName fake_client n (server s) = (Inr roles, server s)" "length roles \<le> 1"
    using fake_find_role [OF assms] by blast
  show ?thesis
  proof (cases roles)
    case (Cons role rest)
    with f show ?thesis
      by (cases rest) (auto simp: EnsureRole_def findOrCreateRole_def findRole_def fake_marker_def run_simps)
  next
    case Nil
    have "\<exists>role c. CreateRole fake_client n (server s) = (Inr role, c)"
      using f Nil
      by (auto simp: fake_CreateRole_def fake_FindRolesByName_def findAll_def run_simps nextUUID_def nextPK_def
          list_ex_iff filter_empty_conv Let_def)
    with f Nil show ?thesis
      by (auto simp: EnsureRole_def findOrCreateRole_def findRole_def fake_marker_def run_simps)
  qed
qed

text \<open>
  C37: \<open>EnsureRole\<close> always succeeds and leaves exactly one role with the configured name, whose UUID it
  returns and remembers together with the UUID it remembered before; no marker is lost. Running it
  again finds the same role and changes nothing.
\<close>

theorem EnsureRole_exactly_one:
  assumes "wf_marks (server s)"
  shows "\<exists>u t. EnsureRole (fake_marker n) s = (Inr (u, roleUUID s), t) \<and> roleUUID t = u \<and> u \<noteq> [] \<and>
     fake_named (server t) n = {u} \<and> wf_marks (server t) \<and> fake_marked (server t) = fake_marked (server s) \<and>
     EnsureRole (fake_marker n) t = (Inr (u, u), t)"
proof -
  obtain u v t where run: "EnsureRole (fake_marker n) s = (Inr (u, v), t)"
    using EnsureRole_succeeds [OF assms] by blast
  have n: "marker_roleName (fake_marker n) = n" by (simp add: fake_marker_def)
  have t: "wf_marks (server t)" "fake_marked (server t) = fake_marked (server s)" "roleUUID t = u" "u \<noteq> []"
    "v = roleUUID s" "fake_named (server t) n = {u}"
    using fake_mk.EnsureRole_spec [OF run assms] by (simp_all add: n)
  obtain u' v' t' where run': "EnsureRole (fake_marker n) t = (Inr (u', v'), t')"
    using EnsureRole_succeeds [OF t(1)] by blast
  obtain x t2 where f: "findOrCreateRole (fake_marker n) t = (x, t2)" by (metis surj_pair)
  have same: "t2 = t" "\<And>w. x = Inr w \<Longrightarrow> w = u"
    using fake_mk.findOrCreateRole_spec [OF f t(1)] t(6) by (auto simp: n)
  with run' f have "u' = u \<and> v' = u"
    using t(3) by (auto simp: EnsureRole_def run_simps split: sum.splits)
  with same have "EnsureRole (fake_marker n) t = (Inr (u, u), t)"
    using run' f t(3) by (auto simp: EnsureRole_def run_simps split: sum.splits)
  with run t show ?thesis by blast
qed

section \<open>Markers\<close>

text \<open>
  After \<open>Mark\<close> succeeded, \<open>IsManaged\<close> answers yes for the marked object, and for any other
  object what it would have answered before. After a successful \<open>Unmark\<close> it answers no for the object.
\<close>

lemma IsManaged_after_Mark:
  assumes "wf_marks (server s)" and "markable_model (obj_Model ob)"
    and "Mark (fake_marker n) ob s = (Inr (), t)" and "IsManaged (fake_marker n) ob' t = (Inr b, u)"
    and "Unmark (fake_marker n) ob t = (Inr (), v)" and "IsManaged (fake_marker n) ob' v = (Inr b', w)"
  shows "(b \<longleftrightarrow> ob' = ob \<or> ob' \<in> fake_marked (server s) (roleUUID t)) \<and>
     (b' \<longleftrightarrow> ob' \<noteq> ob \<and> ob' \<in> fake_marked (server s) (roleUUID t))"
proof -
  note m = fake_mk.Mark_spec [OF assms(3,1,2)]
  note i = fake_mk.IsManaged_spec [OF assms(4) m(1)]
  note k = fake_mk.Unmark_spec [OF assms(5) m(1)]
  note j = fake_mk.IsManaged_spec [OF assms(6) k(1)]
  obtain r t1 where role: "marker_role (fake_marker n) s = (r, t1)" by (metis surj_pair)
  then obtain x where x: "r = Inr x" using assms(3) by (cases r) (auto simp: Mark_def run_simps)
  have "roleUUID t = x \<and> x \<noteq> []"
    using fake_mk.marker_role_spec(5) [OF role assms(1) x] assms(3) role x
    by (auto simp: Mark_def run_simps split: sum.splits prod.splits)
  then have ne: "roleUUID t \<noteq> []" by simp
  have "roleUUID u = roleUUID t" "roleUUID v = roleUUID t" "roleUUID w = roleUUID t"
    using i(2) k(2) j(2) ne unfolding fake_mk.role_kept_def by metis+
  then show ?thesis using i(5) [of b] k(4) j(5) [of b'] m(4) by auto
qed

section \<open>The cached list\<close>

text \<open>
  C3: whatever a reconcile does and wherever it fails, the cached marker list stays coherent: while
  it is fresh it is exactly the set of objects that the server has marked for the remembered role,
  and the server keeps its invariant.
\<close>

theorem Reconcile_keeps_markers:
  assumes "list_ok (markers (on_fake r)) wf_marks fake_marked markable_model s"
  shows "list_ok (markers (on_fake r)) wf_marks fake_marked markable_model
    (snd (Reconcile (on_fake r) namespace name s))"
  using reconcile_coherent.stable_Reconcile [of r namespace name] assms by (simp add: steps_def pres_def)


text \<open>
  \<open>ensure\<close> leaves the object marked on the server and in the list, \<open>remove\<close> leaves it unmarked,
  and neither changes the marker of another object or another role.
\<close>

lemma cache_ensure_remove:
  fixes s :: "(fake, 'k) sys"
  assumes "list_ok (markers (on_fake r)) wf_marks fake_marked markable_model s" and "markable_model (obj_Model ob)"
    and "cache_ensure (markers (on_fake r)) ob s = (Inr (), t)"
    and "cache_remove (markers (on_fake r)) ob t = (Inr (), u)"
  shows "cached ob t \<and> ob \<in> fake_marked (server t) (roleUUID t) \<and>
     (\<forall>ob' q. (ob', q) \<noteq> (ob, roleUUID t) \<longrightarrow> ob' \<in> fake_marked (server t) q = (ob' \<in> fake_marked (server s) q)) \<and>
     \<not> cached ob u \<and> ob \<notin> fake_marked (server u) (roleUUID u) \<and>
     (\<forall>ob' q. (ob', q) \<noteq> (ob, roleUUID u) \<longrightarrow> ob' \<in> fake_marked (server u) q = (ob' \<in> fake_marked (server t) q))"
proof -
  note e = fake_cache.ensure_spec [OF assms(3,1,2)]
  note m = fake_cache.remove_spec [OF assms(4) e(1)]
  have sy: "list_synced wf_marks fake_marked t" "ob \<in> fake_marked (server t) (roleUUID t)" using e(4) by auto
  have "\<not> cached ob u"
    using assms(4) by (auto simp: cache_remove_def run_simps deleteObject_def cached_def split: sum.splits prod.splits option.splits)
  then show ?thesis
    using sy(2) fake_cache.cached_synced [OF sy(1), of ob] e(3) m(3) by (auto split: if_splits)
qed

text \<open>
  While the list is younger than the TTL, \<open>contains\<close> answers from the list and makes no call.
\<close>

lemma contains_within_ttl:
  assumes "objects s = Some obs" and "clock s (ticks s) - fetched s < cache_ttl c"
  shows "cache_contains c ob s = (Inr (ob \<in> set obs), s\<lparr>ticks := Suc (ticks s)\<rparr>)"
  using assms by (simp add: cache_contains_def run_simps refresh_fresh is_fresh_def cached_def)

text \<open>
  C36: a collection that returns removes exactly the markers of objects that no longer exist, keeps
  every other marker, deletes no object, and returns the number of markers it removed.
\<close>

theorem collect_removes_orphans:
  fixes s :: "(fake, 'k) sys"
  assumes "list_ok (markers (on_fake r)) wf_marks fake_marked markable_model s"
    and "collect (markers (on_fake r)) s = (Inr n, t)"
  shows "fake_marked (server t) (roleUUID t) =
       {ob \<in> fake_marked (server s) (roleUUID t). fake_present (server s) ob} \<and>
     (\<forall>q. q \<noteq> roleUUID t \<longrightarrow> fake_marked (server t) q = fake_marked (server s) q) \<and>
     fake_present (server t) = fake_present (server s) \<and>
     n = card {ob \<in> fake_marked (server s) (roleUUID t). \<not> fake_present (server s) ob}"
  using fake_cache.collect_spec [OF assms(2,1)] by auto

end
