(* ===== verification/ApiClient.thy ===== *)
theory ApiClient
  imports Provider
begin

text \<open>
  The wrapper around the generated API client (\<open>internal/authentik/apiclient.go\<close>,
  \<open>internal/authentik/errors.go\<close>): the conversion of responses into errors, the redaction of error
  bodies, and the list calls that follow every page. A request of the generated client and
  \<open>json.Unmarshal\<close> are arguments of the definitions.
\<close>

section \<open>Redaction\<close>

definition Redacted :: string where "Redacted = ''(redacted)''"

definition maxErrorBodyLength :: nat where "maxErrorBodyLength = 4096"

fun isString :: "json \<Rightarrow> bool" where
  "isString (JStr s) = True"
| "isString _ = False"

fun redactValue :: "json \<Rightarrow> json" where
  "redactValue (JObj kvs) = JObj (map (\<lambda>(key, child).
     (key, if isString child \<and> key \<in> set ConfidentialFields then JStr Redacted else redactValue child)) kvs)"
| "redactValue (JArr js) = JArr (map redactValue js)"
| "redactValue j = j"

definition redactBody :: "(string \<Rightarrow> json option) \<Rightarrow> string \<Rightarrow> string" where
  "redactBody unmarshal body =
     (case unmarshal body of None \<Rightarrow> body | Some v \<Rightarrow> marshal (redactValue v))"

section \<open>Responses\<close>

record Response =
  resp_StatusCode :: int
  resp_Body :: "string option"

text \<open>An error of the generated client: its message, and the body it kept when it has one.\<close>

record CallError =
  callerr_Message :: string
  callerr_Body :: "string option"

definition errorBody :: "(string \<Rightarrow> json option) \<Rightarrow> Response \<Rightarrow> CallError option \<Rightarrow> string" where
  "errorBody unmarshal resp err =
     (let body = (case Option.bind err callerr_Body of
          Some b \<Rightarrow> b
        | None \<Rightarrow> (case resp_Body resp of Some b \<Rightarrow> take maxErrorBodyLength b | None \<Rightarrow> [])) in
      take maxErrorBodyLength (redactBody unmarshal body))"

definition wrapError ::
  "(string \<Rightarrow> json option) \<Rightarrow> string \<Rightarrow> Response option \<Rightarrow> CallError option \<Rightarrow> goerror option" where
  "wrapError unmarshal operation resp err =
     (case resp of
        Some rs \<Rightarrow>
          (if resp_StatusCode rs < 200 \<or> resp_StatusCode rs > 299
           then Some (APIError operation (resp_StatusCode rs) (errorBody unmarshal rs err))
           else map_option (\<lambda>e. TransportError operation (callerr_Message e)) err)
      | None \<Rightarrow> map_option (\<lambda>e. TransportError operation (callerr_Message e)) err)"

text \<open>A request of the generated client: a result, the response and an error.\<close>

type_synonym ('s, 'r) request = "'s \<Rightarrow> ('r \<times> Response option \<times> CallError option) \<times> 's"

section \<open>Metrics\<close>

text \<open>
  The counter \<open>requestsTotal\<close> as the labels of its increments, in order: the operation and the status
  code, or \<open>error\<close> when there was no response; the histogram \<open>requestDuration\<close> as its observations. The clock of
  \<open>time.Now\<close> and \<open>time.Since\<close> is a function of the number of its readings.
\<close>

record 's wire =
  wire_server :: 's
  requestsTotal :: "(string \<times> string) list"
  requestDuration :: "(string \<times> int) list"
  wire_clock :: "nat \<Rightarrow> int"
  wire_ticks :: nat

definition responseCode :: "Response option \<Rightarrow> string" where
  "responseCode resp = (case resp of Some rs \<Rightarrow> itoa (resp_StatusCode rs) | None \<Rightarrow> ''error'')"

definition observeRequest :: "string \<Rightarrow> int \<Rightarrow> Response option \<Rightarrow> 's wire \<Rightarrow> 's wire" where
  "observeRequest operation start resp s =
     s\<lparr>requestsTotal := requestsTotal s @ [(operation, responseCode resp)],
       requestDuration := requestDuration s @ [(operation, wire_clock s (wire_ticks s) - start)],
       wire_ticks := Suc (wire_ticks s)\<rparr>"

section \<open>Calls\<close>

definition call_api :: "(string \<Rightarrow> json option) \<Rightarrow> string \<Rightarrow> ('s, 'r) request \<Rightarrow> ('s wire, 'r) call" where
  "call_api unmarshal operation execute = (\<lambda>s.
     let start = wire_clock s (wire_ticks s) in
     case execute (wire_server s) of ((result, resp, err), t) \<Rightarrow>
       (let s' = observeRequest operation start resp (s\<lparr>wire_server := t, wire_ticks := Suc (wire_ticks s)\<rparr>) in
        case wrapError unmarshal operation resp err of
          Some e \<Rightarrow> (Inl e, s')
        | None \<Rightarrow> (Inr result, s')))"

definition callNoContent ::
  "(string \<Rightarrow> json option) \<Rightarrow> string \<Rightarrow> ('s \<Rightarrow> (Response option \<times> CallError option) \<times> 's) \<Rightarrow> ('s wire, unit) call" where
  "callNoContent unmarshal operation execute = (\<lambda>s.
     let start = wire_clock s (wire_ticks s) in
     case execute (wire_server s) of ((resp, err), t) \<Rightarrow>
       (let s' = observeRequest operation start resp (s\<lparr>wire_server := t, wire_ticks := Suc (wire_ticks s)\<rparr>) in
        case wrapError unmarshal operation resp err of
          Some e \<Rightarrow> (Inl e, s')
        | None \<Rightarrow> (Inr (), s')))"

section \<open>Lists\<close>

record 't page =
  page_results :: "'t list"
  page_next :: int

text \<open>
  \<open>listAll\<close> follows \<open>next\<close> until it is not positive. The loop does not end on a server whose pages
  never do, so the model takes fuel, one unit per page, and \<open>None\<close> is a run that is cut off.
\<close>

fun listPages ::
  "nat \<Rightarrow> (int \<Rightarrow> ('s, 't page) call) \<Rightarrow> ('t \<Rightarrow> bool) \<Rightarrow> 't list \<Rightarrow> int \<Rightarrow> 's \<Rightarrow> ((goerror + 't list) \<times> 's) option" where
  "listPages 0 fetch keep items current s = None"
| "listPages (Suc fuel) fetch keep items current s =
     (case fetch current s of
        (Inl e, t) \<Rightarrow> Some (Inl e, t)
      | (Inr p, t) \<Rightarrow>
          (let items' = items @ filter keep (page_results p) in
           if page_next p \<le> 0 then Some (Inr items', t)
           else listPages fuel fetch keep items' (int32_of (page_next p)) t))"

type_synonym ('s, 'r) cut = "'s \<Rightarrow> ((goerror + 'r) \<times> 's) option"

definition listAll ::
  "nat \<Rightarrow> (string \<Rightarrow> json option) \<Rightarrow> string \<Rightarrow> (int \<Rightarrow> ('s, 't page) request) \<Rightarrow> ('t \<Rightarrow> bool) \<Rightarrow>
   ('s wire, 't list) cut" where
  "listAll fuel unmarshal operation fetch keep =
     listPages fuel (\<lambda>p. call_api unmarshal operation (fetch p)) keep [] 1"

section \<open>Redaction hides the confidential values\<close>

text \<open>
  \<open>same_public a b\<close>: the values differ at most in the strings of confidential fields.
\<close>

fun same_public :: "json \<Rightarrow> json \<Rightarrow> bool" where
  "same_public (JObj kvs) (JObj kvs') =
     list_all2 (\<lambda>(k, v) (k', v'). k = k' \<and>
       (isString v \<and> isString v' \<and> k \<in> set ConfidentialFields \<or> same_public v v')) kvs kvs'"
| "same_public (JArr js) (JArr js') = list_all2 same_public js js'"
| "same_public a b = (a = b)"

lemma same_public_string: "same_public a b \<Longrightarrow> isString a = isString b"
  by (cases a; cases b) auto

lemma redactValue_same_public: "same_public a b \<Longrightarrow> redactValue a = redactValue b"
proof (induction a arbitrary: b rule: redactValue.induct)
  case (1 kvs)
  then obtain kvs' where b: "b = JObj kvs'" by (cases b) auto
  have all: "list_all2 (\<lambda>(k, v) (k', v'). k = k' \<and>
       (isString v \<and> isString v' \<and> k \<in> set ConfidentialFields \<or> same_public v v')) kvs kvs'"
    using "1.prems" b by simp
  let ?r = "\<lambda>(key, child). (key, if isString child \<and> key \<in> set ConfidentialFields then JStr Redacted
       else redactValue child)"
  have "map ?r kvs = map ?r kvs'"
  proof (rule nth_equalityI)
    show "length (map ?r kvs) = length (map ?r kvs')" using all by (auto dest: list_all2_lengthD)
  next
    fix i assume "i < length (map ?r kvs)"
    then have i: "i < length kvs" "i < length kvs'" using all by (auto dest: list_all2_lengthD)
    obtain k v where kv: "kvs ! i = (k, v)" by (cases "kvs ! i")
    obtain k' v' where kv': "kvs' ! i = (k', v')" by (cases "kvs' ! i")
    have e: "k = k'" "isString v \<and> isString v' \<and> k \<in> set ConfidentialFields \<or> same_public v v'"
      using list_all2_nthD [OF all i(1)] kv kv' by auto
    have "redactValue v = redactValue v'" if "same_public v v'" "\<not> (isString v \<and> k \<in> set ConfidentialFields)"
      using "1.IH" [of "(k, v)" k v v'] that kv i nth_mem [OF i(1)] by auto
    then show "map ?r kvs ! i = map ?r kvs' ! i"
      using e kv kv' i same_public_string by auto
  qed
  with b show ?case by simp
next
  case (2 js)
  then obtain js' where b: "b = JArr js'" by (cases b) auto
  have all: "list_all2 same_public js js'" using "2.prems" b by simp
  have "map redactValue js = map redactValue js'"
    using all "2.IH" by (auto simp: list_all2_conv_all_nth intro!: nth_equalityI)
  with b show ?case by simp
qed (case_tac b; simp)+

section \<open>Following the pages\<close>

text \<open>
  A server with the pages \<open>ps\<close>: page \<open>i\<close> is followed by page \<open>i + 1\<close>, the last one by none. Each request
  changes the state by \<open>f\<close>.
\<close>

definition paged :: "('s \<Rightarrow> 's) \<Rightarrow> ('s \<Rightarrow> bool) \<Rightarrow> (int \<Rightarrow> ('s, 't page) call) \<Rightarrow> 't list list \<Rightarrow> bool" where
  "paged f P fetch ps \<longleftrightarrow>
     (\<forall>i < length ps. \<forall>s. P s \<longrightarrow> P (f s) \<and> fetch (int i + 1) s =
        (Inr \<lparr> page_results = ps ! i, page_next = (if Suc i < length ps then int i + 2 else 0) \<rparr>, f s))"

lemma listPages_paged:
  assumes "paged f P fetch ps" and "int (length ps) < 2 ^ 31"
    and "i < length ps" and "length ps - i \<le> fuel" and "P s"
  shows "listPages fuel fetch keep items (int i + 1) s =
    Some (Inr (items @ filter keep (concat (drop i ps))), (f ^^ (length ps - i)) s)"
  using assms(3-5)
proof (induction fuel arbitrary: i items s)
  case (Suc fuel)
  have drop: "drop i ps = ps ! i # drop (Suc i) ps" using Suc.prems(1) by (simp add: Cons_nth_drop_Suc)
  have f: "P (f s)" using assms(1) Suc.prems(1,3) by (simp add: paged_def)
  show ?case
  proof (cases "Suc i < length ps")
    case True
    have "int32_of (int i + 2) = int i + 2"
      using assms(2) True by (intro int32_of_id) auto
    then have next_page: "int32_of (int i + 2) = int (Suc i) + 1" by simp
    have "fetch (int i + 1) s = (Inr \<lparr> page_results = ps ! i, page_next = int i + 2 \<rparr>, f s)"
      using assms(1) Suc.prems(1,3) True by (simp add: paged_def)
    moreover have "listPages fuel fetch keep (items @ filter keep (ps ! i)) (int (Suc i) + 1) (f s) =
        Some (Inr ((items @ filter keep (ps ! i)) @ filter keep (concat (drop (Suc i) ps))), (f ^^ (length ps - Suc i)) (f s))"
      using True Suc.prems f by (intro Suc.IH) auto
    moreover have "(f ^^ (length ps - i)) s = (f ^^ (length ps - Suc i)) (f s)"
      using True funpow_swap1 [of f "length ps - Suc i" s] by (simp add: Suc_diff_Suc [symmetric])
    ultimately show ?thesis using next_page by (simp add: drop)
  next
    case False
    have "fetch (int i + 1) s = (Inr \<lparr> page_results = ps ! i, page_next = 0 \<rparr>, f s)"
      using assms(1) Suc.prems(1,3) False by (simp add: paged_def)
    moreover have "length ps - i = 1" using False Suc.prems(1) by simp
    ultimately show ?thesis using False by (simp add: drop)
  qed
qed simp

text \<open>More fuel does not change a result.\<close>

lemma listPages_mono:
  "listPages fuel fetch keep items current s = Some r \<Longrightarrow> fuel \<le> fuel' \<Longrightarrow>
   listPages fuel' fetch keep items current s = Some r"
proof (induction fuel arbitrary: fuel' items current s)
  case (Suc fuel)
  then obtain n where n: "fuel' = Suc n" "fuel \<le> n" by (cases fuel') auto
  show ?case using Suc.prems(1) Suc.IH [OF _ n(2)] unfolding n(1)
    by (auto simp: Let_def split: prod.splits sum.splits if_splits)
qed simp

end
