(* ===== verification/Startup.thy ===== *)
theory Startup
  imports ApiClient
begin

text \<open>
  What runs before the controller starts and how its retries are paced: the configuration check
  (\<open>internal/authentik/config.go\<close>), the comparison of the authentik versions
  (\<open>internal/authentik/version.go\<close>), and the rate limiter (\<open>internal/retry/ratelimiter.go\<close>), whose
  delegate comes from client-go and is an argument.
\<close>

section \<open>Configuration\<close>

record Config =
  cfg_URL :: string
  cfg_Token :: string
  cfg_CAFile :: string
  cfg_Insecure :: bool

definition Validate :: "Config \<Rightarrow> goerror option" where
  "Validate c =
     (let errs =
        (if cfg_URL c = [] then [PlainError ''the authentik URL is required (AUTHENTIK_URL)''] else []) @
        (if cfg_Token c = [] then [PlainError ''the authentik API token is required (AUTHENTIK_TOKEN)''] else []) @
        (if cfg_CAFile c \<noteq> [] \<and> cfg_Insecure c
         then [PlainError ''--authentik-ca-file and --authentik-insecure cannot be used together''] else [])
      in if errs = [] then None else Some (JoinError errs))"

section \<open>Versions\<close>

definition TrimV :: "string \<Rightarrow> string" where
  "TrimV s = (case s of [] \<Rightarrow> [] | c # cs \<Rightarrow> if c = CHR ''v'' then cs else s)"

definition minorText :: "int \<Rightarrow> int \<Rightarrow> string" where
  "minorText year minor = itoa year @ ''.'' @ itoa minor"

text \<open>The message of a failed \<open>strconv.Atoi\<close> is the one of the standard library.\<close>

definition atoiError :: "string \<Rightarrow> goerror" where
  "atoiError s = PlainError (''strconv.Atoi: parsing '' @ quote s @ '': invalid syntax'')"

definition minorFromClientVersion :: "string \<Rightarrow> goerror + string" where
  "minorFromClientVersion version =
     (let parts = split_on (CHR ''.'') (TrimV version);
          msg = ''unexpected client-go version '' @ quote version in
      if length parts < 2 \<or> length (parts ! 1) \<noteq> 7 then Inl (PlainError msg)
      else case atoi (take 4 (parts ! 1)) of
        None \<Rightarrow> Inl (WrapError msg (atoiError (take 4 (parts ! 1))))
      | Some year \<Rightarrow> (case atoi (take 2 (drop 4 (parts ! 1))) of
          None \<Rightarrow> Inl (WrapError msg (atoiError (take 2 (drop 4 (parts ! 1)))))
        | Some minor \<Rightarrow> Inr (minorText year minor)))"

definition minorFromServerVersion :: "string \<Rightarrow> goerror + string" where
  "minorFromServerVersion version =
     (let parts = split_on (CHR ''.'') (TrimV version);
          msg = ''unexpected authentik version '' @ quote version in
      if length parts < 2 then Inl (PlainError msg)
      else case atoi (parts ! 0) of
        None \<Rightarrow> Inl (WrapError msg (atoiError (parts ! 0)))
      | Some year \<Rightarrow> (case atoi (parts ! 1) of
          None \<Rightarrow> Inl (WrapError msg (atoiError (parts ! 1)))
        | Some minor \<Rightarrow> Inr (minorText year minor)))"

text \<open>The build information: the dependencies with their versions and replacements.\<close>

record Module =
  mod_Path :: string
  mod_Version :: string
  mod_Replace :: "string option" \<comment> \<open>the version of the replacing module\<close>

definition clientModulePath :: string where "clientModulePath = ''goauthentik.io/api/v3''"

fun supportedFrom :: "Module list \<Rightarrow> goerror + string" where
  "supportedFrom [] = Inl (PlainError (''module '' @ clientModulePath @ '' is not in the build information''))"
| "supportedFrom (dep # deps) =
     (if mod_Path dep \<noteq> clientModulePath then supportedFrom deps
      else minorFromClientVersion (case mod_Replace dep of Some v \<Rightarrow> v | None \<Rightarrow> mod_Version dep))"

definition SupportedVersion :: "Module list option \<Rightarrow> goerror + string" where
  "SupportedVersion info =
     (case info of
        None \<Rightarrow> Inl (PlainError ''build information is not available'')
      | Some deps \<Rightarrow> supportedFrom deps)"

text \<open>The gauge \<open>versionMismatch\<close> holds one sample: the two versions and the value.\<close>

record 'a check_state =
  check_server :: 'a
  versionMismatch :: "(string \<times> string \<times> int) list"

definition CheckVersion :: "'a Client \<Rightarrow> string \<Rightarrow> ('a check_state, goerror, bool) go" where
  "CheckVersion client supported = (\<lambda>s.
     case GetVersion client (check_server s) of
       (Inl e, a) \<Rightarrow> (Inl (WrapError ''failed to read the authentik version'' e), s\<lparr>check_server := a\<rparr>)
     | (Inr version, a) \<Rightarrow>
         (case minorFromServerVersion version of
            Inl e \<Rightarrow> (Inl e, s\<lparr>check_server := a\<rparr>)
          | Inr minor \<Rightarrow>
              (Inr (minor = supported),
               s\<lparr>check_server := a,
                 versionMismatch := [(version, supported, if minor \<noteq> supported then 1 else 0)]\<rparr>)))"

section \<open>Retries\<close>

text \<open>\<open>cappedRateLimiter.When\<close>, with the delay of the limiter it wraps.\<close>

definition When :: "('item \<Rightarrow> int) \<Rightarrow> int \<Rightarrow> 'item \<Rightarrow> int" where
  "When inner maxDelay item = min (inner item) maxDelay"

section \<open>The two version formats agree\<close>

text \<open>Two digits, as the client module encodes the minor version.\<close>

definition two_digits :: "nat \<Rightarrow> string" where
  "two_digits n = [char_of (48 + n div 10), char_of (48 + n mod 10)]"

lemma digits_no_sep: "digit c \<noteq> None \<Longrightarrow> digit d = None \<Longrightarrow> c \<noteq> d"
  by auto

lemma dot_not_digit: "digit (CHR ''.'') = None"
  by (simp add: digit_def)

lemma nat_str_no_dot: "CHR ''.'' \<notin> set (nat_str n)"
  using nat_str_digits dot_not_digit by blast

lemma itoa_no_dot: "CHR ''.'' \<notin> set (itoa i)"
  using nat_str_no_dot by (simp add: itoa_def)

lemma TrimV_digit: "s \<noteq> [] \<Longrightarrow> hd s \<noteq> CHR ''v'' \<Longrightarrow> TrimV s = s"
  by (cases s) (auto simp: TrimV_def)

lemma itoa_hd: "0 \<le> i \<Longrightarrow> hd (itoa i @ s) \<noteq> CHR ''v''"
  using nat_str_digits [of "hd (nat_str (nat i))" "nat i"] by (auto simp: itoa_def digit_def Let_def)

lemma itoa_ne: "itoa i \<noteq> []"
  by (simp add: itoa_def)

lemma server_version:
  assumes "0 \<le> year" "year < 2 ^ 63" "0 \<le> minor" "minor < 2 ^ 63"
  shows "minorFromServerVersion (itoa year @ ''.'' @ itoa minor @ CHR ''.'' # patch) = Inr (minorText year minor)"
proof -
  have "TrimV (itoa year @ ''.'' @ itoa minor @ CHR ''.'' # patch) = itoa year @ ''.'' @ itoa minor @ CHR ''.'' # patch"
    using itoa_hd assms(1) by (intro TrimV_digit) (auto simp: itoa_ne)
  then show ?thesis
    using assms by (simp add: minorFromServerVersion_def split_on_append itoa_no_dot atoi_itoa)
qed

lemma digits_two: "n < 100 \<Longrightarrow> digits_val 0 (two_digits n) = Some n"
  by (simp add: two_digits_def)

lemma atoi_two: "n < 100 \<Longrightarrow> atoi (two_digits n) = Some (int n)"
proof -
  assume n: "n < 100"
  have "digit (hd (two_digits n)) \<noteq> None" using n by (simp add: two_digits_def)
  then have "hd (two_digits n) \<noteq> CHR ''-''" "hd (two_digits n) \<noteq> CHR ''+''"
    by (auto simp: digit_def Let_def)
  with n show ?thesis by (simp add: atoi_def digits_two) (simp add: two_digits_def)
qed

lemma four_digits: "1000 \<le> y \<Longrightarrow> y < 10000 \<Longrightarrow> length (nat_str y) = 4"
proof -
  assume y: "1000 \<le> y" "y < 10000"
  have "length (nat_str n) = 1" if "n < 10" for n using that by (subst nat_str.simps) simp
  moreover have "length (nat_str n) = Suc (length (nat_str (n div 10)))" if "\<not> n < 10" for n
    using that by (subst nat_str.simps) simp
  moreover have "\<not> y < 10" "\<not> y div 10 < 10" "\<not> y div 10 div 10 < 10" "y div 10 div 10 div 10 < 10"
    using y by auto
  ultimately show ?thesis by simp
qed

lemma client_version:
  assumes "1000 \<le> year" "year < 10000" "minor < 100" "d \<noteq> CHR ''.''" "CHR ''.'' \<notin> set major" "major \<noteq> []"
    "hd major \<noteq> CHR ''v''"
  shows "minorFromClientVersion (CHR ''v'' # major @ ''.'' @ (nat_str year @ two_digits minor @ [d]) @ CHR ''.'' # patch) =
    Inr (minorText (int year) (int minor))"
proof -
  let ?mid = "nat_str year @ two_digits minor @ [d]"
  have four: "length (nat_str year) = 4" using four_digits assms(1,2) by simp
  have "digit c \<noteq> None" if "c \<in> set (two_digits minor)" for c
    using that assms(3) by (auto simp: two_digits_def)
  then have "CHR ''.'' \<notin> set (two_digits minor)" using dot_not_digit by blast
  then have nodot: "CHR ''.'' \<notin> set ?mid"
    using nat_str_no_dot assms(4) by auto
  have parts: "split_on (CHR ''.'') (TrimV (CHR ''v'' # major @ ''.'' @ ?mid @ CHR ''.'' # patch)) =
      major # ?mid # split_on (CHR ''.'') patch"
    using split_on_append [OF assms(5), of "?mid @ CHR ''.'' # patch"] split_on_append [OF nodot, of patch]
    by (simp add: TrimV_def)
  have "take 4 ?mid = nat_str year" "take 2 (drop 4 ?mid) = two_digits minor"
    using four by (simp_all add: two_digits_def)
  moreover have "length ?mid = 7" using four by (simp add: two_digits_def)
  moreover have "atoi (nat_str year) = Some (int year)"
    using atoi_itoa [of "int year"] assms(2) by (simp add: itoa_def)
  ultimately show ?thesis
    unfolding minorFromClientVersion_def parts Let_def using atoi_two [OF assms(3)] by simp
qed

lemma minorText_inj: "minorText y m = minorText y' m' \<longleftrightarrow> y = y' \<and> m = m'"
proof
  assume "minorText y m = minorText y' m'"
  then have "cut (CHR ''.'') (itoa y @ CHR ''.'' # itoa m) = cut (CHR ''.'') (itoa y' @ CHR ''.'' # itoa m')"
    by (simp add: minorText_def)
  then show "y = y' \<and> m = m'" by (auto simp: cut_append itoa_no_dot dest: itoa_inj)
qed auto

end
