(* ===== verification/Repair.thy ===== *)
theory Repair
  imports Desired
begin

text \<open>
  Drift repair on the in-memory server: a patch built by a diff gives every managed field its
  desired value, leaves the other fields and the other objects alone, and is followed by no
  further patch. The locale \<open>repairable\<close> is the contract of a diff and of the patch it builds; the
  four kinds of objects interpret it.
\<close>

section \<open>The contract of a diff\<close>

locale repairable =
  fixes diff :: "'d \<Rightarrow> 'o \<Rightarrow> 'p option"
    and apply_patch :: "'p \<Rightarrow> 'o \<Rightarrow> 'o"
    and matches :: "'d \<Rightarrow> 'o \<Rightarrow> bool"
    and unmanaged_same :: "'d \<Rightarrow> 'o \<Rightarrow> 'o \<Rightarrow> bool"
    and supported :: "'d \<Rightarrow> bool"
  assumes diff_None: "diff d x = None \<longleftrightarrow> matches d x"
    and apply_matches: "diff d x = Some p \<Longrightarrow> supported d \<Longrightarrow> matches d (apply_patch p x)"
    and apply_frame: "diff d x = Some p \<Longrightarrow> unmanaged_same d x (apply_patch p x)"
begin

text \<open>One patch is enough, and an object that matches is not patched.\<close>

lemma no_second_patch: "diff d x = Some p \<Longrightarrow> supported d \<Longrightarrow> diff d (apply_patch p x) = None"
  by (simp add: diff_None apply_matches)

lemma repaired:
  assumes "diff d x = Some p" and "supported d"
  shows "matches d (apply_patch p x) \<and> unmanaged_same d x (apply_patch p x) \<and> diff d (apply_patch p x) = None"
  using assms by (simp add: apply_matches apply_frame no_second_patch)

end

interpretation app_repair: repairable DiffApplication applyApplicationPatch app_match app_frame "\<lambda>d. True"
  by unfold_locales (simp_all add: DiffApplication_None applyApplicationPatch_match applyApplicationPatch_frame)

interpretation proxy_repair: repairable DiffProxyProvider applyProxyPatch proxy_match proxy_frame
    "\<lambda>d. ppx_PropertyMappings d = None"
  by unfold_locales (simp_all add: DiffProxyProvider_None applyProxyPatch_match applyProxyPatch_frame)

interpretation oauth2_repair: repairable DiffOAuth2Provider applyOAuth2Patch oauth2_match oauth2_frame "\<lambda>d. True"
  by unfold_locales (simp_all add: DiffOAuth2Provider_None applyOAuth2Patch_match applyOAuth2Patch_frame)

interpretation binding_repair: repairable DiffPolicyBinding applyBindingPatch binding_match binding_frame "\<lambda>d. True"
  by unfold_locales (simp_all add: DiffPolicyBinding_None applyBindingPatch_match applyBindingPatch_frame)

section \<open>What the server does with a patch\<close>

lemma diff_slug:
  assumes "DiffApplication d x = Some p" and "papp_Slug d = None"
  shows "papp_Slug p = None"
  using diff_SomeD [OF assms(1) [unfolded DiffApplication_def Let_def]] assms(2)
  by (simp add: diffValue_def)

lemma run_PatchApplication:
  assumes "map_of (fake_applications c) slug = Some x" and "papp_Slug p = None"
  shows "fake_PatchApplication slug p c =
    (case (if IsSet (papp_Provider p)
           then checkApplicationProvider ''PatchApplication'' (Get (papp_Provider p)) slug else retE ()) c of
       (Inl e, _) \<Rightarrow> (Inl e, c)
     | (Inr _, _) \<Rightarrow> (Inr (applyApplicationPatch p x),
         c\<lparr>fake_applications := AList.update slug (applyApplicationPatch p x) (fake_applications c)\<rparr>))"
  using assms pure_checks(1)
  by (auto simp: fake_PatchApplication_def run_simps Let_def dest: pureD split: sum.splits prod.splits)

lemma run_PatchProxyProvider:
  assumes "map_of (fake_proxyProviders c) pk = Some x"
  shows "fake_PatchProxyProvider pk p c =
    (if (ppx_Mode p = None \<or> ppx_Mode p = Some PROXYMODE_PROXY) \<and>
        (ppx_InternalHost p = None \<or> ppx_InternalHost p = Some [])
     then (Inl (badRequest ''PatchProxyProvider'' ''internal_host''
             ''Internal host cannot be empty when forward auth is disabled.''), c)
     else if (case ppx_Name p of None \<Rightarrow> False | Some name \<Rightarrow> providerNameTaken c name pk)
     then (Inl (badRequest ''PatchProxyProvider'' ''name'' ''provider with this name already exists.''), c)
     else (let c' = c\<lparr>fake_proxyProviders := AList.update pk (applyProxyPatch p x) (fake_proxyProviders c)\<rparr>
           in (Inr (copyProxyProvider c' (applyProxyPatch p x)), c')))"
  using assms by (simp add: fake_PatchProxyProvider_def checkProxyMode_def run_simps Let_def)

lemma run_PatchOAuth2Provider:
  assumes "map_of (fake_oauth2Providers c) pk = Some x"
  shows "fake_PatchOAuth2Provider pk p c =
    (if (case pox_Name p of None \<Rightarrow> False | Some name \<Rightarrow> providerNameTaken c name pk)
     then (Inl (badRequest ''PatchOAuth2Provider'' ''name'' ''provider with this name already exists.''), c)
     else if (case pox_ClientId p of None \<Rightarrow> False | Some i \<Rightarrow> clientIDTaken c i pk)
     then (Inl (badRequest ''PatchOAuth2Provider'' ''client_id''
             ''o auth2 provider with this Client ID already exists.''), c)
     else (let c' = c\<lparr>fake_oauth2Providers := AList.update pk (applyOAuth2Patch p x) (fake_oauth2Providers c)\<rparr>
           in (Inr (copyOAuth2Provider c' (applyOAuth2Patch p x)), c')))"
  using assms by (simp add: fake_PatchOAuth2Provider_def run_simps Let_def)

section \<open>Properties\<close>

lemma repaired_application:
  assumes "map_of (fake_applications c) slug = Some x" and "DiffApplication d x = Some p" and "papp_Slug d = None"
    and "fake_PatchApplication slug p c = (r, c')"
  shows "(case r of
      Inr y \<Rightarrow> map_of (fake_applications c') = (map_of (fake_applications c))(slug \<mapsto> y) \<and>
        app_match d y \<and> app_frame d x y \<and> DiffApplication d y = None
    | Inl e \<Rightarrow> c' = c \<and> IsSet (papp_Provider p))"
  using assms(4) app_repair.repaired [OF assms(2) TrueI]
  unfolding run_PatchApplication [OF assms(1) diff_slug [OF assms(2,3)]]
  by (auto simp: AList.update_conv' run_simps split: sum.splits prod.splits if_splits)

text \<open>
  C12: a patch of an Application is refused only for its provider. Otherwise every managed field
  has its desired value, the fields that are not managed and the other Applications are as before,
  and the next reconcile finds nothing to patch.
\<close>

theorem application_repaired:
  assumes "map_of (fake_applications c) slug = Some x" and "DiffApplication d x = Some p" and "papp_Slug d = None"
    and "fake_PatchApplication slug p c = (r, c')"
  shows "(case r of
      Inr y \<Rightarrow> map_of (fake_applications c') = (map_of (fake_applications c))(slug \<mapsto> y) \<and>
        app_match d y \<and> app_frame d x y \<and> DiffApplication d y = None
    | Inl e \<Rightarrow> c' = c \<and> IsSet (papp_Provider p))"
  using assms by (rule repaired_application)


text \<open>
  C35: a Proxy Provider in the mode \<open>proxy\<close> whose internal host is as desired cannot be repaired: the
  patch carries the mode but not the internal host, and the server refuses it, whatever field
  differs, so that every later reconcile fails in the same way.
\<close>

theorem mode_proxy_drift_stuck:
  assumes "map_of (fake_proxyProviders c) pk = Some x" and "proxy_Proxy proxy = Some m"
    and "px_InternalHost x = Some (proxymode_InternalHost m)"
    and "DiffProxyProvider (desiredProxyProvider provider proxy flows refs) x = Some p"
  shows "fake_PatchProxyProvider pk p c = (Inl (badRequest ''PatchProxyProvider'' ''internal_host''
             ''Internal host cannot be empty when forward auth is disabled.''), c)"
proof -
  let ?d = "desiredProxyProvider provider proxy flows refs"
  have d: "ppx_Mode ?d = Some PROXYMODE_PROXY" "ppx_InternalHost ?d = Some (proxymode_InternalHost m)"
    using assms(2) by (simp_all add: desiredProxyProvider_def Let_def split: option.split)
  have "ppx_Mode p = Some PROXYMODE_PROXY" "ppx_InternalHost p = None"
    using diff_SomeD [OF assms(4) [unfolded DiffProxyProvider_def Let_def]] d assms(3)
    by (simp_all add: diffPointer_def)
  then show ?thesis by (simp add: run_PatchProxyProvider [OF assms(1)])
qed

text \<open>
  A patch of an OAuth2 Provider is refused only for a name or a client ID in use. Otherwise
  every managed field has its desired value, scopes, grant types and redirect URIs compared as
  sets, the other fields and Providers are as before, and nothing is left to patch.
\<close>

lemma oauth2_repaired:
  assumes "map_of (fake_oauth2Providers c) pk = Some x" and "DiffOAuth2Provider d x = Some p"
    and "\<And>name. pox_Name p = Some name \<Longrightarrow> \<not> providerNameTaken c name pk"
    and "\<And>i. pox_ClientId p = Some i \<Longrightarrow> \<not> clientIDTaken c i pk"
  shows "\<exists>y. fst (fake_PatchOAuth2Provider pk p c) = Inr (copyOAuth2Provider (snd (fake_PatchOAuth2Provider pk p c)) y) \<and>
    map_of (fake_oauth2Providers (snd (fake_PatchOAuth2Provider pk p c))) =
      (map_of (fake_oauth2Providers c))(pk \<mapsto> y) \<and>
    oauth2_match d y \<and> oauth2_frame d x y \<and> DiffOAuth2Provider d y = None"
proof -
  have "\<not> (case pox_Name p of None \<Rightarrow> False | Some name \<Rightarrow> providerNameTaken c name pk)"
    "\<not> (case pox_ClientId p of None \<Rightarrow> False | Some i \<Rightarrow> clientIDTaken c i pk)"
    using assms(3,4) by (simp_all split: option.split)
  then show ?thesis
    using oauth2_repair.repaired [OF assms(2) TrueI] unfolding run_PatchOAuth2Provider [OF assms(1)]
    by (auto simp: Let_def AList.update_conv')
qed

end
