(* ===== verification/Witnesses.thy ===== *)
theory Witnesses
  imports Coherence Startup Repair
begin

text \<open>
  Every property with a hypothesis, applied at a concrete input where the hypotheses hold.
\<close>

section \<open>Drift repair\<close>

theorem application_repaired_witness:
  "\<exists>p r c'. DiffApplication (desiredApplication sample_spec None) sample_application = Some p \<and>
     fake_PatchApplication ''wiki'' p sample_fake = (r, c') \<and>
     (case r of
        Inr y \<Rightarrow> map_of (fake_applications c') = (map_of (fake_applications sample_fake))(''wiki'' \<mapsto> y) \<and>
          app_match (desiredApplication sample_spec None) y \<and>
          app_frame (desiredApplication sample_spec None) sample_application y \<and>
          DiffApplication (desiredApplication sample_spec None) y = None
      | Inl e \<Rightarrow> c' = sample_fake \<and> IsSet (papp_Provider p))"
proof -
  have "DiffApplication (desiredApplication sample_spec None) sample_application \<noteq> None" by code_simp
  then obtain p where p: "DiffApplication (desiredApplication sample_spec None) sample_application = Some p" by blast
  obtain r c' where run: "fake_PatchApplication ''wiki'' p sample_fake = (r, c')" by (metis surj_pair)
  have "map_of (fake_applications sample_fake) ''wiki'' = Some sample_application"
    "papp_Slug (desiredApplication sample_spec None) = None"
    by (simp_all add: sample_fake_def fake_New_def desiredApplication_def)
  from application_repaired [OF this(1) p this(2) run] show ?thesis using p run by blast
qed


theorem mode_proxy_drift_stuck_witness:
  "\<exists>p. DiffProxyProvider (desiredProxyProvider sample_provider_spec sample_proxy_spec sample_resolved_flows
        sample_proxy_refs) sample_proxy = Some p \<and>
     fake_PatchProxyProvider 1 p sample_fake = (Inl (badRequest ''PatchProxyProvider'' ''internal_host''
             ''Internal host cannot be empty when forward auth is disabled.''), sample_fake)"
proof -
  have "DiffProxyProvider (desiredProxyProvider sample_provider_spec sample_proxy_spec sample_resolved_flows
        sample_proxy_refs) sample_proxy \<noteq> None" by code_simp
  then obtain p where p: "DiffProxyProvider (desiredProxyProvider sample_provider_spec sample_proxy_spec
      sample_resolved_flows sample_proxy_refs) sample_proxy = Some p" by blast
  have "map_of (fake_proxyProviders sample_fake) 1 = Some sample_proxy"
    by (simp add: sample_fake_def fake_New_def)
  moreover have "proxy_Proxy sample_proxy_spec = Some \<lparr> proxymode_ExternalHost = ''https://new'',
      proxymode_InternalHost = ''http://wiki'', proxymode_InternalHostSSLValidation = None \<rparr>"
    by (simp add: sample_proxy_spec_def)
  moreover have "px_InternalHost sample_proxy = Some (proxymode_InternalHost \<lparr> proxymode_ExternalHost = ''https://new'',
      proxymode_InternalHost = ''http://wiki'', proxymode_InternalHostSSLValidation = None \<rparr>)"
    by (simp add: sample_proxy_def)
  ultimately show ?thesis using mode_proxy_drift_stuck [OF _ _ _ p] p by blast
qed

lemma oauth2_repaired_sample:
  "\<exists>p. DiffOAuth2Provider (desiredOAuth2Provider sample_provider_spec sample_oauth2_spec sample_resolved_flows
        sample_oauth2_refs) sample_oauth2 = Some p \<and>
     (\<exists>y. fst (fake_PatchOAuth2Provider 2 p sample_fake) = Inr (copyOAuth2Provider (snd (fake_PatchOAuth2Provider 2 p sample_fake)) y))"
proof -
  let ?d = "desiredOAuth2Provider sample_provider_spec sample_oauth2_spec sample_resolved_flows sample_oauth2_refs"
  have "case DiffOAuth2Provider ?d sample_oauth2 of None \<Rightarrow> False | Some p \<Rightarrow>
      pox_ClientId p = None \<and> pox_Name p = None" by code_simp
  then obtain p where p: "DiffOAuth2Provider ?d sample_oauth2 = Some p" "pox_ClientId p = None"
    "pox_Name p = None" by (auto split: option.splits)
  have "map_of (fake_oauth2Providers sample_fake) 2 = Some sample_oauth2"
    by (simp add: sample_fake_def fake_New_def)
  then show ?thesis using oauth2_repaired [of sample_fake 2 sample_oauth2 ?d p] p by auto
qed

section \<open>Conflicts\<close>

definition sample_app2 :: AuthentikApplication where
  "sample_app2 = sample_app\<lparr>meta_Name := ''wiki2'', meta_UID := ''u2'', meta_CreationTimestamp := 90\<rparr>"

definition sample_cluster2 :: cluster where
  "sample_cluster2 = \<lparr> cluster_apps = [sample_app, sample_app2], cluster_secrets = [] \<rparr>"

theorem conflict_one_winner_witness:
  "\<exists>w \<in> {sample_app, sample_app2}. \<forall>a \<in> {sample_app, sample_app2}.
    (if a = w then fst (checkConflict sample_reconciler (sample_state\<lparr>st_app := a, kube := sample_cluster2\<rparr>)) = Inr ()
     else \<exists>msg. fst (checkConflict sample_reconciler (sample_state\<lparr>st_app := a, kube := sample_cluster2\<rparr>)) =
       Inl (StopError ReasonConflict msg))"
proof -
  have m: "meta_UID sample_app = ''u1''" "meta_UID sample_app2 = ''u2''"
    "meta_Name sample_app = ''wiki''" "meta_Name sample_app2 = ''wiki2''"
    "spec_Slug (app_Spec sample_app) = ''wiki''" "spec_Slug (app_Spec sample_app2) = ''wiki''"
    "meta_DeletionTimestamp sample_app = None" "meta_DeletionTimestamp sample_app2 = None"
    by (simp_all add: sample_app_def sample_app2_def sample_spec_def)
  have "KListBySlug (Kube sample_reconciler) ''wiki'' sample_cluster2 = (Inr [sample_app, sample_app2], sample_cluster2)"
    by (simp add: sample_reconciler_def cluster_client_def run_read) (simp add: sample_cluster2_def m)
  with m show ?thesis
    using conflict_one_winner [of "[sample_app, sample_app2]" "''wiki''" sample_reconciler "\<lambda>_. sample_cluster2"
      "\<lambda>_. [sample_app, sample_app2]" "\<lambda>_. sample_cluster2" sample_state]
    by (fastforce simp del: One_nat_def)
qed

theorem conflictUpdate_complete_witness:
  "map_option meta_UID (conflictWinner (conflictCandidates sample_app2 [sample_app\<lparr>meta_Generation := 2\<rparr>])) =
   map_option meta_UID (conflictWinner (conflictCandidates sample_app2 [sample_app]))"
  using conflictUpdate_complete [of sample_app "sample_app\<lparr>meta_Generation := 2\<rparr>" sample_app2 "[]" "[]"]
  by (simp add: conflictUpdate_def)

section \<open>Markers\<close>

lemma wf_marks_sample: "wf_marks sample_fake"
  by (simp add: wf_marks_def wf_fake_def wf_map_def sample_defs)

lemma server_sample: "server sample_state = sample_fake" "roleUUID sample_state = []" "objects sample_state = None"
  "clock sample_state = int"
  by (simp_all add: sample_state_def)

lemma mono_int: "mono int"
  by (simp add: mono_def)

lemma coherent_sample: "list_ok c wf_marks fake_marked markable_model sample_state"
  by (simp add: list_ok_def server_sample wf_marks_sample mono_int)

definition sample_object :: Object where
  "sample_object = \<lparr> obj_Model = ModelApplication, obj_PK = ''a1'' \<rparr>"

lemma markable_sample: "markable_model (obj_Model sample_object)"
  by (simp add: sample_object_def markable_model_def)

theorem EnsureRole_exactly_one_witness:
  "\<exists>u t. EnsureRole (fake_marker ''op'') sample_state = (Inr (u, []), t) \<and> fake_named (server t) ''op'' = {u} \<and>
     EnsureRole (fake_marker ''op'') t = (Inr (u, u), t)"
  using EnsureRole_exactly_one [of sample_state "''op''"] by (auto simp: server_sample wf_marks_sample)

lemma int32_small [simp]: "int32_of 0 = 0" "int32_of 1 = 1" "int32_of 2 = 2" "int32_of 3 = 3"
  by (simp_all add: int32_of_id)

lemmas run_marks = run_simps Mark_def Unmark_def IsManaged_def marker_role_def EnsureRole_def findOrCreateRole_def
  findRole_def fake_marker_def fake_FindRolesByName_def findAll_def fake_CreateRole_def nextUUID_def nextPK_def
  Let_def fake_AssignObjectPermission_def fake_UnassignObjectPermission_def fake_ListObjectPermissionRoles_def
  objectExists_def samePermission_def holdsObject_def viewPermission_def modelOf_def cut_def toRoleObjectPermission_def
  model_defs

definition marked_state :: "(fake, cluster) sys" where
  "marked_state = snd (Mark (fake_marker ''op'') sample_object sample_state)"

lemma marked_runs:
  "fst (Mark (fake_marker ''op'') sample_object sample_state) = Inr ()"
  "fst (IsManaged (fake_marker ''op'') sample_object marked_state) = Inr True"
  "fst (Unmark (fake_marker ''op'') sample_object marked_state) = Inr ()"
  "fst (IsManaged (fake_marker ''op'') sample_object (snd (Unmark (fake_marker ''op'') sample_object marked_state))) = Inr False"
  unfolding marked_state_def
  by (simp_all add: run_marks sample_state_def sample_fake_def fake_New_def sample_object_def sample_application_def)

lemma IsManaged_after_Mark_sample:
  "\<exists>t v u w. Mark (fake_marker ''op'') sample_object sample_state = (Inr (), t) \<and>
     IsManaged (fake_marker ''op'') sample_object t = (Inr True, u) \<and>
     Unmark (fake_marker ''op'') sample_object t = (Inr (), v) \<and>
     IsManaged (fake_marker ''op'') sample_object v = (Inr False, w)"
proof -
  have split: "m s = (fst (m s), snd (m s))" for m :: "('s, 'e, 'r) go" and s by simp
  note runs = marked_runs [unfolded marked_state_def]
  let ?t = "snd (Mark (fake_marker ''op'') sample_object sample_state)"
  let ?v = "snd (Unmark (fake_marker ''op'') sample_object ?t)"
  have r: "Mark (fake_marker ''op'') sample_object sample_state = (Inr (), ?t)"
    "IsManaged (fake_marker ''op'') sample_object ?t = (Inr True, snd (IsManaged (fake_marker ''op'') sample_object ?t))"
    "Unmark (fake_marker ''op'') sample_object ?t = (Inr (), ?v)"
    "IsManaged (fake_marker ''op'') sample_object ?v = (Inr False, snd (IsManaged (fake_marker ''op'') sample_object ?v))"
    using runs by (metis prod.collapse)+
  have "wf_marks (server sample_state)" by (simp add: server_sample wf_marks_sample)
  from IsManaged_after_Mark [OF this markable_sample r] show ?thesis using r by blast
qed

section \<open>The cached list\<close>

theorem Reconcile_keeps_markers_witness:
  "list_ok (markers (on_fake sample_reconciler)) wf_marks fake_marked markable_model
     (snd (Reconcile (on_fake sample_reconciler) ''web'' ''wiki'' sample_state))"
  by (rule Reconcile_keeps_markers [OF coherent_sample])

lemmas run_cache = run_marks cache_contains_def cache_isManaged_def cache_ensure_def cache_remove_def refreshLocked_def
  markers_def on_fake_def requeueAll_def ListManaged_def fake_ListRoleObjectPermissions_def cached_def addObject_def
  deleteObject_def permissionObject_def

lemmas sample_server_defs = sample_state_def sample_fake_def fake_New_def sample_object_def sample_application_def
  sample_reconciler_def

definition cached_state :: "(fake, cluster) sys" where
  "cached_state = snd (cache_ensure (markers (on_fake sample_reconciler)) sample_object sample_state)"

lemma cached_runs:
  "fst (cache_ensure (markers (on_fake sample_reconciler)) sample_object sample_state) = Inr ()"
  "fst (cache_contains (markers (on_fake sample_reconciler)) sample_object cached_state) = Inr True"
  "fst (cache_isManaged (markers (on_fake sample_reconciler)) sample_object cached_state) = Inr True"
  "fst (cache_remove (markers (on_fake sample_reconciler)) sample_object cached_state) = Inr ()"
  unfolding cached_state_def by (simp_all add: run_cache sample_server_defs)

lemma run_fst: "fst (m s) = x \<Longrightarrow> m s = (x, snd (m s))"
  by (cases "m s") simp

abbreviation sample_cache :: "(fake, (fake, cluster) sys) markerCacheOn" where
  "sample_cache \<equiv> markers (on_fake sample_reconciler)"

lemmas cached_results =
  run_fst [of "cache_ensure sample_cache sample_object", OF cached_runs(1)]
  run_fst [of "cache_contains sample_cache sample_object", OF cached_runs(2)]
  run_fst [of "cache_isManaged sample_cache sample_object", OF cached_runs(3)]
  run_fst [of "cache_remove sample_cache sample_object", OF cached_runs(4)]

lemma cached_step:
  "(cache_step (markers (on_fake sample_reconciler)) wf_marks fake_marked markable_model)\<^sup>*\<^sup>* sample_state cached_state"
  by (rule r_into_rtranclp, rule cache_step.ensure [where ob = sample_object], unfold cached_state_def,
      rule cached_results(1), rule markable_sample)


lemma cache_ensure_remove_sample:
  "\<exists>t u. cache_ensure (markers (on_fake sample_reconciler)) sample_object sample_state = (Inr (), t) \<and>
     cache_remove (markers (on_fake sample_reconciler)) sample_object t = (Inr (), u) \<and>
     sample_object \<in> fake_marked (server t) (roleUUID t) \<and> sample_object \<notin> fake_marked (server u) (roleUUID u)"
proof -
  note r = cached_results(1,4) [unfolded cached_state_def]
  from cache_ensure_remove [OF coherent_sample markable_sample r] show ?thesis using r by blast
qed

lemma contains_within_ttl_sample:
  "cache_contains sample_cache sample_object (sample_state\<lparr>objects := Some [sample_object], ticks := 5\<rparr>) =
     (Inr True, sample_state\<lparr>objects := Some [sample_object], ticks := 6\<rparr>)"
proof -
  let ?s = "sample_state\<lparr>objects := Some [sample_object], ticks := 5\<rparr>"
  have "objects ?s = Some [sample_object]" "clock ?s (ticks ?s) - fetched ?s < cache_ttl sample_cache"
    by (simp_all add: sample_state_def markers_def on_fake_def sample_reconciler_def)
  from contains_within_ttl [OF this, of sample_object] show ?thesis by simp
qed

definition orphaned_state :: "(fake, cluster) sys" where
  "orphaned_state = cached_state\<lparr>server := (server cached_state)\<lparr>fake_applications := []\<rparr>\<rparr>"

lemma orphaned_coherent: "list_ok (markers (on_fake sample_reconciler)) wf_marks fake_marked markable_model orphaned_state"
proof -
  have c: "list_ok (markers (on_fake sample_reconciler)) wf_marks fake_marked markable_model cached_state"
    using fake_cache.steps_ok [OF cached_step coherent_sample] .
  moreover have "wf_marks (server orphaned_state)"
    using c by (auto simp: orphaned_state_def list_ok_def wf_marks_def wf_fake_def wf_map_def)
  ultimately show ?thesis
    unfolding orphaned_state_def by (auto simp: list_ok_def is_fresh_def fake_marked_def)
qed

lemma orphaned_run: "fst (collect (markers (on_fake sample_reconciler)) orphaned_state) = Inr 1"
  unfolding orphaned_state_def cached_state_def
  by (simp add: run_cache sample_server_defs collect_def collect_begin_def collect_one_def removeIfOrphaned_def
      MarkIfExists_def objectMissing_def contains_append badRequest_def json_string_def json_char_def)

theorem collect_removes_orphans_witness:
  "\<exists>t. collect (markers (on_fake sample_reconciler)) orphaned_state = (Inr 1, t) \<and>
     1 = card {ob \<in> fake_marked (server orphaned_state) (roleUUID t). \<not> fake_present (server orphaned_state) ob}"
  using collect_removes_orphans [OF orphaned_coherent run_fst [of "collect sample_cache", OF orphaned_run]]
    run_fst [of "collect sample_cache", OF orphaned_run] by blast

end
