(* ===== verification/Outcome.thy ===== *)
theory Outcome
  imports Coherence Repair
begin

text \<open>
  What the steps of a reconcile achieve on the in-memory server: a created object matches the desired
  state it was created from, the steps on the Application, the Outpost and the bindings reach the
  desired state, and a step that finds it reached makes no call.
\<close>

section \<open>The marker cache writes only markers\<close>

text \<open>The server without what belongs to the RBAC API, and the counters.\<close>

definition not_rbac :: "fake \<Rightarrow> fake" where
  "not_rbac c = c\<lparr>fake_roles := [], fake_objectPermissions := [], fake_sequence := 0, fake_draws := 0\<rparr>"

lemma not_rbac_calls:
  "keeps not_rbac (fake_CreateRole n)"
  "keeps not_rbac (fake_AssignObjectPermission role m pk perm)"
  "keeps not_rbac (fake_UnassignObjectPermission role m pk perm)"
  unfolding fake_CreateRole_def fake_AssignObjectPermission_def fake_UnassignObjectPermission_def Let_def
  by (rule steps_self, intro fake_frame; simp add: not_rbac_def)+

lemmas not_rbac_srv = not_rbac_calls [THEN keeps_srv] fake.pure_reads [THEN keeps_srv_pure, THEN pure_keeps]

lemma not_rbac_marker:
  "keeps (not_rbac \<circ> server) (EnsureRole (fake_marker n))"
  "keeps (not_rbac \<circ> server) (marker_role (fake_marker n))"
  "keeps (not_rbac \<circ> server) (Mark (fake_marker n) ob)"
  "keeps (not_rbac \<circ> server) (Unmark (fake_marker n) ob)"
  "keeps (not_rbac \<circ> server) (IsManaged (fake_marker n) ob)"
  "keeps (not_rbac \<circ> server) (ListManaged (fake_marker n))"
  unfolding comp_def EnsureRole_def findOrCreateRole_def findRole_def marker_role_def Mark_def Unmark_def IsManaged_def
    ListManaged_def fake_marker_def Marker.select_convs fake_client_simps
  by (intro frame_intros not_rbac_srv [unfolded fake_client_simps]; simp)+

lemma not_rbac_cache:
  "keeps (not_rbac \<circ> server) (cache_contains (markers (on_fake r)) ob)"
  "keeps (not_rbac \<circ> server) (cache_isManaged (markers (on_fake r)) ob)"
  "keeps (not_rbac \<circ> server) (cache_ensure (markers (on_fake r)) ob)"
  "keeps (not_rbac \<circ> server) (cache_remove (markers (on_fake r)) ob)"
proof -
  have hook: "server (cache_onRoleRecreated (markers (on_fake r)) s) = server s" for s
    using requeueAll_frame [of "on_fake r" s] by (simp add: markers_def cache_state.defs)
  have refresh: "keeps (not_rbac \<circ> server) (refreshLocked (markers (on_fake r)))"
    unfolding refreshLocked_def nowE_def marker_of_fake
    by (intro frame_intros not_rbac_marker; simp add: hook steps_def same_def)
  show "keeps (not_rbac \<circ> server) (cache_contains (markers (on_fake r)) ob)"
    "keeps (not_rbac \<circ> server) (cache_isManaged (markers (on_fake r)) ob)"
    "keeps (not_rbac \<circ> server) (cache_ensure (markers (on_fake r)) ob)"
    "keeps (not_rbac \<circ> server) (cache_remove (markers (on_fake r)) ob)"
    unfolding cache_contains_def cache_isManaged_def cache_ensure_def cache_remove_def addObject_def deleteObject_def
      marker_of_fake
    by (intro frame_intros refresh not_rbac_marker; simp)+
qed

section \<open>Creation reaches the desired state\<close>

lemmas want_defs = want_value_def want_pointer_def want_nullable_def want_set_def want_uris_def

lemma checkApplicationProvider_pure: "checkApplicationProvider op p slug c = (x, c') \<Longrightarrow> c' = c"
  using pure_checks(1) by (auto dest: pureD)

lemma run_CreateApplication:
  assumes "fake_CreateApplication req c = (Inr a, c')"
  shows "map_of (fake_applications c) (rapp_Slug req) = None \<and>
    map_of (fake_applications c') = (map_of (fake_applications c))(rapp_Slug req \<mapsto> a) \<and>
    appl_Slug a = rapp_Slug req \<and> appl_Name a = rapp_Name req \<and> appl_Provider a = rapp_Provider req \<and>
    appl_OpenInNewTab a = rapp_OpenInNewTab req \<and> appl_MetaLaunchUrl a = rapp_MetaLaunchUrl req \<and>
    appl_MetaIcon a = rapp_MetaIcon req \<and> appl_MetaDescription a = rapp_MetaDescription req \<and>
    appl_MetaPublisher a = rapp_MetaPublisher req \<and>
    appl_PolicyEngineMode a = cmp_or (rapp_PolicyEngineMode req) (Some POLICYENGINEMODE_ANY) \<and>
    appl_Group a = rapp_Group req \<and> appl_MetaHide a = rapp_MetaHide req"
  using assms
  by (auto simp: fake_CreateApplication_def run_simps nextUUID_def nextPK_def Let_def AList.update_conv'
      dest!: checkApplicationProvider_pure split: if_splits sum.splits prod.splits)

lemma cmp_or_case: "cmp_or x y = (case x of None \<Rightarrow> y | Some v \<Rightarrow> Some v)"
  by (cases x) simp_all

text \<open>
  A created Application matches the desired state it was created from, so that the next reconcile
  does not patch it; it replaces no other Application.
\<close>

lemma created_application_matches:
  assumes "fake_CreateApplication (createApplicationRequest slug (desiredApplication spec pk)) c = (Inr a, c')"
  shows "map_of (fake_applications c) slug = None \<and>
    map_of (fake_applications c') = (map_of (fake_applications c))(slug \<mapsto> a) \<and> appl_Slug a = slug \<and>
    app_match (desiredApplication spec pk) a \<and> DiffApplication (desiredApplication spec pk) a = None"
  using run_CreateApplication [OF assms]
  by (auto simp: DiffApplication_None app_match_def want_defs createApplicationRequest_def desiredApplication_def
      cmp_or_case split: option.splits)

lemma run_CreateProxyProvider:
  assumes "fake_CreateProxyProvider (createProxyProviderRequest name d) c = (Inr p, c')"
    and "ppx_Name d = None \<or> ppx_Name d = Some name" and "ppx_AuthorizationFlow d \<noteq> None" and "ppx_InvalidationFlow d \<noteq> None"
    and "ppx_Mode d \<noteq> None" and "ppx_ExternalHost d \<noteq> None" and "ppx_PropertyMappings d = None"
  shows "\<exists>q. map_of (fake_proxyProviders c') = (map_of (fake_proxyProviders c))(px_Pk p \<mapsto> q) \<and> p = copyProxyProvider c' q \<and>
    px_Name q = name \<and> proxy_match d q \<and> proxy_match d p \<and>
    not_rbac (c'\<lparr>fake_proxyProviders := []\<rparr>) = not_rbac (c\<lparr>fake_proxyProviders := []\<rparr>)"
proof -
  let ?req = "createProxyProviderRequest name d"
  let ?q = "\<lambda>pk. \<lparr> px_Pk = pk, px_Name = rpx_Name ?req, px_AuthenticationFlow = rpx_AuthenticationFlow ?req,
      px_AuthorizationFlow = rpx_AuthorizationFlow ?req, px_InvalidationFlow = rpx_InvalidationFlow ?req,
      px_PropertyMappings = [], px_InternalHost = rpx_InternalHost ?req, px_ExternalHost = rpx_ExternalHost ?req,
      px_InternalHostSslValidation = rpx_InternalHostSslValidation ?req, px_Certificate = rpx_Certificate ?req,
      px_SkipPathRegex = rpx_SkipPathRegex ?req, px_BasicAuthEnabled = rpx_BasicAuthEnabled ?req,
      px_BasicAuthPasswordAttribute = rpx_BasicAuthPasswordAttribute ?req,
      px_BasicAuthUserAttribute = rpx_BasicAuthUserAttribute ?req,
      px_Mode = cmp_or (rpx_Mode ?req) (Some PROXYMODE_PROXY), px_InterceptHeaderAuth = rpx_InterceptHeaderAuth ?req,
      px_CookieDomain = rpx_CookieDomain ?req, px_AccessTokenValidity = rpx_AccessTokenValidity ?req,
      px_RefreshTokenValidity = rpx_RefreshTokenValidity ?req, px_AssignedApplicationSlug = Unset \<rparr>"
  define pk where "pk = int32_of (fake_sequence c + 1)"
  have p: "map_of (fake_proxyProviders c') = (map_of (fake_proxyProviders c))(pk \<mapsto> ?q pk)"
    "p = copyProxyProvider c' (?q pk)" "not_rbac (c'\<lparr>fake_proxyProviders := []\<rparr>) = not_rbac (c\<lparr>fake_proxyProviders := []\<rparr>)"
    using assms(1)
    by (auto simp: not_rbac_def pk_def fake_CreateProxyProvider_def run_simps checkProxyMode_def nextPK_def Let_def
        AList.update_conv' split: if_splits)
  have q: "proxy_match d (?q pk)"
    using assms(2-7) by (auto simp: proxy_match_def want_defs createProxyProviderRequest_def)
  then have "proxy_match d p" unfolding p(2) by (simp add: proxy_match_def copyProxyProvider_def)
  moreover have "px_Pk p = pk" unfolding p(2) by (simp add: copyProxyProvider_def)
  ultimately show ?thesis
    using p q by (intro exI [of _ "?q pk"]) (simp add: createProxyProviderRequest_def)
qed

lemma created_proxy_run:
  assumes "fake_CreateProxyProvider (createProxyProviderRequest name
      (desiredProxyProvider provider proxy flows refs)) c = (Inr p, c')"
    and "provider_Name provider = None \<or> provider_Name provider = Some name"
    and "valid_ProxyProviderSpec proxy"
  shows "\<exists>q. map_of (fake_proxyProviders c') = (map_of (fake_proxyProviders c))(px_Pk p \<mapsto> q) \<and> p = copyProxyProvider c' q \<and>
    px_Name q = name \<and> proxy_match (desiredProxyProvider provider proxy flows refs) q \<and>
    proxy_match (desiredProxyProvider provider proxy flows refs) p \<and>
    not_rbac (c'\<lparr>fake_proxyProviders := []\<rparr>) = not_rbac (c\<lparr>fake_proxyProviders := []\<rparr>)"
proof -
  let ?d = "desiredProxyProvider provider proxy flows refs"
  have "proxy_Proxy proxy \<noteq> None \<or> proxy_ForwardAuthSingle proxy \<noteq> None \<or> proxy_ForwardAuthDomain proxy \<noteq> None"
    using assms(3) by (auto simp: valid_ProxyProviderSpec_def has_def one_of_def split: if_splits)
  then have "ppx_Mode ?d \<noteq> None" "ppx_ExternalHost ?d \<noteq> None" "ppx_PropertyMappings ?d = None"
    "ppx_AuthorizationFlow ?d \<noteq> None" "ppx_InvalidationFlow ?d \<noteq> None" "ppx_Name ?d = provider_Name provider"
    by (auto simp: desiredProxyProvider_def Let_def split: option.splits)
  with assms(2) show ?thesis using run_CreateProxyProvider [OF assms(1)] by simp
qed

text \<open>
  A created Proxy Provider matches the desired state, for the name of the spec or the default one.
\<close>

lemma created_proxy_matches:
  assumes "fake_CreateProxyProvider (createProxyProviderRequest name
      (desiredProxyProvider provider proxy flows refs)) c = (Inr p, c')"
    and "provider_Name provider = None \<or> provider_Name provider = Some name"
    and "valid_ProxyProviderSpec proxy"
  shows "\<exists>q. map_of (fake_proxyProviders c') = (map_of (fake_proxyProviders c))(px_Pk p \<mapsto> q) \<and> p = copyProxyProvider c' q \<and> px_Name q = name \<and>
    proxy_match (desiredProxyProvider provider proxy flows refs) p \<and>
    DiffProxyProvider (desiredProxyProvider provider proxy flows refs) p = None"
  unfolding DiffProxyProvider_None using created_proxy_run [OF assms] by blast

lemma run_CreateOAuth2Provider:
  assumes "fake_CreateOAuth2Provider (createOAuth2ProviderRequest name d defaults) c = (Inr p, c')"
    and "pox_Name d = None \<or> pox_Name d = Some name" and "pox_AuthorizationFlow d \<noteq> None" and "pox_InvalidationFlow d \<noteq> None"
  shows "\<exists>q. map_of (fake_oauth2Providers c') = (map_of (fake_oauth2Providers c))(ox_Pk p \<mapsto> q) \<and> p = copyOAuth2Provider c' q \<and>
    ox_Name q = name \<and> oauth2_match d q \<and> oauth2_match d p \<and>
    not_rbac (c'\<lparr>fake_oauth2Providers := []\<rparr>) = not_rbac (c\<lparr>fake_oauth2Providers := []\<rparr>)"
proof -
  let ?req = "createOAuth2ProviderRequest name d defaults"
  let ?q = "\<lambda>pk rid rsecret. \<lparr> ox_Pk = pk, ox_Name = rox_Name ?req,
      ox_AuthenticationFlow = rox_AuthenticationFlow ?req, ox_AuthorizationFlow = rox_AuthorizationFlow ?req,
      ox_InvalidationFlow = rox_InvalidationFlow ?req,
      ox_PropertyMappings = (case rox_PropertyMappings ?req of None \<Rightarrow> [] | Some ms \<Rightarrow> ms),
      ox_ClientType = rox_ClientType ?req,
      ox_GrantTypes = (case rox_GrantTypes ?req of None \<Rightarrow> [] | Some gs \<Rightarrow> gs),
      ox_ClientId = Some (case rox_ClientId ?req of None \<Rightarrow> rid | Some i \<Rightarrow> i),
      ox_ClientSecret = cmp_or (rox_ClientSecret ?req) (Some rsecret),
      ox_AccessCodeValidity = rox_AccessCodeValidity ?req, ox_AccessTokenValidity = rox_AccessTokenValidity ?req,
      ox_RefreshTokenValidity = rox_RefreshTokenValidity ?req,
      ox_RefreshTokenThreshold = rox_RefreshTokenThreshold ?req,
      ox_IncludeClaimsInIdToken = rox_IncludeClaimsInIdToken ?req, ox_SigningKey = rox_SigningKey ?req,
      ox_EncryptionKey = rox_EncryptionKey ?req, ox_RedirectUris = toRedirectURIs (rox_RedirectUris ?req),
      ox_LogoutUri = rox_LogoutUri ?req, ox_LogoutMethod = rox_LogoutMethod ?req, ox_SubMode = rox_SubMode ?req,
      ox_IssuerMode = rox_IssuerMode ?req, ox_AssignedApplicationSlug = Unset \<rparr>"
  define pk rid rsecret where "pk = int32_of (fake_sequence c + 1)" and "rid = fake_random c (fake_draws c) 40"
    and "rsecret = fake_random c (Suc (fake_draws c)) 128"
  have p: "map_of (fake_oauth2Providers c') = (map_of (fake_oauth2Providers c))(pk \<mapsto> ?q pk rid rsecret)"
    "p = copyOAuth2Provider c' (?q pk rid rsecret)"
    "not_rbac (c'\<lparr>fake_oauth2Providers := []\<rparr>) = not_rbac (c\<lparr>fake_oauth2Providers := []\<rparr>)"
    unfolding pk_def rid_def rsecret_def using assms(1)
    by (auto simp: not_rbac_def fake_CreateOAuth2Provider_def run_simps nextPK_def randomString_def Let_def
        AList.update_conv' split: if_splits)
  have q: "oauth2_match d (?q pk rid rsecret)"
    using assms(2-4)
    by (cases "pox_ClientId d"; cases "pox_ClientSecret d"; cases "pox_PropertyMappings d"; cases "pox_GrantTypes d";
        cases "pox_RedirectUris d")
      (auto simp: oauth2_match_def want_defs createOAuth2ProviderRequest_def toRedirectURIs_def)
  then have "oauth2_match d p" unfolding p(2) by (simp add: oauth2_match_def copyOAuth2Provider_def)
  moreover have "ox_Pk p = pk" unfolding p(2) by (simp add: copyOAuth2Provider_def)
  ultimately show ?thesis
    using p q by (intro exI [of _ "?q pk rid rsecret"]) (simp add: createOAuth2ProviderRequest_def)
qed

lemma created_oauth2_run:
  assumes "fake_CreateOAuth2Provider (createOAuth2ProviderRequest name
      (desiredOAuth2Provider provider oauth2 flows refs) defaults) c = (Inr p, c')"
    and "provider_Name provider = None \<or> provider_Name provider = Some name"
  shows "\<exists>q. map_of (fake_oauth2Providers c') = (map_of (fake_oauth2Providers c))(ox_Pk p \<mapsto> q) \<and> p = copyOAuth2Provider c' q \<and>
    ox_Name q = name \<and> oauth2_match (desiredOAuth2Provider provider oauth2 flows refs) q \<and>
    oauth2_match (desiredOAuth2Provider provider oauth2 flows refs) p \<and>
    not_rbac (c'\<lparr>fake_oauth2Providers := []\<rparr>) = not_rbac (c\<lparr>fake_oauth2Providers := []\<rparr>)"
  using run_CreateOAuth2Provider [OF assms(1)] assms(2) by (simp add: desiredOAuth2Provider_def)

text \<open>
  A created OAuth2 Provider matches the desired state, whatever defaults were resolved for the
  fields that the spec leaves open.
\<close>

lemma created_oauth2_matches:
  assumes "fake_CreateOAuth2Provider (createOAuth2ProviderRequest name
      (desiredOAuth2Provider provider oauth2 flows refs) defaults) c = (Inr p, c')"
    and "provider_Name provider = None \<or> provider_Name provider = Some name"
  shows "\<exists>q. map_of (fake_oauth2Providers c') = (map_of (fake_oauth2Providers c))(ox_Pk p \<mapsto> q) \<and> p = copyOAuth2Provider c' q \<and> ox_Name q = name \<and>
    oauth2_match (desiredOAuth2Provider provider oauth2 flows refs) p \<and>
    DiffOAuth2Provider (desiredOAuth2Provider provider oauth2 flows refs) p = None"
  unfolding DiffOAuth2Provider_None using created_oauth2_run [OF assms] by blast

text \<open>
  The server accepts the binding created for a rule with one subject whenever its order is free,
  and what it stores has the subject of the rule, applies to the Application and matches the rule.
\<close>

lemma created_binding_matches:
  assumes "case (rl_Group rule, rl_User rule, rl_Policy rule) of
      (Some g, None, None) \<Rightarrow> g \<noteq> [] | (None, Some u, None) \<Rightarrow> True | (None, None, Some p) \<Rightarrow> p \<noteq> [] | _ \<Rightarrow> False"
    and "\<not> bindingOrderTaken c (pbind_Policy (desiredBinding target rule)) target order []"
  shows "\<exists>b c'. fake_CreatePolicyBinding (createBindingRequest (desiredBinding target rule) order) c = (Inr b, c') \<and>
    map_of (fake_bindings c') = (map_of (fake_bindings c))(bind_Pk b \<mapsto> b) \<and> bind_Target b = target \<and>
    bind_Order b = order \<and> bind_Enabled b = Some True \<and> observedSubject b = ruleSubject rule \<and>
    is_true (bind_Negate b) = rl_Negate rule \<and> DiffPolicyBinding (desiredBinding target rule) b = None"
  using assms unfolding DiffPolicyBinding_None
  by (auto simp: fake_CreatePolicyBinding_def run_simps nextPK_def nextUUID_def Let_def checkBindingSubject_def
      createBindingRequest_def desiredBinding_def binding_match_def want_defs cmp_or_case is_true_def
      nullableStringSet_def nullableInt32Set_def observedSubject_def ruleSubject_def noSubject_def AList.update_conv'
      split: if_splits option.splits)

section \<open>The steps reach the desired state\<close>

lemma server_local [frame_intros]:
  "keeps (\<lambda>s. g (server s)) (updStatus f)" "keeps (\<lambda>s. g (server s)) (Eventf ty reason action msg)"
  "keeps (\<lambda>s. g (server s)) (kapi m)"
proof -
  show "keeps (\<lambda>s. g (server s)) (kapi m)" by (simp add: kapi_def steps_def same_def case_prod_beta)
qed (unfold updStatus_def Eventf_def, (intro frame_intros; simp)+)

lemma bind_read: "bindE (readE f) k s = k (f s) s"
  by (simp add: run_simps)

lemma srv_InrE:
  assumes "srv m s = (Inr x, t)"
  obtains c where "m (server s) = (Inr x, c)" "t = s\<lparr>server := c\<rparr>"
  using assms by (auto simp: run_srv split: prod.splits)

lemma server_patchStatus: "keeps (\<lambda>s. g (server s)) (patchStatus r)"
  unfolding patchStatus_def patchApp_def by (intro frame_intros; simp)

lemmas server_intros = server_patchStatus not_rbac_cache [unfolded comp_def] frame_intros

lemma not_rbac_simps:
  assumes "not_rbac c = not_rbac d"
  shows "fake_applications c = fake_applications d" "fake_proxyProviders c = fake_proxyProviders d"
    "fake_oauth2Providers c = fake_oauth2Providers d" "fake_bindings c = fake_bindings d"
    "fake_outposts c = fake_outposts d" "providerExists c = providerExists d"
  using assms by (simp_all add: not_rbac_def providerExists_def fun_eq_iff) (cases c; cases d; simp)+

lemma run_reconcileApplication:
  fixes s :: "(fake, 'k) sys"
  assumes "reconcileApplication (on_fake r) observed pk s = (Inr a, t)" and "wf_fake (server s)"
    and "observed = map_of (fake_applications (server s)) (spec_Slug (sys_spec s))"
  shows "map_of (fake_applications (server t)) =
      (map_of (fake_applications (server s)))(spec_Slug (sys_spec s) \<mapsto> a) \<and>
    app_match (desiredApplication (sys_spec s) pk) a \<and>
    (\<forall>u. sys_spec u = sys_spec s \<longrightarrow> reconcileApplication (on_fake r) (Some a) pk u = (Inr a, u))"
proof -
  have again: "reconcileApplication (on_fake r) (Some a) pk u = (Inr a, u)"
    if "app_match (desiredApplication (sys_spec s) pk) a" "sys_spec u = sys_spec s" for u :: "(fake, 'k) sys"
    using that by (simp add: reconcileApplication_def bind_read Let_def DiffApplication_None [symmetric] run_ret)
  have "map_of (fake_applications (server t)) =
      (map_of (fake_applications (server s)))(spec_Slug (sys_spec s) \<mapsto> a) \<and>
    app_match (desiredApplication (sys_spec s) pk) a"
  proof (cases observed)
    case None
    let ?tail = "\<lambda>created. thenE (recordApplication created) (thenE (patchStatus (on_fake r))
      (thenE (cache_ensure (markers (on_fake r)) (applicationObject created))
      (thenE (Eventf EventTypeNormal eventReasonCreated eventActionReconcile
         (''Created Application '' @ quote (appl_Slug created))) (retE created))))"
    let ?req = "createApplicationRequest (spec_Slug (sys_spec s)) (desiredApplication (sys_spec s) pk)"
    have tail: "keeps (\<lambda>s. not_rbac (server s)) (?tail b)" for b
      unfolding recordApplication_def by (intro server_intros)
    have yields: "yields (\<lambda>x. x = b) (?tail b)" for b
      by (intro yield_intros) simp
    have "bindE (srv (fake_CreateApplication ?req)) ?tail s = (Inr a, t)"
      using assms(1) unfolding None reconcileApplication_def bind_read Let_def option.case Authentik_on_fake
        fake_client_simps .
    then obtain b s1 where run: "srv (fake_CreateApplication ?req) s = (Inr b, s1)" and t: "?tail b s1 = (Inr a, t)"
      by (rule bind_InrE)
    from run obtain c where c: "fake_CreateApplication ?req (server s) = (Inr b, c)" and s1: "s1 = s\<lparr>server := c\<rparr>"
      by (rule srv_InrE)
    have "a = b" using yieldsD [OF yields t] .
    moreover have "fake_applications (server t) = fake_applications c"
      using not_rbac_simps(1) [OF keepsD [OF tail t]] s1 by simp
    ultimately show ?thesis using created_application_matches [OF c] by simp
  next
    case (Some x)
    let ?d = "desiredApplication (sys_spec s) pk"
    have x: "map_of (fake_applications (server s)) (spec_Slug (sys_spec s)) = Some x" using assms(3) Some by simp
    have slug: "appl_Slug x = spec_Slug (sys_spec s)" using wf_map_lookup [OF _ x] assms(2) by (simp add: wf_fake_def)
    have d: "papp_Slug ?d = None" by (simp add: desiredApplication_def)
    show ?thesis
    proof (cases "DiffApplication ?d x")
      case None
      with assms(1) Some x show ?thesis
        by (auto simp: reconcileApplication_def bind_read run_ret Let_def DiffApplication_None map_upd_triv)
    next
      case p: (Some p)
      with assms(1) Some slug obtain c where "fake_PatchApplication (spec_Slug (sys_spec s)) p (server s) = (Inr a, c)"
        "t = s\<lparr>server := c\<rparr>"
        by (auto simp: reconcileApplication_def bind_read Let_def elim: srv_InrE)
      with repaired_application [OF x p d] show ?thesis by fastforce
    qed
  qed
  with again show ?thesis by blast
qed

text \<open>
  C7: when the step on the Application returns, the Application of the slug matches the desired state,
  whether it was created, patched or already as desired, and no other Application has changed.
  Running the step again on what it returned makes no call.
\<close>

theorem reconcileApplication_reaches_desired:
  fixes s :: "(fake, 'k) sys"
  assumes "reconcileApplication (on_fake r) observed pk s = (Inr a, t)" and "wf_fake (server s)"
    and "observed = map_of (fake_applications (server s)) (spec_Slug (sys_spec s))"
  shows "map_of (fake_applications (server t)) =
      (map_of (fake_applications (server s)))(spec_Slug (sys_spec s) \<mapsto> a) \<and>
    app_match (desiredApplication (sys_spec s) pk) a \<and>
    (\<forall>u. sys_spec u = sys_spec s \<longrightarrow> reconcileApplication (on_fake r) (Some a) pk u = (Inr a, u))"
  using assms by (rule run_reconcileApplication)

section \<open>Outposts\<close>

definition members :: "fake \<Rightarrow> string \<Rightarrow> int list option" where
  "members c uuid = map_option outpost_Providers (map_of (fake_outposts c) uuid)"

lemma run_SetOutpostProviders:
  "fake_SetOutpostProviders uuid ps c = (x, c') \<Longrightarrow>
   (case x of Inl e \<Rightarrow> c' = c | Inr y \<Rightarrow> map_of (fake_outposts c) uuid \<noteq> None \<and> members c' = (members c)(uuid \<mapsto> ps))"
  by (auto simp: fake_SetOutpostProviders_def run_simps members_def Let_def AList.update_conv' fun_eq_iff
      split: option.splits)

lemma run_removeProviderFromOutpost:
  assumes "removeProviderFromOutpost (on_fake r) q pk s = (x, t)" and "map_of (fake_outposts (server s)) (outpost_Pk q) = Some q"
  shows "members (server t) = members (server s) \<or>
      members (server t) = (members (server s))(outpost_Pk q \<mapsto> filter (\<lambda>p. p \<noteq> pk) (outpost_Providers q))"
    and "x = Inr () \<Longrightarrow> members (server t) = (members (server s))(outpost_Pk q \<mapsto> filter (\<lambda>p. p \<noteq> pk) (outpost_Providers q))"
proof -
  have none: "filter (\<lambda>p. p \<noteq> pk) (outpost_Providers q) = outpost_Providers q" if "pk \<notin> set (outpost_Providers q)"
    using that by (auto intro: filter_True)
  have m: "members (server s) (outpost_Pk q) = Some (outpost_Providers q)" using assms(2) by (simp add: members_def)
  obtain y c where set: "fake_SetOutpostProviders (outpost_Pk q) (filter (\<lambda>p. p \<noteq> pk) (outpost_Providers q)) (server s) = (y, c)"
    by (metis surj_pair)
  have nf: "\<not> IsNotFound e" if "y = Inl e" for e
    using set assms(2) that by (auto simp: fake_SetOutpostProviders_def run_simps Let_def badRequest_def split: option.splits)
  have "members (server t) = members (server s) \<and> x \<noteq> Inr () \<or>
      members (server t) = (members (server s))(outpost_Pk q \<mapsto> filter (\<lambda>p. p \<noteq> pk) (outpost_Providers q))"
    using assms(1) set run_SetOutpostProviders [OF set] nf none m
    by (auto simp: removeProviderFromOutpost_def run_simps fun_upd_idem_iff split: sum.splits if_splits)
  then show "members (server t) = members (server s) \<or>
      members (server t) = (members (server s))(outpost_Pk q \<mapsto> filter (\<lambda>p. p \<noteq> pk) (outpost_Providers q))"
    "x = Inr () \<Longrightarrow> members (server t) = (members (server s))(outpost_Pk q \<mapsto> filter (\<lambda>p. p \<noteq> pk) (outpost_Providers q))"
    by auto
qed

lemma keeps_removeProviderFromOutpost: "keeps st_app (removeProviderFromOutpost (on_fake r) q pk)"
  unfolding removeProviderFromOutpost_def by (intro frame_intros) (simp add: srv_def steps_def same_def case_prod_beta)

lemma run_leaveOutpostByUUID:
  assumes "leaveOutpostByUUID (on_fake r) uuid pk s = (x, t)" and "wf_fake (server s)"
  shows "members (server t) = members (server s) \<or>
      (\<exists>ps. members (server s) uuid = Some ps \<and> members (server t) = (members (server s))(uuid \<mapsto> filter (\<lambda>p. p \<noteq> pk) ps))"
    and "x = Inr () \<Longrightarrow> members (server t) =
      (\<lambda>u. if u = uuid then map_option (filter (\<lambda>p. p \<noteq> pk)) (members (server s) u) else members (server s) u)"
    and "st_app t = st_app s"
proof -
  have *: "(members (server t) = members (server s) \<or>
      (\<exists>ps. members (server s) uuid = Some ps \<and> members (server t) = (members (server s))(uuid \<mapsto> filter (\<lambda>p. p \<noteq> pk) ps))) \<and>
    (x = Inr () \<longrightarrow> members (server t) =
      (\<lambda>u. if u = uuid then map_option (filter (\<lambda>p. p \<noteq> pk)) (members (server s) u) else members (server s) u)) \<and>
    st_app t = st_app s"
  proof (cases "map_of (fake_outposts (server s)) uuid")
    case None
    then show ?thesis
      using assms(1) by (auto simp: leaveOutpostByUUID_def fake_GetOutpost_def run_simps notFound_def members_def)
  next
    case (Some q)
    have pk: "outpost_Pk q = uuid" using wf_map_lookup [OF _ Some] assms(2) by (simp add: wf_fake_def)
    have run: "removeProviderFromOutpost (on_fake r) q pk s = (x, t)"
      using assms(1) Some by (simp add: leaveOutpostByUUID_def fake_GetOutpost_def run_simps)
    have m: "members (server s) uuid = Some (outpost_Providers q)" using Some by (simp add: members_def)
    show ?thesis
      using run_removeProviderFromOutpost [OF run] keepsD [OF keeps_removeProviderFromOutpost run] Some pk m
      by (auto simp: fun_eq_iff)
  qed
  then show "members (server t) = members (server s) \<or>
      (\<exists>ps. members (server s) uuid = Some ps \<and> members (server t) = (members (server s))(uuid \<mapsto> filter (\<lambda>p. p \<noteq> pk) ps))"
    "x = Inr () \<Longrightarrow> members (server t) =
      (\<lambda>u. if u = uuid then map_option (filter (\<lambda>p. p \<noteq> pk)) (members (server s) u) else members (server s) u)"
    "st_app t = st_app s"
    by blast+
qed

text \<open>The two halves of \<open>reconcileOutpost\<close>: joining the resolved Outpost, and leaving the recorded one.\<close>

definition join_outpost :: "string \<Rightarrow> int \<Rightarrow> (string \<Rightarrow> int list option) \<Rightarrow> (string \<Rightarrow> int list option)" where
  "join_outpost uuid pk ms = (case ms uuid of None \<Rightarrow> ms
     | Some ps \<Rightarrow> if pk \<in> set ps then ms else ms(uuid \<mapsto> ps @ [pk]))"

lemma run_reconcileOutpost:
  fixes s :: "(fake, 'k) sys"
  defines "uuid \<equiv> proxyrefs_Outpost (the (resolved_Proxy (st_resolved s)))"
    and "previous \<equiv> status_OutpostUUID (sys_status s)"
  assumes "reconcileOutpost (on_fake r) pk s = (x, t)" and "wf_fake (server s)"
  shows "(\<exists>e. x = Inl e \<and> members (server t) = members (server s)) \<or>
    (\<exists>s1 y t1. members (server s1) = join_outpost uuid pk (members (server s)) \<and> members (server s) uuid \<noteq> None \<and>
       wf_fake (server s1) \<and> st_app s1 = st_app s \<and>
       (if previous \<noteq> [] \<and> previous \<noteq> uuid then leaveOutpostByUUID (on_fake r) previous pk s1 = (y, t1) else t1 = s1 \<and> y = Inr ()) \<and>
       server t = server t1 \<and> x = y \<and> (x = Inr () \<longrightarrow> status_OutpostUUID (sys_status t) = uuid))"
proof (cases "map_of (fake_outposts (server s)) uuid")
  case None
  then show ?thesis
    using assms(3) by (auto simp: reconcileOutpost_def uuid_def fake_GetOutpost_def run_simps notFound_def)
next
  case (Some q)
  have m: "members (server s) uuid = Some (outpost_Providers q)" using Some by (simp add: members_def)
  let ?rest = "bindE (readE sys_status) (\<lambda>st. let previous = status_OutpostUUID st in
      thenE (if previous \<noteq> [] \<and> previous \<noteq> uuid then leaveOutpostByUUID (on_fake r) previous pk else retE ())
      (updStatus (\<lambda>st. st\<lparr>status_OutpostUUID := uuid\<rparr>)))"
  have tail: "\<exists>y t1. (if previous \<noteq> [] \<and> previous \<noteq> uuid then leaveOutpostByUUID (on_fake r) previous pk s1 = (y, t1)
        else t1 = s1 \<and> y = Inr ()) \<and> server t = server t1 \<and> x = y \<and> (x = Inr () \<longrightarrow> status_OutpostUUID (sys_status t) = uuid)"
    if "?rest s1 = (x, t)" "st_app s1 = st_app s" for s1
  proof (cases "previous \<noteq> [] \<and> previous \<noteq> uuid")
    case True
    obtain y t1 where "leaveOutpostByUUID (on_fake r) previous pk s1 = (y, t1)" by (metis surj_pair)
    with that True show ?thesis
      by (cases y) (auto simp: run_simps Let_def previous_def sys_status_def updStatus_def)
  qed (use that in \<open>auto simp: run_simps Let_def previous_def sys_status_def updStatus_def\<close>)
  let ?body = "\<lambda>q. thenE (if pk \<notin> set (outpost_Providers q)
      then thenE (srv (fake_SetOutpostProviders uuid (outpost_Providers q @ [pk]))) (retE ()) else retE ()) ?rest"
  have get: "srv (fake_GetOutpost uuid) s = (Inr q, s)" using Some by (simp add: run_srv fake_GetOutpost_def run_lookup)
  have "bindE (srv (fake_GetOutpost uuid)) ?body s = (x, t)"
    using assms(3) by (simp only: reconcileOutpost_def bind_read Authentik_on_fake fake_client_simps uuid_def)
  then have run: "?body q s = (x, t)" by (subst (asm) run_bind) (simp only: get prod.case sum.case)
  show ?thesis
  proof (cases "pk \<in> set (outpost_Providers q)")
    case True
    then have "?rest s = (x, t)" using run by (simp add: run_then run_ret)
    from tail [OF this refl] True m assms(4) show ?thesis by (intro disjI2 exI [of _ s]) (auto simp: join_outpost_def)
  next
    case False
    obtain y c where set: "fake_SetOutpostProviders uuid (outpost_Providers q @ [pk]) (server s) = (y, c)" by (metis surj_pair)
    note c = run_SetOutpostProviders [OF set] and wf = stableD [OF wf_SetOutpostProviders set assms(4)]
    show ?thesis
    proof (cases y)
      case (Inl e)
      then show ?thesis using run False set c by (auto simp: run_then run_srv)
    next
      case (Inr o2)
      then have "?rest (s\<lparr>server := c\<rparr>) = (x, t)" using run False set by (simp add: run_then run_srv run_ret)
      from tail [OF this] m c Inr wf False show ?thesis
        by (intro disjI2 exI [of _ "s\<lparr>server := c\<rparr>"]) (auto simp: join_outpost_def)
    qed
  qed
qed

text \<open>
  C9: a Proxy Provider that is attached to some Outpost is attached to one after the step on its
  Outpost, whether the step returns or fails at any call: it joins the new Outpost before it leaves
  the recorded one.
\<close>

theorem reconcileOutpost_never_detached:
  fixes s :: "(fake, 'k) sys"
  assumes "reconcileOutpost (on_fake r) pk s = (x, t)" and "wf_fake (server s)"
    and "map_of (fake_outposts (server s)) u = Some q" and "pk \<in> set (outpost_Providers q)"
  shows "\<exists>u q. map_of (fake_outposts (server t)) u = Some q \<and> pk \<in> set (outpost_Providers q)"
proof -
  let ?attached = "\<lambda>c. \<exists>u ps. members c u = Some ps \<and> pk \<in> set ps"
  have s: "?attached (server s)" using assms(3,4) unfolding members_def by (metis option.simps(9))
  have "?attached (server t)"
    using run_reconcileOutpost [OF assms(1,2)]
  proof (elim disjE exE conjE)
    fix s1 :: "(fake, 'k) sys" and y t1
    let ?uuid = "proxyrefs_Outpost (the (resolved_Proxy (st_resolved s)))"
    let ?prev = "status_OutpostUUID (sys_status s)"
    assume m: "members (server s1) = join_outpost ?uuid pk (members (server s))" "members (server s) ?uuid \<noteq> None"
      and wf: "wf_fake (server s1)" and t: "server t = server t1"
      and l: "if ?prev \<noteq> [] \<and> ?prev \<noteq> ?uuid then leaveOutpostByUUID (on_fake r) ?prev pk s1 = (y, t1) else t1 = s1 \<and> y = Inr ()"
    have "\<exists>ps. members (server s1) ?uuid = Some ps \<and> pk \<in> set ps"
      using m by (auto simp: join_outpost_def split: option.splits)
    moreover have "members (server t1) ?uuid = members (server s1) ?uuid"
    proof (cases "?prev \<noteq> [] \<and> ?prev \<noteq> ?uuid")
      case True
      then have "leaveOutpostByUUID (on_fake r) ?prev pk s1 = (y, t1)" using l by simp
      from run_leaveOutpostByUUID(1) [OF this wf] True show ?thesis by auto
    qed (use l in simp)
    ultimately have "\<exists>ps. members (server t) ?uuid = Some ps \<and> pk \<in> set ps" unfolding t by simp
    then show ?thesis by blast
  qed (use s in simp)
  then show ?thesis by (auto simp: members_def)
qed

lemma reconcileOutpost_joins:
  fixes s :: "(fake, 'k) sys"
  assumes "reconcileOutpost (on_fake r) pk s = (Inr (), t)" and "wf_fake (server s)"
    and "uuid = proxyrefs_Outpost (the (resolved_Proxy (st_resolved s)))"
  shows "status_OutpostUUID (sys_status t) = uuid \<and>
    (\<exists>ps. members (server s) uuid = Some ps \<and>
       members (server t) uuid = Some (if pk \<in> set ps then ps else ps @ [pk])) \<and>
    (\<forall>u. u \<noteq> uuid \<longrightarrow> members (server t) u =
       (if u = status_OutpostUUID (sys_status s) \<and> u \<noteq> [] then map_option (filter (\<lambda>p. p \<noteq> pk)) (members (server s) u)
        else members (server s) u))"
proof -
  let ?prev = "status_OutpostUUID (sys_status s)"
  from run_reconcileOutpost [OF assms(1,2)] obtain s1 t1 where
    m: "members (server s1) = join_outpost uuid pk (members (server s))" "members (server s) uuid \<noteq> None"
    and wf: "wf_fake (server s1)" and t: "server t = server t1" "status_OutpostUUID (sys_status t) = uuid"
    and l: "if ?prev \<noteq> [] \<and> ?prev \<noteq> uuid then leaveOutpostByUUID (on_fake r) ?prev pk s1 = (Inr (), t1) else t1 = s1"
    unfolding assms(3) by auto
  have t1: "members (server t1) = (if ?prev \<noteq> [] \<and> ?prev \<noteq> uuid
      then (\<lambda>u. if u = ?prev then map_option (filter (\<lambda>p. p \<noteq> pk)) (members (server s1) u) else members (server s1) u)
      else members (server s1))"
    using l run_leaveOutpostByUUID(2) [OF _ wf refl] by (auto split: if_splits)
  obtain ps where ps: "members (server s) uuid = Some ps" using m(2) by blast
  show ?thesis
    unfolding t(1) t1 m(1) using ps t(2) by (auto simp: join_outpost_def t)
qed

text \<open>
  When the step on the Outpost returns, the Provider has been added to the resolved Outpost unless
  it was there, and removed from the recorded one when that is another; every other member of every
  Outpost is kept in its place, and the status records the resolved Outpost.
\<close>

lemma reconcileOutpost_members:
  fixes s :: "(fake, 'k) sys"
  assumes "reconcileOutpost (on_fake r) pk s = (Inr (), t)" and "wf_fake (server s)"
    and "uuid = proxyrefs_Outpost (the (resolved_Proxy (st_resolved s)))"
  shows "status_OutpostUUID (sys_status t) = uuid \<and>
    (\<exists>ps. members (server s) uuid = Some ps \<and>
       members (server t) uuid = Some (if pk \<in> set ps then ps else ps @ [pk])) \<and>
    (\<forall>u. u \<noteq> uuid \<longrightarrow> members (server t) u =
       (if u = status_OutpostUUID (sys_status s) \<and> u \<noteq> [] then map_option (filter (\<lambda>p. p \<noteq> pk)) (members (server s) u)
        else members (server s) u))"
  using assms by (rule reconcileOutpost_joins)

end
