(* ===== verification/Providers.thy ===== *)
theory Providers
  imports Outcome
begin

text \<open>
  The step on the Provider (\<open>internal/controller/provider.go\<close>) on the in-memory server: which Provider
  it takes, and that it leaves a Provider that matches the desired state.
\<close>

section \<open>Computations from a known state\<close>

text \<open>Started in \<open>J\<close>, the computation ends in \<open>J\<close>, and a value it returns satisfies \<open>P\<close>.\<close>

definition yields_in :: "('s \<Rightarrow> bool) \<Rightarrow> ('a \<Rightarrow> bool) \<Rightarrow> ('s, 'e, 'a) go \<Rightarrow> bool" where
  "yields_in J P m \<longleftrightarrow> stable J m \<and> (\<forall>s x t. J s \<longrightarrow> m s = (Inr x, t) \<longrightarrow> P x)"

lemma yields_inD: "yields_in J P m \<Longrightarrow> J s \<Longrightarrow> m s = (Inr x, t) \<Longrightarrow> J t \<and> P x"
  unfolding yields_in_def by (blast dest: stableD)

lemma yields_inI:
  "stable J m \<Longrightarrow> (\<And>s x t. J s \<Longrightarrow> m s = (Inr x, t) \<Longrightarrow> P x) \<Longrightarrow> yields_in J P m"
  unfolding yields_in_def by blast

lemma then_assoc:
  "thenE (bindE m f) k = bindE m (\<lambda>x. thenE (f x) k)" "thenE (thenE m n) k = thenE m (thenE n k)"
  by (simp_all add: fun_eq_iff run_simps split: prod.split sum.split)

named_theorems in_intros

lemma yields_in_ret [in_intros]: "P x \<Longrightarrow> yields_in J P (retE x)"
  by (auto simp: yields_in_def run_ret intro: frame_intros)

lemma yields_in_throw [in_intros]: "yields_in J P (throwE e)"
  by (auto simp: yields_in_def run_throw intro: frame_intros)

lemma yields_in_read: "(\<And>s. J s \<Longrightarrow> P (f s)) \<Longrightarrow> yields_in J P (readE f)"
  by (auto simp: yields_in_def run_read intro: frame_intros)

lemma yields_in_bind:
  assumes "yields_in J Q m" and "\<And>x. Q x \<Longrightarrow> yields_in J P (f x)"
  shows "yields_in J P (bindE m f)"
proof -
  have "pres J s t" if run: "bindE m f s = (r, t)" for s r t
  proof -
    obtain y u where m: "m s = (y, u)" by (metis surj_pair)
    show ?thesis
    proof (cases y)
      case (Inl e)
      with run m assms(1) show ?thesis by (auto simp: run_bind pres_def yields_in_def dest: stableD)
    next
      case (Inr x)
      then have f: "f x u = (r, t)" using run m by (simp add: run_bind)
      show ?thesis unfolding pres_def
      proof
        assume "J s"
        then have "J u" "Q x" using yields_inD [OF assms(1) _ m [unfolded Inr]] by auto
        with assms(2) f show "J t" unfolding yields_in_def by (blast dest: stableD)
      qed
    qed
  qed
  moreover have "P x" if "J s" "bindE m f s = (Inr x, t)" for s x t
    using that(2) by (rule bind_InrE) (use that(1) assms in \<open>blast dest: yields_inD\<close>)
  ultimately show ?thesis by (blast intro: yields_inI stepsI)
qed

lemma yields_in_any: "stable J m \<Longrightarrow> yields_in J (\<lambda>_. True) m"
  by (simp add: yields_in_def)

lemma yields_in_then: "stable J m \<Longrightarrow> yields_in J P k \<Longrightarrow> yields_in J P (thenE m k)"
  unfolding thenE_def by (rule yields_in_bind [OF yields_in_any])

lemma yields_in_attempt: "yields_in J P m \<Longrightarrow> yields_in J (\<lambda>r. \<forall>x. r = Inr x \<longrightarrow> P x) (attempt m)"
  by (auto simp: yields_in_def run_attempt intro!: frame_intros) (metis prod.collapse)

lemma yields_in_if [in_intros]:
  "(c \<Longrightarrow> yields_in J P m) \<Longrightarrow> (\<not> c \<Longrightarrow> yields_in J P k) \<Longrightarrow> yields_in J P (if c then m else k)"
  by simp

lemma yields_in_Let [in_intros]: "(\<And>x. x = v \<Longrightarrow> yields_in J P (m x)) \<Longrightarrow> yields_in J P (let x = v in m x)"
  by simp

lemma yields_in_case_option [in_intros]:
  "(v = None \<Longrightarrow> yields_in J P m) \<Longrightarrow> (\<And>x. v = Some x \<Longrightarrow> yields_in J P (k x)) \<Longrightarrow>
   yields_in J P (case v of None \<Rightarrow> m | Some x \<Rightarrow> k x)"
  by (cases v) auto

lemma yields_in_case_sum [in_intros]:
  "(\<And>e. v = Inl e \<Longrightarrow> yields_in J P (m e)) \<Longrightarrow> (\<And>x. v = Inr x \<Longrightarrow> yields_in J P (k x)) \<Longrightarrow>
   yields_in J P (case v of Inl e \<Rightarrow> m e | Inr x \<Rightarrow> k x)"
  by (cases v) auto

text \<open>A chain of searches, each started when the previous one found nothing.\<close>

lemma yields_in_or_else:
  assumes "yields_in J (\<lambda>p. \<forall>x. p = Some x \<longrightarrow> Q x) m" and "yields_in J (\<lambda>p. \<forall>x. p = Some x \<longrightarrow> Q x) k"
  shows "yields_in J (\<lambda>p. \<forall>x. p = Some x \<longrightarrow> Q x) (bindE m (\<lambda>v. if v \<noteq> None then retE v else k))"
  by (rule yields_in_bind [OF assms(1)]) (auto intro: yields_in_ret assms(2))

section \<open>The search\<close>

text \<open>
  What the search needs of a handler: from \<open>J\<close>, the Providers it returns satisfy \<open>Q\<close>. The search
  itself only changes the events and the recorded pk.
\<close>

locale provider_search =
  fixes h :: "('a, 'k) providerHandler"
    and J :: "('a, 'k) sys \<Rightarrow> bool"
    and Q :: "('a, 'k) observedProvider \<Rightarrow> bool"
  assumes get: "yields_in J Q (handler_get h pk)"
    and by_name: "yields_in J (\<lambda>ps. \<forall>p \<in> set ps. Q p) (handler_findByName h name)"
    and other_type: "stable J (handler_existsAsOtherType h pk)"
    and event: "stable J (Eventf ty reason action msg)"
    and forget: "stable J (updStatus (\<lambda>st. st\<lparr>status_ProviderPK := None\<rparr>))"
begin

lemma getAttached: "yields_in J (\<lambda>p. \<forall>x. p = Some x \<longrightarrow> Q x) (getAttached h slug pk)"
  unfolding getAttached_def
  by (intro yields_in_bind [OF yields_in_attempt [OF get]] in_intros yields_in_bind [OF yields_in_any] other_type) auto

lemma findProvider: "yields_in J (\<lambda>p. \<forall>x. p = Some x \<longrightarrow> Q x) (findProvider h application)"
proof -
  have read: "yields_in J (\<lambda>_. True) (readE f)" for f :: "('a, 'k) sys \<Rightarrow> 'c"
    by (rule yields_in_read) simp
  have names: "yields_in J (\<lambda>p. \<forall>x. p = Some x \<longrightarrow> Q x)
      (bindE (handler_findByName h name) (\<lambda>cs. retE (List.find P cs)))" for name P
    by (rule yields_in_bind [OF by_name]) (auto simp: find_Some_iff intro!: yields_in_ret)
  show ?thesis
    unfolding findProvider_def
    by (rule yields_in_bind [OF read], rule yields_in_bind [OF read], rule yields_in_or_else)
      (intro yields_in_or_else in_intros yields_in_bind [OF yields_in_attempt [OF get]] yields_in_then event forget
        getAttached names; simp)+
qed

end

section \<open>The handlers of both types\<close>

text \<open>The server has the objects of \<open>c\<close>; the markers and the counters may differ.\<close>

definition same_server :: "fake \<Rightarrow> (fake, 'k) sys \<Rightarrow> bool" where
  "same_server c s \<longleftrightarrow> wf_fake c \<and> not_rbac (server s) = not_rbac c"

definition at_server :: "fake \<Rightarrow> (AuthentikApplicationSpec \<Rightarrow> bool) \<Rightarrow> (fake, 'k) sys \<Rightarrow> bool" where
  "at_server c sp s \<longleftrightarrow> same_server c s \<and> sp (sys_spec s)"

lemma same_server_objects:
  assumes "same_server c s"
  shows "fake_proxyProviders (server s) = fake_proxyProviders c" "fake_oauth2Providers (server s) = fake_oauth2Providers c"
    "wf_map px_Pk (fake_proxyProviders c)" "wf_map ox_Pk (fake_oauth2Providers c)"
    "copyProxyProvider (server s) = copyProxyProvider c" "copyOAuth2Provider (server s) = copyOAuth2Provider c"
  using assms not_rbac_simps [of "server s" c]
  by (simp_all add: same_server_def wf_fake_def fun_eq_iff copyProxyProvider_def copyOAuth2Provider_def assignedApplicationSlug_def)

text \<open>The views of the Providers that the server \<open>c\<close> has.\<close>

definition proxy_of :: "(fake, 'k) Reconciler \<Rightarrow> ProxyProviderSpec \<Rightarrow> PatchedProxyProviderRequest \<Rightarrow> fake \<Rightarrow>
    (fake, 'k) observedProvider \<Rightarrow> bool" where
  "proxy_of r spec d c x \<longleftrightarrow> (\<exists>p. map_of (fake_proxyProviders c) (px_Pk p) = Some p \<and>
     x = proxy_observe (on_fake r) spec d (copyProxyProvider c p))"

definition oauth2_of :: "(fake, 'k) Reconciler \<Rightarrow> PatchedOAuth2ProviderRequest \<Rightarrow> fake \<Rightarrow>
    (fake, 'k) observedProvider \<Rightarrow> bool" where
  "oauth2_of r d c x \<longleftrightarrow> (\<exists>p. map_of (fake_oauth2Providers c) (ox_Pk p) = Some p \<and>
     x = oauth2_observe (on_fake r) d (copyOAuth2Provider c p))"

lemma at_server_local:
  "stable (at_server c sp) (Eventf ty reason action msg)"
  "stable (at_server c sp) (updStatus f)"
  "pure m \<Longrightarrow> stable (at_server c sp) (srv m)"
  unfolding Eventf_def updStatus_def
  by (intro frame_intros; simp add: at_server_def same_server_def sys_spec_def)+
    (auto simp: steps_def same_def pres_def run_srv at_server_def same_server_def sys_spec_def case_prod_beta)

lemma yields_in_srv:
  assumes "pure m"
    and "\<And>x k. fake_proxyProviders k = fake_proxyProviders c \<Longrightarrow> fake_oauth2Providers k = fake_oauth2Providers c \<Longrightarrow>
      copyProxyProvider k = copyProxyProvider c \<Longrightarrow> copyOAuth2Provider k = copyOAuth2Provider c \<Longrightarrow>
      wf_map px_Pk (fake_proxyProviders c) \<Longrightarrow> wf_map ox_Pk (fake_oauth2Providers c) \<Longrightarrow> m k = (Inr x, k) \<Longrightarrow> P x"
  shows "yields_in (at_server c sp) P (srv m)"
proof (rule yields_inI)
  show "stable (at_server c sp) (srv m)" using assms(1) by (rule at_server_local)
next
  fix s x t assume "at_server c sp s" "srv m s = (Inr x, t)"
  then have "same_server c s" "m (server s) = (Inr x, server s)"
    using pureD [OF assms(1)] by (auto simp: at_server_def elim: srv_InrE)
  with assms(2) [OF same_server_objects(1,2,5,6,3,4)] show "P x" by blast
qed

lemma wf_findAll: "v \<in> set (findAll m P) \<Longrightarrow> wf_map key m \<Longrightarrow> map_of m (key v) = Some v"
  by (auto simp: findAll_def wf_map_in dest: wf_map_lookup)

interpretation proxy_search: provider_search "proxyProviderHandler (on_fake r) spec d" "at_server c sp" "proxy_of r spec d c"
  for r spec d c sp
proof
  note defs = proxyProviderHandler_def providerHandler.select_convs Authentik_on_fake fake_client_simps
  note reads = fake.pure_reads [unfolded fake_client_simps]
  let ?Q = "proxy_of r spec d c" and ?J = "at_server c sp"
  show "yields_in ?J ?Q (handler_get (proxyProviderHandler (on_fake r) spec d) pk)" for pk
    unfolding defs
    by (rule yields_in_bind [where Q = "\<lambda>p. ?Q (proxy_observe (on_fake r) spec d p)"], rule yields_in_srv,
        rule reads)
      (auto simp: fake_GetProxyProvider_def run_simps proxy_of_def
        dest: wf_map_lookup intro!: yields_in_ret split: option.splits)
  show "yields_in ?J (\<lambda>ps. \<forall>p \<in> set ps. ?Q p) (handler_findByName (proxyProviderHandler (on_fake r) spec d) name)" for name
    unfolding defs
    by (rule yields_in_bind [where Q = "\<lambda>ps. \<forall>p \<in> set ps. ?Q (proxy_observe (on_fake r) spec d p)"], rule yields_in_srv,
        rule reads)
      (auto simp: fake_FindProxyProvidersByName_def run_simps proxy_of_def
        dest!: wf_findAll intro!: yields_in_ret)
  show "stable ?J (handler_existsAsOtherType (proxyProviderHandler (on_fake r) spec d) pk)" for pk
    unfolding defs existsE_def by (intro frame_intros at_server_local reads)
qed (rule at_server_local)+

interpretation oauth2_search: provider_search "oauth2ProviderHandler (on_fake r) a d" "at_server c sp" "oauth2_of r d c"
  for r a d c sp
proof
  note defs = oauth2ProviderHandler_def providerHandler.select_convs Authentik_on_fake fake_client_simps
  note reads = fake.pure_reads [unfolded fake_client_simps]
  let ?Q = "oauth2_of r d c" and ?J = "at_server c sp"
  show "yields_in ?J ?Q (handler_get (oauth2ProviderHandler (on_fake r) a d) pk)" for pk
    unfolding defs
    by (rule yields_in_bind [where Q = "\<lambda>p. ?Q (oauth2_observe (on_fake r) d p)"], rule yields_in_srv,
        rule reads)
      (auto simp: fake_GetOAuth2Provider_def run_simps oauth2_of_def
        dest: wf_map_lookup intro!: yields_in_ret split: option.splits)
  show "yields_in ?J (\<lambda>ps. \<forall>p \<in> set ps. ?Q p) (handler_findByName (oauth2ProviderHandler (on_fake r) a d) name)" for name
    unfolding defs
    by (rule yields_in_bind [where Q = "\<lambda>ps. \<forall>p \<in> set ps. ?Q (oauth2_observe (on_fake r) d p)"], rule yields_in_srv,
        rule reads)
      (auto simp: fake_FindOAuth2ProvidersByName_def run_simps oauth2_of_def
        dest!: wf_findAll intro!: yields_in_ret)
  show "stable ?J (handler_existsAsOtherType (oauth2ProviderHandler (on_fake r) a d) pk)" for pk
    unfolding defs existsE_def by (intro frame_intros at_server_local reads)
qed (rule at_server_local)+

section \<open>The step\<close>

text \<open>
  What the rest of the step needs: recording the pk and the marker keep \<open>K\<close> and the goal \<open>D\<close>, a
  synchronised or a created Provider reaches it.
\<close>

locale provider_step = provider_search h J Q
  for h :: "('a, 'k) providerHandler" and J Q +
  fixes r :: "('a, 'k) Reconciler"
    and K :: "('a, 'k) sys \<Rightarrow> bool"
    and D :: "int \<Rightarrow> ('a, 'k) sys \<Rightarrow> bool"
  assumes start: "J s \<Longrightarrow> K s"
    and tail_K: "stable K (updStatus f)" "stable K (patchStatus r)" "stable K (cache_ensure (markers r) ob)"
    and tail_D: "stable (D pk) (updStatus f)" "stable (D pk) (patchStatus r)" "stable (D pk) (cache_ensure (markers r) ob)"
    and event_D: "stable (D pk) (Eventf ty reason action msg)"
    and sync: "Q x \<Longrightarrow> K s \<Longrightarrow> observed_sync x s = (Inr u, t) \<Longrightarrow> D (observed_pk x) t"
    and create: "J s \<Longrightarrow> handler_create h (providerName (sys_spec s)) s = (Inr pk, t) \<Longrightarrow> D pk t"
begin

definition record_pk :: "int \<Rightarrow> ('a, 'k, unit) step" where
  "record_pk pk = bindE (readE sys_status) (\<lambda>st.
     thenE (if status_ProviderPK st \<noteq> Some pk
            then thenE (updStatus (\<lambda>st. st\<lparr>status_ProviderPK := Some pk\<rparr>)) (patchStatus r)
            else retE ())
     (cache_ensure (markers r) \<lparr> obj_Model = handler_model h, obj_PK = itoa pk \<rparr>))"

lemma record_pk: "stable K (record_pk pk)" "stable (D pk') (record_pk pk)"
  unfolding record_pk_def by (intro frame_intros tail_K tail_D)+

lemma reconcileProvider:
  assumes "reconcileProvider r application s = (Inr pk, t)" and "handlerFor r (st_app s) (st_resolved s) = h" and "J s"
  shows "D pk t"
proof -
  have unfold: "reconcileProvider r application s =
      bindE (findProvider h application) (\<lambda>provider. bindE (readE sys_spec) (\<lambda>sp.
      bindE (case provider of
         Some p \<Rightarrow> retE (observed_pk p)
       | None \<Rightarrow>
           (let name = providerName sp in
            bindE (handler_create h name) (\<lambda>pk.
            thenE (Eventf EventTypeNormal eventReasonCreated eventActionReconcile
                (''Created '' @ handler_kind h @ '' Provider '' @ quote name)) (retE pk)))) (\<lambda>pk.
      thenE (record_pk pk)
      (thenE (case provider of Some p \<Rightarrow> observed_sync p | None \<Rightarrow> retE ()) (retE pk))))) s"
    unfolding reconcileProvider_def getHandler_def bind_read assms(2) record_pk_def then_assoc ..
  obtain provider s1 where found: "findProvider h application s = (Inr provider, s1)"
    and rest: "(bindE (readE sys_spec) (\<lambda>sp.
      bindE (case provider of
         Some p \<Rightarrow> retE (observed_pk p)
       | None \<Rightarrow>
           (let name = providerName sp in
            bindE (handler_create h name) (\<lambda>pk.
            thenE (Eventf EventTypeNormal eventReasonCreated eventActionReconcile
                (''Created '' @ handler_kind h @ '' Provider '' @ quote name)) (retE pk)))) (\<lambda>pk.
      thenE (record_pk pk)
      (thenE (case provider of Some p \<Rightarrow> observed_sync p | None \<Rightarrow> retE ()) (retE pk))))) s1 = (Inr pk, t)"
    using assms(1) unfolding unfold by (rule bind_InrE)
  have J: "J s1" and Q: "\<And>x. provider = Some x \<Longrightarrow> Q x"
    using yields_inD [OF findProvider assms(3) found] by auto
  show ?thesis
  proof (cases provider)
    case (Some x)
    with rest obtain s2 s3 u where r: "record_pk (observed_pk x) s1 = (Inr u, s2)" "observed_sync x s2 = (Inr (), t)"
      "pk = observed_pk x"
      by (auto simp: run_simps split: prod.splits sum.splits)
    have "K s2" using stableD [OF record_pk(1) r(1) start [OF J]] .
    with r(2,3) sync [OF Q [OF Some]] show ?thesis by simp
  next
    case None
    with rest obtain s2 s3 u where c: "handler_create h (providerName (sys_spec s1)) s1 = (Inr pk, s2)"
      and e: "Eventf EventTypeNormal eventReasonCreated eventActionReconcile
                (''Created '' @ handler_kind h @ '' Provider '' @ quote (providerName (sys_spec s1))) s2 = (Inr (), s3)"
      and m: "record_pk pk s3 = (Inr u, t)"
      by (auto simp: run_simps Let_def split: prod.splits sum.splits)
    from create [OF J c] have "D pk s2" .
    then have "D pk s3" by (rule stableD [OF event_D e])
    then show ?thesis by (rule stableD [OF record_pk(2) m])
  qed
qed

end

section \<open>The desired state is reached\<close>

text \<open>The Provider \<open>pk\<close> matches, and nothing else has changed since \<open>c\<close> but markers and counters.\<close>

definition proxy_reached :: "PatchedProxyProviderRequest \<Rightarrow> fake \<Rightarrow> int \<Rightarrow> (fake, 'k) sys \<Rightarrow> bool" where
  "proxy_reached d c pk s \<longleftrightarrow>
     (\<exists>y. map_of (fake_proxyProviders (server s)) = (map_of (fake_proxyProviders c))(pk \<mapsto> y) \<and> proxy_match d y) \<and>
     not_rbac ((server s)\<lparr>fake_proxyProviders := []\<rparr>) = not_rbac (c\<lparr>fake_proxyProviders := []\<rparr>)"

definition oauth2_reached :: "PatchedOAuth2ProviderRequest \<Rightarrow> fake \<Rightarrow> int \<Rightarrow> (fake, 'k) sys \<Rightarrow> bool" where
  "oauth2_reached d c pk s \<longleftrightarrow>
     (\<exists>y. map_of (fake_oauth2Providers (server s)) = (map_of (fake_oauth2Providers c))(pk \<mapsto> y) \<and> oauth2_match d y) \<and>
     not_rbac ((server s)\<lparr>fake_oauth2Providers := []\<rparr>) = not_rbac (c\<lparr>fake_oauth2Providers := []\<rparr>)"

lemma not_rbac_update:
  "not_rbac (c\<lparr>fake_proxyProviders := ps\<rparr>) = (not_rbac c)\<lparr>fake_proxyProviders := ps\<rparr>"
  "not_rbac (c\<lparr>fake_oauth2Providers := os\<rparr>) = (not_rbac c)\<lparr>fake_oauth2Providers := os\<rparr>"
  by (simp_all add: not_rbac_def)

lemma reached_stable:
  assumes "keeps (\<lambda>s. not_rbac (server s)) m"
  shows "stable (same_server c) m" "stable (proxy_reached d c pk) m" "stable (oauth2_reached d' c pk) m"
proof -
  have "same_server c s = same_server c t \<and> proxy_reached d c pk s = proxy_reached d c pk t \<and>
      oauth2_reached d' c pk s = oauth2_reached d' c pk t"
    if e: "not_rbac (server s) = not_rbac (server t)" for s t :: "(fake, 'a) sys"
    unfolding same_server_def proxy_reached_def oauth2_reached_def not_rbac_update e not_rbac_simps(2,3) [OF e] by simp
  then show "stable (same_server c) m" "stable (proxy_reached d c pk) m" "stable (oauth2_reached d' c pk) m"
    by (auto intro: stable_keeps [OF assms])
qed

lemmas reached_intros = reached_stable server_intros

lemma Diff_copyProxyProvider: "DiffProxyProvider d (copyProxyProvider c p) = DiffProxyProvider d p"
  by (simp add: DiffProxyProvider_def copyProxyProvider_def)

lemma Diff_copyOAuth2Provider: "DiffOAuth2Provider d (copyOAuth2Provider c p) = DiffOAuth2Provider d p"
  by (simp add: DiffOAuth2Provider_def copyOAuth2Provider_def)

lemma sync_proxy:
  assumes "proxy_of r spec d c x" and "same_server c s" and "observed_sync x s = (Inr u, t)" and "ppx_PropertyMappings d = None"
  shows "proxy_reached d c (observed_pk x) t"
proof -
  obtain p where p: "map_of (fake_proxyProviders c) (px_Pk p) = Some p"
    and x: "x = proxy_observe (on_fake r) spec d (copyProxyProvider c p)"
    using assms(1) by (auto simp: proxy_of_def)
  have pk: "px_Pk (copyProxyProvider c p) = px_Pk p" by (simp add: copyProxyProvider_def)
  have same: "not_rbac (server s) = not_rbac c" "map_of (fake_proxyProviders (server s)) (px_Pk p) = Some p"
    "fake_proxyProviders (server s) = fake_proxyProviders c"
    using assms(2) p same_server_objects(1) [OF assms(2)] by (simp_all add: same_server_def)
  show ?thesis
  proof (cases "DiffProxyProvider d p")
    case None
    with assms(3) have "t = s" by (simp add: x proxy_observe_def Diff_copyProxyProvider run_ret)
    then show ?thesis
      using None p same map_upd_triv [of "map_of (fake_proxyProviders c)", OF p, symmetric]
      by (auto simp: proxy_reached_def x proxy_observe_def pk DiffProxyProvider_None not_rbac_update)
  next
    case (Some patch)
    with assms(3) same obtain y c' where "fake_PatchProxyProvider (px_Pk p) patch (server s) = (Inr y, c')" "t = s\<lparr>server := c'\<rparr>"
      by (auto simp: x proxy_observe_def Diff_copyProxyProvider pk run_simps run_srv split: prod.splits sum.splits)
    with same proxy_repair.repaired [OF Some assms(4)] show ?thesis
      by (auto simp: run_PatchProxyProvider [OF same(2)] proxy_reached_def x proxy_observe_def pk Let_def not_rbac_update
          AList.update_conv' split: if_splits)
  qed
qed

lemma sync_oauth2:
  assumes "oauth2_of r d c x" and "same_server c s" and "observed_sync x s = (Inr u, t)"
  shows "oauth2_reached d c (observed_pk x) t"
proof -
  obtain p where p: "map_of (fake_oauth2Providers c) (ox_Pk p) = Some p"
    and x: "x = oauth2_observe (on_fake r) d (copyOAuth2Provider c p)"
    using assms(1) by (auto simp: oauth2_of_def)
  have pk: "ox_Pk (copyOAuth2Provider c p) = ox_Pk p" by (simp add: copyOAuth2Provider_def)
  have same: "not_rbac (server s) = not_rbac c" "map_of (fake_oauth2Providers (server s)) (ox_Pk p) = Some p"
    "fake_oauth2Providers (server s) = fake_oauth2Providers c"
    using assms(2) p same_server_objects(2) [OF assms(2)] by (simp_all add: same_server_def)
  show ?thesis
  proof (cases "DiffOAuth2Provider d p")
    case None
    with assms(3) have "t = s" by (simp add: x oauth2_observe_def Diff_copyOAuth2Provider run_ret)
    then show ?thesis
      using None p same map_upd_triv [of "map_of (fake_oauth2Providers c)", OF p, symmetric]
      by (auto simp: oauth2_reached_def x oauth2_observe_def pk DiffOAuth2Provider_None not_rbac_update)
  next
    case (Some patch)
    with assms(3) same obtain y c' where "fake_PatchOAuth2Provider (ox_Pk p) patch (server s) = (Inr y, c')" "t = s\<lparr>server := c'\<rparr>"
      by (auto simp: x oauth2_observe_def Diff_copyOAuth2Provider pk run_simps run_srv split: prod.splits sum.splits)
    with same oauth2_repair.repaired [OF Some TrueI] show ?thesis
      by (auto simp: run_PatchOAuth2Provider [OF same(2)] oauth2_reached_def x oauth2_observe_def pk Let_def not_rbac_update
          AList.update_conv' split: if_splits)
  qed
qed

lemma create_proxy:
  assumes "handler_create (proxyProviderHandler (on_fake r) proxy (desiredProxyProvider provider proxy flows refs))
      (providerName (sys_spec s)) s = (Inr pk, t)"
    and "same_server c s" and "spec_Provider (sys_spec s) = Some provider" and "valid_ProxyProviderSpec proxy"
  shows "proxy_reached (desiredProxyProvider provider proxy flows refs) c pk t"
proof -
  let ?d = "desiredProxyProvider provider proxy flows refs" and ?name = "providerName (sys_spec s)"
  obtain p c' where run: "fake_CreateProxyProvider (createProxyProviderRequest ?name ?d) (server s) = (Inr p, c')"
    and t: "t = s\<lparr>server := c'\<rparr>" "pk = px_Pk p"
    using assms(1) by (auto simp: proxyProviderHandler_def run_simps run_srv split: prod.splits sum.splits)
  have name: "provider_Name provider = None \<or> provider_Name provider = Some ?name"
    using assms(3) by (simp add: providerName_def split: option.split)
  note same = same_server_objects(1) [OF assms(2)] assms(2) [unfolded same_server_def]
  from created_proxy_run [OF run name assms(4)] show ?thesis
    by (auto simp: proxy_reached_def t same not_rbac_update)
qed

lemma create_oauth2:
  assumes "handler_create (oauth2ProviderHandler (on_fake r) a (desiredOAuth2Provider provider oauth2 flows refs))
      (providerName (sys_spec s)) s = (Inr pk, t)"
    and "same_server c s" and "spec_Provider (sys_spec s) = Some provider"
  shows "oauth2_reached (desiredOAuth2Provider provider oauth2 flows refs) c pk t"
proof -
  let ?d = "desiredOAuth2Provider provider oauth2 flows refs" and ?name = "providerName (sys_spec s)"
  have rs: "resolver_of (on_fake r) = fake_resolver (Kube r)"
    by (simp add: resolver_of_def fake_resolver_def on_fake_def)
  obtain defaults s1 p c' where res: "ResolveCreationDefaults (fake_resolver (Kube r)) a s = (Inr defaults, s1)"
    and run: "fake_CreateOAuth2Provider (createOAuth2ProviderRequest ?name ?d defaults) (server s1) = (Inr p, c')"
    and t: "t = s1\<lparr>server := c'\<rparr>" "pk = ox_Pk p"
    using assms(1) by (auto simp: oauth2ProviderHandler_def rs run_simps run_srv split: prod.splits sum.splits)
  have "but_failures (\<lambda>_. ()) s1 = but_failures (\<lambda>_. ()) s"
    using keepsD [OF fake_resolver.keeps_ResolveCreationDefaults res] .
  then have s1: "server s1 = server s" by (simp add: but_failures_def cache_state.defs)
  have name: "provider_Name provider = None \<or> provider_Name provider = Some ?name"
    using assms(3) by (simp add: providerName_def split: option.split)
  note same = same_server_objects(2) [OF assms(2)] assms(2) [unfolded same_server_def]
  from created_oauth2_run [OF run name] show ?thesis
    by (auto simp: oauth2_reached_def t s1 same not_rbac_update)
qed

abbreviation spec_with :: "ProviderSpec \<Rightarrow> bool \<Rightarrow> AuthentikApplicationSpec \<Rightarrow> bool" where
  "spec_with provider ok sp \<equiv> spec_Provider sp = Some provider \<and> ok"

interpretation proxy_step: provider_step
    "proxyProviderHandler (on_fake r) proxy (desiredProxyProvider provider proxy flows refs)"
    "at_server c (spec_with provider (valid_ProxyProviderSpec proxy))"
    "proxy_of r proxy (desiredProxyProvider provider proxy flows refs) c"
    "on_fake r" "same_server c" "proxy_reached (desiredProxyProvider provider proxy flows refs) c"
  for r proxy provider flows refs c
proof (intro provider_step.intro proxy_search.provider_search_axioms, unfold_locales)
  fix x s u t assume "proxy_of r proxy (desiredProxyProvider provider proxy flows refs) c x" "same_server c s"
    "observed_sync x s = (Inr u, t)"
  then show "proxy_reached (desiredProxyProvider provider proxy flows refs) c (observed_pk x) t"
    by (rule sync_proxy) (simp add: desiredProxyProvider_def Let_def split: option.split)
qed (auto simp: at_server_def intro: create_proxy intro!: reached_intros)

interpretation oauth2_step: provider_step
    "oauth2ProviderHandler (on_fake r) a (desiredOAuth2Provider provider oauth2 flows refs)"
    "at_server c (spec_with provider True)"
    "oauth2_of r (desiredOAuth2Provider provider oauth2 flows refs) c"
    "on_fake r" "same_server c" "oauth2_reached (desiredOAuth2Provider provider oauth2 flows refs) c"
  for r a oauth2 provider flows refs c
proof (intro provider_step.intro oauth2_search.provider_search_axioms, unfold_locales)
  show "oauth2_of r (desiredOAuth2Provider provider oauth2 flows refs) c x \<Longrightarrow> same_server c s \<Longrightarrow>
    observed_sync x s = (Inr u, t) \<Longrightarrow>
    oauth2_reached (desiredOAuth2Provider provider oauth2 flows refs) c (observed_pk x) t" for x s u t
    by (rule sync_oauth2)
qed (auto simp: at_server_def intro: create_oauth2 intro!: reached_intros)

lemma reconcileProvider_proxy:
  fixes s :: "(fake, 'k) sys"
  assumes "reconcileProvider (on_fake r) application s = (Inr pk, t)" and "wf_fake (server s)"
    and "spec_Provider (sys_spec s) = Some provider" and "provider_Proxy provider = Some proxy"
    and "valid_ProxyProviderSpec proxy"
    and "d = desiredProxyProvider provider proxy (the (resolved_Flows (st_resolved s))) (the (resolved_Proxy (st_resolved s)))"
  shows "(\<exists>y. map_of (fake_proxyProviders (server t)) = (map_of (fake_proxyProviders (server s)))(pk \<mapsto> y) \<and>
       proxy_match d y \<and> DiffProxyProvider d y = None) \<and>
     not_rbac ((server t)\<lparr>fake_proxyProviders := []\<rparr>) = not_rbac ((server s)\<lparr>fake_proxyProviders := []\<rparr>)"
proof -
  have "handlerFor (on_fake r) (st_app s) (st_resolved s) = proxyProviderHandler (on_fake r) proxy d"
    using assms(3,4,6) by (simp add: handlerFor_def sys_spec_def)
  moreover have "at_server (server s) (spec_with provider (valid_ProxyProviderSpec proxy)) s"
    using assms(2,3,5) by (simp add: at_server_def same_server_def)
  ultimately show ?thesis
    using proxy_step.reconcileProvider [OF assms(1)] unfolding assms(6) proxy_reached_def DiffProxyProvider_None by blast
qed

lemma reconcileProvider_oauth2:
  fixes s :: "(fake, 'k) sys"
  assumes "reconcileProvider (on_fake r) application s = (Inr pk, t)" and "wf_fake (server s)"
    and "spec_Provider (sys_spec s) = Some provider" and "provider_Proxy provider = None" and "provider_OAuth2 provider = Some oauth2"
    and "d = desiredOAuth2Provider provider oauth2 (the (resolved_Flows (st_resolved s))) (the (resolved_OAuth2 (st_resolved s)))"
  shows "(\<exists>y. map_of (fake_oauth2Providers (server t)) = (map_of (fake_oauth2Providers (server s)))(pk \<mapsto> y) \<and>
       oauth2_match d y \<and> DiffOAuth2Provider d y = None) \<and>
     not_rbac ((server t)\<lparr>fake_oauth2Providers := []\<rparr>) = not_rbac ((server s)\<lparr>fake_oauth2Providers := []\<rparr>)"
proof -
  have "handlerFor (on_fake r) (st_app s) (st_resolved s) = oauth2ProviderHandler (on_fake r) (st_app s) d"
    using assms(3-6) by (simp add: handlerFor_def sys_spec_def)
  moreover have "at_server (server s) (spec_with provider True) s"
    using assms(2,3) by (simp add: at_server_def same_server_def)
  ultimately show ?thesis
    using oauth2_step.reconcileProvider [OF assms(1)] unfolding assms(6) oauth2_reached_def DiffOAuth2Provider_None by blast
qed

text \<open>
  C5: when the step on a Proxy Provider returns, the Provider it names matches the desired state,
  whether it was recorded, attached, found by name or created, the next diff is empty, and every other
  object is as it was: no other Provider, Application, binding or Outpost has changed.
\<close>

theorem reconcileProvider_reaches_desired_proxy:
  fixes s :: "(fake, 'k) sys"
  assumes "reconcileProvider (on_fake r) application s = (Inr pk, t)" and "wf_fake (server s)"
    and "spec_Provider (sys_spec s) = Some provider" and "provider_Proxy provider = Some proxy"
    and "valid_ProxyProviderSpec proxy"
    and "d = desiredProxyProvider provider proxy (the (resolved_Flows (st_resolved s))) (the (resolved_Proxy (st_resolved s)))"
  shows "(\<exists>y. map_of (fake_proxyProviders (server t)) = (map_of (fake_proxyProviders (server s)))(pk \<mapsto> y) \<and>
       proxy_match d y \<and> DiffProxyProvider d y = None) \<and>
     not_rbac ((server t)\<lparr>fake_proxyProviders := []\<rparr>) = not_rbac ((server s)\<lparr>fake_proxyProviders := []\<rparr>)"
  using assms by (rule reconcileProvider_proxy)


section \<open>Which Provider is taken\<close>

text \<open>
  C29: with no recorded Provider and none attached, the step takes a Provider of the right name only if
  it is assigned to no Application or to this one, so that it does not take one from another
  Application.
\<close>

theorem findProvider_unassigned:
  assumes "findProvider h application s = (Inr (Some p), t)" and "status_ProviderPK (sys_status s) = None"
    and "\<And>a. application = Some a \<Longrightarrow> Get (appl_Provider a) = None"
  shows "observed_assignedApplication p = None \<or> observed_assignedApplication p = Some (spec_Slug (sys_spec s))"
proof -
  have none: "bindE (retE None) f = f None" for f :: "'c option \<Rightarrow> ('a, 'b, 'd) step"
    by (simp add: bindE_def retE_def)
  have app: "(case application of None \<Rightarrow> retE None
      | Some a \<Rightarrow> (case Get (appl_Provider a) of None \<Rightarrow> retE None | Some pk \<Rightarrow> getAttached h (appl_Slug a) pk)) = retE None"
    using assms(3) by (simp split: option.split)
  have "bindE (handler_findByName h (providerName (sys_spec s))) (\<lambda>candidates.
      retE (List.find (\<lambda>c. observed_assignedApplication c = None \<or>
        observed_assignedApplication c = Some (spec_Slug (sys_spec s))) candidates)) s = (Inr (Some p), t)"
    using assms(1) by (simp add: findProvider_def bind_read assms(2) app none)
  then show ?thesis
    by (rule bind_InrE) (auto simp: run_ret find_Some_iff)
qed

text \<open>
  When the attached Provider has the other type than the spec, the step stops with
  \<open>ProviderTypeMismatch\<close> and changes nothing.
\<close>

lemma provider_type_mismatch:
  fixes s :: "(fake, 'k) sys"
  assumes "status_ProviderPK (sys_status s) = None" and "Get (appl_Provider a) = Some pk"
    and "spec_Provider (sys_spec s) = Some provider"
    and "if provider_Proxy provider \<noteq> None
      then map_of (fake_proxyProviders (server s)) pk = None \<and> map_of (fake_oauth2Providers (server s)) pk \<noteq> None
      else map_of (fake_oauth2Providers (server s)) pk = None \<and> map_of (fake_proxyProviders (server s)) pk \<noteq> None"
  shows "reconcileProvider (on_fake r) (Some a) s =
    (Inl (providerTypeMismatch (appl_Slug a) pk (if provider_Proxy provider \<noteq> None then ''Proxy'' else ''OAuth2'')), s)"
proof (cases "provider_Proxy provider")
  case None
  obtain x where "map_of (fake_proxyProviders (server s)) pk = Some x" using assms(4) None by auto
  with None assms show ?thesis
    by (simp add: reconcileProvider_def getHandler_def handlerFor_def findProvider_def getAttached_def
        oauth2ProviderHandler_def existsE_def run_simps run_srv sys_spec_def fake_GetOAuth2Provider_def
        fake_GetProxyProvider_def run_lookup notFound_def)
next
  case (Some proxy)
  obtain x where "map_of (fake_oauth2Providers (server s)) pk = Some x" using assms(4) Some by auto
  with Some assms show ?thesis
    by (simp add: reconcileProvider_def getHandler_def handlerFor_def findProvider_def getAttached_def
        proxyProviderHandler_def existsE_def run_simps run_srv sys_spec_def fake_GetOAuth2Provider_def
        fake_GetProxyProvider_def run_lookup notFound_def)
qed

end
