(* ===== verification/Release.thy ===== *)
theory Release
  imports Providers
begin

text \<open>
  Deletion of a resource (\<open>internal/controller/deletion.go\<close>) on the in-memory server: what a release
  deletes, what it never touches, which markers it removes, and when the finalizer goes.
\<close>

section \<open>The deletions\<close>

lemma delete_absent: "map_of m k = None \<Longrightarrow> AList.delete k m = m"
  by (induction m) (auto split: if_splits)

lemma run_DeletePolicyBinding:
  "ignoreNotFound (srv (fake_DeletePolicyBinding u)) s =
     (Inr (), s\<lparr>server := (server s)\<lparr>fake_bindings := AList.delete u (fake_bindings (server s))\<rparr>\<rparr>)"
  by (cases "map_of (fake_bindings (server s)) u")
    (auto simp: ignoreNotFound_def fake_DeletePolicyBinding_def run_simps notFound_def delete_absent)

lemma delete_filter: "AList.delete u (filter (\<lambda>(k, _). k \<notin> us) m) = filter (\<lambda>(k, _). k \<notin> insert u us) m"
  by (induction m) auto

lemma run_deleteBindings:
  "mapE us (\<lambda>u. thenE (ignoreNotFound (srv (fake_DeletePolicyBinding u))) (retE (bindingObject u))) s =
     (Inr (map bindingObject us),
      s\<lparr>server := (server s)\<lparr>fake_bindings := filter (\<lambda>(k, _). k \<notin> set us) (fake_bindings (server s))\<rparr>\<rparr>)"
proof (induction us arbitrary: s)
  case Nil
  have "filter (\<lambda>(k, _). k \<notin> set []) m = m" for m :: "(string \<times> PolicyBinding) list" by (simp add: case_prod_beta)
  then show ?case by (simp add: run_simps)
next
  case (Cons u us)
  have "filter (\<lambda>(k, _). k \<notin> set us) (AList.delete u m) = filter (\<lambda>(k, _). k \<notin> set (u # us)) m"
    for m :: "(string \<times> PolicyBinding) list" by (induction m) auto
  with Cons show ?case by (simp add: run_bind run_then run_ret run_DeletePolicyBinding)
qed

text \<open>The slug under which the recorded Application is looked up.\<close>

definition recorded_slug :: "AuthentikApplication \<Rightarrow> string" where
  "recorded_slug a = (if status_ApplicationSlug (app_Status a) \<noteq> [] then status_ApplicationSlug (app_Status a)
     else spec_Slug (app_Spec a))"

lemma run_deleteApplication:
  "deleteApplication (on_fake r) s = (Inr (),
     case map_of (fake_applications (server s)) (recorded_slug (st_app s)) of
       None \<Rightarrow> s
     | Some a \<Rightarrow> (if appl_Pk a \<noteq> status_ApplicationPK (app_Status (st_app s)) then s
         else s\<lparr>server := (server s)\<lparr>fake_applications := AList.delete (recorded_slug (st_app s)) (fake_applications (server s)),
            fake_bindings := filter (\<lambda>(uuid, b). bind_Target b \<noteq> appl_PbmUuid a) (fake_bindings (server s))\<rparr>\<rparr>))"
  by (auto simp: deleteApplication_def recorded_slug_def ignoreNotFound_def fake_GetApplication_def
      fake_DeleteApplication_def run_simps notFound_def Let_def split: option.split)

text \<open>The key of the Application of each slug, which the deletion of a Provider keeps.\<close>

definition application_pk :: "fake \<Rightarrow> string \<Rightarrow> string option" where
  "application_pk c slug = map_option appl_Pk (map_of (fake_applications c) slug)"

lemma application_pk_deleteProvider: "application_pk (fake_deleteProvider pk c) = application_pk c"
  by (auto simp: application_pk_def fake_deleteProvider_def map_pair_map_of fun_eq_iff option.map_comp comp_def
      intro!: option.map_cong)

definition outside_outposts :: "fake \<Rightarrow> fake" where
  "outside_outposts c = not_rbac (c\<lparr>fake_outposts := []\<rparr>)"

lemma keeps_leaveOutpost:
  "keeps (\<lambda>s. (outside_outposts (server s), st_app s)) (leaveOutpost (on_fake r) ref pk)"
proof -
  have set: "keeps (\<lambda>s. (outside_outposts (server s), st_app s)) (srv (fake_SetOutpostProviders uuid ps))" for uuid ps
    by (auto simp: steps_def same_def run_srv outside_outposts_def not_rbac_def fake_SetOutpostProviders_def run_simps Let_def
        case_prod_beta split: option.split sum.split)
  have ignore: "keeps f m \<Longrightarrow> keeps f (ignoreNotFound m)" for f and m :: "(fake, 'a, 'b) step"
    unfolding ignoreNotFound_def by (intro frame_intros)
  show ?thesis
    unfolding leaveOutpost_def leaveOutpostByUUID_def removeProviderFromOutpost_def Authentik_on_fake fake_client_simps Let_def
    by (intro frame_intros set ignore keeps_deref keeps_srv_pure [THEN pure_keeps] fake.pure_reads [unfolded fake_client_simps])
qed

lemma run_DeleteProxyProvider:
  "ignoreNotFound (srv (fake_DeleteProxyProvider pk)) s = (Inr (), if map_of (fake_proxyProviders (server s)) pk = None then s
     else s\<lparr>server := fake_deleteProvider pk
       ((server s)\<lparr>fake_proxyProviders := AList.delete pk (fake_proxyProviders (server s))\<rparr>)\<rparr>)"
  by (cases "map_of (fake_proxyProviders (server s)) pk")
    (auto simp: ignoreNotFound_def fake_DeleteProxyProvider_def run_simps notFound_def)

lemma run_DeleteOAuth2Provider:
  "ignoreNotFound (srv (fake_DeleteOAuth2Provider pk)) s = (Inr (), if map_of (fake_oauth2Providers (server s)) pk = None then s
     else s\<lparr>server := fake_deleteProvider pk
       ((server s)\<lparr>fake_oauth2Providers := AList.delete pk (fake_oauth2Providers (server s))\<rparr>)\<rparr>)"
  by (cases "map_of (fake_oauth2Providers (server s)) pk")
    (auto simp: ignoreNotFound_def fake_DeleteOAuth2Provider_def run_simps notFound_def)

lemma outside_outposts_simps:
  assumes "outside_outposts c = outside_outposts d"
  shows "fake_applications c = fake_applications d" "fake_bindings c = fake_bindings d"
    "fake_proxyProviders c = fake_proxyProviders d" "fake_oauth2Providers c = fake_oauth2Providers d"
    "application_pk c = application_pk d"
  using assms by (simp_all add: outside_outposts_def not_rbac_def application_pk_def fun_eq_iff) (cases c; cases d; simp)+

lemma deleteProvider_objects:
  "fake_bindings (fake_deleteProvider pk c) = fake_bindings c"
  "fake_proxyProviders (fake_deleteProvider pk c) = fake_proxyProviders c"
  "fake_oauth2Providers (fake_deleteProvider pk c) = fake_oauth2Providers c"
  by (simp_all add: fake_deleteProvider_def)

lemma application_pk_update [simp]:
  "application_pk (c\<lparr>fake_proxyProviders := ps\<rparr>) = application_pk c"
  "application_pk (c\<lparr>fake_oauth2Providers := os\<rparr>) = application_pk c"
  "application_pk (c\<lparr>fake_bindings := bs\<rparr>) = application_pk c"
  by (simp_all add: application_pk_def fun_eq_iff)

text \<open>Only the providers of the type of the spec change, and only at the key.\<close>

lemma run_deleteProvider:
  assumes "deleteProvider (on_fake r) provider pk s = (x, t)"
  shows "st_app t = st_app s" and "application_pk (server t) = application_pk (server s)"
    and "fake_bindings (server t) = fake_bindings (server s)"
    and "k \<noteq> pk \<or> provider_Proxy provider = None \<Longrightarrow>
      map_of (fake_proxyProviders (server t)) k = map_of (fake_proxyProviders (server s)) k"
    and "k \<noteq> pk \<or> provider_Proxy provider \<noteq> None \<Longrightarrow>
      map_of (fake_oauth2Providers (server t)) k = map_of (fake_oauth2Providers (server s)) k"
    and "x = Inr () \<Longrightarrow> (if provider_Proxy provider \<noteq> None then map_of (fake_proxyProviders (server t)) pk = None
      else map_of (fake_oauth2Providers (server t)) pk = None)"
proof -
  have *: "st_app t = st_app s \<and> application_pk (server t) = application_pk (server s) \<and>
    fake_bindings (server t) = fake_bindings (server s) \<and>
    (k \<noteq> pk \<or> provider_Proxy provider = None \<longrightarrow>
      map_of (fake_proxyProviders (server t)) k = map_of (fake_proxyProviders (server s)) k) \<and>
    (k \<noteq> pk \<or> provider_Proxy provider \<noteq> None \<longrightarrow>
      map_of (fake_oauth2Providers (server t)) k = map_of (fake_oauth2Providers (server s)) k) \<and>
    (x = Inr () \<longrightarrow> (if provider_Proxy provider \<noteq> None then map_of (fake_proxyProviders (server t)) pk = None
      else map_of (fake_oauth2Providers (server t)) pk = None))" for k
  proof (cases "provider_Proxy provider")
    case None
    then show ?thesis
      using assms unfolding deleteProvider_def Authentik_on_fake fake_client_simps option.case
      by (auto simp: run_DeleteOAuth2Provider deleteProvider_objects application_pk_deleteProvider AList.delete_conv'
          split: if_splits)
  next
    case (Some proxy)
    obtain y s1 where l: "leaveOutpost (on_fake r) (proxy_Outpost proxy) pk s = (y, s1)" by (metis surj_pair)
    have o: "outside_outposts (server s1) = outside_outposts (server s)" "st_app s1 = st_app s"
      using keepsD [OF keeps_leaveOutpost l] by simp_all
    note same = outside_outposts_simps [OF o(1)] o(2)
    show ?thesis
      using assms Some l same unfolding deleteProvider_def Authentik_on_fake fake_client_simps Some option.case
      by (auto simp: run_then run_DeleteProxyProvider deleteProvider_objects application_pk_deleteProvider
          AList.delete_conv' split: if_splits sum.splits)
  qed
  show "st_app t = st_app s" "application_pk (server t) = application_pk (server s)"
    "fake_bindings (server t) = fake_bindings (server s)"
    "k \<noteq> pk \<or> provider_Proxy provider = None \<Longrightarrow>
      map_of (fake_proxyProviders (server t)) k = map_of (fake_proxyProviders (server s)) k"
    "k \<noteq> pk \<or> provider_Proxy provider \<noteq> None \<Longrightarrow>
      map_of (fake_oauth2Providers (server t)) k = map_of (fake_oauth2Providers (server s)) k"
    "x = Inr () \<Longrightarrow> (if provider_Proxy provider \<noteq> None then map_of (fake_proxyProviders (server t)) pk = None
      else map_of (fake_oauth2Providers (server t)) pk = None)"
    using * by blast+
qed

section \<open>The stages of a release\<close>

definition rel_bindings :: "(fake, 'k) Reconciler \<Rightarrow> bool \<Rightarrow> string list \<Rightarrow> (fake, 'k, Object list) step" where
  "rel_bindings r remove us = mapE us (\<lambda>uuid.
     thenE (if remove then ignoreNotFound (srv (DeletePolicyBinding (Authentik r) uuid)) else retE ())
       (retE (bindingObject uuid)))"

definition rel_application :: "(fake, 'k) Reconciler \<Rightarrow> bool \<Rightarrow> string \<Rightarrow> (fake, 'k, Object list) step" where
  "rel_application r remove pk =
     (if pk \<noteq> [] then thenE (if remove then deleteApplication r else retE ())
        (retE [\<lparr> obj_Model = ModelApplication, obj_PK = pk \<rparr>])
      else retE [])"

definition rel_provider :: "(fake, 'k) Reconciler \<Rightarrow> bool \<Rightarrow> int option \<Rightarrow> ProviderSpec option \<Rightarrow> (fake, 'k, Object list) step" where
  "rel_provider r remove recorded provider = (case (recorded, provider) of
     (Some recorded, Some provider) \<Rightarrow>
       (let pk = int32_of recorded;
            model = (if provider_Proxy provider \<noteq> None then ModelProxyProvider else ModelOAuth2Provider) in
        thenE (if remove then deleteProvider r provider pk else retE ()) (retE [\<lparr> obj_Model = model, obj_PK = itoa pk \<rparr>]))
   | _ \<Rightarrow> retE [])"

text \<open>The objects whose markers a release removes.\<close>

definition recorded_provider :: "AuthentikApplication \<Rightarrow> Object list" where
  "recorded_provider a = (case (status_ProviderPK (app_Status a), spec_Provider (app_Spec a)) of
     (Some recorded, Some provider) \<Rightarrow>
       [\<lparr> obj_Model = (if provider_Proxy provider \<noteq> None then ModelProxyProvider else ModelOAuth2Provider),
          obj_PK = itoa (int32_of recorded) \<rparr>]
   | _ \<Rightarrow> [])"

definition recorded_objects :: "AuthentikApplication \<Rightarrow> Object list" where
  "recorded_objects a = map bindingObject (status_BindingUUIDs (app_Status a)) @
     (if status_ApplicationPK (app_Status a) \<noteq> []
      then [\<lparr> obj_Model = ModelApplication, obj_PK = status_ApplicationPK (app_Status a) \<rparr>] else []) @ recorded_provider a"

abbreviation deletes :: "AuthentikApplication \<Rightarrow> bool" where
  "deletes a \<equiv> spec_DeletionPolicy (app_Spec a) = Some DeletionPolicyDelete"

lemma release_stages:
  "release r s =
     bindE (rel_bindings r (deletes (st_app s)) (status_BindingUUIDs (sys_status s))) (\<lambda>bindings.
     bindE (rel_application r (deletes (st_app s)) (status_ApplicationPK (sys_status s))) (\<lambda>application.
     bindE (rel_provider r (deletes (st_app s)) (status_ProviderPK (sys_status s)) (spec_Provider (sys_spec s))) (\<lambda>provider.
     thenE (forE (bindings @ application @ provider) (cache_remove (markers r)))
     (if deletes (st_app s) then Eventf EventTypeNormal ''Deleted'' ''Delete'' ''Deleted the objects in authentik''
      else retE ())))) s"
  unfolding release_def bind_read Let_def rel_bindings_def rel_application_def rel_provider_def sys_status_def sys_spec_def ..

text \<open>What is deleted before the markers, and the state in which the markers are removed.\<close>

lemma yields_mapE: "(\<And>x. yields (\<lambda>y. y = g x) (f x)) \<Longrightarrow> yields (\<lambda>ys. ys = map g xs) (mapE xs f)"
proof (induction xs)
  case (Cons x xs)
  note hd = yields_bind [OF Cons.prems] and tl = yields_bind [OF Cons.IH [OF Cons.prems]]
  show ?case unfolding mapE.simps by (rule hd, rule tl, rule yields_ret) simp
qed (simp add: yields_ret)

lemma yields_stages:
  "yields (\<lambda>obs. obs = map bindingObject us) (rel_bindings r remove us)"
  "yields (\<lambda>obs. obs = (if pk \<noteq> [] then [\<lparr> obj_Model = ModelApplication, obj_PK = pk \<rparr>] else [])) (rel_application r remove pk)"
  "yields (\<lambda>obs. obs = recorded_provider a) (rel_provider r remove (status_ProviderPK (app_Status a)) (spec_Provider (app_Spec a)))"
  unfolding rel_bindings_def rel_application_def rel_provider_def recorded_provider_def
  by (rule yields_mapE) (auto simp: Let_def intro!: yield_intros split: option.split)

lemma release_run:
  assumes "release r s = (x, t)"
  obtains (failed) e where "bindE (rel_bindings r (deletes (st_app s)) (status_BindingUUIDs (sys_status s))) (\<lambda>_.
        bindE (rel_application r (deletes (st_app s)) (status_ApplicationPK (sys_status s))) (\<lambda>_.
        rel_provider r (deletes (st_app s)) (status_ProviderPK (sys_status s)) (spec_Provider (sys_spec s)))) s = (Inl e, t)"
      "x = Inl e"
  | (unmarked) obs s3 y t1 where "bindE (rel_bindings r (deletes (st_app s)) (status_BindingUUIDs (sys_status s))) (\<lambda>_.
        bindE (rel_application r (deletes (st_app s)) (status_ApplicationPK (sys_status s))) (\<lambda>_.
        rel_provider r (deletes (st_app s)) (status_ProviderPK (sys_status s)) (spec_Provider (sys_spec s)))) s = (Inr obs, s3)"
      "forE (recorded_objects (st_app s)) (cache_remove (markers r)) s3 = (y, t1)" "x = y"
      "server t = server t1" "roleUUID t = roleUUID t1"
proof -
  let ?b = "rel_bindings r (deletes (st_app s)) (status_BindingUUIDs (sys_status s))"
  let ?a = "rel_application r (deletes (st_app s)) (status_ApplicationPK (sys_status s))"
  let ?p = "rel_provider r (deletes (st_app s)) (status_ProviderPK (sys_status s)) (spec_Provider (sys_spec s))"
  let ?e = "if deletes (st_app s) then Eventf EventTypeNormal ''Deleted'' ''Delete'' ''Deleted the objects in authentik''
      else retE ()"
  obtain z s3 where p: "bindE ?b (\<lambda>_. bindE ?a (\<lambda>_. ?p)) s = (z, s3)" by (metis surj_pair)
  show ?thesis
  proof (cases z)
    case (Inl e)
    with p assms have "x = Inl e" "t = s3" unfolding release_stages by (auto simp: run_bind split: prod.splits sum.splits)
    with p Inl show ?thesis by (intro failed) auto
  next
    case (Inr obs)
    obtain y t1 where f: "forE (recorded_objects (st_app s)) (cache_remove (markers r)) s3 = (y, t1)" by (metis surj_pair)
    from p Inr obtain bs s1 as s2 where st: "?b s = (Inr bs, s1)" "?a s1 = (Inr as, s2)" "?p s2 = (Inr obs, s3)"
      by (auto elim!: bind_InrE)
    have "bs @ as @ obs = recorded_objects (st_app s)"
      using yieldsD [OF yields_stages(1) st(1)] yieldsD [OF yields_stages(2) st(2)]
        yieldsD [OF yields_stages(3) [of "st_app s" r, folded sys_status_def sys_spec_def] st(3)]
      by (simp add: recorded_objects_def sys_status_def)
    with assms st have "thenE (forE (recorded_objects (st_app s)) (cache_remove (markers r))) ?e s3 = (x, t)"
      unfolding release_stages by (simp add: run_bind)
    with f have "x = y \<and> server t = server t1 \<and> roleUUID t = roleUUID t1"
      by (auto simp: run_then run_ret Eventf_def run_modify split: sum.splits if_splits)
    with p Inr f show ?thesis by (intro unmarked) auto
  qed
qed

definition rel_objects :: "(fake, 'k) Reconciler \<Rightarrow> AuthentikApplication \<Rightarrow> (fake, 'k, Object list) step" where
  "rel_objects r a = bindE (rel_bindings r (deletes a) (status_BindingUUIDs (app_Status a))) (\<lambda>_.
     bindE (rel_application r (deletes a) (status_ApplicationPK (app_Status a))) (\<lambda>_.
     rel_provider r (deletes a) (status_ProviderPK (app_Status a)) (spec_Provider (app_Spec a))))"

definition deletes_provider :: "AuthentikApplication \<Rightarrow> bool \<Rightarrow> int \<Rightarrow> bool" where
  "deletes_provider a proxy pk \<longleftrightarrow> (\<exists>recorded provider. status_ProviderPK (app_Status a) = Some recorded \<and>
     spec_Provider (app_Spec a) = Some provider \<and> (provider_Proxy provider \<noteq> None) = proxy \<and> pk = int32_of recorded)"

lemma keeps_rel_objects: "\<not> deletes a \<Longrightarrow> keeps f (rel_objects r a)"
  unfolding rel_objects_def rel_bindings_def rel_application_def rel_provider_def Let_def by (intro frame_intros) auto

lemma run_rel_application:
  assumes "rel_application (on_fake r) True pk s = (x, t)" and "pk = status_ApplicationPK (app_Status (st_app s))"
  shows "st_app t = st_app s \<and> fake_proxyProviders (server t) = fake_proxyProviders (server s) \<and>
    fake_oauth2Providers (server t) = fake_oauth2Providers (server s) \<and>
    (\<forall>u. map_of (fake_bindings (server s)) u = None \<longrightarrow> map_of (fake_bindings (server t)) u = None) \<and>
    application_pk (server t) = (\<lambda>slug. if slug = recorded_slug (st_app s) \<and> application_pk (server s) slug = Some pk \<and> pk \<noteq> []
       then None else application_pk (server s) slug)"
proof -
  have absent: "map_of (filter P m) u = None" if "map_of m u = None" for P and m :: "(string \<times> PolicyBinding) list" and u
    using that by (auto simp: map_of_eq_None_iff)
  show ?thesis
    using assms
    by (auto simp: rel_application_def run_then run_ret run_deleteApplication application_pk_def fun_eq_iff absent
        AList.delete_conv' split: if_splits option.splits)
qed

lemma run_rel_objects:
  assumes "rel_objects (on_fake r) a s = (x, t)" and "st_app s = a" and "deletes a"
  shows "u \<in> set (status_BindingUUIDs (app_Status a)) \<Longrightarrow> map_of (fake_bindings (server t)) u = None"
    and "application_pk (server t) = (\<lambda>slug. if slug = recorded_slug a \<and>
        application_pk (server s) slug = Some (status_ApplicationPK (app_Status a)) \<and> status_ApplicationPK (app_Status a) \<noteq> []
       then None else application_pk (server s) slug)"
    and "\<not> deletes_provider a True k \<Longrightarrow> map_of (fake_proxyProviders (server t)) k = map_of (fake_proxyProviders (server s)) k"
    and "\<not> deletes_provider a False k \<Longrightarrow> map_of (fake_oauth2Providers (server t)) k = map_of (fake_oauth2Providers (server s)) k"
    and "x = Inr obs \<Longrightarrow> deletes_provider a True k \<Longrightarrow> map_of (fake_proxyProviders (server t)) k = None"
    and "x = Inr obs \<Longrightarrow> deletes_provider a False k \<Longrightarrow> map_of (fake_oauth2Providers (server t)) k = None"
proof -
  let ?us = "status_BindingUUIDs (app_Status a)"
  let ?s1 = "s\<lparr>server := (server s)\<lparr>fake_bindings := filter (\<lambda>(k, _). k \<notin> set ?us) (fake_bindings (server s))\<rparr>\<rparr>"
  have b: "rel_bindings (on_fake r) True ?us s = (Inr (map bindingObject ?us), ?s1)"
    by (simp add: rel_bindings_def run_deleteBindings)
  obtain y s2 where ap: "rel_application (on_fake r) True (status_ApplicationPK (app_Status a)) ?s1 = (y, s2)" by (metis surj_pair)
  obtain obs1 where y: "y = Inr obs1"
    using ap by (auto simp: rel_application_def run_then run_ret run_deleteApplication split: if_splits)
  obtain z where pr: "rel_provider (on_fake r) True (status_ProviderPK (app_Status a)) (spec_Provider (app_Spec a)) s2 = (z, t)"
    "z = x"
    using assms(1,3) unfolding rel_objects_def by (simp add: run_bind b ap y split: sum.splits prod.splits)
  have s1: "st_app ?s1 = a" "application_pk (server ?s1) = application_pk (server s)"
    "fake_proxyProviders (server ?s1) = fake_proxyProviders (server s)"
    "fake_oauth2Providers (server ?s1) = fake_oauth2Providers (server s)"
    "u \<in> set ?us \<Longrightarrow> map_of (fake_bindings (server ?s1)) u = None" for u
    using assms(2) by (auto simp: map_of_eq_None_iff)
  note s2 = run_rel_application [OF ap, unfolded s1(1-4), OF refl]
  have *: "fake_bindings (server t) = fake_bindings (server s2) \<and> application_pk (server t) = application_pk (server s2) \<and>
    (\<not> deletes_provider a True k \<longrightarrow> map_of (fake_proxyProviders (server t)) k = map_of (fake_proxyProviders (server s2)) k) \<and>
    (\<not> deletes_provider a False k \<longrightarrow> map_of (fake_oauth2Providers (server t)) k = map_of (fake_oauth2Providers (server s2)) k) \<and>
    (\<forall>obs. x = Inr obs \<longrightarrow> (deletes_provider a True k \<longrightarrow> map_of (fake_proxyProviders (server t)) k = None) \<and>
      (deletes_provider a False k \<longrightarrow> map_of (fake_oauth2Providers (server t)) k = None))" for k
  proof (cases "\<exists>recorded provider. status_ProviderPK (app_Status a) = Some recorded \<and> spec_Provider (app_Spec a) = Some provider")
    case True
    then obtain recorded provider where rp: "status_ProviderPK (app_Status a) = Some recorded" "spec_Provider (app_Spec a) = Some provider"
      by blast
    obtain w t' where d: "deleteProvider (on_fake r) provider (int32_of recorded) s2 = (w, t')" by (metis surj_pair)
    have t: "t' = t" "x = Inr obs \<Longrightarrow> w = Inr ()" for obs
      using pr d by (auto simp: rel_provider_def rp Let_def run_then run_ret split: sum.splits)
    have dp: "deletes_provider a proxy k \<longleftrightarrow> (provider_Proxy provider \<noteq> None) = proxy \<and> k = int32_of recorded" for proxy
      by (simp add: deletes_provider_def rp)
    show ?thesis
      using run_deleteProvider [OF d] t unfolding dp by (auto split: if_splits)
  next
    case False
    then have "t = s2" "\<not> deletes_provider a proxy k" for proxy
      using pr by (auto simp: rel_provider_def deletes_provider_def run_ret split: option.splits)
    then show ?thesis by simp
  qed
  show "u \<in> set ?us \<Longrightarrow> map_of (fake_bindings (server t)) u = None"
    using * s2 s1(5) by auto
  show "application_pk (server t) = (\<lambda>slug. if slug = recorded_slug a \<and>
        application_pk (server s) slug = Some (status_ApplicationPK (app_Status a)) \<and> status_ApplicationPK (app_Status a) \<noteq> []
       then None else application_pk (server s) slug)"
    using * s2 by simp
  show "\<not> deletes_provider a True k \<Longrightarrow> map_of (fake_proxyProviders (server t)) k = map_of (fake_proxyProviders (server s)) k"
    "\<not> deletes_provider a False k \<Longrightarrow> map_of (fake_oauth2Providers (server t)) k = map_of (fake_oauth2Providers (server s)) k"
    using * [of k] s2 by auto
  show "x = Inr obs \<Longrightarrow> deletes_provider a True k \<Longrightarrow> map_of (fake_proxyProviders (server t)) k = None"
    "x = Inr obs \<Longrightarrow> deletes_provider a False k \<Longrightarrow> map_of (fake_oauth2Providers (server t)) k = None"
    using * [of k] by auto
qed

section \<open>Properties\<close>

lemma keeps_removals: "keeps (\<lambda>s. not_rbac (server s)) (forE obs (cache_remove (markers (on_fake r))))"
  by (intro server_intros)

text \<open>Whatever the result, the objects are those left by the stages on the objects.\<close>

lemma release_objects:
  assumes "release (on_fake r) s = (x, t)"
  obtains y s3 where "rel_objects (on_fake r) (st_app s) s = (y, s3)" "not_rbac (server t) = not_rbac (server s3)"
    "x = Inr () \<Longrightarrow> \<exists>obs. y = Inr obs"
  using assms
proof (cases rule: release_run)
  case (failed e)
  then show ?thesis by (intro that) (auto simp: rel_objects_def sys_status_def sys_spec_def)
next
  case (unmarked obs s3 y t1)
  have "not_rbac (server t1) = not_rbac (server s3)" using keepsD [OF keeps_removals unmarked(2)] .
  with unmarked show ?thesis by (intro that) (auto simp: rel_objects_def sys_status_def sys_spec_def)
qed

lemma application_pk_None: "application_pk c slug \<noteq> Some pk \<longleftrightarrow> (\<forall>a. map_of (fake_applications c) slug = Some a \<longrightarrow> appl_Pk a \<noteq> pk)"
  by (auto simp: application_pk_def)


text \<open>
  C10: a release, whether it succeeds or fails at any call, deletes no Application but the recorded one:
  an Application of another slug, or one that has taken the recorded slug with another identifier,
  stays. No Provider but the recorded one of the type of the spec is deleted or changed.
\<close>

theorem release_spares_others:
  fixes s :: "(fake, 'k) sys"
  assumes "release (on_fake r) s = (x, t)"
  shows "(map_of (fake_applications (server s)) slug = Some a \<and>
        (slug \<noteq> recorded_slug (st_app s) \<or> appl_Pk a \<noteq> status_ApplicationPK (sys_status s)) \<longrightarrow>
      (\<exists>b. map_of (fake_applications (server t)) slug = Some b \<and> appl_Pk b = appl_Pk a)) \<and>
    (map_option int32_of (status_ProviderPK (sys_status s)) \<noteq> Some pk \<longrightarrow>
      map_of (fake_proxyProviders (server t)) pk = map_of (fake_proxyProviders (server s)) pk \<and>
      map_of (fake_oauth2Providers (server t)) pk = map_of (fake_oauth2Providers (server s)) pk)"
  using assms
proof (rule release_objects)
  fix y s3 assume run: "rel_objects (on_fake r) (st_app s) s = (y, s3)" and n: "not_rbac (server t) = not_rbac (server s3)"
  have "(map_of (fake_applications (server s)) slug = Some a \<and>
        (slug \<noteq> recorded_slug (st_app s) \<or> appl_Pk a \<noteq> status_ApplicationPK (sys_status s)) \<longrightarrow>
      application_pk (server s3) slug = Some (appl_Pk a)) \<and>
    (map_option int32_of (status_ProviderPK (sys_status s)) \<noteq> Some pk \<longrightarrow>
      map_of (fake_proxyProviders (server s3)) pk = map_of (fake_proxyProviders (server s)) pk \<and>
      map_of (fake_oauth2Providers (server s3)) pk = map_of (fake_oauth2Providers (server s)) pk)"
  proof (cases "deletes (st_app s)")
    case True
    have "\<not> deletes_provider (st_app s) proxy pk" if "map_option int32_of (status_ProviderPK (sys_status s)) \<noteq> Some pk" for proxy
      using that by (auto simp: deletes_provider_def sys_status_def)
    then show ?thesis
      using run_rel_objects(2-4) [OF run refl True] by (auto simp: application_pk_def sys_status_def)
  next
    case False
    then have "server s3 = server s" using keepsD [OF keeps_rel_objects run] by simp
    then show ?thesis by (simp add: application_pk_def)
  qed
  then show ?thesis
    using not_rbac_simps(1-3) [OF n] by (auto simp: application_pk_def)
qed

text \<open>
  C26: without the policy \<open>Delete\<close> a release deletes and changes nothing but markers: every Application,
  Provider, binding and Outpost is as it was, whether the release succeeds or fails.
\<close>

theorem release_retains:
  fixes s :: "(fake, 'k) sys"
  assumes "release (on_fake r) s = (x, t)" and "spec_DeletionPolicy (app_Spec (st_app s)) \<noteq> Some DeletionPolicyDelete"
  shows "not_rbac (server t) = not_rbac (server s)"
  using assms(1)
proof (rule release_objects)
  fix y s3 assume run: "rel_objects (on_fake r) (st_app s) s = (y, s3)" and n: "not_rbac (server t) = not_rbac (server s3)"
  have "server s3 = server s" using keepsD [OF keeps_rel_objects [OF assms(2)] run] .
  with n show ?thesis by simp
qed

lemma stable_rel_objects: "stable (coherent r) (rel_objects (on_fake r) a)"
  unfolding rel_objects_def rel_bindings_def rel_application_def rel_provider_def deleteApplication_def deleteProvider_def
    ignoreNotFound_def
  by (intro reconcile_coherent.ok_intros reconcile_coherent.stable_leaveOutpost)

lemma keeps_rbac:
  "keeps (\<lambda>s. (rbac_part (server s), roleUUID s)) (rel_objects (on_fake r) a)"
proof -
  let ?f = "\<lambda>s :: (fake, 'a) sys. (rbac_part (server s), roleUUID s)"
  have srv: "keeps rbac_part m \<Longrightarrow> keeps ?f (srv m)" for m :: "(fake, goerror, 'b) go"
    by (simp add: steps_def same_def run_srv case_prod_beta)
  have ignore: "keeps f m \<Longrightarrow> keeps f (ignoreNotFound m)" for f and m :: "(fake, 'a, 'b) step"
    unfolding ignoreNotFound_def by (intro frame_intros)
  show ?thesis
    unfolding rel_objects_def rel_bindings_def rel_application_def rel_provider_def deleteApplication_def deleteProvider_def
      leaveOutpost_def leaveOutpostByUUID_def removeProviderFromOutpost_def Authentik_on_fake fake_client_simps Let_def
    by (intro frame_intros ignore srv rbac_frames [unfolded fake_client_simps] keeps_deref
        fake.pure_reads [unfolded fake_client_simps, THEN pure_keeps])
qed

text \<open>The loop that removes the markers.\<close>

lemma run_cache_remove:
  fixes s :: "(fake, 'k) sys"
  assumes "cache_remove (markers (on_fake r)) ob s = (Inr (), t)" and "coherent r s"
  shows "coherent r t" and "roleUUID t \<noteq> []" and "roleUUID s \<noteq> [] \<Longrightarrow> roleUUID t = roleUUID s"
    and "fake_marked (server t) = (fake_marked (server s))(roleUUID t := fake_marked (server s) (roleUUID t) - {ob})"
proof -
  obtain s1 where u: "Unmark (fake_marker (ownerRoleName r)) ob s = (Inr (), s1)" and t: "roleUUID t = roleUUID s1"
    using assms(1) by (auto simp: cache_remove_def marker_of_fake run_simps deleteObject_def split: sum.splits prod.splits)
  obtain x s2 where role: "marker_role (fake_marker (ownerRoleName r)) s = (Inr x, s2)" "roleUUID s1 = roleUUID s2"
    using u by (auto simp: Unmark_def run_simps split: sum.splits prod.splits)
  have inv: "wf_marks (server s)" using assms(2) by (simp add: list_ok_def)
  show "roleUUID t \<noteq> []" "roleUUID s \<noteq> [] \<Longrightarrow> roleUUID t = roleUUID s"
    using fake_mk.marker_role_spec(5,6) [OF role(1) inv] role(2) t by auto
  show "coherent r t"
    "fake_marked (server t) = (fake_marked (server s))(roleUUID t := fake_marked (server s) (roleUUID t) - {ob})"
    using fake_cache.remove_spec(1,3) [OF assms] by simp_all
qed

lemma run_removals:
  fixes s :: "(fake, 'k) sys"
  assumes "forE obs (cache_remove (markers (on_fake r))) s = (Inr (), t)" and "coherent r s"
  shows "fake_marked (server t) = (fake_marked (server s))(roleUUID t := fake_marked (server s) (roleUUID t) - set obs) \<and>
    (roleUUID s \<noteq> [] \<longrightarrow> roleUUID t = roleUUID s)"
  using assms
proof (induction obs arbitrary: s)
  case (Cons ob obs)
  then obtain s1 where r: "cache_remove (markers (on_fake r)) ob s = (Inr (), s1)"
    "forE obs (cache_remove (markers (on_fake r))) s1 = (Inr (), t)"
    by (auto elim: then_InrE)
  note r1 = run_cache_remove [OF r(1) Cons.prems(2)]
  show ?case using Cons.IH [OF r(2) r1(1)] r1 by (auto simp: fun_eq_iff)
qed (simp add: run_ret)

text \<open>
  C27: a release that succeeds removes exactly the markers of the recorded objects, under either policy;
  every other marker, and every marker of another role, stays.
\<close>

theorem release_unmarks_recorded:
  fixes s :: "(fake, 'k) sys"
  assumes "release (on_fake r) s = (Inr (), t)"
    and "list_ok (markers (on_fake r)) wf_marks fake_marked markable_model s"
  shows "fake_marked (server t) =
    (fake_marked (server s))(roleUUID t := fake_marked (server s) (roleUUID t) - set (recorded_objects (st_app s)))"
  using assms(1)
proof (cases rule: release_run)
  case (unmarked obs s3 y t1)
  then have run: "rel_objects (on_fake r) (st_app s) s = (Inr obs, s3)"
    by (simp add: rel_objects_def sys_status_def sys_spec_def)
  have "coherent r s3" using stableD [OF stable_rel_objects run assms(2)] .
  moreover have "fake_marked (server s3) = fake_marked (server s)"
    using keepsD [OF keeps_rbac run] by (simp add: rbac_part_def fake_marked_def fun_eq_iff)
  ultimately show ?thesis using run_removals [of "recorded_objects (st_app s)" r s3 t1] unmarked by simp
qed simp

lemma bind_attempt: "m s = (y, t) \<Longrightarrow> bindE (attempt m) k s = k y t"
  by (simp add: run_bind run_attempt)

text \<open>
  C28: the finalizer is only removed after the release succeeded. While the release fails, the result of
  \<open>finalize\<close> is an error that contains the failure and does not depend on the call that would remove
  the finalizer, which is not made.
\<close>

theorem finalizer_kept_until_released:
  assumes "ContainsFinalizer r (st_app s) finalizer" and "release r s = (Inl e, t)"
  shows "(\<exists>es. fst (finalize r s) = Inl (JoinError (e # es))) \<and>
    finalize (r\<lparr>Kube := (Kube r)\<lparr>KPatch := call\<rparr>\<rparr>) s = finalize r s"
proof -
  let ?r = "r\<lparr>Kube := (Kube r)\<lparr>KPatch := call\<rparr>\<rparr>"
  have m: "markers ?r = markers r"
    by (simp add: markers_def requeueAll_def fun_eq_iff)
  have a: "Authentik ?r = Authentik r" by simp
  have "release ?r = release r"
    by (simp only: release_def deleteApplication_def deleteProvider_def leaveOutpost_def leaveOutpostByUUID_def
      removeProviderFromOutpost_def m a)
  moreover have "setReady ?r b reason msg = setReady r b reason msg" for b reason msg
    by (simp add: setReady_def setCondition_def)
  moreover have "patchStatus ?r = patchStatus r" by (simp add: patchStatus_def cong del: if_weak_cong)
  moreover have fin: "finalize q s = thenE (modifyE (\<lambda>s. s\<lparr>st_base := st_app s\<rparr>))
         (thenE (updStatus (\<lambda>st. st\<lparr>status_ObservedGeneration := meta_Generation (st_app s)\<rparr>))
         (thenE (setReady q False ReasonAPIError (''Failed to release the objects in authentik: '' @ ErrorText e))
         (bindE (attempt (patchStatus q)) (\<lambda>patched. throwE (case patched of
             Inl patchErr \<Rightarrow> JoinError [e, patchErr]
           | Inr _ \<Rightarrow> JoinError [e]))))) t"
    if "ContainsFinalizer q (st_app s) finalizer" "release q s = (Inl e, t)" for q
    by (simp only: finalize_def bind_read that(1) not_True_eq_False if_False bind_attempt [of "release q", OF that(2)] sum.case)
  ultimately have "finalize ?r s = finalize r s"
    using assms by simp
  moreover have "\<exists>es. fst (finalize r s) = Inl (JoinError (e # es))"
    unfolding fin [OF assms]
    by (auto simp: run_then run_bind run_attempt run_throw run_modify updStatus_def setReady_def setCondition_def
        run_read Let_def Eventf_def run_ret split: sum.split)
  ultimately show ?thesis by blast
qed

end
