(* ===== verification/Guards.thy ===== *)
theory Guards
  imports Release
begin

text \<open>
  What a reconcile leaves alone, and what it reports: the objects that are only referenced, a server
  on which the references or the slug are in doubt, an Application of someone else, and the outcome
  of a reconcile (\<open>finish\<close>) and of a lost ownership role.
\<close>

section \<open>Objects that are only referenced\<close>

text \<open>The users, groups, policies, flows, certificates and scope mappings, and which Outposts there are.\<close>

definition directory :: "fake \<Rightarrow> string \<times> (string \<times> Group) list \<times> (int \<times> User) list \<times> (string \<times> Policy) list \<times>
    (string \<times> Flow) list \<times> (string \<times> CertificateKeyPair) list \<times> (string \<times> ScopeMapping) list \<times>
    (string \<Rightarrow> string option)" where
  "directory c = (fake_version c, fake_groups c, fake_users c, fake_policies c, fake_flows c, fake_keyPairs c,
     fake_scopeMappings c, \<lambda>u. map_option outpost_Name (map_of (fake_outposts c) u))"

lemma directory_outposts:
  "directory (fake_deleteProvider pk c) = directory c"
  by (auto simp: directory_def fake_deleteProvider_def map_pair_map_of fun_eq_iff option.map_comp comp_def intro!: option.map_cong)

lemma directory_SetOutpostProviders: "keeps directory (fake_SetOutpostProviders uuid ps)"
  by (auto simp: steps_def same_def directory_def fake_SetOutpostProviders_def run_simps Let_def fun_eq_iff AList.update_conv'
      split: option.split sum.split prod.split)

lemma directory_simps:
  "directory (c\<lparr>fake_applications := as\<rparr>) = directory c" "directory (c\<lparr>fake_proxyProviders := ps\<rparr>) = directory c"
  "directory (c\<lparr>fake_oauth2Providers := os\<rparr>) = directory c" "directory (c\<lparr>fake_bindings := bs\<rparr>) = directory c"
  "directory (c\<lparr>fake_sequence := n\<rparr>) = directory c" "directory (c\<lparr>fake_draws := m\<rparr>) = directory c"
  "directory (c\<lparr>fake_roles := rs\<rparr>) = directory c" "directory (c\<lparr>fake_objectPermissions := qs\<rparr>) = directory c"
  by (simp_all add: directory_def)

lemma directory_calls:
  "keeps directory (fake_CreateApplication ra)" "keeps directory (fake_PatchApplication slug pa)"
  "keeps directory (fake_DeleteApplication slug)"
  "keeps directory (fake_PatchProxyProvider pk pp)" "keeps directory (fake_DeleteProxyProvider pk)"
  "keeps directory (fake_PatchOAuth2Provider pk po)" "keeps directory (fake_DeleteOAuth2Provider pk)"
  "keeps directory (fake_PatchPolicyBinding uuid pb)" "keeps directory (fake_DeletePolicyBinding uuid)"
  unfolding fake_write_defs Let_def
  by (rule steps_self, intro fake_frame; simp add: directory_outposts directory_simps split: option.split)+

lemma directory_creations:
  "keeps directory (fake_CreateProxyProvider rp)" "keeps directory (fake_CreateOAuth2Provider ro)"
  "keeps directory (fake_CreatePolicyBinding rb)"
proof -
  show "keeps directory (fake_CreateProxyProvider rp)"
    unfolding fake_write_defs Let_def
    by (intro fake_frame, rule steps_self, intro fake_frame; simp add: directory_simps)
  show "keeps directory (fake_CreateOAuth2Provider ro)"
    unfolding fake_write_defs Let_def
    by (rule steps_self, intro fake_frame; simp add: directory_simps)
  show "keeps directory (fake_CreatePolicyBinding rb)"
    unfolding fake_write_defs Let_def
    by (intro fake_frame, rule steps_self, intro fake_frame; simp add: directory_simps)
qed

lemma directory_cache:
  "keeps (\<lambda>s. directory (server s)) (cache_contains (markers (on_fake r)) ob)"
  "keeps (\<lambda>s. directory (server s)) (cache_isManaged (markers (on_fake r)) ob)"
  "keeps (\<lambda>s. directory (server s)) (cache_ensure (markers (on_fake r)) ob)"
  "keeps (\<lambda>s. directory (server s)) (cache_remove (markers (on_fake r)) ob)"
proof -
  have d: "directory c = directory (not_rbac c)" for c by (simp add: not_rbac_def directory_simps)
  show "keeps (\<lambda>s. directory (server s)) (cache_contains (markers (on_fake r)) ob)"
    "keeps (\<lambda>s. directory (server s)) (cache_isManaged (markers (on_fake r)) ob)"
    "keeps (\<lambda>s. directory (server s)) (cache_ensure (markers (on_fake r)) ob)"
    "keeps (\<lambda>s. directory (server s)) (cache_remove (markers (on_fake r)) ob)"
    by (rule keeps_comp, rule not_rbac_cache, simp add: d [of "server _"])+
qed

lemma stable_srv_value: "keeps f m \<Longrightarrow> stable (\<lambda>s. f (server s) = v) (srv m)"
  by (auto simp: steps_def same_def pres_def run_srv case_prod_beta)

lemma stable_value: "keeps f m \<Longrightarrow> stable (\<lambda>s. f s = v) m"
  by (auto simp: steps_def same_def pres_def)

interpretation reconcile_directory: reconcile_invariant "on_fake r" "\<lambda>s. directory (server s) = d" "\<lambda>_. True"
  for r :: "(fake, 'k) Reconciler" and d
proof (intro reconcile_invariant.intro reconcile_invariant_axioms.intro, goal_cases)
  case 1
  show ?case by (simp add: fake.reads_axioms)
qed (simp_all add: directory_calls directory_creations directory_SetOutpostProviders directory_cache stable_srv_value stable_value)


section \<open>Checks that come before every write\<close>

lemma keeps_kapi_obs: "keeps (\<lambda>s. (cache_state.truncate s, resolve_state.more s)) (kapi m)"
  by (simp add: steps_def same_def kapi_def cache_state.defs case_prod_beta)

lemma keeps_checkConflict:
  "keeps (\<lambda>s. (cache_state.truncate s, resolve_state.more s)) (checkConflict r)"
  unfolding checkConflict_def by (intro frame_intros keeps_kapi_obs)

text \<open>
  C19: a conflict on the slug, or a reference that cannot be resolved, ends a reconcile before anything
  is written: the server, the marker list, the Events and the resource are untouched and the error is
  returned as it is.
\<close>

theorem reconcileSpec_checks_first:
  fixes s :: "(fake, 'k) sys"
  assumes "thenE (checkConflict (on_fake r)) (bindE (readE st_app) (Resolve (resolver_of (on_fake r)))) s = (Inl e, t)"
  shows "reconcileSpec (on_fake r) s = (Inl e, t) \<and> cache_state.truncate t = cache_state.truncate s \<and>
    resolve_state.more t = resolve_state.more s"
proof -
  let ?obs = "\<lambda>s :: (fake, 'k) sys. (cache_state.truncate s, resolve_state.more s)"
  have rs: "resolver_of (on_fake r) = fake_resolver (Kube r)"
    by (simp add: resolver_of_def fake_resolver_def on_fake_def)
  have "keeps ?obs (Resolve (resolver_of (on_fake r)) a)" for a
    unfolding rs by (rule keeps_comp [OF fake_resolver.keeps_Resolve]) (simp add: but_failures_def)
  then have "keeps ?obs (thenE (checkConflict (on_fake r)) (bindE (readE st_app) (Resolve (resolver_of (on_fake r)))))"
    by (intro frame_intros keeps_checkConflict)
  from keepsD [OF this assms] have "?obs t = ?obs s" .
  moreover have "reconcileSpec (on_fake r) s = (Inl e, t)"
    using assms unfolding reconcileSpec_def by (auto simp: run_then run_bind run_read split: prod.splits sum.splits)
  ultimately show ?thesis by simp
qed

section \<open>Applications of others\<close>

lemma keeps_read_srv: "pure m \<Longrightarrow> keeps (\<lambda>s. g (server s)) (srv m)"
  by (rule pure_keeps, rule keeps_srv_pure)

lemma keeps_handler:
  "keeps (\<lambda>s. g (server s)) (getAttached (handlerFor (on_fake r) a refs) slug pk)"
proof -
  note defs = handlerFor_def Let_def proxyProviderHandler_def oauth2ProviderHandler_def existsE_def Authentik_on_fake
  have "keeps (\<lambda>s. g (server s)) (handler_get (handlerFor (on_fake r) a refs) pk)"
    "keeps (\<lambda>s. g (server s)) (handler_existsAsOtherType (handlerFor (on_fake r) a refs) pk)"
    unfolding defs
    by (cases "provider_Proxy (the (spec_Provider (app_Spec a)))";
        simp only: option.case providerHandler.select_convs;
        intro frame_intros keeps_read_srv fake.pure_reads)+
  then show ?thesis unfolding getAttached_def by (intro frame_intros)
qed

lemma keeps_attachedProvider: "keeps (\<lambda>s. g (server s)) (attachedProvider (on_fake r) a)"
proof -
  have "keeps (\<lambda>s. g (server s)) (bindE (getHandler (on_fake r)) (\<lambda>h. getAttached h slug pk))" for slug pk
    unfolding getHandler_def steps_def same_def bind_read using keeps_handler [unfolded steps_def same_def] by blast
  then show ?thesis
    unfolding attachedProvider_def
    by (intro keeps.steps_bind [OF keeps.steps_read] steps_case_option steps_if keeps.steps_ret)
qed

lemma keeps_observeApplication: "keeps (\<lambda>s. not_rbac (server s)) (observeApplication (on_fake r))"
  unfolding observeApplication_def recordApplication_def adoptApplication_def Authentik_on_fake
  by (intro server_intros keeps_attachedProvider keeps_read_srv fake.pure_reads)

lemma keeps_st_app_cache: "keeps st_app (cache_isManaged (markers (on_fake r)) ob)"
proof -
  have hook: "st_app (requeueAll (on_fake r) s) = st_app s" for s
    by (simp add: requeueAll_def split: prod.split sum.split)
  have srv: "keeps st_app (srv m)" for m :: "(fake, goerror, 'b) go"
    by (simp add: steps_def same_def run_srv case_prod_beta)
  show ?thesis
    unfolding cache_isManaged_def refreshLocked_def addObject_def nowE_def EnsureRole_def findOrCreateRole_def findRole_def
      marker_role_def IsManaged_def ListManaged_def markers_def markerCacheOn.select_convs
    by (intro frame_intros srv; simp add: hook steps_def same_def)
qed

text \<open>
  C20: the step on the Application writes nothing to the server but markers. An Application that exists,
  is not the recorded one and does not have the marker is rejected with \<open>Unmanaged\<close> unless the spec
  allows adoption.
\<close>

theorem observeApplication_respects_others:
  fixes s :: "(fake, 'k) sys"
  assumes "observeApplication (on_fake r) s = (x, t)"
    and "map_of (fake_applications (server s)) (spec_Slug (sys_spec s)) = Some a"
    and "appl_Pk a \<noteq> status_ApplicationPK (sys_status s)"
    and "cache_isManaged (markers (on_fake r)) (applicationObject a) s = (Inr False, u)"
    and "spec_Adopt (sys_spec s) = None \<or> spec_Adopt (sys_spec s) = Some AdoptionPolicyNever"
  shows "(\<exists>msg. x = Inl (StopError ReasonUnmanaged msg)) \<and> not_rbac (server t) = not_rbac (server s)"
proof
  show "not_rbac (server t) = not_rbac (server s)" using keepsD [OF keeps_observeApplication assms(1)] .
  have "st_app u = st_app s" using keepsD [OF keeps_st_app_cache assms(4)] .
  then have spec: "sys_spec u = sys_spec s" by (simp add: sys_spec_def)
  show "\<exists>msg. x = Inl (StopError ReasonUnmanaged msg)"
    using assms(1-3,5) assms(4)
    by (auto simp: observeApplication_def bind_read Let_def fake_GetApplication_def run_simps run_srv adoptApplication_def spec)
qed

section \<open>The outcome of a reconcile\<close>

definition with_status :: "(AuthentikApplicationStatus \<Rightarrow> AuthentikApplicationStatus) \<Rightarrow> ('a, 'k) sys \<Rightarrow> ('a, 'k) sys" where
  "with_status f s = s\<lparr>st_app := (st_app s)\<lparr>app_Status := f (app_Status (st_app s))\<rparr>\<rparr>"

lemma with_status_simps [simp]:
  "server (with_status f s) = server s" "sys_status (with_status f s) = f (sys_status s)"
  "meta_Generation (st_app (with_status f s)) = meta_Generation (st_app s)"
  "app_Spec (st_app (with_status f s)) = app_Spec (st_app s)"
  by (simp_all add: with_status_def sys_status_def)

lemma run_updStatus: "updStatus f s = (Inr (), with_status f s)"
  by (simp add: updStatus_def run_modify with_status_def)

lemma run_setReady:
  "\<exists>s'. setReady r b reason msg s = (Inr (), s') \<and> server s' = server s \<and>
     sys_status s' = (sys_status s)\<lparr>status_Conditions := SetStatusCondition r (status_Conditions (sys_status s))
       \<lparr> cond_Type = ConditionTypeReady, cond_Status = b, cond_Reason = reason, cond_Message = msg,
         cond_ObservedGeneration = meta_Generation (st_app s), cond_LastTransitionTime = 0 \<rparr>\<rparr>"
  by (simp add: setReady_def setCondition_def bind_read Let_def run_then run_updStatus run_if Eventf_def run_modify run_ret)
    (simp add: sys_status_def with_status_def)

lemma thenE_ok:
  assumes "m s = (Inr x, t)"
  shows "thenE m k s = k t"
  using assms by (simp add: run_then)

text \<open>The state in which \<open>finish\<close> patches the status.\<close>

lemma finish_run:
  obtains s' msg where "finish r outcome s = bindE (attempt (patchStatus r)) (\<lambda>patched. case patched of
         Inl patchErr \<Rightarrow> throwE (JoinError ((case outcome of Inl err \<Rightarrow> [err] | Inr _ \<Rightarrow> []) @ [patchErr]))
       | Inr _ \<Rightarrow> (case outcome of
             Inr _ \<Rightarrow> retE \<lparr> RequeueAfter = ResyncInterval r \<rparr>
           | Inl err \<Rightarrow>
               (if AsStopError err \<noteq> None then retE \<lparr> RequeueAfter = ResyncInterval r \<rparr> else throwE err))) s'"
    and "server s' = server s"
    and "status_ObservedGeneration (sys_status s') = meta_Generation (st_app s)"
    and "status_Conditions (sys_status s') = SetStatusCondition r (status_Conditions (sys_status s))
       \<lparr> cond_Type = ConditionTypeReady, cond_Status = (case outcome of Inr _ \<Rightarrow> True | Inl _ \<Rightarrow> False),
         cond_Reason = (case outcome of Inr _ \<Rightarrow> ReasonReconciled
           | Inl err \<Rightarrow> (case AsStopError err of Some (reason, _) \<Rightarrow> reason
             | None \<Rightarrow> (case AsReferenceError err of Some fs \<Rightarrow> Reason fs | None \<Rightarrow> ReasonAPIError))),
         cond_Message = msg, cond_ObservedGeneration = meta_Generation (st_app s), cond_LastTransitionTime = 0 \<rparr>"
    and "status_AdoptionDiff (sys_status s') =
      (case outcome of Inr _ \<Rightarrow> [] | Inl err \<Rightarrow> (case AsStopError err of
          Some (reason, _) \<Rightarrow> (if reason = ReasonAdoptionDiff then status_AdoptionDiff (sys_status s) else [])
        | None \<Rightarrow> []))"
proof -
  define stop where "stop = (case outcome of Inr _ \<Rightarrow> None | Inl err \<Rightarrow> AsStopError err)"
  define s1 where "s1 = with_status (\<lambda>st. st\<lparr>status_ObservedGeneration := meta_Generation (st_app s)\<rparr>) s"
  define s2 where "s2 = (if (case stop of Some (reason, msg) \<Rightarrow> reason \<noteq> ReasonAdoptionDiff | None \<Rightarrow> True)
    then with_status (\<lambda>st. st\<lparr>status_AdoptionDiff := []\<rparr>) s1 else s1)"
  define s3 where "s3 = (case outcome of
      Inr _ \<Rightarrow> with_status (\<lambda>st. st\<lparr>status_LastAppliedHash := specHash r (app_Spec (st_app s))\<rparr>) s2 | Inl _ \<Rightarrow> s2)"
  define ok where "ok = (case outcome of Inr _ \<Rightarrow> True | Inl _ \<Rightarrow> False)"
  define reason where "reason = (case outcome of Inr _ \<Rightarrow> ReasonReconciled | Inl err \<Rightarrow> (case stop of Some (reason, _) \<Rightarrow> reason
      | None \<Rightarrow> (case AsReferenceError err of Some fs \<Rightarrow> Reason fs | None \<Rightarrow> ReasonAPIError)))"
  define msg where "msg = (case outcome of Inr _ \<Rightarrow> ''The Application, the Provider, and the Bindings match the spec''
    | Inl err \<Rightarrow> (case stop of Some (_, msg) \<Rightarrow> msg
      | None \<Rightarrow> (case AsReferenceError err of Some fs \<Rightarrow> Reference_Error fs | None \<Rightarrow> ErrorText err)))"
  obtain s' where ready: "setReady r ok reason msg s3 = (Inr (), s')" "server s' = server s3"
    "sys_status s' = (sys_status s3)\<lparr>status_Conditions := SetStatusCondition r (status_Conditions (sys_status s3))
       \<lparr> cond_Type = ConditionTypeReady, cond_Status = ok, cond_Reason = reason, cond_Message = msg,
         cond_ObservedGeneration = meta_Generation (st_app s3), cond_LastTransitionTime = 0 \<rparr>\<rparr>"
    using run_setReady by blast
  let ?drop = "if case stop of Some (reason, msg) \<Rightarrow> reason \<noteq> ReasonAdoptionDiff | None \<Rightarrow> True
    then updStatus (\<lambda>st. st\<lparr>status_AdoptionDiff := []\<rparr>) else retE ()"
  let ?ready = "case outcome of
          Inr _ \<Rightarrow>
            thenE (updStatus (\<lambda>st'. st'\<lparr>status_LastAppliedHash := specHash r (app_Spec (st_app s))\<rparr>))
              (setReady r True ReasonReconciled ''The Application, the Provider, and the Bindings match the spec'')
        | Inl err \<Rightarrow> (case stop of
            Some (reason, msg) \<Rightarrow> setReady r False reason msg
          | None \<Rightarrow> (case AsReferenceError err of
              Some fs \<Rightarrow> setReady r False (Reason fs) (Reference_Error fs)
            | None \<Rightarrow> setReady r False ReasonAPIError (ErrorText err)))"
  have s2: "?drop s1 = (Inr (), s2)"
    by (simp add: s2_def run_updStatus run_ret)
  have mid: "?ready s2 = (Inr (), s')"
    using ready(1) unfolding s3_def ok_def reason_def msg_def
    by (auto simp: run_then run_updStatus split: sum.splits option.splits)
  have after: "(case outcome of Inr _ \<Rightarrow> retE \<lparr> RequeueAfter = ResyncInterval r \<rparr>
       | Inl err \<Rightarrow> (if stop \<noteq> None then retE \<lparr> RequeueAfter = ResyncInterval r \<rparr> else throwE err)) =
     ((case outcome of Inr _ \<Rightarrow> retE \<lparr> RequeueAfter = ResyncInterval r \<rparr>
       | Inl err \<Rightarrow> (if AsStopError err \<noteq> None then retE \<lparr> RequeueAfter = ResyncInterval r \<rparr> else throwE err)) ::
       ('a, 'k, Result) step)"
    by (cases outcome) (simp_all add: stop_def)
  have run: "finish r outcome s = bindE (attempt (patchStatus r)) (\<lambda>patched. case patched of
         Inl patchErr \<Rightarrow> throwE (JoinError ((case outcome of Inl err \<Rightarrow> [err] | Inr _ \<Rightarrow> []) @ [patchErr]))
       | Inr _ \<Rightarrow> (case outcome of
             Inr _ \<Rightarrow> retE \<lparr> RequeueAfter = ResyncInterval r \<rparr>
           | Inl err \<Rightarrow>
               (if AsStopError err \<noteq> None then retE \<lparr> RequeueAfter = ResyncInterval r \<rparr> else throwE err))) s'"
    unfolding finish_def Let_def bind_read stop_def [symmetric]
    unfolding thenE_ok [OF run_updStatus] s1_def [symmetric] thenE_ok [of ?drop, OF s2] thenE_ok [of ?ready, OF mid] after ..
  have "meta_Generation (st_app s3) = meta_Generation (st_app s)"
    "status_Conditions (sys_status s3) = status_Conditions (sys_status s)" "server s3 = server s"
    unfolding s3_def s2_def s1_def by (auto split: sum.split option.split)
  then show thesis
    using ready(2,3)
    by (intro that [OF run, of msg]) (auto simp: ok_def reason_def s3_def s2_def s1_def stop_def split: sum.split option.split)
qed

text \<open>
  C22: the outcome of a reconcile is recorded before the result is returned: the generation, the
  condition \<open>Ready\<close> with the reason of the stop, of the references or of the API, and the adoption diff,
  which is dropped unless adoption was refused for it. A success and a stop are repeated after the
  resync interval; any other error, and an error of the status update, is returned for a retry.
\<close>

theorem finish_reports_outcome:
  shows "\<exists>s' p t msg. patchStatus r s' = (p, t) \<and> server s' = server s \<and>
    status_ObservedGeneration (sys_status s') = meta_Generation (st_app s) \<and>
    status_Conditions (sys_status s') = SetStatusCondition r (status_Conditions (sys_status s))
       \<lparr> cond_Type = ConditionTypeReady, cond_Status = (case outcome of Inr _ \<Rightarrow> True | Inl _ \<Rightarrow> False),
         cond_Reason = (case outcome of Inr _ \<Rightarrow> ReasonReconciled
           | Inl err \<Rightarrow> (case AsStopError err of Some (reason, _) \<Rightarrow> reason
             | None \<Rightarrow> (case AsReferenceError err of Some fs \<Rightarrow> Reason fs | None \<Rightarrow> ReasonAPIError))),
         cond_Message = msg, cond_ObservedGeneration = meta_Generation (st_app s), cond_LastTransitionTime = 0 \<rparr> \<and>
    status_AdoptionDiff (sys_status s') =
      (case outcome of Inr _ \<Rightarrow> [] | Inl err \<Rightarrow> (case AsStopError err of
          Some (reason, _) \<Rightarrow> (if reason = ReasonAdoptionDiff then status_AdoptionDiff (sys_status s) else [])
        | None \<Rightarrow> [])) \<and>
    finish r outcome s = ((case p of
        Inl e \<Rightarrow> Inl (JoinError ((case outcome of Inl err \<Rightarrow> [err] | Inr _ \<Rightarrow> []) @ [e]))
      | Inr _ \<Rightarrow> (case outcome of Inr _ \<Rightarrow> Inr \<lparr> RequeueAfter = ResyncInterval r \<rparr>
          | Inl err \<Rightarrow> (if AsStopError err \<noteq> None then Inr \<lparr> RequeueAfter = ResyncInterval r \<rparr> else Inl err))), t)"
proof -
  obtain s' msg where run: "finish r outcome s = bindE (attempt (patchStatus r)) (\<lambda>patched. case patched of
         Inl patchErr \<Rightarrow> throwE (JoinError ((case outcome of Inl err \<Rightarrow> [err] | Inr _ \<Rightarrow> []) @ [patchErr]))
       | Inr _ \<Rightarrow> (case outcome of
             Inr _ \<Rightarrow> retE \<lparr> RequeueAfter = ResyncInterval r \<rparr>
           | Inl err \<Rightarrow>
               (if AsStopError err \<noteq> None then retE \<lparr> RequeueAfter = ResyncInterval r \<rparr> else throwE err))) s'"
    and s': "server s' = server s"
      "status_ObservedGeneration (sys_status s') = meta_Generation (st_app s)"
      "status_Conditions (sys_status s') = SetStatusCondition r (status_Conditions (sys_status s))
       \<lparr> cond_Type = ConditionTypeReady, cond_Status = (case outcome of Inr _ \<Rightarrow> True | Inl _ \<Rightarrow> False),
         cond_Reason = (case outcome of Inr _ \<Rightarrow> ReasonReconciled
           | Inl err \<Rightarrow> (case AsStopError err of Some (reason, _) \<Rightarrow> reason
             | None \<Rightarrow> (case AsReferenceError err of Some fs \<Rightarrow> Reason fs | None \<Rightarrow> ReasonAPIError))),
         cond_Message = msg, cond_ObservedGeneration = meta_Generation (st_app s), cond_LastTransitionTime = 0 \<rparr>"
      "status_AdoptionDiff (sys_status s') =
      (case outcome of Inr _ \<Rightarrow> [] | Inl err \<Rightarrow> (case AsStopError err of
          Some (reason, _) \<Rightarrow> (if reason = ReasonAdoptionDiff then status_AdoptionDiff (sys_status s) else [])
        | None \<Rightarrow> []))"
    by (rule finish_run)
  obtain p t where patch: "patchStatus r s' = (p, t)" by (metis surj_pair)
  have "finish r outcome s = ((case p of
        Inl e \<Rightarrow> Inl (JoinError ((case outcome of Inl err \<Rightarrow> [err] | Inr _ \<Rightarrow> []) @ [e]))
      | Inr _ \<Rightarrow> (case outcome of Inr _ \<Rightarrow> Inr \<lparr> RequeueAfter = ResyncInterval r \<rparr>
          | Inl err \<Rightarrow> (if AsStopError err \<noteq> None then Inr \<lparr> RequeueAfter = ResyncInterval r \<rparr> else Inl err))), t)"
    unfolding run bind_attempt [of "patchStatus r", OF patch]
    by (cases p; cases outcome) (auto simp: run_throw run_ret)
  with patch s' show ?thesis
    by - (rule exI [of _ s'], rule exI [of _ p], rule exI [of _ t], rule exI [of _ msg], intro conjI)
qed

section \<open>The ownership role is replaced\<close>

lemma role_kept_sys:
  fixes s t :: "(fake, 'k) sys"
  assumes "fake_mk.role_kept s t"
  shows "roleQueue t = roleQueue s" and "kube t = kube s" and "roleUUID s \<noteq> [] \<Longrightarrow> roleUUID t = roleUUID s"
  using assms by (cases s; cases t; auto simp: fake_mk.role_kept_def)+


end
