(* ===== verification/Access.thy ===== *)
theory Access
  imports Guards
begin

text \<open>
  Access control (\<open>internal/controller/bindings.go\<close>): the matching of bindings with rules, and what a
  reconcile of the bindings guarantees on the in-memory server: every rule has its binding, and nobody
  else has access but through a binding that is reported.
\<close>

section \<open>Matching\<close>

text \<open>The keys of the bindings that were matched so far.\<close>

fun pks :: "PolicyBinding option list \<Rightarrow> string list" where
  "pks [] = []"
| "pks (None # ms) = pks ms"
| "pks (Some b # ms) = bind_Pk b # pks ms"

text \<open>A binding that a rule may take: it has the subject, and in the first pass also the negation.\<close>

definition takes :: "bool \<Rightarrow> Rule \<Rightarrow> PolicyBinding \<Rightarrow> bool" where
  "takes exact rule b \<longleftrightarrow> observedSubject b = ruleSubject rule \<and> (exact \<longrightarrow> is_true (bind_Negate b) = rl_Negate rule)"

lemma assignable_takes: "assignable exact rule used b \<longleftrightarrow> bind_Pk b \<notin> set used \<and> takes exact rule b"
  by (auto simp: assignable_def takes_def)

text \<open>What one pass does to the match of one rule.\<close>

definition fits :: "bool \<Rightarrow> PolicyBinding list \<Rightarrow> string list \<Rightarrow> Rule \<Rightarrow> PolicyBinding option \<Rightarrow> PolicyBinding option \<Rightarrow> bool" where
  "fits exact bs used rule m m' \<longleftrightarrow> (case m of Some b \<Rightarrow> m' = Some b
     | None \<Rightarrow> (case m' of Some b \<Rightarrow> b \<in> set bs \<and> takes exact rule b
         | None \<Rightarrow> \<forall>b \<in> set bs. takes exact rule b \<longrightarrow> bind_Pk b \<in> set used))"

lemma fits_simps [simp]:
  "fits exact bs used rule (Some b) m' \<longleftrightarrow> m' = Some b"
  "fits exact bs used rule None (Some b) \<longleftrightarrow> b \<in> set bs \<and> takes exact rule b"
  "fits exact bs used rule None None \<longleftrightarrow> (\<forall>b \<in> set bs. takes exact rule b \<longrightarrow> bind_Pk b \<in> set used)"
  by (simp_all add: fits_def)

lemma assign_pass_spec:
  assumes "assign_pass exact bs rules ms used = (ms', used')" and "length ms = length rules"
    and "set (pks ms) \<subseteq> set used" and "distinct (pks ms)"
  shows "length ms' = length rules \<and> set used' = set used \<union> set (pks ms') \<and> set (pks ms') \<inter> set used = set (pks ms) \<and>
    distinct (pks ms') \<and>
    (\<forall>i < length rules. fits exact bs used' (rules ! i) (ms ! i) (ms' ! i))"
  using assms
proof (induction exact bs rules ms used arbitrary: ms' used' rule: assign_pass.induct)
  case (1 exact bs rule rules b ms used)
  obtain ms1 where r: "assign_pass exact bs rules ms used = (ms1, used')" "ms' = Some b # ms1"
    using "1.prems"(1) by (auto split: prod.splits)
  have prems: "length ms = length rules" "set (pks ms) \<subseteq> set used" "distinct (pks ms)" "bind_Pk b \<in> set used" "bind_Pk b \<notin> set (pks ms)"
    using "1.prems" by auto
  note ih = "1.IH" [OF r(1) prems(1-3)]
  have "bind_Pk b \<notin> set (pks ms1)" using ih prems(4,5) by blast
  then show ?case
    using ih prems unfolding r(2) by (auto simp: nth_Cons split: nat.split)
next
  case (2 exact bs rule rules ms used)
  have prems: "length ms = length rules" "set (pks ms) \<subseteq> set used" "distinct (pks ms)" using "2.prems" by auto
  show ?case
  proof (cases "List.find (assignable exact rule used) bs")
    case None
    then obtain ms1 where r: "assign_pass exact bs rules ms used = (ms1, used')" "ms' = None # ms1"
      using "2.prems"(1) by (auto split: prod.splits)
    note ih = "2.IH"(1) [OF None r(1) prems]
    have "bind_Pk b \<in> set used" if "b \<in> set bs" "takes exact rule b" for b
      using None that by (auto simp: find_None_iff assignable_takes)
    then show ?thesis using ih prems unfolding r(2) by (auto simp: nth_Cons split: nat.split)
  next
    case (Some b)
    then obtain ms1 where r: "assign_pass exact bs rules ms (bind_Pk b # used) = (ms1, used')" "ms' = Some b # ms1"
      using "2.prems"(1) by (auto split: prod.splits)
    have b: "b \<in> set bs" "bind_Pk b \<notin> set used" "takes exact rule b"
      using Some by (auto simp: find_Some_iff assignable_takes)
    have sub: "set (pks ms) \<subseteq> set (bind_Pk b # used)" using prems(2) by auto
    note ih = "2.IH"(2) [OF Some r(1) prems(1) sub prems(3)]
    have "bind_Pk b \<notin> set (pks ms1)" using ih b(2) prems(2) by auto
    then show ?thesis using ih prems b unfolding r(2) by (auto simp: nth_Cons split: nat.split)
  qed
qed auto

lemma pks_None: "pks (replicate n None) = []"
  by (induction n) auto

lemma matchBindings_spec:
  "length (matchBindings rules bs exactOnly) = length rules \<and> distinct (pks (matchBindings rules bs exactOnly)) \<and>
    (\<forall>i < length rules. case matchBindings rules bs exactOnly ! i of
        Some b \<Rightarrow> b \<in> set bs \<and> takes exactOnly (rules ! i) b
      | None \<Rightarrow> \<forall>b \<in> set bs. takes exactOnly (rules ! i) b \<longrightarrow> bind_Pk b \<in> set (pks (matchBindings rules bs exactOnly)))"
proof -
  obtain m1 u1 where p1: "assign_pass True bs rules (replicate (length rules) None) [] = (m1, u1)" by (metis surj_pair)
  obtain m2 u2 where p2: "assign_pass False bs rules m1 u1 = (m2, u2)" by (metis surj_pair)
  have s1: "length m1 = length rules" "set u1 = set (pks m1)" "distinct (pks m1)"
    "\<forall>i < length rules. fits True bs u1 (rules ! i) None (m1 ! i)"
    using assign_pass_spec [OF p1] by (auto simp: pks_None)
  have s2: "length m2 = length rules" "set u2 = set u1 \<union> set (pks m2)" "set (pks m2) \<inter> set u1 = set (pks m1)" "distinct (pks m2)"
    "\<forall>i < length rules. fits False bs u2 (rules ! i) (m1 ! i) (m2 ! i)"
    using assign_pass_spec [OF p2 s1(1) _ s1(3)] s1(2) by auto
  have m: "matchBindings rules bs exactOnly = (if exactOnly then m1 else m2)"
    by (simp add: matchBindings_def p1 p2)
  show ?thesis
  proof (cases exactOnly)
    case True
    have "case m1 ! i of Some b \<Rightarrow> b \<in> set bs \<and> takes True (rules ! i) b
      | None \<Rightarrow> \<forall>b \<in> set bs. takes True (rules ! i) b \<longrightarrow> bind_Pk b \<in> set (pks m1)" if "i < length rules" for i
      using s1(4) that s1(2) by (cases "m1 ! i") auto
    moreover have e: "exactOnly \<longleftrightarrow> True" "matchBindings rules bs True = m1" using True m by simp_all
    ultimately show ?thesis using s1(1,3) unfolding e by blast
  next
    case False
    have "case m2 ! i of Some b \<Rightarrow> b \<in> set bs \<and> takes False (rules ! i) b
      | None \<Rightarrow> \<forall>b \<in> set bs. takes False (rules ! i) b \<longrightarrow> bind_Pk b \<in> set (pks m2)" if i: "i < length rules" for i
    proof (cases "m1 ! i")
      case None
      with s2(5) i s2(2,3) s1(2) show ?thesis by (cases "m2 ! i") (auto dest!: spec [of _ i])
    next
      case (Some b)
      with s1(4) i have "b \<in> set bs" "takes True (rules ! i) b" by (auto dest!: spec [of _ i])
      moreover have "m2 ! i = Some b" using s2(5) i Some by (auto dest!: spec [of _ i])
      ultimately show ?thesis by (auto simp: takes_def)
    qed
    moreover have e: "exactOnly \<longleftrightarrow> False" "matchBindings rules bs False = m2" using False m by simp_all
    ultimately show ?thesis using s2(1,4) unfolding e by blast
  qed
qed

text \<open>
  C30: matching gives every rule at most one binding and no binding to two rules; a matched binding has
  the subject of its rule, and under \<open>exactOnly\<close> its negation; a rule is left without a binding only when
  every binding it could take was given to another rule.
\<close>

theorem matchBindings_correct:
  "length (matchBindings rules bs exactOnly) = length rules \<and> distinct (pks (matchBindings rules bs exactOnly)) \<and>
    (\<forall>i < length rules. case matchBindings rules bs exactOnly ! i of
        Some b \<Rightarrow> b \<in> set bs \<and> observedSubject b = ruleSubject (rules ! i) \<and>
          (exactOnly \<longrightarrow> is_true (bind_Negate b) = rl_Negate (rules ! i))
      | None \<Rightarrow> \<forall>b \<in> set bs. observedSubject b = ruleSubject (rules ! i) \<and>
          (exactOnly \<longrightarrow> is_true (bind_Negate b) = rl_Negate (rules ! i)) \<longrightarrow> bind_Pk b \<in> set (pks (matchBindings rules bs exactOnly)))"
  by (rule matchBindings_spec [unfolded takes_def])

section \<open>Fresh keys\<close>

text \<open>
  The server draws keys from a 32-bit sequence. \<open>room k\<close>: \<open>k\<close> more draws do not overflow it, and no
  binding has a key that is still to be drawn. \<open>draws n\<close>: a computation draws at most \<open>n\<close> times.
\<close>

definition room :: "nat \<Rightarrow> fake \<Rightarrow> bool" where
  "room k c \<longleftrightarrow> 0 \<le> fake_sequence c \<and> fake_sequence c + int k < 2 ^ 31 \<and>
     (\<forall>n. fake_sequence c < n \<and> n < 2 ^ 31 \<longrightarrow> map_of (fake_bindings c) (uuid_of n) = None)"

definition draws :: "nat \<Rightarrow> ('a \<Rightarrow> int) \<Rightarrow> 'a \<Rightarrow> 'a \<Rightarrow> bool" where
  "draws n f s t \<longleftrightarrow> (0 \<le> f s \<and> f s + int n < 2 ^ 31 \<longrightarrow> f s \<le> f t \<and> f t \<le> f s + int n)"

lemma draws_bind: "steps (draws a f) m \<Longrightarrow> (\<And>x. steps (draws b f) (k x)) \<Longrightarrow> steps (draws (a + b) f) (bindE m k)"
  by (intro stepsI) (fastforce simp: run_bind draws_def dest: stepsD split: prod.splits sum.splits)

lemma draws_then: "steps (draws a f) m \<Longrightarrow> steps (draws b f) k \<Longrightarrow> steps (draws (a + b) f) (thenE m k)"
  unfolding thenE_def by (rule draws_bind)

lemma draws_keeps: "keeps f m \<Longrightarrow> steps (draws n f) m"
  by (auto simp: steps_def same_def draws_def)

lemma draws_mono: "steps (draws a f) m \<Longrightarrow> a \<le> b \<Longrightarrow> steps (draws b f) m"
  by (fastforce simp: steps_def draws_def)

lemma draws_foldE: "(\<And>b x. steps (draws n f) (g b x)) \<Longrightarrow> steps (draws (n * length xs) f) (foldE xs g b)"
proof (induction xs arbitrary: b)
  case (Cons x xs)
  have "steps (draws (n + n * length xs) f) (foldE (x # xs) g b)" unfolding foldE.simps by (intro draws_bind Cons)
  then show ?case by simp
qed (simp add: draws_keeps frame_intros)

lemma draws_mapE: "(\<And>x. steps (draws n f) (g x)) \<Longrightarrow> steps (draws (n * length xs) f) (mapE xs g)"
proof (induction xs)
  case (Cons x xs)
  have "steps (draws (n + (n * length xs + 0)) f) (mapE (x # xs) g)"
    unfolding mapE.simps by (intro draws_bind Cons draws_keeps frame_intros)
  then show ?case by simp
qed (simp add: draws_keeps frame_intros)

abbreviation seq :: "(fake, 'z) marker_state_scheme \<Rightarrow> int" where
  "seq \<equiv> \<lambda>s. fake_sequence (server s)"

lemma draws_srv: "steps (draws n fake_sequence) m \<Longrightarrow> steps (draws n seq) (srv m)"
  by (simp add: steps_def draws_def run_srv case_prod_beta)

lemma draws_next: "steps (draws 1 fake_sequence) nextPK" "steps (draws 1 fake_sequence) nextUUID"
  by (auto simp: steps_def draws_def nextPK_def nextUUID_def Let_def run_bind run_ret int32_of_id)

lemma draws_pre: "keeps f m \<Longrightarrow> (\<And>x. steps (draws n f) (k x)) \<Longrightarrow> steps (draws n f) (bindE m k)"
  using draws_bind [of 0 f m n k, OF draws_keeps] by simp

lemma draws_post: "steps (draws n f) m \<Longrightarrow> (\<And>x. keeps f (k x)) \<Longrightarrow> steps (draws n f) (bindE m k)"
  using draws_bind [of n f m 0 k] draws_keeps by fastforce

lemma draws_attempt: "steps R m \<Longrightarrow> steps R (attempt m)" "steps R m \<Longrightarrow> steps R (wrapE msg m)"
  by (auto simp: steps_def run_simps case_prod_beta split: sum.split)

lemma draws_rbac:
  "steps (draws 1 fake_sequence) (fake_CreateRole n)"
  "steps (draws 1 fake_sequence) (fake_AssignObjectPermission role m pk perm)"
  by (auto simp: steps_def draws_def fake_CreateRole_def fake_AssignObjectPermission_def Let_def run_if run_bind run_then
      run_ret run_throw run_modify nextUUID_def nextPK_def int32_of_id)

lemma seq_reads: "pure m \<Longrightarrow> keeps seq (srv m)"
  by (rule pure_keeps, rule keeps_srv_pure)

lemma keeps_findRole: "keeps seq (findRole (fake_marker n))"
  unfolding findRole_def fake_marker_def Marker.select_convs
  by (intro frame_intros seq_reads fake.pure_reads)

lemma draws_EnsureRole: "steps (draws 1 seq) (EnsureRole (fake_marker n))"
proof -
  have "steps (draws 1 seq) (attempt (srv (CreateRole (marker_client (fake_marker n)) (marker_roleName (fake_marker n)))))"
    unfolding fake_marker_def Marker.select_convs fake_client_simps by (intro draws_attempt draws_srv draws_rbac)
  then have "steps (draws 1 seq) (findOrCreateRole (fake_marker n))"
    unfolding findOrCreateRole_def
    by (intro draws_pre [OF keeps_findRole] steps_case_option draws_post)
      (assumption | intro draws_keeps frame_intros keeps_findRole)+
  then show ?thesis unfolding EnsureRole_def by (rule draws_post) (intro frame_intros; simp)
qed

lemma draws_marker_role: "steps (draws 1 seq) (marker_role (fake_marker n))"
  unfolding marker_role_def
  by (intro draws_pre steps_if draws_post [OF draws_EnsureRole] frame_intros) (simp_all add: draws_keeps frame_intros)

lemma draws_ListManaged: "steps (draws 1 seq) (ListManaged (fake_marker n))"
  unfolding ListManaged_def
  by (rule draws_post [OF draws_marker_role])
    (unfold fake_marker_def Marker.select_convs, intro frame_intros seq_reads fake.pure_reads)

lemma draws_Mark: "steps (draws 2 seq) (Mark (fake_marker n) ob)"
proof -
  have "steps (draws 1 seq) (wrapE msg (srv (AssignObjectPermission (marker_client (fake_marker n)) role m pk perm)))"
    for msg role m pk perm
    unfolding fake_marker_def Marker.select_convs fake_client_simps by (intro draws_attempt draws_srv draws_rbac)
  then have "steps (draws (1 + 1) seq) (Mark (fake_marker n) ob)"
    unfolding Mark_def by (intro draws_bind draws_marker_role)
  then show ?thesis by (simp only: one_add_one)
qed

lemma draws_refresh: "steps (draws 2 seq) (refreshLocked (markers (on_fake r)))"
proof -
  have hook: "server (cache_onRoleRecreated (markers (on_fake r)) s) = server s" for s
    using requeueAll_frame [of "on_fake r" s] by (simp add: markers_def cache_state.defs)
  let ?list = "bindE (ListManaged (fake_marker (ownerRoleName r))) (\<lambda>listed. thenE (modifyE (\<lambda>s :: (fake, 'a) sys. s\<lparr>objects := Some listed\<rparr>))
        (bindE (\<lambda>s. (Inr (clock s (ticks s)), s\<lparr>ticks := Suc (ticks s)\<rparr>)) (\<lambda>now. modifyE (\<lambda>s. s\<lparr>fetched := now\<rparr>))))"
  have now: "keeps seq (\<lambda>s. (Inr (clock s (ticks s)), s\<lparr>ticks := Suc (ticks s)\<rparr>))"
    by (simp add: steps_def same_def)
  have l: "steps (draws 1 seq) ?list"
    by (rule draws_post [OF draws_ListManaged]) (intro frame_intros now; simp)
  have "steps (draws 1 seq) (thenE (if previous \<noteq> [] \<and> previous \<noteq> uuid then modifyE (cache_onRoleRecreated (markers (on_fake r)))
      else retE ()) ?list)" for uuid previous :: string
    unfolding thenE_def [of "if _ then _ else _"] by (rule draws_pre [OF _ l]) (intro frame_intros; simp add: hook)
  then have "steps (draws (1 + 1) seq) (bindE (EnsureRole (fake_marker (ownerRoleName r))) (\<lambda>(uuid, previous).
      thenE (if previous \<noteq> [] \<and> previous \<noteq> uuid then modifyE (cache_onRoleRecreated (markers (on_fake r)))
      else retE ()) ?list))"
    by (intro draws_bind [OF draws_EnsureRole] steps_case_prod)
  then show ?thesis
    unfolding refreshLocked_def marker_of_fake nowE_def one_add_one
    by (intro draws_pre [OF keeps.steps_read] draws_pre [OF _ steps_if] draws_keeps [OF keeps.steps_ret])
      (intro frame_intros now)
qed

lemma draws_contains: "steps (draws 4 seq) (cache_contains (markers (on_fake r)) ob)"
  unfolding cache_contains_def thenE_def
  by (rule draws_mono [OF draws_post [OF draws_refresh]]) (auto intro: frame_intros)

lemma draws_ensure: "steps (draws 4 seq) (cache_ensure (markers (on_fake r)) ob)"
proof -
  have mark: "steps (draws 2 seq) (thenE (Mark (fake_marker (ownerRoleName r)) ob) (addObject ob))"
    unfolding thenE_def by (rule draws_post [OF draws_Mark]) (unfold addObject_def, intro frame_intros; simp)
  have "steps (draws (2 + 2) seq) (cache_ensure (markers (on_fake r)) ob)"
    unfolding cache_ensure_def marker_of_fake
    by (intro draws_then [OF draws_refresh] draws_pre [OF keeps.steps_read] steps_if draws_keeps [OF keeps.steps_ret] mark)
  then show ?thesis by simp
qed

text \<open>What the loops over the bindings need of a step that only writes markers.\<close>

lemma room_after:
  assumes "steps (draws n seq) m" and "keeps (\<lambda>s. not_rbac (server s)) m" and "m s = (x, t)" and "room (k + n) (server s)"
  shows "room k (server t)"
proof -
  have "fake_bindings (server t) = fake_bindings (server s)"
    using not_rbac_simps(4) [OF keepsD [OF assms(2,3)]] .
  with stepsD [OF assms(1,3)] assms(4) show ?thesis by (simp add: room_def draws_def)
qed

lemma keeps_st_resolved:
  "keeps st_resolved (cache_contains (markers (on_fake r)) ob)" "keeps st_resolved (cache_ensure (markers (on_fake r)) ob)"
proof -
  have hook: "st_resolved (requeueAll (on_fake r) s) = st_resolved s" for s
    by (simp add: requeueAll_def split: prod.split sum.split)
  have srv: "keeps st_resolved (srv m)" for m :: "(fake, goerror, 'b) go"
    by (simp add: steps_def same_def run_srv case_prod_beta)
  show "keeps st_resolved (cache_contains (markers (on_fake r)) ob)" "keeps st_resolved (cache_ensure (markers (on_fake r)) ob)"
    unfolding cache_contains_def cache_ensure_def refreshLocked_def addObject_def nowE_def EnsureRole_def findOrCreateRole_def
      findRole_def marker_role_def Mark_def ListManaged_def markers_def markerCacheOn.select_convs
    by (intro frame_intros srv; simp add: hook steps_def same_def)+
qed

section \<open>The managed bindings\<close>

lemma managedBindings_steps:
  "steps (draws (4 * length existing) seq) (managedBindings (on_fake r) existing)"
  "keeps (\<lambda>s. not_rbac (server s)) (managedBindings (on_fake r) existing)"
  "keeps st_resolved (managedBindings (on_fake r) existing)"
proof -
  show "steps (draws (4 * length existing) seq) (managedBindings (on_fake r) existing)"
    unfolding managedBindings_def Let_def thenE_def
    by (intro draws_foldE steps_case_prod draws_pre [OF keeps.steps_read] steps_if draws_post [OF draws_ensure]
        draws_post [OF draws_contains] frame_intros)
  show "keeps (\<lambda>s. not_rbac (server s)) (managedBindings (on_fake r) existing)"
    unfolding managedBindings_def Let_def by (intro server_intros)
  show "keeps st_resolved (managedBindings (on_fake r) existing)"
    unfolding managedBindings_def Let_def by (intro frame_intros keeps_st_resolved)
qed

lemma yields_foldE:
  assumes "P [] b" and "\<And>xs b x. P xs b \<Longrightarrow> yields (P (xs @ [x])) (f b x)"
  shows "yields (P xs) (foldE xs f b)"
proof -
  have "yields (P (ys @ xs)) (foldE xs f b)" if "P ys b" for ys
    using that
  proof (induction xs arbitrary: ys b)
    case (Cons x xs)
    have "yields (P ((ys @ [x]) @ xs)) (bindE (f b x) (foldE xs f))"
      by (rule yields_bind [OF assms(2) [OF Cons.prems]]) (rule Cons.IH)
    then show ?case by simp
  qed (simp add: yields_ret)
  from this [of "[]"] assms(1) show ?thesis by simp
qed

lemma managedBindings_order:
  "yields (\<lambda>(managed, unmanaged, mo). mo = fold (\<lambda>b o'. max o' (bind_Order b)) existing 0) (managedBindings r existing)"
proof -
  let ?P = "\<lambda>xs (managed :: PolicyBinding list, unmanaged :: PolicyBinding list, mo). mo = fold (\<lambda>b o'. max o' (bind_Order b)) xs 0"
  have "yields (?P (xs @ [x])) ((\<lambda>(managed, unmanaged, maxOrder) binding.
       bindE (readE sys_status) (\<lambda>st.
       if bind_Pk binding \<in> set (status_BindingUUIDs st)
       then thenE (cache_ensure (markers r) (bindingObject (bind_Pk binding)))
         (retE (managed @ [binding], unmanaged, max maxOrder (bind_Order binding)))
       else bindE (cache_contains (markers r) (bindingObject (bind_Pk binding))) (\<lambda>marked.
         retE (if marked then (managed @ [binding], unmanaged, max maxOrder (bind_Order binding))
               else (managed, unmanaged @ [binding], max maxOrder (bind_Order binding)))))) b x)" if "?P xs b" for xs b x
    using that by (cases b) (auto intro!: yield_intros split: if_splits)
  from yields_foldE [where P = ?P, OF _ this, of "([], [], 0)"] show ?thesis
    unfolding managedBindings_def Let_def by simp
qed

lemma managedBindings_result:
  "yields (\<lambda>(managed, unmanaged, _). set managed \<union> set unmanaged = set existing \<and>
     (distinct (map bind_Pk existing) \<longrightarrow> distinct (map bind_Pk (managed @ unmanaged)))) (managedBindings r existing)"
proof -
  let ?P = "\<lambda>xs (managed, unmanaged, _ :: int). set managed \<union> set unmanaged = set xs \<and>
     (distinct (map bind_Pk xs) \<longrightarrow> distinct (map bind_Pk (managed @ unmanaged)))"
  have "yields (?P (xs @ [x])) ((\<lambda>(managed, unmanaged, maxOrder) binding.
       bindE (readE sys_status) (\<lambda>st.
       if bind_Pk binding \<in> set (status_BindingUUIDs st)
       then thenE (cache_ensure (markers r) (bindingObject (bind_Pk binding)))
         (retE (managed @ [binding], unmanaged, max maxOrder (bind_Order binding)))
       else bindE (cache_contains (markers r) (bindingObject (bind_Pk binding))) (\<lambda>marked.
         retE (if marked then (managed @ [binding], unmanaged, max maxOrder (bind_Order binding))
               else (managed, unmanaged @ [binding], max maxOrder (bind_Order binding)))))) b x)" if "?P xs b" for xs b x
  proof -
    obtain m u mo where b: "b = (m, u, mo)" by (cases b)
    have P: "?P (xs @ [x]) (m @ [x], u, mo')" "?P (xs @ [x]) (m, u @ [x], mo')" for mo'
      using that unfolding b by auto
    show ?thesis unfolding b prod.case by (intro yield_intros) (use P in \<open>auto simp only: split: if_split\<close>)
  qed
  from yields_foldE [where P = ?P, OF _ this, of "([], [], 0)"] show ?thesis
    unfolding managedBindings_def Let_def by simp
qed

lemma adoptBindings_result:
  "yields (\<lambda>ms. ms = map (\<lambda>(m, c). if m = None then c else m) (zip matched candidates)) (adoptBindings r matched candidates)"
  unfolding adoptBindings_def
  by (rule yields_mapE) (auto intro!: yield_intros split: option.split)

lemma adoptBindings_steps:
  "steps (draws (4 * length (zip matched candidates)) seq) (adoptBindings (on_fake r) matched candidates)"
  "keeps (\<lambda>s. not_rbac (server s)) (adoptBindings (on_fake r) matched candidates)"
proof -
  show "steps (draws (4 * length (zip matched candidates)) seq) (adoptBindings (on_fake r) matched candidates)"
    unfolding adoptBindings_def thenE_def
    by (intro draws_mapE steps_case_prod steps_case_option draws_keeps [OF keeps.steps_ret] draws_post [OF draws_ensure] frame_intros)
  show "keeps (\<lambda>s. not_rbac (server s)) (adoptBindings (on_fake r) matched candidates)"
    unfolding adoptBindings_def by (intro server_intros)
qed

lemma fold_max:
  fixes o0 :: int
  shows "o0 \<le> fold (\<lambda>b o'. max o' (bind_Order b)) bs o0" "b \<in> set bs \<Longrightarrow> bind_Order b \<le> fold (\<lambda>b o'. max o' (bind_Order b)) bs o0"
    "(\<And>b. b \<in> set bs \<Longrightarrow> bind_Order b < n) \<Longrightarrow> o0 < n \<Longrightarrow> fold (\<lambda>b o'. max o' (bind_Order b)) bs o0 < n"
proof (induction bs arbitrary: o0)
  case (Cons x bs)
  { case 1 show ?case using Cons.IH(1) [of "max o0 (bind_Order x)"] by simp }
  { case 2 then show ?case using Cons.IH(1,2) [of "max o0 (bind_Order x)"] by auto }
  { case 3 then show ?case using Cons.IH(3) [of "max o0 (bind_Order x)"] by simp }
qed simp_all


section \<open>Creating and repairing bindings\<close>

lemma digits_zeros: "digits_val 0 (replicate k (CHR ''0'') @ ds) = digits_val 0 ds"
proof (induction k)
  case (Suc k)
  have "digit (CHR ''0'') = Some 0" by (simp add: digit_def)
  with Suc show ?case by simp
qed simp

lemma uuid_of_inj:
  assumes "uuid_of n = uuid_of m" and "0 \<le> n" and "0 \<le> m"
  shows "n = m"
proof -
  have "digits_val 0 (pad12 i) = Some (nat i)" if "0 \<le> i" for i
    using that by (simp add: pad12_def digits_zeros digits_val_nat_str)
  with assms have "Some (nat n) = Some (nat m)" by (metis uuid_of_def append_same_eq same_append_eq)
  with assms(2,3) show ?thesis by simp
qed

lemma checkBindingSubject_pure: "checkBindingSubject op p g u c = (x, c') \<Longrightarrow> c' = c"
  by (rule pureD [OF pure_checks(3)])

definition stored :: "(fake, 'z) marker_state_scheme \<Rightarrow> string \<Rightarrow> PolicyBinding option" where
  "stored s = map_of (fake_bindings (server s))"

lemma stored_same: "not_rbac (server t) = not_rbac (server s) \<Longrightarrow> stored t = stored s"
  unfolding stored_def by (drule not_rbac_simps(4)) simp

lemma run_syncBinding:
  assumes "syncBinding (on_fake r) d b s = (Inr u, t)" and "stored s (bind_Pk b) = Some b"
  shows "\<exists>y. stored t = (stored s)(bind_Pk b \<mapsto> y) \<and> binding_match d y \<and> fake_sequence (server t) = fake_sequence (server s)"
proof (cases "DiffPolicyBinding d b")
  case None
  with assms show ?thesis
    using map_upd_triv [of "stored s", OF assms(2)]
    by (intro exI [of _ b]) (auto simp: syncBinding_def run_ret DiffPolicyBinding_None)
next
  case (Some patch)
  then obtain y c where p: "fake_PatchPolicyBinding (bind_Pk b) patch (server s) = (Inr y, c)" "t = s\<lparr>server := c\<rparr>"
    using assms(1) by (auto simp: syncBinding_def run_then run_ret run_srv split: prod.splits sum.splits)
  have "y = applyBindingPatch patch b \<and> map_of (fake_bindings c) = (map_of (fake_bindings (server s)))(bind_Pk b \<mapsto> y) \<and>
      fake_sequence c = fake_sequence (server s)"
    using p(1) assms(2)
    by (auto simp: fake_PatchPolicyBinding_def stored_def run_bind run_then run_lookup run_throw run_ret run_if run_modify Let_def
        AList.update_conv' dest!: checkBindingSubject_pure split: option.splits sum.splits prod.splits if_splits)
  with p(2) binding_repair.repaired [OF Some TrueI] show ?thesis by (auto simp: stored_def)
qed

lemma run_CreatePolicyBinding:
  assumes "fake_CreatePolicyBinding (createBindingRequest (desiredBinding target rule) order) c = (Inr b, c')"
  shows "bind_Pk b = uuid_of (int32_of (fake_sequence c + 1)) \<and> fake_sequence c' = int32_of (fake_sequence c + 1) \<and>
    map_of (fake_bindings c') = (map_of (fake_bindings c))(bind_Pk b \<mapsto> b) \<and> binding_match (desiredBinding target rule) b"
  using assms
  by (auto simp: fake_CreatePolicyBinding_def run_simps nextPK_def nextUUID_def Let_def createBindingRequest_def
      desiredBinding_def binding_match_def want_defs AList.update_conv' dest!: checkBindingSubject_pure
      split: if_splits sum.splits prod.splits)

lemma run_createBinding:
  assumes "createBinding (on_fake r) (desiredBinding target rule) order s = (Inr uuid, t)" and "room (k + 5) (server s)"
  shows "stored s uuid = None \<and> (\<exists>b. stored t = (stored s)(uuid \<mapsto> b) \<and> binding_match (desiredBinding target rule) b) \<and>
    room k (server t)"
proof -
  let ?tail = "\<lambda>created. thenE (updStatus (\<lambda>st. st\<lparr>status_BindingUUIDs := union_string (status_BindingUUIDs st) (bind_Pk created)\<rparr>))
     (thenE (patchStatus (on_fake r))
     (thenE (cache_ensure (markers (on_fake r)) (bindingObject (bind_Pk created)))
     (retE (bind_Pk created))))"
  have same: "keeps (\<lambda>s. not_rbac (server s)) (?tail created)" for created by (intro server_intros)
  have seq: "steps (draws 4 seq) (?tail created)" for created
    unfolding thenE_def by (intro draws_pre draws_post [OF draws_ensure] server_intros)
  have val: "yields (\<lambda>u. u = bind_Pk created) (?tail created)" for created by (intro yield_intros) simp
  obtain b s1 where run: "srv (fake_CreatePolicyBinding (createBindingRequest (desiredBinding target rule) order)) s = (Inr b, s1)"
    and t: "?tail b s1 = (Inr uuid, t)"
    using assms(1) unfolding createBinding_def Authentik_on_fake fake_client_simps by (rule bind_InrE)
  then obtain c where c: "fake_CreatePolicyBinding (createBindingRequest (desiredBinding target rule) order) (server s) = (Inr b, c)"
    "s1 = s\<lparr>server := c\<rparr>" by (auto elim: srv_InrE)
  note b = run_CreatePolicyBinding [OF c(1)]
  have u: "uuid = bind_Pk b" using yieldsD [OF val t] .
  have small: "int32_of (fake_sequence (server s) + 1) = fake_sequence (server s) + 1"
    using assms(2) by (intro int32_of_id) (auto simp: room_def)
  have new: "stored s uuid = None" using assms(2) b small by (auto simp: room_def stored_def u)
  have "room (k + 4) (server s1)"
    using assms(2) b small c(2) unfolding room_def u by (auto split: if_splits dest!: uuid_of_inj)
  then have "room k (server t)" by (rule room_after [OF seq same t])
  moreover have "stored t = (stored s)(uuid \<mapsto> b)"
    using stored_same [OF keepsD [OF same t]] b c(2) by (simp add: stored_def u)
  ultimately show ?thesis using new b by auto
qed

text \<open>
  The loop over the rules: each rule has its binding afterwards, a matched one or a new one, and no
  other binding has changed.
\<close>

definition new_key :: "(string \<Rightarrow> PolicyBinding option) \<Rightarrow> PolicyBinding option \<Rightarrow> string \<Rightarrow> bool" where
  "new_key before m u \<longleftrightarrow> (case m of Some b \<Rightarrow> u = bind_Pk b | None \<Rightarrow> before u = None)"

lemma run_applyRules:
  assumes "foldE (zip rules matched) (applyRule (on_fake r) target) (kept, mo) s = (Inr (kept', mo'), t)"
    and "length matched = length rules" and "distinct (pks matched)"
    and "\<And>b. Some b \<in> set matched \<Longrightarrow> stored s (bind_Pk b) = Some b"
    and "room (5 * length rules) (server s)"
  shows "\<exists>new. kept' = kept @ new \<and> length new = length rules \<and> list_all2 (new_key (stored s)) matched new \<and>
    (\<forall>i < length rules. \<exists>b. stored t (new ! i) = Some b \<and> binding_match (desiredBinding target (rules ! i)) b) \<and>
    (\<forall>u. u \<notin> set new \<longrightarrow> stored t u = stored s u) \<and> distinct new"
  using assms
proof (induction rules arbitrary: matched kept mo s)
  case Nil
  then show ?case by (simp add: run_ret)
next
  case (Cons rule rules)
  then obtain m ms where ms: "matched = m # ms" "length ms = length rules" by (cases matched) auto
  from Cons.prems(1) obtain kept1 mo1 s1 where first: "applyRule (on_fake r) target (kept, mo) (rule, m) s = (Inr (kept1, mo1), s1)"
    and rest: "foldE (zip rules ms) (applyRule (on_fake r) target) (kept1, mo1) s1 = (Inr (kept', mo'), t)"
    unfolding ms(1) zip_Cons_Cons foldE.simps by (auto elim!: bind_InrE)
  have "\<exists>u y. kept1 = kept @ [u] \<and> new_key (stored s) m u \<and> stored s1 = (stored s)(u \<mapsto> y) \<and>
      binding_match (desiredBinding target rule) y \<and> room (5 * length rules) (server s1)"
  proof (cases m)
    case (Some b)
    then obtain w where sync: "syncBinding (on_fake r) (desiredBinding target rule) b s = (Inr w, s1)" "kept1 = kept @ [bind_Pk b]"
      using first by (auto simp: applyRule_def Let_def run_then run_ret split: sum.splits prod.splits)
    have st: "stored s (bind_Pk b) = Some b" using Cons.prems(4) Some ms by simp
    obtain y where y: "stored s1 = (stored s)(bind_Pk b \<mapsto> y)" "binding_match (desiredBinding target rule) y"
      "fake_sequence (server s1) = fake_sequence (server s)"
      using run_syncBinding [OF sync(1) st] by blast
    have "room (5 * length rules) (server s1)"
      using Cons.prems(5) y(1,3) st by (auto simp: room_def stored_def)
    with sync y Some show ?thesis by (auto simp: new_key_def)
  next
    case None
    then obtain u where create: "createBinding (on_fake r) (desiredBinding target rule) (int32_of (mo + orderStep)) s = (Inr u, s1)"
      "kept1 = kept @ [u]"
      using first by (auto simp: applyRule_def Let_def run_bind run_ret split: sum.splits prod.splits)
    have "room (5 * length rules + 5) (server s)" using Cons.prems(5) by (simp add: room_def)
    from run_createBinding [OF create(1) this] create(2) None show ?thesis by (auto simp: new_key_def)
  qed
  then obtain u y where u: "kept1 = kept @ [u]" "new_key (stored s) m u" "stored s1 = (stored s)(u \<mapsto> y)"
    "binding_match (desiredBinding target rule) y" "room (5 * length rules) (server s1)" by blast
  have dist: "distinct (pks ms)" using Cons.prems(3) unfolding ms(1) by (cases m) auto
  have other: "bind_Pk b \<noteq> u" "stored s (bind_Pk b) = Some b" if "Some b \<in> set ms" for b
  proof -
    show st: "stored s (bind_Pk b) = Some b" using Cons.prems(4) that ms by simp
    have "bind_Pk b \<in> set (pks ms)" using that by (induction ms rule: pks.induct) auto
    then show "bind_Pk b \<noteq> u" using Cons.prems(3) u(2) st unfolding ms(1) by (cases m) (auto simp: new_key_def)
  qed
  have stored1: "stored s1 (bind_Pk b) = Some b" if "Some b \<in> set ms" for b
    using other [OF that] u(3) by simp
  obtain new where new: "kept' = kept1 @ new" "length new = length rules" "list_all2 (new_key (stored s1)) ms new"
    "\<forall>i < length rules. \<exists>b. stored t (new ! i) = Some b \<and> binding_match (desiredBinding target (rules ! i)) b"
    "\<forall>u. u \<notin> set new \<longrightarrow> stored t u = stored s1 u" "distinct new"
    using Cons.IH [OF rest ms(2) dist stored1 u(5)] by blast
  have key: "v \<noteq> u \<and> new_key (stored s) m' v" if "(m', v) \<in> set (zip ms new)" for m' v
  proof -
    have "new_key (stored s1) m' v" using new(3) that by (auto simp: list_all2_iff)
    moreover have "m' \<in> set ms" using that by (rule set_zip_leftD)
    ultimately show ?thesis using other u(3) by (cases m') (auto simp: new_key_def split: if_splits)
  qed
  have "u \<notin> set new"
  proof
    assume "u \<in> set new"
    then obtain m' where "(m', u) \<in> set (zip ms new)" using ms(2) new(2) by (metis in_set_impl_in_set_zip2)
    with key show False by blast
  qed
  then have "stored t u = Some y" using new(5) u(3) by simp
  moreover have "list_all2 (new_key (stored s)) matched (u # new)"
    using u(2) key new(2) ms by (auto simp: list_all2_iff)
  ultimately show ?case
    using u new \<open>u \<notin> set new\<close> by (intro exI [of _ "u # new"]) (auto simp: nth_Cons split: nat.split)
qed

section \<open>Deleting bindings\<close>

lemma run_deletions:
  assumes "forE bs f s = (Inr (), t)"
    and "\<And>b s t. f b s = (Inr (), t) \<Longrightarrow> stored t = (stored s)(bind_Pk b := None)"
  shows "stored t u = (if u \<in> bind_Pk ` set bs then None else stored s u)"
  using assms(1)
proof (induction bs arbitrary: s)
  case (Cons b bs)
  then obtain s1 where r: "f b s = (Inr (), s1)" "forE bs f s1 = (Inr (), t)"
    by (auto elim: then_InrE)
  from Cons.IH [OF r(2)] assms(2) [OF r(1)] show ?case by auto
qed (simp add: run_ret)

lemma stored_deletion: "ignoreNotFound (srv (fake_DeletePolicyBinding u)) s = (Inr (), t) \<Longrightarrow> stored t = (stored s)(u := None)"
  unfolding run_DeletePolicyBinding stored_def by (auto simp: AList.delete_conv')

lemma run_deleteBinding:
  assumes "deleteBinding (on_fake r) u s = (Inr (), t)"
  shows "stored t = (stored s)(u := None)"
proof -
  obtain s1 where d: "ignoreNotFound (srv (fake_DeletePolicyBinding u)) s = (Inr (), s1)"
    and m: "cache_remove (markers (on_fake r)) (bindingObject u) s1 = (Inr (), t)"
    using assms unfolding deleteBinding_def Authentik_on_fake fake_client_simps by (rule then_InrE) auto
  have "not_rbac (server t) = not_rbac (server s1)"
    using keepsD [OF not_rbac_cache(4) m] by simp
  from stored_same [OF this] stored_deletion [OF d] show ?thesis by simp
qed

lemma report_result: "yields (\<lambda>reported. map unmanaged_UUID reported = map bind_Pk bs) (reportUnmanaged r bs)"
proof -
  have "yields (\<lambda>ys. map unmanaged_UUID ys = map bind_Pk xs) (mapE xs (\<lambda>binding. bindE (describeSubject r binding) (\<lambda>target.
       retE \<lparr> unmanaged_UUID = bind_Pk binding, unmanaged_Target = target \<rparr>)))" for xs
  proof (induction xs)
    case (Cons x xs)
    have "yields (\<lambda>y. unmanaged_UUID y = bind_Pk x) (bindE (describeSubject r x) (\<lambda>target.
       retE \<lparr> unmanaged_UUID = bind_Pk x, unmanaged_Target = target \<rparr>))" by (intro yield_intros) simp
    note hd = yields_bind [OF this] and tl = yields_bind [OF Cons.IH]
    show ?case unfolding mapE.simps by (rule hd, rule tl, rule yields_ret) simp
  qed (simp add: yields_ret)
  then show ?thesis unfolding reportUnmanaged_def .
qed

lemma report_reads: "keeps (\<lambda>s. (server s, st_app s)) (reportUnmanaged (on_fake r) bs)"
proof -
  have reads: "pure m \<Longrightarrow> keeps (\<lambda>s. (server s, st_app s)) (srv m)" for m :: "(fake, goerror, 'b) go"
    by (rule pure_keeps, rule keeps_srv_pure)
  show ?thesis
    unfolding reportUnmanaged_def describeSubject_def Let_def Authentik_on_fake
    by (intro frame_intros reads fake.pure_reads)
qed

lemma run_handleUnmanaged:
  assumes "handleUnmanagedBindings (on_fake r) bs s = (Inr (), t)"
  defines "reported \<equiv> map unmanaged_UUID (status_UnmanagedBindings (sys_status t))"
    and "prune \<equiv> is_true (access_Prune (spec_Access (sys_spec t)))"
  shows "stored t u = (if prune \<and> u \<in> bind_Pk ` set bs then None else stored s u)"
    and "reported = (if prune then [] else map bind_Pk bs)"
    and "is_true (access_Public (spec_Access (sys_spec t))) \<Longrightarrow> reported = []"
proof -
  let ?access = "spec_Access (sys_spec s)"
  let ?left = "if is_true (access_Prune ?access)
      then thenE (forE bs (\<lambda>binding. ignoreNotFound (srv (fake_DeletePolicyBinding (bind_Pk binding))))) (retE []) else retE bs"
  let ?rest = "\<lambda>reported. thenE (updStatus (\<lambda>st. st\<lparr>status_UnmanagedBindings := reported\<rparr>))
     (if reported = [] then removeCondition (on_fake r) ConditionTypeUnmanagedBindings
      else if is_true (access_Public ?access)
      then thenE (removeCondition (on_fake r) ConditionTypeUnmanagedBindings)
             (throwE (StopError ReasonUnmanagedBindings (unmanagedBindingsMessage reported
               @ '' keep the Application from being public; set access.prune or delete them'')))
      else setCondition (on_fake r) ConditionTypeUnmanagedBindings True ReasonUnmanagedBindings
             (unmanagedBindingsMessage reported))"
  have "bindE ?left (\<lambda>left. bindE (reportUnmanaged (on_fake r) left) ?rest) s = (Inr (), t)"
    using assms(1) by (simp only: handleUnmanagedBindings_def bind_read comp_def Authentik_on_fake fake_client_simps)
  then obtain left s1 rep s2 where l: "?left s = (Inr left, s1)" and rp: "reportUnmanaged (on_fake r) left s1 = (Inr rep, s2)"
    and rest: "?rest rep s2 = (Inr (), t)"
    by (auto elim!: bind_InrE)
  have left: "left = (if is_true (access_Prune ?access) then [] else bs)" "st_app s1 = st_app s"
    "stored s1 u = (if is_true (access_Prune ?access) \<and> u \<in> bind_Pk ` set bs then None else stored s u)"
  proof -
    have app: "keeps st_app (forE bs (\<lambda>binding. ignoreNotFound (srv (fake_DeletePolicyBinding (bind_Pk binding)))))"
      by (intro frame_intros) (simp add: steps_def same_def run_srv case_prod_beta)
    note del = run_deletions [of bs "\<lambda>binding. ignoreNotFound (srv (fake_DeletePolicyBinding (bind_Pk binding)))",
        OF _ stored_deletion]
    have "left = (if is_true (access_Prune ?access) then [] else bs) \<and> st_app s1 = st_app s \<and>
      stored s1 u = (if is_true (access_Prune ?access) \<and> u \<in> bind_Pk ` set bs then None else stored s u)"
    proof (cases "is_true (access_Prune ?access)")
      case True
      with l have f: "forE bs (\<lambda>binding. ignoreNotFound (srv (fake_DeletePolicyBinding (bind_Pk binding)))) s = (Inr (), s1)"
        "left = []" by (auto simp: run_ret elim!: then_InrE)
      with True del [OF f(1)] keepsD [OF app f(1)] show ?thesis by simp
    qed (use l in \<open>simp add: run_ret\<close>)
    then show "left = (if is_true (access_Prune ?access) then [] else bs)" "st_app s1 = st_app s"
      "stored s1 u = (if is_true (access_Prune ?access) \<and> u \<in> bind_Pk ` set bs then None else stored s u)" by simp_all
  qed
  have rep: "map unmanaged_UUID rep = map bind_Pk left" using yieldsD [OF report_result rp] .
  have s2: "server s2 = server s1" "st_app s2 = st_app s1" using keepsD [OF report_reads rp] by simp_all
  have t: "server t = server s2" "sys_spec t = sys_spec s2" "status_UnmanagedBindings (sys_status t) = rep"
    "is_true (access_Public ?access) \<longrightarrow> rep = []"
    using rest
    by (auto simp: run_then updStatus_def run_modify removeCondition_def setCondition_def bind_read Let_def Eventf_def
        run_throw run_ret sys_spec_def sys_status_def split: if_splits)
  have spec: "sys_spec t = sys_spec s" using t(2) s2(2) left(2) by (simp add: sys_spec_def)
  show "stored t u = (if prune \<and> u \<in> bind_Pk ` set bs then None else stored s u)"
    using left(3) t(1) s2(1) spec by (simp add: prune_def stored_def)
  show "reported = (if prune then [] else map bind_Pk bs)"
    unfolding reported_def prune_def spec t(3) rep left(1) by simp
  show "is_true (access_Public (spec_Access (sys_spec t))) \<Longrightarrow> reported = []"
    unfolding reported_def spec t(3) using t(4) by simp
qed

section \<open>The access that a reconcile leaves\<close>

lemma findAll_keys:
  assumes "wf_map key m"
  shows "set (findAll m P) = {v. map_of m (key v) = Some v \<and> P v}" and "distinct (map key (findAll m P))"
proof -
  have keyed: "(k, v) \<in> set m \<Longrightarrow> key v = k" for k v
    using wf_map_in [OF assms] wf_map_lookup [OF assms] by blast
  have "v \<in> snd ` set m \<longleftrightarrow> map_of m (key v) = Some v" for v
  proof
    assume "v \<in> snd ` set m"
    then obtain k where "(k, v) \<in> set m" by (metis imageE surjective_pairing)
    then have "key v = k" "map_of m k = Some v" using keyed wf_map_in [OF assms] by blast+
    then show "map_of m (key v) = Some v" by simp
  next
    assume "map_of m (key v) = Some v"
    then show "v \<in> snd ` set m" by (metis map_of_SomeD snd_conv image_eqI)
  qed
  then show "set (findAll m P) = {v. map_of m (key v) = Some v \<and> P v}" by (auto simp: findAll_def)
  have "map key (map snd m) = map fst m" using keyed by auto
  then have "distinct (map key (map snd m))" using assms by (simp only: wf_map_def)
  then show "distinct (map key (findAll m P))" unfolding findAll_def by (rule distinct_map_filter)
qed

lemma pks_members: "Some b \<in> set ms \<Longrightarrow> bind_Pk b \<in> set (pks ms)"
  by (induction ms rule: pks.induct) auto

lemma pks_adopted:
  assumes "length ms = length cs" and "distinct (pks ms)" and "distinct (pks cs)" and "set (pks ms) \<inter> set (pks cs) = {}"
  shows "distinct (pks (map (\<lambda>(m, c). if m = None then c else m) (zip ms cs))) \<and>
    set (pks (map (\<lambda>(m, c). if m = None then c else m) (zip ms cs))) \<subseteq> set (pks ms) \<union> set (pks cs)"
  using assms
proof (induction ms cs rule: list_induct2)
  case (Cons m ms c cs)
  have sub: "set (pks ms) \<subseteq> set (pks (m # ms))" "set (pks cs) \<subseteq> set (pks (c # cs))" "distinct (pks ms)" "distinct (pks cs)"
    using Cons.prems by (cases m; cases c; auto)+
  then have ih: "distinct (pks (map (\<lambda>(m, c). if m = None then c else m) (zip ms cs)))"
    "set (pks (map (\<lambda>(m, c). if m = None then c else m) (zip ms cs))) \<subseteq> set (pks ms) \<union> set (pks cs)"
    using Cons.IH Cons.prems by blast+
  with Cons.prems show ?case by (cases m; cases c) auto
qed simp

lemma matched_members:
  assumes "Some b \<in> set (matchBindings rules bs exactOnly)"
  shows "b \<in> set bs"
proof -
  obtain i where "i < length rules" "matchBindings rules bs exactOnly ! i = Some b"
    using assms matchBindings_spec [of rules bs exactOnly] by (auto simp: in_set_conv_nth)
  with matchBindings_spec [of rules bs exactOnly] show ?thesis by (auto dest!: spec [of _ i])
qed

text \<open>The bindings taken by the rules: from the managed ones, or adopted from the others.\<close>

lemma adopted_matches:
  assumes "distinct (map bind_Pk (managed @ unmanaged))"
    and "ms = map (\<lambda>(m, c). if m = None then c else m)
      (zip (matchBindings rules managed False) (matchBindings rules unmanaged True))"
  shows "length ms = length rules \<and> distinct (pks ms) \<and> (\<forall>b. Some b \<in> set ms \<longrightarrow> b \<in> set managed \<union> set unmanaged)"
proof -
  let ?m = "matchBindings rules managed False" and ?c = "matchBindings rules unmanaged True"
  note m = matchBindings_spec [of rules managed False] and c = matchBindings_spec [of rules unmanaged True]
  have pm: "set (pks (matchBindings rules bs e)) \<subseteq> bind_Pk ` set bs" for bs e
  proof -
    have "set (pks ms) \<subseteq> bind_Pk ` {b. Some b \<in> set ms}" for ms by (induction ms rule: pks.induct) auto
    then show ?thesis using matched_members by blast
  qed
  have "set (pks ?m) \<inter> set (pks ?c) = {}"
    using pm [of managed False] pm [of unmanaged True] assms(1) by (auto simp: image_iff)
  then have "distinct (pks ms)" using pks_adopted [of ?m ?c] m c unfolding assms(2) by simp
  moreover have "b \<in> set managed \<union> set unmanaged" if "Some b \<in> set ms" for b
    proof -
    have "Some b \<in> (\<lambda>(m, c). if m = None then c else m) ` set (zip ?m ?c)" using that unfolding assms(2) set_map .
    then obtain p where p: "Some b = (case p of (m, c) \<Rightarrow> if m = None then c else m)" "p \<in> set (zip ?m ?c)" by (rule imageE)
    obtain m c where "p = (m, c)" by (cases p)
    with p have mc: "(m, c) \<in> set (zip ?m ?c)" "(if m = None then c else m) = Some b" by simp_all
    then have "m \<in> set ?m" "c \<in> set ?c" by (auto dest: set_zip_leftD set_zip_rightD)
    with mc(2) show ?thesis by (auto dest: matched_members split: if_splits)
  qed
  ultimately show ?thesis using m c by (simp add: assms(2))
qed

text \<open>The bindings of a target, as the server lists them.\<close>

definition listed_bindings :: "fake \<Rightarrow> string \<Rightarrow> PolicyBinding list" where
  "listed_bindings c target = sort_key bind_Order (findAll (fake_bindings c) (\<lambda>b. bind_Target b = target))"

lemma listed_bindings_set:
  assumes "wf_fake (server s)"
  shows "set (listed_bindings (server s) target) = {b. stored s (bind_Pk b) = Some b \<and> bind_Target b = target}"
    and "distinct (map bind_Pk (listed_bindings (server s) target))"
    and "length (listed_bindings (server s) target) \<le> length (fake_bindings (server s))"
proof -
  have wfb: "wf_map bind_Pk (fake_bindings (server s))" using assms by (simp add: wf_fake_def)
  show "set (listed_bindings (server s) target) = {b. stored s (bind_Pk b) = Some b \<and> bind_Target b = target}"
    "distinct (map bind_Pk (listed_bindings (server s) target))"
    using findAll_keys [OF wfb, of "\<lambda>b. bind_Target b = target"] by (simp_all add: stored_def distinct_map listed_bindings_def)
  show "length (listed_bindings (server s) target) \<le> length (fake_bindings (server s))"
    unfolding listed_bindings_def length_sort findAll_def by (rule order_trans [OF length_filter_le]) simp
qed

text \<open>The step as its stages: sorting the listed bindings, adopting, writing, and then deleting.\<close>

lemma reconcileBindings_stages:
  fixes s :: "(fake, 'k) sys"
  assumes "reconcileBindings (on_fake r) application s = (Inr (), t)" and "target = appl_PbmUuid application"
    and "rules = resolved_Rules (st_resolved s)"
  obtains managed unmanaged mo s1 ms s2 kept mo' s3 s4 s5 s6
  where "managedBindings (on_fake r) (listed_bindings (server s) target) s = (Inr (managed, unmanaged, mo), s1)"
    and "adoptBindings (on_fake r) (matchBindings rules managed False) (matchBindings rules unmanaged True) s1 = (Inr ms, s2)"
    and "foldE (zip rules ms) (applyRule (on_fake r) target) ([], mo) s2 = (Inr (kept, mo'), s3)"
    and "forE (filter (\<lambda>b. bind_Pk b \<notin> set kept) managed) (\<lambda>b. deleteBinding (on_fake r) (bind_Pk b)) s3 = (Inr (), s4)"
    and "updStatus (\<lambda>st. st\<lparr>status_BindingUUIDs := kept\<rparr>) s4 = (Inr (), s5)"
    and "patchStatus (on_fake r) s5 = (Inr (), s6)"
    and "handleUnmanagedBindings (on_fake r) (filter (\<lambda>b. bind_Pk b \<notin> set kept) unmanaged) s6 = (Inr (), t)"
proof -
  let ?existing = "listed_bindings (server s) target"
  have list: "srv (fake_ListPolicyBindings target) s = (Inr ?existing, s)"
    by (simp add: run_srv fake_ListPolicyBindings_def run_read listed_bindings_def)
  let ?rest = "\<lambda>kept managed unmanaged. thenE (forE (filter (\<lambda>binding. bind_Pk binding \<notin> set kept) managed)
        (\<lambda>binding. deleteBinding (on_fake r) (bind_Pk binding)))
      (thenE (updStatus (\<lambda>st. st\<lparr>status_BindingUUIDs := kept\<rparr>))
      (thenE (patchStatus (on_fake r))
      (handleUnmanagedBindings (on_fake r) (filter (\<lambda>binding. bind_Pk binding \<notin> set kept) unmanaged))))"
  let ?next = "\<lambda>managed unmanaged mo. bindE (readE (resolved_Rules \<circ> st_resolved)) (\<lambda>rules.
      bindE (adoptBindings (on_fake r) (matchBindings rules managed False) (matchBindings rules unmanaged True)) (\<lambda>matched.
      bindE (foldE (zip rules matched) (applyRule (on_fake r) target) ([], mo)) (\<lambda>(kept, _). ?rest kept managed unmanaged)))"
  let ?body = "\<lambda>existing. bindE (managedBindings (on_fake r) existing) (\<lambda>(managed, unmanaged, mo). ?next managed unmanaged mo)"
  have "bindE (srv (fake_ListPolicyBindings target)) ?body s = (Inr (), t)"
    using assms(1) unfolding reconcileBindings_def Let_def assms(2) [symmetric] Authentik_on_fake fake_client_simps .
  then have "?body ?existing s = (Inr (), t)" by (subst (asm) run_bind) (simp only: list prod.case sum.case)
  then obtain parts s1 where parts: "managedBindings (on_fake r) ?existing s = (Inr parts, s1)"
    "(case parts of (managed, unmanaged, mo) \<Rightarrow> ?next managed unmanaged mo) s1 = (Inr (), t)" by (rule bind_InrE)
  obtain managed unmanaged mo where "parts = (managed, unmanaged, mo)" by (cases parts)
  with parts have m: "managedBindings (on_fake r) ?existing s = (Inr (managed, unmanaged, mo), s1)"
    and rest1: "?next managed unmanaged mo s1 = (Inr (), t)" by simp_all
  have "bindE (adoptBindings (on_fake r) (matchBindings rules managed False) (matchBindings rules unmanaged True)) (\<lambda>matched.
      bindE (foldE (zip rules matched) (applyRule (on_fake r) target) ([], mo)) (\<lambda>(kept, _). ?rest kept managed unmanaged)) s1 = (Inr (), t)"
    using rest1 unfolding bind_read comp_def keepsD [OF managedBindings_steps(3) m] assms(3) [symmetric] .
  then obtain ms s2 where ad: "adoptBindings (on_fake r) (matchBindings rules managed False) (matchBindings rules unmanaged True) s1 = (Inr ms, s2)"
    and rest2: "bindE (foldE (zip rules ms) (applyRule (on_fake r) target) ([], mo)) (\<lambda>(kept, _). ?rest kept managed unmanaged) s2 = (Inr (), t)"
    by (rule bind_InrE)
  from rest2 obtain parts2 s3 where parts2: "foldE (zip rules ms) (applyRule (on_fake r) target) ([], mo) s2 = (Inr parts2, s3)"
    "(case parts2 of (kept, _) \<Rightarrow> ?rest kept managed unmanaged) s3 = (Inr (), t)" by (rule bind_InrE)
  obtain kept mo' where "parts2 = (kept, mo')" by (cases parts2)
  with parts2 have ap: "foldE (zip rules ms) (applyRule (on_fake r) target) ([], mo) s2 = (Inr (kept, mo'), s3)"
    and rest3: "?rest kept managed unmanaged s3 = (Inr (), t)" by simp_all
  from rest3 m ad ap show thesis by (auto elim!: then_InrE intro: that)
qed

text \<open>What the stages leave: the bindings of the rules, and nothing else that they may delete.\<close>

lemma reconcileBindings_writes:
  fixes s :: "(fake, 'k) sys"
  assumes run: "reconcileBindings (on_fake r) application s = (Inr (), t)" and wf: "wf_fake (server s)"
    and target: "target = appl_PbmUuid application" and rules: "rules = resolved_Rules (st_resolved s)"
    and room: "room (4 * length (fake_bindings (server s)) + 9 * length rules) (server s)"
  defines "existing \<equiv> listed_bindings (server s) target" and "prune \<equiv> is_true (access_Prune (spec_Access (sys_spec t)))"
  obtains managed unmanaged kept
  where "set managed \<union> set unmanaged = set existing" and "length kept = length rules"
    and "\<And>i. i < length rules \<Longrightarrow> \<exists>b. stored t (kept ! i) = Some b \<and> binding_match (desiredBinding target (rules ! i)) b"
    and "\<And>u b. u \<in> set kept \<Longrightarrow> stored s u = Some b \<Longrightarrow> bind_Target b = target"
    and "\<And>u. u \<notin> set kept \<Longrightarrow> stored t u =
      (if u \<in> bind_Pk ` set managed \<or> prune \<and> u \<in> bind_Pk ` set unmanaged then None else stored s u)"
    and "map unmanaged_UUID (status_UnmanagedBindings (sys_status t)) =
      (if prune then [] else map bind_Pk (filter (\<lambda>b. bind_Pk b \<notin> set kept) unmanaged))"
    and "is_true (access_Public (spec_Access (sys_spec t))) \<Longrightarrow> status_UnmanagedBindings (sys_status t) = []"
    and "distinct kept"
    and "\<exists>u v w bs. updStatus (\<lambda>st. st\<lparr>status_BindingUUIDs := kept\<rparr>) u = (Inr (), v) \<and>
      patchStatus (on_fake r) v = (Inr (), w) \<and> handleUnmanagedBindings (on_fake r) bs w = (Inr (), t)"
proof -
  from reconcileBindings_stages [OF run target rules] obtain managed unmanaged mo s1 ms s2 kept mo' s3 s4 s5 s6
  where m: "managedBindings (on_fake r) existing s = (Inr (managed, unmanaged, mo), s1)"
    and ad: "adoptBindings (on_fake r) (matchBindings rules managed False) (matchBindings rules unmanaged True) s1 = (Inr ms, s2)"
    and ap: "foldE (zip rules ms) (applyRule (on_fake r) target) ([], mo) s2 = (Inr (kept, mo'), s3)"
    and del: "forE (filter (\<lambda>b. bind_Pk b \<notin> set kept) managed) (\<lambda>b. deleteBinding (on_fake r) (bind_Pk b)) s3 = (Inr (), s4)"
    and up: "updStatus (\<lambda>st. st\<lparr>status_BindingUUIDs := kept\<rparr>) s4 = (Inr (), s5)"
    and pt: "patchStatus (on_fake r) s5 = (Inr (), s6)"
    and un: "handleUnmanagedBindings (on_fake r) (filter (\<lambda>b. bind_Pk b \<notin> set kept) unmanaged) s6 = (Inr (), t)"
    unfolding existing_def by blast
  note existing = listed_bindings_set [OF wf, of target, folded existing_def]
  have part: "set managed \<union> set unmanaged = set existing" "distinct (map bind_Pk (managed @ unmanaged))"
    using yieldsD [OF managedBindings_result m] existing(2) by auto
  have "room (9 * length rules + 4 * length existing) (server s)" using room existing(3) by (simp add: room_def)
  then have room1: "room (9 * length rules) (server s1)" by (rule room_after [OF managedBindings_steps(1,2) m])
  let ?zip = "zip (matchBindings rules managed False) (matchBindings rules unmanaged True)"
  have "length ?zip = length rules" using matchBindings_spec by simp
  then have "room (5 * length rules + 4 * length ?zip) (server s1)" using room1 by (simp add: room_def)
  then have room2: "room (5 * length rules) (server s2)" by (rule room_after [OF adoptBindings_steps ad])
  have same: "stored s2 = stored s"
    using stored_same [OF keepsD [OF managedBindings_steps(2) m]] stored_same [OF keepsD [OF adoptBindings_steps(2) ad]] by simp
  have ms: "length ms = length rules" "distinct (pks ms)" "\<And>b. Some b \<in> set ms \<Longrightarrow> b \<in> set existing"
    using adopted_matches [OF part(2) yieldsD [OF adoptBindings_result ad]] part(1) by auto
  have "stored s2 (bind_Pk b) = Some b" if "Some b \<in> set ms" for b
    using ms(3) [OF that] existing(1) same by auto
  from run_applyRules [OF ap ms(1,2) this room2] same
  have s3: "length kept = length rules" "list_all2 (new_key (stored s)) ms kept"
    "\<And>i. i < length rules \<Longrightarrow> \<exists>b. stored s3 (kept ! i) = Some b \<and> binding_match (desiredBinding target (rules ! i)) b"
    "\<And>u. u \<notin> set kept \<Longrightarrow> stored s3 u = stored s u" "distinct kept" by auto
  have s4: "stored s4 u = (if u \<in> bind_Pk ` set (filter (\<lambda>b. bind_Pk b \<notin> set kept) managed) then None else stored s3 u)" for u
    by (rule run_deletions [OF del]) (rule run_deleteBinding)
  have s6: "stored s6 = stored s4"
    using keepsD [OF server_patchStatus [where g = "\<lambda>c. c"] pt] up by (auto simp: stored_def run_updStatus)
  note t = run_handleUnmanaged [OF un, folded prune_def]
  show thesis
  proof (rule that [OF part(1) s3(1)])
    fix i assume "i < length rules"
    moreover have "stored t u = stored s3 u" if "u \<in> set kept" for u
      using t(1) [of u] s4 [of u] s6 that by (auto split: if_splits)
    ultimately show "\<exists>b. stored t (kept ! i) = Some b \<and> binding_match (desiredBinding target (rules ! i)) b"
      using s3(1,3) by simp
  next
    fix u b assume "u \<in> set kept" and b: "stored s u = Some b"
    then obtain m where "(m, u) \<in> set (zip ms kept)" using ms(1) s3(1) by (metis in_set_impl_in_set_zip2)
    then have "new_key (stored s) m u" "m \<in> set ms" using s3(2) by (auto simp: list_all2_iff dest: set_zip_leftD)
    then show "bind_Target b = target" using b ms(3) existing(1) by (cases m) (auto simp: new_key_def)
  next
    fix u assume "u \<notin> set kept"
    then show "stored t u = (if u \<in> bind_Pk ` set managed \<or> prune \<and> u \<in> bind_Pk ` set unmanaged then None else stored s u)"
      using t(1) [of u] s4 [of u] s6 s3(4) by (auto split: if_splits)
  qed (use t(2,3) s3(5) up pt un in auto)
qed

lemma reconcileBindings_keys:
  fixes s :: "(fake, 'k) sys"
  assumes run: "reconcileBindings (on_fake r) application s = (Inr (), t)" and wf: "wf_fake (server s)"
    and target: "target = appl_PbmUuid application" and rules: "rules = resolved_Rules (st_resolved s)"
    and room: "room (4 * length (fake_bindings (server s)) + 9 * length rules) (server s)"
  obtains keys where "length keys = length rules" and "distinct keys"
    and "\<And>i. i < length rules \<Longrightarrow> \<exists>b. stored t (keys ! i) = Some b \<and> binding_match (desiredBinding target (rules ! i)) b"
    and "\<And>u b. stored t u = Some b \<Longrightarrow> bind_Target b = target \<Longrightarrow>
      u \<in> set keys \<or> u \<in> unmanaged_UUID ` set (status_UnmanagedBindings (sys_status t))"
    and "is_true (access_Prune (spec_Access (sys_spec t))) \<or> is_true (access_Public (spec_Access (sys_spec t))) \<Longrightarrow>
      status_UnmanagedBindings (sys_status t) = []"
    and "\<And>u b. stored s u = Some b \<Longrightarrow> bind_Target b \<noteq> target \<Longrightarrow> stored t u = Some b"
    and "\<exists>u v w bs. updStatus (\<lambda>st. st\<lparr>status_BindingUUIDs := keys\<rparr>) u = (Inr (), v) \<and>
      patchStatus (on_fake r) v = (Inr (), w) \<and> handleUnmanagedBindings (on_fake r) bs w = (Inr (), t)"
proof -
  note writes = reconcileBindings_writes [OF run wf target rules room]
  let ?prune = "is_true (access_Prune (spec_Access (sys_spec t)))"
  from writes obtain managed unmanaged kept where part: "set managed \<union> set unmanaged = set (listed_bindings (server s) target)"
    and len: "length kept = length rules"
    and ok: "\<And>i. i < length rules \<Longrightarrow> \<exists>b. stored t (kept ! i) = Some b \<and> binding_match (desiredBinding target (rules ! i)) b"
    and own: "\<And>u b. u \<in> set kept \<Longrightarrow> stored s u = Some b \<Longrightarrow> bind_Target b = target"
    and drop: "\<And>u. u \<notin> set kept \<Longrightarrow> stored t u =
      (if u \<in> bind_Pk ` set managed \<or> ?prune \<and> u \<in> bind_Pk ` set unmanaged then None else stored s u)"
    and left: "map unmanaged_UUID (status_UnmanagedBindings (sys_status t)) =
      (if ?prune then [] else map bind_Pk (filter (\<lambda>b. bind_Pk b \<notin> set kept) unmanaged))"
    and public: "is_true (access_Public (spec_Access (sys_spec t))) \<Longrightarrow> status_UnmanagedBindings (sys_status t) = []"
    and dist: "distinct kept"
    and tail: "\<exists>u v w bs. updStatus (\<lambda>st. st\<lparr>status_BindingUUIDs := kept\<rparr>) u = (Inr (), v) \<and>
      patchStatus (on_fake r) v = (Inr (), w) \<and> handleUnmanagedBindings (on_fake r) bs w = (Inr (), t)"
    by blast
  note existing = listed_bindings_set(1) [OF wf, of target]
  have wfb: "wf_map bind_Pk (fake_bindings (server s))" using wf by (simp add: wf_fake_def)
  have pk: "bind_Pk b = u" if "stored s u = Some b" for u b using that wf_map_lookup [OF wfb] by (simp add: stored_def)
  have others: "u \<in> set kept \<or> u \<in> unmanaged_UUID ` set (status_UnmanagedBindings (sys_status t))"
    if "stored t u = Some b" "bind_Target b = target" for u b
  proof (cases "u \<in> set kept")
    case False
    then have s: "stored s u = Some b" "u \<notin> bind_Pk ` set managed" "\<not> (?prune \<and> u \<in> bind_Pk ` set unmanaged)"
      using drop [OF False] that(1) by (auto split: if_splits)
    have "b \<in> set managed \<union> set unmanaged" using part existing s(1) that(2) pk [OF s(1)] by auto
    then have "u \<in> bind_Pk ` set unmanaged" using s(2) pk [OF s(1)] by auto
    then have "u \<in> set (map unmanaged_UUID (status_UnmanagedBindings (sys_status t)))"
      using left s(3) False by auto
    then show ?thesis by simp
  qed simp
  have foreign: "stored t u = Some b" if "stored s u = Some b" "bind_Target b \<noteq> target" for u b
  proof -
    have "bind_Pk c \<noteq> u" if "c \<in> set managed \<union> set unmanaged" for c
    proof -
      have "c \<in> set (listed_bindings (server s) target)" using that unfolding part [symmetric] .
      then have "\<exists>k. stored s k = Some c \<and> bind_Target c = target" using existing by auto
      then show ?thesis using pk \<open>stored s u = Some b\<close> \<open>bind_Target b \<noteq> target\<close> by auto
    qed
    then have "u \<notin> bind_Pk ` set managed" "u \<notin> bind_Pk ` set unmanaged" by auto
    moreover have "u \<notin> set kept" using own [OF _ that(1)] that(2) by blast
    ultimately show ?thesis using drop [of u] that(1) by simp
  qed
  have none: "status_UnmanagedBindings (sys_status t) = []" if "?prune \<or> is_true (access_Public (spec_Access (sys_spec t)))"
    using that left public by auto
  show thesis by (rule that [OF len dist ok others none foreign tail])
qed

lemma run_reconcileBindings:
  fixes s :: "(fake, 'k) sys"
  assumes run: "reconcileBindings (on_fake r) application s = (Inr (), t)" and wf: "wf_fake (server s)"
    and target: "target = appl_PbmUuid application" and rules: "rules = resolved_Rules (st_resolved s)"
    and room: "room (4 * length (fake_bindings (server s)) + 9 * length rules) (server s)"
  shows "(\<exists>keys. length keys = length rules \<and> (\<forall>i < length rules. \<exists>b. map_of (fake_bindings (server t)) (keys ! i) = Some b \<and>
        binding_match (desiredBinding target (rules ! i)) b) \<and>
      (\<forall>u b. map_of (fake_bindings (server t)) u = Some b \<and> bind_Target b = target \<longrightarrow>
        u \<in> set keys \<or> u \<in> unmanaged_UUID ` set (status_UnmanagedBindings (sys_status t)))) \<and>
    (is_true (access_Prune (spec_Access (sys_spec t))) \<or> is_true (access_Public (spec_Access (sys_spec t))) \<longrightarrow>
      status_UnmanagedBindings (sys_status t) = []) \<and>
    (\<forall>u b. map_of (fake_bindings (server s)) u = Some b \<and> bind_Target b \<noteq> target \<longrightarrow>
      map_of (fake_bindings (server t)) u = Some b)"
  using reconcileBindings_keys [OF assms, unfolded stored_def] by metis

text \<open>
  C4: when the step on the bindings returns, every rule has its own stored binding that matches it, and
  every binding of the Application either matches a rule or is reported in the status as unmanaged.
  With \<open>access.prune\<close>, and for a public Application, no such binding is left, so that exactly the rules
  decide. Bindings of other Applications are as before. (\<open>room\<close>: the 32-bit sequence of the server does
  not run out during the step.)
\<close>

theorem reconcileBindings_enforces_access:
  fixes s :: "(fake, 'k) sys"
  assumes run: "reconcileBindings (on_fake r) application s = (Inr (), t)" and wf: "wf_fake (server s)"
    and target: "target = appl_PbmUuid application" and rules: "rules = resolved_Rules (st_resolved s)"
    and room: "room (4 * length (fake_bindings (server s)) + 9 * length rules) (server s)"
  shows "(\<exists>keys. length keys = length rules \<and> (\<forall>i < length rules. \<exists>b. map_of (fake_bindings (server t)) (keys ! i) = Some b \<and>
        binding_match (desiredBinding target (rules ! i)) b) \<and>
      (\<forall>u b. map_of (fake_bindings (server t)) u = Some b \<and> bind_Target b = target \<longrightarrow>
        u \<in> set keys \<or> u \<in> unmanaged_UUID ` set (status_UnmanagedBindings (sys_status t)))) \<and>
    (is_true (access_Prune (spec_Access (sys_spec t))) \<or> is_true (access_Public (spec_Access (sys_spec t))) \<longrightarrow>
      status_UnmanagedBindings (sys_status t) = []) \<and>
    (\<forall>u b. map_of (fake_bindings (server s)) u = Some b \<and> bind_Target b \<noteq> target \<longrightarrow>
      map_of (fake_bindings (server t)) u = Some b)"
  using assms by (rule run_reconcileBindings)

end
