(* ===== verification/Resolution.thy ===== *)
theory Resolution
  imports Access
begin

text \<open>
  What a successful resolution means (\<open>internal/reference/resolver.go\<close>): the access rules of the spec
  stand for exactly the objects they name on the in-memory server.
\<close>

section \<open>Failures only grow\<close>

definition grows :: "('a, 'k, 'z) resolve_state_scheme \<Rightarrow> ('a, 'k, 'z) resolve_state_scheme \<Rightarrow> bool" where
  "grows s t \<longleftrightarrow> server t = server s \<and> (\<exists>fs. failures t = failures s @ fs)"

interpretation grows: frame grows
  by unfold_locales (auto simp: grows_def)

text \<open>When no failure was added, the value satisfies \<open>P\<close> on the server.\<close>

definition exact :: "('a \<Rightarrow> 'v \<Rightarrow> bool) \<Rightarrow> ('a, 'k, 'z, 'v) rcall \<Rightarrow> bool" where
  "exact P m \<longleftrightarrow> steps grows m \<and> (\<forall>s x t. m s = (Inr x, t) \<longrightarrow> failures t = failures s \<longrightarrow> P (server s) x)"

lemma exact_steps: "exact P m \<Longrightarrow> steps grows m"
  by (simp add: exact_def)

lemma exactD: "exact P m \<Longrightarrow> m s = (Inr x, t) \<Longrightarrow> failures t = failures s \<Longrightarrow> P (server s) x \<and> server t = server s"
  unfolding exact_def grows_def by (auto dest: stepsD [of _ m])

lemma exactI: "steps grows m \<Longrightarrow> (\<And>s x t. m s = (Inr x, t) \<Longrightarrow> failures t = failures s \<Longrightarrow> P (server s) x) \<Longrightarrow> exact P m"
  by (simp add: exact_def)

lemma exact_mono: "exact P m \<Longrightarrow> (\<And>c x. P c x \<Longrightarrow> Q c x) \<Longrightarrow> exact Q m"
  unfolding exact_def by blast

lemma exact_ret: "(\<And>c. P c x) \<Longrightarrow> exact P (retE x)"
  by (auto simp: exact_def run_ret grows.steps_ret)

lemma exact_bind:
  assumes "exact Q m" and "\<And>x. exact (\<lambda>c y. Q c x \<longrightarrow> P c y) (f x)"
  shows "exact P (bindE m f)"
proof (rule exactI)
  show "steps grows (bindE m f)" using assms by (intro grows.steps_rules exact_steps)
  fix s y t assume run: "bindE m f s = (Inr y, t)" and same: "failures t = failures s"
  from run obtain x u where m: "m s = (Inr x, u)" and f: "f x u = (Inr y, t)" by (rule bind_InrE)
  have "grows s u" "grows u t" using stepsD [OF exact_steps [OF assms(1)] m] stepsD [OF exact_steps [OF assms(2)] f] .
  then obtain fs gs where "failures u = failures s @ fs" "failures t = failures u @ gs" unfolding grows_def by blast
  with same have e: "failures u = failures s" "failures t = failures u"
    by (metis append_assoc append_is_Nil_conv append_self_conv append_Nil2)+
  from exactD [OF assms(1) m e(1)] exactD [OF assms(2) f e(2)] show "P (server s) y" by simp
qed

lemma exact_mapE:
  assumes "\<And>x. exact (Q x) (f x)"
  shows "exact (\<lambda>c ys. list_all2 (\<lambda>x y. Q x c y) xs ys) (mapE xs f)"
proof (induction xs)
  case (Cons x xs)
  show ?case unfolding mapE.simps
    by (rule exact_bind [OF assms], rule exact_bind) (rule exact_mono [OF Cons], assumption, rule exact_ret, simp)
qed (simp add: exact_ret)

section \<open>One reference\<close>

lemma grows_read: "pure m \<Longrightarrow> steps grows (srv m)"
  by (auto simp: steps_def same_def run_srv grows_def case_prod_beta)

lemma grows_add: "steps grows (collector_add path target n)"
  by (auto simp: steps_def collector_add_def run_modify grows_def)

lemma grows_kapi: "steps grows (kapi m)"
  by (simp add: steps_def kapi_def grows_def case_prod_beta)

lemma grows_deref: "steps grows (deref p)"
  unfolding deref_def by (intro grows.steps_rules steps_case_option)

lemma grows_wrap: "steps grows m \<Longrightarrow> steps grows (wrapE msg m)"
  by (rule steps_wrap)

lemmas grow_intros = grows.steps_rules steps_if steps_case_option steps_case_sum steps_case_prod steps_case_list steps_Let
  grows_add grows_kapi grows_deref grows_wrap

lemma exact_getOne:
  assumes "pure get"
  shows "exact (\<lambda>c r. \<exists>x. r = Some x \<and> get c = (Inr x, c)) (getOne path target get)"
proof (rule exactI)
  show "steps grows (getOne path target get)"
    unfolding getOne_def by (intro grow_intros grows_read assms)
  fix s r t assume "getOne path target get s = (Inr r, t)" "failures t = failures s"
  then show "\<exists>x. r = Some x \<and> get (server s) = (Inr x, server s)"
    using pureD [OF assms]
    by (auto simp: getOne_def run_simps collector_add_def split: sum.splits prod.splits if_splits)
qed

lemma exact_findOne:
  assumes "pure search"
  shows "exact (\<lambda>c r. \<exists>x. r = Some x \<and> search c = (Inr [x], c)) (findOne path target search)"
proof (rule exactI)
  show "steps grows (findOne path target search)"
    unfolding findOne_def by (intro grow_intros grows_read assms)
  fix s r t assume "findOne path target search s = (Inr r, t)" "failures t = failures s"
  then show "\<exists>x. r = Some x \<and> search (server s) = (Inr [x], server s)"
    using pureD [OF assms]
    by (auto simp: findOne_def run_simps collector_add_def split: sum.splits prod.splits if_splits list.splits)
qed

text \<open>The object that a lookup stands for: the one with the identifier, or the only one with the key.\<close>

definition stands_for :: "('a, 't) stringLookup \<Rightarrow> string option \<Rightarrow> string option \<Rightarrow> 'a \<Rightarrow> 't \<Rightarrow> bool" where
  "stands_for lookup uuid key c x \<longleftrightarrow> (case uuid of
     Some u \<Rightarrow> lookup_get lookup u c = (Inr x, c)
   | None \<Rightarrow> (\<exists>k. key = Some k \<and> lookup_find lookup k c = (Inr [x], c)))"

lemma exact_deref: "exact (\<lambda>c v. p = Some v) (deref p)"
  by (rule exactI [OF grows_deref]) (auto simp: deref_def run_throw run_ret split: option.splits)

lemma exact_resolveByString:
  assumes "\<And>u. pure (lookup_get lookup u)" and "\<And>k. pure (lookup_find lookup k)"
  shows "exact (\<lambda>c pk. \<exists>x. stands_for lookup uuid key c x \<and> pk = lookup_pk lookup x) (resolveByString path lookup uuid key)"
proof -
  have "exact (\<lambda>c r. \<exists>x. r = Some x \<and> stands_for lookup uuid key c x)
    (case uuid of
         Some u \<Rightarrow> getOne path (lookup_kind lookup @ '' uuid '' @ quote u) (lookup_get lookup u)
       | None \<Rightarrow> bindE (deref key) (\<lambda>k.
           findOne path (lookup_kind lookup @ '' '' @ lookup_keyName lookup @ '' '' @ quote k) (lookup_find lookup k)))"
  proof (cases uuid)
    case None
    show ?thesis unfolding None option.case
      by (rule exact_bind [OF exact_deref], rule exact_mono [OF exact_findOne [OF assms(2)]]) (auto simp: stands_for_def)
  next
    case (Some u)
    show ?thesis unfolding Some option.case
      by (rule exact_mono [OF exact_getOne [OF assms(1)]]) (auto simp: stands_for_def)
  qed
  then show ?thesis unfolding resolveByString_def
    by (rule exact_bind) (auto intro!: exact_ret split: option.split)
qed

lemma exact_resolveNamed:
  assumes "\<And>u. pure (lookup_get lookup u)" and "\<And>k. pure (lookup_find lookup k)"
  shows "exact (\<lambda>c r. case ref of None \<Rightarrow> r = None
      | Some n \<Rightarrow> \<exists>x. stands_for lookup (ref_UUID n) (ref_Name n) c x \<and> r = Some (lookup_pk lookup x)) (resolveNamed path lookup ref)"
proof (cases ref)
  case None
  then show ?thesis by (simp add: resolveNamed_def exact_ret)
next
  case (Some n)
  let ?m = "resolveByString path lookup (ref_UUID n) (ref_Name n)"
  note m = exact_resolveByString [OF assms, of "ref_UUID n" "ref_Name n" path]
  show ?thesis unfolding Some option.case resolveNamed_def
  proof (rule exactI)
    show "steps grows (bindE (readE (length \<circ> failures)) (\<lambda>before. bindE ?m (\<lambda>pk.
          bindE (readE (length \<circ> failures)) (\<lambda>after. retE (if after > before then None else Some pk)))))"
      by (intro grow_intros exact_steps [OF m])
    fix s r t assume run: "bindE (readE (length \<circ> failures)) (\<lambda>before. bindE ?m (\<lambda>pk.
          bindE (readE (length \<circ> failures)) (\<lambda>after. retE (if after > before then None else Some pk)))) s = (Inr r, t)"
      and same: "failures t = failures s"
    then obtain pk where p: "?m s = (Inr pk, t)" "r = Some pk"
      by (auto simp: run_bind run_read run_ret split: prod.splits sum.splits)
    from exactD [OF m p(1) same] p(2) show "\<exists>x. stands_for lookup (ref_UUID n) (ref_Name n) (server s) x \<and> r = Some (lookup_pk lookup x)"
      by blast
  qed
qed

text \<open>A user is named by a primary key in the range of \<open>int32\<close>, or by the name of exactly one user.\<close>

definition user_stands_for :: "'a Client \<Rightarrow> UserReference \<Rightarrow> 'a \<Rightarrow> User \<Rightarrow> bool" where
  "user_stands_for k ref c u \<longleftrightarrow> (case user_PK ref of
     Some pk \<Rightarrow> 1 \<le> pk \<and> pk < 2 ^ 31 \<and> GetUser k pk c = (Inr u, c)
   | None \<Rightarrow> (\<exists>n. user_Username ref = Some n \<and> FindUsersByUsername k n c = (Inr [u], c)))"

lemma grows_findOne: "pure search \<Longrightarrow> steps grows (findOne path target search)"
  and grows_getOne: "pure get \<Longrightarrow> steps grows (getOne path target get)"
  by (blast intro: exact_steps exact_findOne exact_getOne)+

lemma grows_resolveByString:
  "(\<And>u. pure (lookup_get lookup u)) \<Longrightarrow> (\<And>k. pure (lookup_find lookup k)) \<Longrightarrow>
   steps grows (resolveByString path lookup uuid key)"
  by (rule exact_steps [OF exact_resolveByString])

lemma grows_resolveNamed:
  "(\<And>u. pure (lookup_get lookup u)) \<Longrightarrow> (\<And>k. pure (lookup_find lookup k)) \<Longrightarrow>
   steps grows (resolveNamed path lookup ref)"
  by (rule exact_steps [OF exact_resolveNamed])

section \<open>The rules\<close>

context resolver begin

lemmas growing = grow_intros grows_resolveByString grows_resolveNamed grows_findOne grows_getOne
  pure_lookups pure_reads

lemma exact_resolveUser:
  "exact (\<lambda>c pk. \<exists>u. user_stands_for (rs_authentik r) ref c u \<and> pk = Some (usr_Pk u)) (resolveUser r path ref)"
proof (cases "user_PK ref")
  case None
  show ?thesis unfolding resolveUser_def None option.case
    by (rule exact_bind [OF exact_deref], rule exact_bind [OF exact_findOne [OF pure_FindUsersByUsername]], rule exact_ret)
      (auto simp: user_stands_for_def None)
next
  case (Some pk)
  show ?thesis
  proof (cases "pk < 1 \<or> pk > 2 ^ 31 - 1")
    case True
    show ?thesis unfolding resolveUser_def Some option.case Let_def if_P [OF True]
      by (rule exactI, intro growing) (auto simp: run_bind run_then collector_add_def run_modify run_ret)
  next
    case False
    then have "int32_of pk = pk" by (simp add: int32_of_id)
    then show ?thesis unfolding resolveUser_def Some option.case Let_def if_not_P [OF False] using False
      by (intro exact_bind [OF exact_getOne [OF pure_GetUser]] exact_ret) (auto simp: user_stands_for_def Some)
  qed
qed

end

text \<open>The object of each kind that an access rule names.\<close>

definition rule_exact :: "('a, 'k) Resolver \<Rightarrow> AccessRule \<Rightarrow> 'a \<Rightarrow> Rule \<Rightarrow> bool" where
  "rule_exact r rule c x \<longleftrightarrow> rl_Negate x = is_true (rule_Negate rule) \<and>
     (case (rule_Group rule, rule_User rule, rule_Policy rule) of
        (Some n, _, _) \<Rightarrow> rl_User x = None \<and> rl_Policy x = None \<and>
          (\<exists>g. stands_for (groupLookup r) (ref_UUID n) (ref_Name n) c g \<and> rl_Group x = Some (group_Pk g))
      | (None, Some ref, _) \<Rightarrow> rl_Group x = None \<and> rl_Policy x = None \<and>
          (\<exists>u. user_stands_for (rs_authentik r) ref c u \<and> rl_User x = Some (usr_Pk u))
      | (None, None, Some n) \<Rightarrow> rl_Group x = None \<and> rl_User x = None \<and>
          (\<exists>p. stands_for (policyLookup r) (ref_UUID n) (ref_Name n) c p \<and> rl_Policy x = Some (policy_Pk p))
      | (None, None, None) \<Rightarrow> rl_Group x = None \<and> rl_User x = None \<and> rl_Policy x = None)"

context resolver begin

lemma exact_resolveRule: "exact (rule_exact r rule) (resolveRule r path rule)"
proof -
  have pks: "lookup_pk (groupLookup r) = group_Pk" "lookup_pk (policyLookup r) = policy_Pk"
    by (simp_all add: groupLookup_def policyLookup_def)
  note named = exact_resolveNamed [OF pure_lookups(9,10)] exact_resolveNamed [OF pure_lookups(11,12)]
  show ?thesis
    by (auto simp: resolveRule_def Let_def rule_exact_def pks split: option.split
        intro!: exact_ret exact_bind [OF named(1)] exact_bind [OF named(2)] exact_bind [OF exact_resolveUser])
qed

lemma grows_resolveFlows: "steps grows (resolveFlows r flows)"
  unfolding resolveFlows_def by (intro growing)

lemma grows_resolveProxy: "steps grows (resolveProxy r proxy)"
  unfolding resolveProxy_def by (intro growing)

lemma grows_readKey: "steps grows (readKey secret ref path key dflt)"
  unfolding readKey_def by (intro growing)

lemma grows_resolveCredentials: "steps grows (resolveCredentials r ns spec)"
  unfolding resolveCredentials_def by (intro growing grows_readKey)

lemma grows_resolveOAuth2: "steps grows (resolveOAuth2 r ns oauth2)"
  unfolding resolveOAuth2_def by (intro growing grows_resolveCredentials)

text \<open>A resolution that returns a value has collected no failure.\<close>

lemma Resolve_rules:
  fixes s :: "('a, 'k, 'z) resolve_state_scheme"
  assumes run: "Resolve r app s = (Inr refs, t)"
  shows "server t = server s \<and>
    list_all2 (\<lambda>rule x. rule_exact r rule (server s) x) (access_Rules (spec_Access (app_Spec app))) (resolved_Rules refs)"
proof -
  let ?rules = "access_Rules (spec_Access (app_Spec app))"
  define providers :: "('a, 'k, 'z, Flows option \<times> ProxyReferences option \<times> OAuth2References option) rcall"
    where "providers = (case spec_Provider (app_Spec app) of
         None \<Rightarrow> retE (None, None, None)
       | Some provider \<Rightarrow>
           bindE (resolveFlows r (provider_Flows provider)) (\<lambda>flows.
           bindE (case provider_Proxy provider of
               None \<Rightarrow> retE None
             | Some proxy \<Rightarrow> bindE (resolveProxy r proxy) (\<lambda>x. retE (Some x))) (\<lambda>proxy.
           bindE (case provider_OAuth2 provider of
               None \<Rightarrow> retE None
             | Some oauth2 \<Rightarrow> bindE (resolveOAuth2 r (meta_Namespace app) oauth2) (\<lambda>x. retE (Some x))) (\<lambda>oauth2.
           retE (Some flows, proxy, oauth2)))))"
  define resolveRules :: "('a, 'k, 'z, Rule list) rcall" where "resolveRules = (mapE (enumerate 0 ?rules) (\<lambda>(i, rule).
      resolveRule r (indexed ''access.rules'' i) rule))"
  have p: "exact (\<lambda>_ _. True) providers" unfolding providers_def
    by (rule exactI, intro growing grows_resolveFlows grows_resolveProxy grows_resolveOAuth2) simp
  have m: "exact (\<lambda>c xs. list_all2 (\<lambda>rule x. rule_exact r rule c x) ?rules xs) resolveRules"
    unfolding resolveRules_def
    by (rule exact_mono [OF exact_mapE [where Q = "\<lambda>(i, rule). rule_exact r rule"]])
      (auto split: prod.split intro: exact_resolveRule simp: list_all2_conv_all_nth nth_enumerate_eq)
  from run [unfolded Resolve_def, folded providers_def resolveRules_def]
  obtain x u xs v where "providers (s\<lparr>failures := []\<rparr>) = (Inr x, u)" "resolveRules u = (Inr xs, v)"
    "failures v = []" "v = t" "resolved_Rules refs = xs"
    by (auto simp: run_then run_modify run_bind run_read run_ret run_throw collector_err_def
        split: prod.splits sum.splits if_splits)
  then have "bindE providers (\<lambda>_. resolveRules) (s\<lparr>failures := []\<rparr>) = (Inr xs, t)" "failures t = []"
    by (simp_all add: run_bind)
  with exactD [OF exact_bind [OF p, of "\<lambda>c xs. list_all2 (\<lambda>rule x. rule_exact r rule c x) ?rules xs" "\<lambda>_. resolveRules"]] m
  show ?thesis using \<open>resolved_Rules refs = xs\<close> by fastforce
qed

end

section \<open>On the in-memory server\<close>

text \<open>The objects that a reference and an access rule name.\<close>

definition named_by :: "(string \<times> 'v) list \<Rightarrow> ('v \<Rightarrow> string) \<Rightarrow> NamedReference \<Rightarrow> 'v \<Rightarrow> bool" where
  "named_by objs name ref x \<longleftrightarrow> (case ref_UUID ref of
     Some u \<Rightarrow> map_of objs u = Some x
   | None \<Rightarrow> (\<exists>n. ref_Name ref = Some n \<and> findAll objs (\<lambda>y. name y = n) = [x]))"

definition user_named_by :: "(int \<times> User) list \<Rightarrow> UserReference \<Rightarrow> User \<Rightarrow> bool" where
  "user_named_by us ref u \<longleftrightarrow> (case user_PK ref of
     Some pk \<Rightarrow> 1 \<le> pk \<and> pk < 2 ^ 31 \<and> map_of us pk = Some u
   | None \<Rightarrow> (\<exists>n. user_Username ref = Some n \<and> findAll us (\<lambda>y. usr_Username y = n) = [u]))"

definition rule_denotes :: "fake \<Rightarrow> AccessRule \<Rightarrow> Rule \<Rightarrow> bool" where
  "rule_denotes c rule x \<longleftrightarrow> rl_Negate x = is_true (rule_Negate rule) \<and>
     (case (rule_Group rule, rule_User rule, rule_Policy rule) of
        (Some n, _, _) \<Rightarrow> \<exists>g. named_by (fake_groups c) group_Name n g \<and>
          (rl_Group x, rl_User x, rl_Policy x) = (Some (group_Pk g), None, None)
      | (None, Some ref, _) \<Rightarrow> \<exists>u. user_named_by (fake_users c) ref u \<and>
          (rl_Group x, rl_User x, rl_Policy x) = (None, Some (usr_Pk u), None)
      | (None, None, Some n) \<Rightarrow> \<exists>p. named_by (fake_policies c) policy_Name n p \<and>
          (rl_Group x, rl_User x, rl_Policy x) = (None, None, Some (policy_Pk p))
      | (None, None, None) \<Rightarrow> (rl_Group x, rl_User x, rl_Policy x) = (None, None, None))"

lemma rule_exact_fake: "rule_exact (fake_resolver k) rule c x \<Longrightarrow> rule_denotes c rule x"
  by (auto simp: rule_exact_def rule_denotes_def stands_for_def user_stands_for_def named_by_def user_named_by_def
      fake_resolver_def groupLookup_def policyLookup_def fake_client_def run_lookup run_read
      split: option.splits)

text \<open>
  C16: a resolution that succeeds has turned every access rule, in order, into the primary key of the
  one object it names: the group, user or policy with the uuid or pk of the rule (a user's pk in the
  range of \<open>int32\<close>), or the only one with its name. It has changed nothing on the server.
\<close>

theorem resolved_rules_exact:
  assumes "Resolve (fake_resolver k) app s = (Inr refs, t)"
  shows "server t = server s \<and>
    list_all2 (rule_denotes (server s)) (access_Rules (spec_Access (app_Spec app))) (resolved_Rules refs)"
  using fake_resolver.Resolve_rules [OF assms] by (auto intro: list_all2_mono rule_exact_fake)

end
