(* ===== verification/Convergence.thy ===== *)
theory Convergence
  imports Resolution
begin

text \<open>
  A whole reconcile that succeeds: the results of its steps put together. The steps run one after the
  other on one server, so that each keeps what the earlier ones reached.
\<close>

section \<open>What each step leaves alone\<close>

text \<open>The spec that is being reconciled, and the references it was resolved to.\<close>

abbreviation task :: "('a, 'k) sys \<Rightarrow> AuthentikApplicationSpec \<times> Resolved" where
  "task \<equiv> \<lambda>s. (sys_spec s, st_resolved s)"

lemma task_local [frame_intros]:
  "keeps task (srv m)" "keeps task (kapi n)" "keeps task (Eventf ty reason action msg)" "keeps task (updStatus f)"
  unfolding Eventf_def updStatus_def
  by (simp_all add: steps_def same_def run_srv kapi_def run_modify sys_spec_def case_prod_beta)

lemma task_cache:
  "keeps task (cache_contains (markers (on_fake r)) ob)" "keeps task (cache_isManaged (markers (on_fake r)) ob)"
  "keeps task (cache_ensure (markers (on_fake r)) ob)" "keeps task (cache_remove (markers (on_fake r)) ob)"
proof -
  have hook: "st_resolved (requeueAll (on_fake r) s) = st_resolved s" "st_app (requeueAll (on_fake r) s) = st_app s" for s
    by (simp_all add: requeueAll_def split: prod.split sum.split)
  note defs = cache_contains_def cache_ensure_def cache_isManaged_def cache_remove_def refreshLocked_def addObject_def
      deleteObject_def nowE_def EnsureRole_def findOrCreateRole_def findRole_def marker_role_def Mark_def Unmark_def
      IsManaged_def ListManaged_def markers_def markerCacheOn.select_convs
  show "keeps task (cache_contains (markers (on_fake r)) ob)"
    unfolding defs by (intro frame_intros) (simp_all add: hook sys_spec_def steps_def same_def)
  show "keeps task (cache_isManaged (markers (on_fake r)) ob)"
    unfolding defs by (intro frame_intros) (simp_all add: hook sys_spec_def steps_def same_def)
  show "keeps task (cache_ensure (markers (on_fake r)) ob)"
    unfolding defs by (intro frame_intros) (simp_all add: hook sys_spec_def steps_def same_def)
  show "keeps task (cache_remove (markers (on_fake r)) ob)"
    unfolding defs by (intro frame_intros) (simp_all add: hook sys_spec_def steps_def same_def)
qed

text \<open>
  The answer of a status patch is the stored object. The spec in it is the one that is being reconciled
  unless someone else has written a new spec in the meantime.
\<close>

definition same_spec :: "'k KubeClient \<Rightarrow> bool" where
  "same_spec k \<longleftrightarrow> (\<forall>b a x a' y. KStatusPatch k b a x = (Inr a', y) \<longrightarrow> app_Spec a' = app_Spec a)"

lemma Kube_on_fake: "Kube (on_fake r) = Kube r" "StatusDeepEqual (on_fake r) = StatusDeepEqual r"
  by (simp_all add: on_fake_def)

lemma task_patchStatus:
  assumes "same_spec (Kube r)"
  shows "keeps task (patchStatus (on_fake r))"
proof -
  have "keeps task (patchApp (KStatusPatch (Kube r)) b)" for b
    using assms
    by (auto simp: steps_def same_def patchApp_def run_simps kapi_def sys_spec_def same_spec_def split: prod.splits sum.splits) metis
  then show ?thesis unfolding patchStatus_def Kube_on_fake by (intro frame_intros) (simp_all add: sys_spec_def)
qed

lemmas task_intros = task_patchStatus task_cache frame_intros

section \<open>The step on the Provider\<close>

text \<open>A \<open>sync\<close> of an observed Provider is at most one patch: it keeps the task and the counter of the server.\<close>

definition plain_sync :: "(fake, 'k) observedProvider \<Rightarrow> bool" where
  "plain_sync x \<longleftrightarrow> keeps task (observed_sync x) \<and> keeps seq (observed_sync x) \<and> keeps st_app (observed_sync x)"

lemma seq_patches:
  "keeps fake_sequence (fake_PatchApplication slug pa)" "keeps fake_sequence (fake_PatchProxyProvider pk pp)"
  "keeps fake_sequence (fake_PatchOAuth2Provider pk po)" "keeps fake_sequence (fake_SetOutpostProviders uuid ps)"
  unfolding fake_write_defs Let_def by (rule steps_self, intro fake_frame; simp split: option.split)+

lemmas seq_intros = seq_patches [THEN keeps_srv] seq_reads fake.pure_reads

lemma app_srv: "keeps st_app (srv m)"
  by (simp add: steps_def same_def run_srv case_prod_beta)

lemma plain_observe:
  "plain_sync (proxy_observe (on_fake r) spec d p)" "plain_sync (oauth2_observe (on_fake r) d' q)"
  unfolding plain_sync_def proxy_observe_def oauth2_observe_def observedProvider.select_convs Authentik_on_fake fake_client_simps
  by (intro conjI frame_intros seq_intros app_srv)+

lemma yields_in_start: "yields_in (\<lambda>_. True) P m \<longleftrightarrow> (\<forall>s x t. m s = (Inr x, t) \<longrightarrow> P x)"
  by (auto simp: yields_in_def steps_def pres_def)

lemma steps_True: "stable (\<lambda>_. True) m"
  by (simp add: steps_def pres_def)

interpretation proxy_plain: provider_search "proxyProviderHandler (on_fake r) spec d" "\<lambda>_. True" plain_sync for r spec d
proof
  note defs = proxyProviderHandler_def providerHandler.select_convs
  show "yields_in (\<lambda>_. True) plain_sync (handler_get (proxyProviderHandler (on_fake r) spec d) pk)" for pk
    unfolding defs by (rule yields_in_bind [OF yields_in_any [OF steps_True]]) (rule yields_in_ret, rule plain_observe)
  show "yields_in (\<lambda>_. True) (\<lambda>ps. \<forall>p \<in> set ps. plain_sync p) (handler_findByName (proxyProviderHandler (on_fake r) spec d) name)" for name
    unfolding defs by (rule yields_in_bind [OF yields_in_any [OF steps_True]], rule yields_in_ret) (auto intro: plain_observe)
qed (rule steps_True)+

interpretation oauth2_plain: provider_search "oauth2ProviderHandler (on_fake r) a d" "\<lambda>_. True" plain_sync for r a d
proof
  note defs = oauth2ProviderHandler_def providerHandler.select_convs
  show "yields_in (\<lambda>_. True) plain_sync (handler_get (oauth2ProviderHandler (on_fake r) a d) pk)" for pk
    unfolding defs by (rule yields_in_bind [OF yields_in_any [OF steps_True]]) (rule yields_in_ret, rule plain_observe)
  show "yields_in (\<lambda>_. True) (\<lambda>ps. \<forall>p \<in> set ps. plain_sync p) (handler_findByName (oauth2ProviderHandler (on_fake r) a d) name)" for name
    unfolding defs by (rule yields_in_bind [OF yields_in_any [OF steps_True]], rule yields_in_ret) (auto intro: plain_observe)
qed (rule steps_True)+

lemma handler_cases:
  obtains spec d where "handlerFor r a refs = proxyProviderHandler r spec d"
  | d where "handlerFor r a refs = oauth2ProviderHandler r a d"
  unfolding handlerFor_def Let_def by (cases "provider_Proxy (the (spec_Provider (app_Spec a)))") auto

lemma plain_findProvider:
  "yields_in (\<lambda>_. True) (\<lambda>p. \<forall>x. p = Some x \<longrightarrow> plain_sync x) (findProvider (handlerFor (on_fake r) a refs) application)"
  by (rule handler_cases [of "on_fake r" a refs]) (simp_all add: proxy_plain.findProvider oauth2_plain.findProvider)

text \<open>The reads of a handler, and what its creation draws from the counter.\<close>

lemma resolver_on_fake: "resolver_of (on_fake r) = fake_resolver (Kube r)"
  by (simp add: resolver_of_def fake_resolver_def on_fake_def)

lemma task_more:
  fixes s t :: "('a, 'k) sys"
  shows "resolve_state.more s = resolve_state.more t \<Longrightarrow> st_app s = st_app t \<and> st_resolved s = st_resolved t"
  by (cases s; cases t) simp

lemma keeps_defaults:
  fixes s :: "(fake, 'k) sys"
  shows "keeps (\<lambda>s :: (fake, 'k) sys. (server s, task s)) (ResolveCreationDefaults (resolver_of (on_fake r)) a)"
  unfolding resolver_on_fake
  by (rule keeps_comp [OF fake_resolver.keeps_ResolveCreationDefaults])
    (auto simp: but_failures_def cache_state.defs sys_spec_def dest: task_more)

lemma draws_creations:
  "steps (draws 1 fake_sequence) (fake_CreateProxyProvider rp)" "steps (draws 1 fake_sequence) (fake_CreateOAuth2Provider ro)"
  "steps (draws 1 fake_sequence) (fake_CreateApplication ra)"
  by (auto simp: steps_def draws_def fake_write_defs fake_aux_defs run_simps int32_of_id split: option.splits)


text \<open>The part of the state that the server calls of a search do not change.\<close>

abbreviation seq_task :: "(fake, 'k) sys \<Rightarrow> int \<times> AuthentikApplicationSpec \<times> Resolved" where
  "seq_task \<equiv> \<lambda>s. (seq s, task s)"

lemma keeps_pair: "keeps f m \<Longrightarrow> keeps g m \<Longrightarrow> keeps (\<lambda>s. (f s, g s)) m"
  by (simp add: steps_def same_def)

lemma seq_local: "keeps seq (updStatus f)" "keeps seq (Eventf ty reason action msg)" "keeps seq (kapi m)"
  unfolding updStatus_def Eventf_def by (simp_all add: steps_def same_def run_modify kapi_def case_prod_beta)

lemma pair_local:
  "pure m \<Longrightarrow> keeps seq_task (srv m)" "keeps seq_task (updStatus f)" "keeps seq_task (Eventf ty reason action msg)"
  by (intro keeps_pair seq_reads seq_local task_local; assumption)+

lemmas pair_intros = keeps.steps_rules steps_if steps_case_option steps_case_sum steps_case_prod steps_case_list
  pair_local fake.pure_reads [unfolded fake_client_simps]

lemma pair_handler:
  "keeps seq_task (handler_get (handlerFor (on_fake r) a refs) pk)"
  "keeps seq_task (handler_findByName (handlerFor (on_fake r) a refs) name)"
  "keeps seq_task (handler_existsAsOtherType (handlerFor (on_fake r) a refs) pk)"
  by (rule handler_cases [of "on_fake r" a refs];
      simp only: proxyProviderHandler_def oauth2ProviderHandler_def existsE_def providerHandler.select_convs Authentik_on_fake fake_client_simps;
      intro pair_intros)+

lemma pair_findProvider: "keeps seq_task (findProvider (handlerFor (on_fake r) a refs) application)"
  unfolding findProvider_def getAttached_def Let_def by (intro pair_intros pair_handler)

lemma create_handler:
  fixes r :: "(fake, 'k) Reconciler"
  shows "keeps task (handler_create (handlerFor (on_fake r) a refs) name)"
  "steps (draws 1 seq) (handler_create (handlerFor (on_fake r) a refs) name)"
proof -
  have d: "keeps task (ResolveCreationDefaults (resolver_of (on_fake r)) a)" "keeps (\<lambda>s :: (fake, 'k) sys. seq s) (ResolveCreationDefaults (resolver_of (on_fake r)) a)"
    by (rule keeps_comp [OF keeps_defaults], simp)+
  show "keeps task (handler_create (handlerFor (on_fake r) a refs) name)"
    by (rule handler_cases [of "on_fake r" a refs];
        simp only: proxyProviderHandler_def oauth2ProviderHandler_def providerHandler.select_convs;
        intro frame_intros d)
  show "steps (draws 1 seq) (handler_create (handlerFor (on_fake r) a refs) name)"
    by (rule handler_cases [of "on_fake r" a refs];
        simp only: proxyProviderHandler_def oauth2ProviderHandler_def providerHandler.select_convs Authentik_on_fake fake_client_simps)
      (intro draws_pre [OF d(2)] draws_post [OF draws_srv] draws_creations frame_intros)+
qed

lemma keeps_bind_plain:
  assumes "keeps f m" and "yields_in (\<lambda>_. True) P m" and "\<And>x. P x \<Longrightarrow> keeps f (k x)"
  shows "keeps f (bindE m k)"
proof (rule stepsI)
  fix s y t assume run: "bindE m k s = (y, t)"
  obtain x u where m: "m s = (x, u)" by (metis surj_pair)
  show "same f s t"
  proof (cases x)
    case (Inl e)
    with run m keepsD [OF assms(1) m] show ?thesis by (simp add: run_bind same_def)
  next
    case (Inr v)
    with run m have "k v u = (y, t)" by (simp add: run_bind)
    from keepsD [OF assms(3) this] keepsD [OF assms(1) m] assms(2) m Inr show ?thesis
      by (auto simp: same_def yields_in_start)
  qed
qed

lemma draws_bind_plain:
  assumes "keeps f m" and "yields_in (\<lambda>_. True) P m" and "\<And>x. P x \<Longrightarrow> steps (draws n f) (k x)"
  shows "steps (draws n f) (bindE m k)"
proof (rule stepsI)
  fix s y t assume run: "bindE m k s = (y, t)"
  obtain x u where m: "m s = (x, u)" by (metis surj_pair)
  show "draws n f s t"
  proof (cases x)
    case (Inl e)
    with run m keepsD [OF assms(1) m] show ?thesis by (simp add: run_bind draws_def)
  next
    case (Inr v)
    with run m have k: "k v u = (y, t)" by (simp add: run_bind)
    have "P v" using assms(2) m Inr by (auto simp: yields_in_start)
    from stepsD [OF assms(3) [OF this] k] keepsD [OF assms(1) m] show ?thesis by (simp add: draws_def)
  qed
qed

lemma draws_thens:
  "keeps f m \<Longrightarrow> steps (draws n f) k \<Longrightarrow> steps (draws n f) (thenE m k)"
  "steps (draws n f) m \<Longrightarrow> keeps f k \<Longrightarrow> steps (draws n f) (thenE m k)"
  unfolding thenE_def by (rule draws_pre; assumption) (rule draws_post; assumption)

lemma seq_patchStatus: "keeps seq (patchStatus r)"
  by (rule server_patchStatus)

lemma reconcileProvider_frame:
  assumes "same_spec (Kube r)"
  shows "keeps task (reconcileProvider (on_fake r) application)"
    and "steps (draws 5 seq) (reconcileProvider (on_fake r) application)"
proof -
  let ?h = "\<lambda>s. handlerFor (on_fake r) (st_app s) (st_resolved s)"
  let ?rest = "\<lambda>h. bindE (findProvider h application) (\<lambda>provider.
     bindE (readE sys_spec) (\<lambda>sp.
     bindE (case provider of
         Some p \<Rightarrow> retE (observed_pk p)
       | None \<Rightarrow>
           (let name = providerName sp in
            bindE (handler_create h name) (\<lambda>pk.
            thenE (Eventf EventTypeNormal eventReasonCreated eventActionReconcile
                (''Created '' @ handler_kind h @ '' Provider '' @ quote name)) (retE pk)))) (\<lambda>pk.
     bindE (readE sys_status) (\<lambda>st.
     thenE (if status_ProviderPK st \<noteq> Some pk
            then thenE (updStatus (\<lambda>st. st\<lparr>status_ProviderPK := Some pk\<rparr>)) (patchStatus (on_fake r))
            else retE ())
     (thenE (cache_ensure (markers (on_fake r)) \<lparr> obj_Model = handler_model h, obj_PK = itoa pk \<rparr>)
     (thenE (case provider of Some p \<Rightarrow> observed_sync p | None \<Rightarrow> retE ())
     (retE pk)))))))"
  have t: "keeps task (?rest (handlerFor (on_fake r) a refs))" for a refs
    by (rule keeps_bind_plain [OF keeps_comp [OF pair_findProvider] plain_findProvider], simp)
      (intro task_intros assms create_handler; auto simp: plain_sync_def)
  show "keeps task (reconcileProvider (on_fake r) application)"
    using t unfolding reconcileProvider_def getHandler_def steps_def same_def bind_read by blast
  have sync: "keeps seq (case provider of Some p \<Rightarrow> observed_sync p | None \<Rightarrow> retE ())"
    if "\<forall>x. provider = Some x \<longrightarrow> plain_sync x" for provider :: "(fake, 'a) observedProvider option"
    using that by (cases provider) (auto simp: plain_sync_def intro: frame_intros)
  have five: "steps (draws (1 + 4) seq) m \<Longrightarrow> steps (draws 5 seq) m" for m :: "(fake, 'a, int) step"
    by simp
  have create: "steps (draws 1 seq) (case provider of
         Some p \<Rightarrow> retE (observed_pk p)
       | None \<Rightarrow>
           (let name = providerName sp in
            bindE (handler_create (handlerFor (on_fake r) a refs) name) (\<lambda>pk.
            thenE (Eventf EventTypeNormal eventReasonCreated eventActionReconcile
                (''Created '' @ handler_kind (handlerFor (on_fake r) a refs) @ '' Provider '' @ quote name)) (retE pk))))"
    for provider :: "(fake, 'a) observedProvider option" and sp a refs
    unfolding Let_def
    by (intro steps_case_option draws_post [OF create_handler(2)] draws_keeps keeps.steps_rules seq_local)
  have "steps (draws 5 seq) (?rest (handlerFor (on_fake r) a refs))" for a refs
    by (rule draws_bind_plain [OF keeps_comp [OF pair_findProvider] plain_findProvider], simp,
        rule draws_pre [OF keeps.steps_read], rule five, rule draws_bind [OF create],
        intro draws_pre [OF keeps.steps_read] draws_thens(1) [OF _ draws_thens(2) [OF draws_ensure]])
      (intro steps_if keeps.steps_rules seq_local seq_patchStatus sync; assumption)+
  then show "steps (draws 5 seq) (reconcileProvider (on_fake r) application)"
    unfolding reconcileProvider_def getHandler_def steps_def bind_read by blast
qed

section \<open>The server stays well-formed\<close>

lemma wf_srv: "stable wf_fake m \<Longrightarrow> stable (\<lambda>s. wf_fake (server s)) (srv m)"
  by (auto simp: steps_def pres_def run_srv case_prod_beta)

lemma wf_reads: "pure m \<Longrightarrow> stable (\<lambda>s. wf_fake (server s)) (srv m)"
  by (rule wf_srv) (rule pure_stable)

lemma wf_cache:
  "stable (\<lambda>s. wf_fake (server s)) (cache_contains (markers (on_fake r)) ob)"
  "stable (\<lambda>s. wf_fake (server s)) (cache_isManaged (markers (on_fake r)) ob)"
  "stable (\<lambda>s. wf_fake (server s)) (cache_ensure (markers (on_fake r)) ob)"
  "stable (\<lambda>s. wf_fake (server s)) (cache_remove (markers (on_fake r)) ob)"
proof -
  have hook: "server (requeueAll (on_fake r) s) = server s" for s
    using requeueAll_frame [of "on_fake r" s] by (simp add: cache_state.defs)
  note defs = cache_contains_def cache_ensure_def cache_isManaged_def cache_remove_def refreshLocked_def addObject_def
      deleteObject_def nowE_def EnsureRole_def findOrCreateRole_def findRole_def marker_role_def Mark_def Unmark_def
      IsManaged_def ListManaged_def markers_def markerCacheOn.select_convs Marker.select_convs Authentik_on_fake fake_client_simps
  note intros = stable.steps_rules steps_if steps_case_option steps_case_sum steps_case_prod steps_case_list stable_modify
    steps_wrap wf_writes [THEN wf_srv] fake.pure_reads [unfolded fake_client_simps, THEN wf_reads]
  show "stable (\<lambda>s. wf_fake (server s)) (cache_contains (markers (on_fake r)) ob)"
    unfolding defs by (intro intros) (simp_all add: hook steps_def pres_def)
  show "stable (\<lambda>s. wf_fake (server s)) (cache_isManaged (markers (on_fake r)) ob)"
    unfolding defs by (intro intros) (simp_all add: hook steps_def pres_def)
  show "stable (\<lambda>s. wf_fake (server s)) (cache_ensure (markers (on_fake r)) ob)"
    unfolding defs by (intro intros) (simp_all add: hook steps_def pres_def)
  show "stable (\<lambda>s. wf_fake (server s)) (cache_remove (markers (on_fake r)) ob)"
    unfolding defs by (intro intros) (simp_all add: hook steps_def pres_def)
qed

interpretation reconcile_wf: reconcile_invariant "on_fake r" "\<lambda>s. wf_fake (server s)" "\<lambda>_. True"
  for r :: "(fake, 'k) Reconciler"
proof (intro reconcile_invariant.intro reconcile_invariant_axioms.intro, goal_cases)
  case 1
  show ?case by (simp add: fake.reads_axioms)
qed (simp_all add: wf_srv wf_writes wf_cache)


section \<open>The other steps\<close>

lemma task_observeApplication:
  assumes "same_spec (Kube r)"
  shows "keeps task (observeApplication (on_fake r))"
proof -
  have "keeps task (bindE (getHandler (on_fake r)) (\<lambda>h. getAttached h slug pk))" for slug pk
  proof -
    have "keeps task (getAttached (handlerFor (on_fake r) a refs) slug pk)" for a refs
      unfolding getAttached_def by (intro frame_intros keeps_comp [OF pair_handler(1)] keeps_comp [OF pair_handler(3)]) simp_all
    then show ?thesis unfolding getHandler_def steps_def same_def bind_read by blast
  qed
  then have "keeps task (attachedProvider (on_fake r) a)" for a
    unfolding attachedProvider_def
    by (intro keeps.steps_bind [OF keeps.steps_read] steps_case_option steps_if keeps.steps_ret)
  then show ?thesis
    unfolding observeApplication_def recordApplication_def adoptApplication_def Let_def
    by (intro task_intros assms)
qed

lemma seq_attachedProvider: "keeps seq (attachedProvider (on_fake r) a)"
  using keeps_attachedProvider [of "\<lambda>c. fake_sequence c" r a] .

lemma seq_adoptApplication: "keeps seq (adoptApplication (on_fake r) a)"
  unfolding adoptApplication_def Let_def
  by (intro keeps.steps_rules steps_if seq_attachedProvider seq_local)

lemma draws_isManaged: "steps (draws 3 seq) (cache_isManaged (markers (on_fake r)) ob)"
proof -
  have managed: "steps (draws 1 seq) (IsManaged (fake_marker n) ob)" for n
    unfolding IsManaged_def
    by (rule draws_post [OF draws_marker_role])
      (unfold fake_marker_def Marker.select_convs, intro frame_intros seq_reads fake.pure_reads)
  have add: "keeps seq (addObject ob)" unfolding addObject_def by (intro frame_intros) simp
  have "steps (draws (2 + 1) seq) (cache_isManaged (markers (on_fake r)) ob)"
    unfolding cache_isManaged_def marker_of_fake
    by (intro draws_then [OF draws_refresh] draws_pre [OF keeps.steps_read] steps_if draws_keeps [OF keeps.steps_ret]
        draws_post [OF managed] keeps.steps_rules add)
  then show ?thesis by simp
qed

lemma draws_observeApplication: "steps (draws 7 seq) (observeApplication (on_fake r))"
proof -
  let ?ensure = "\<lambda>o'. thenE (cache_ensure (markers (on_fake r)) (applicationObject o')) (retE (Some o'))"
  have ensure: "steps (draws 4 seq) (?ensure o')" for o'
    by (rule draws_thens(2) [OF draws_ensure]) (rule keeps.steps_ret)
  have tail: "steps (draws 4 seq) (thenE (if \<not> managed then adoptApplication (on_fake r) o' else retE ())
      (thenE (updStatus f) (thenE (patchStatus (on_fake r)) (?ensure o'))))" for managed o' f
    by (intro draws_thens(1) ensure steps_if seq_adoptApplication keeps.steps_rules seq_local seq_patchStatus)
  have managed: "steps (draws 7 seq) (bindE (cache_isManaged (markers (on_fake r)) ob) k)"
    if "\<And>m. steps (draws 4 seq) (k m)" for ob and k :: "bool \<Rightarrow> (fake, 'a, Application option) step"
    using draws_bind [OF draws_isManaged that] by simp
  show ?thesis
    unfolding observeApplication_def recordApplication_def Let_def
    by (rule draws_pre [OF keeps.steps_read], rule draws_pre [OF keeps.steps_read],
        rule draws_pre [OF keeps.steps_attempt [OF seq_reads]], simp only: Authentik_on_fake, rule fake.pure_reads,
        intro steps_case_sum steps_if draws_mono [OF ensure] managed tail)
      (simp_all add: draws_keeps keeps.steps_rules seq_local)
qed

lemma bind_attempt_pure:
  assumes "pure m"
  shows "bindE (attempt (srv m)) k s = k (fst (m (server s))) s"
proof -
  obtain x c where m: "m (server s) = (x, c)" by (metis surj_pair)
  from pureD [OF assms m] m have "srv m s = (fst (m (server s)), s)" by (simp add: run_srv)
  then show ?thesis by (simp add: run_bind run_attempt)
qed

lemma observeApplication_result:
  assumes "observeApplication (on_fake r) s = (Inr x, t)"
  shows "x = map_of (fake_applications (server s)) (spec_Slug (sys_spec s))"
proof -
  define k where "k got = (case got of
       Inl err \<Rightarrow>
         (if IsNotFound err
          then (if status_ApplicationPK (sys_status s) \<noteq> []
                then thenE (Eventf EventTypeWarning eventReasonRecreated eventActionReconcile
                       (''Application '' @ quote (spec_Slug (sys_spec s)) @ '' was deleted outside the operator and is recreated''))
                  (thenE (updStatus (\<lambda>st. st\<lparr>status_ApplicationSlug := [], status_ApplicationPK := []\<rparr>)) (retE None))
                else retE None)
          else throwE err)
     | Inr observed \<Rightarrow>
         (if status_ApplicationPK (sys_status s) = appl_Pk observed
          then thenE (cache_ensure (markers (on_fake r)) (applicationObject observed)) (retE (Some observed))
          else bindE (cache_isManaged (markers (on_fake r)) (applicationObject observed)) (\<lambda>managed.
            thenE (if \<not> managed then adoptApplication (on_fake r) observed else retE ())
            (thenE (recordApplication observed)
            (thenE (patchStatus (on_fake r))
            (thenE (cache_ensure (markers (on_fake r)) (applicationObject observed))
            (retE (Some observed))))))))" for got
  have run: "k (fst (fake_GetApplication (spec_Slug (sys_spec s)) (server s))) s = (Inr x, t)"
    using assms unfolding observeApplication_def bind_read Let_def Authentik_on_fake bind_attempt_pure [OF fake.pure_reads(2)]
    by (simp only: fake_client_simps k_def)
  have y: "yields (\<lambda>x. x = (case got of Inl _ \<Rightarrow> None | Inr o' \<Rightarrow> Some o')) (k got)" for got
    unfolding k_def by (cases got) (simp_all only: sum.case, (intro yield_intros; simp)+)
  have "fst (fake_GetApplication slug c) = (case map_of (fake_applications c) slug of
      None \<Rightarrow> Inl (notFound ''GetApplication'' ''Application'') | Some a \<Rightarrow> Inr a)" for slug c
    by (simp add: fake_GetApplication_def run_lookup split: option.split)
  with yieldsD [OF y run] show ?thesis by (simp split: option.splits)
qed

text \<open>The parts of the server that the later steps leave alone.\<close>

abbreviation but_outposts :: "(fake, 'k) sys \<Rightarrow> fake" where
  "but_outposts \<equiv> \<lambda>s. not_rbac ((server s)\<lparr>fake_outposts := []\<rparr>)"

abbreviation but_applications :: "(fake, 'k) sys \<Rightarrow> fake" where
  "but_applications \<equiv> \<lambda>s. not_rbac ((server s)\<lparr>fake_applications := []\<rparr>)"

abbreviation but_bindings :: "(fake, 'k) sys \<Rightarrow> fake" where
  "but_bindings \<equiv> \<lambda>s. not_rbac ((server s)\<lparr>fake_bindings := []\<rparr>)"

lemma but_calls:
  "keeps (\<lambda>c. not_rbac (c\<lparr>fake_outposts := []\<rparr>)) (fake_SetOutpostProviders uuid ps)"
  "keeps (\<lambda>c. not_rbac (c\<lparr>fake_applications := []\<rparr>)) (fake_PatchApplication slug pa)"
  "keeps (\<lambda>c. not_rbac (c\<lparr>fake_applications := []\<rparr>)) (fake_CreateApplication ra)"
  "keeps (\<lambda>c. not_rbac (c\<lparr>fake_bindings := []\<rparr>)) (fake_CreatePolicyBinding rb)"
  "keeps (\<lambda>c. not_rbac (c\<lparr>fake_bindings := []\<rparr>)) (fake_PatchPolicyBinding uuid pb)"
  "keeps (\<lambda>c. not_rbac (c\<lparr>fake_bindings := []\<rparr>)) (fake_DeletePolicyBinding uuid)"
  unfolding fake_write_defs Let_def
  by (rule steps_self, intro fake_frame; simp add: not_rbac_def split: option.split)+

lemma not_rbac_but:
  assumes "not_rbac (server s) = not_rbac (server t)"
  shows "but_applications s = but_applications t" "but_bindings s = but_bindings t" "but_outposts s = but_outposts t"
proof -
  have "not_rbac (c\<lparr>fake_applications := as\<rparr>) = (not_rbac c)\<lparr>fake_applications := as\<rparr>"
    "not_rbac (c\<lparr>fake_bindings := bs\<rparr>) = (not_rbac c)\<lparr>fake_bindings := bs\<rparr>"
    "not_rbac (c\<lparr>fake_outposts := os\<rparr>) = (not_rbac c)\<lparr>fake_outposts := os\<rparr>" for c as bs os
    by (simp_all add: not_rbac_def)
  with assms show "but_applications s = but_applications t" "but_bindings s = but_bindings t" "but_outposts s = but_outposts t"
    by simp_all
qed

lemma but_cache:
  "keeps but_applications (cache_ensure (markers (on_fake r)) ob)"
  "keeps but_bindings (cache_contains (markers (on_fake r)) ob)" "keeps but_bindings (cache_ensure (markers (on_fake r)) ob)"
  "keeps but_bindings (cache_remove (markers (on_fake r)) ob)"
  by (rule keeps_comp [OF not_rbac_cache(3)], rule not_rbac_but, simp,
      rule keeps_comp [OF not_rbac_cache(1)], rule not_rbac_but, simp,
      rule keeps_comp [OF not_rbac_cache(3)], rule not_rbac_but, simp,
      rule keeps_comp [OF not_rbac_cache(4)], rule not_rbac_but, simp)

lemma outpost_frames:
  "keeps but_outposts (reconcileOutpost (on_fake r) pk)" "keeps task (reconcileOutpost (on_fake r) pk)"
  "keeps seq (reconcileOutpost (on_fake r) pk)"
  unfolding reconcileOutpost_def leaveOutpostByUUID_def removeProviderFromOutpost_def Let_def Authentik_on_fake fake_client_simps
  by (intro frame_intros but_calls(1) [THEN keeps_srv] keeps_read_srv seq_intros seq_local fake.pure_reads [unfolded fake_client_simps])+

lemma exportCredentials_frames:
  "keeps server (exportCredentials (on_fake r) pk)" "keeps task (exportCredentials (on_fake r) pk)"
  unfolding exportCredentials_def Let_def Authentik_on_fake fake_client_simps
  by (intro frame_intros keeps_read_srv [where g = "\<lambda>c. c"] server_local [where g = "\<lambda>c. c"] fake.pure_reads [unfolded fake_client_simps])+

lemma application_frames:
  "keeps but_applications (reconcileApplication (on_fake r) observed pk)"
  "same_spec (Kube r) \<Longrightarrow> keeps task (reconcileApplication (on_fake r) observed pk)"
  unfolding reconcileApplication_def recordApplication_def Let_def Authentik_on_fake fake_client_simps
  by (intro frame_intros but_calls [THEN keeps_srv] server_patchStatus but_cache)
    (intro task_intros)

lemma draws_reconcileApplication: "steps (draws 5 seq) (reconcileApplication (on_fake r) observed pk)"
proof -
  have "steps (draws 4 seq) (thenE (updStatus f) (thenE (patchStatus (on_fake r))
         (thenE (cache_ensure (markers (on_fake r)) ob) (thenE (Eventf ty rsn act msg) (retE created)))))" for f ob ty rsn act msg created
    by (intro draws_thens(1) [OF seq_local(1)] draws_thens(1) [OF seq_patchStatus] draws_thens(2) [OF draws_ensure]
        keeps.steps_rules seq_local)
  note tail = this
  show ?thesis
    unfolding reconcileApplication_def recordApplication_def Let_def Authentik_on_fake fake_client_simps
    by (rule draws_pre [OF keeps.steps_read], rule steps_case_option, rule draws_mono,
        rule draws_bind [OF draws_srv [OF draws_creations(3)]], rule tail, simp,
        intro steps_case_option draws_keeps keeps.steps_ret seq_intros)
qed

lemma bindings_frames:
  "keeps but_bindings (reconcileBindings (on_fake r) application)"
  "same_spec (Kube r) \<Longrightarrow> keeps task (reconcileBindings (on_fake r) application)"
proof -
  note defs = reconcileBindings_def managedBindings_def adoptBindings_def applyRule_def syncBinding_def createBinding_def
    deleteBinding_def handleUnmanagedBindings_def reportUnmanaged_def describeSubject_def setCondition_def
    removeCondition_def Let_def Authentik_on_fake fake_client_simps
  have status: "keeps but_bindings (patchStatus (on_fake r))" by (rule server_patchStatus)
  have reads: "pure m \<Longrightarrow> keeps but_bindings (srv m)" for m :: "(fake, goerror, 'b) go" by (rule keeps_read_srv)
  note reads = fake.pure_reads [THEN reads, unfolded fake_client_simps]
  have local: "keeps but_bindings (updStatus f)" "keeps but_bindings (Eventf ty reason action msg)" for f ty reason action msg
    by (rule server_local)+
  show "keeps but_bindings (reconcileBindings (on_fake r) application)"
    unfolding defs
    by (intro frame_intros but_calls [THEN keeps_srv] status but_cache reads local)
  show "keeps task (reconcileBindings (on_fake r) application)" if "same_spec (Kube r)"
    unfolding defs by (intro task_intros that)
qed

section \<open>A whole reconcile\<close>

text \<open>The part of a reconcile that is about the Provider.\<close>

abbreviation provider_steps ::
  "('a, 'k) Reconciler \<Rightarrow> Application option \<Rightarrow> Resolved \<Rightarrow> AuthentikApplicationSpec \<Rightarrow> ('a, 'k, int option) step" where
  "provider_steps r observed refs sp \<equiv> (case spec_Provider sp of
       None \<Rightarrow> retE None
     | Some provider \<Rightarrow>
         bindE (reconcileProvider r observed) (\<lambda>pk.
         thenE (if provider_Proxy provider \<noteq> None then reconcileOutpost r pk else retE ())
         (thenE (case Option.bind (resolved_OAuth2 refs) oauth2refs_Credentials of
             None \<Rightarrow> retE ()
           | Some c \<Rightarrow> (if \<not> creds_SecretExists c then exportCredentials r pk else retE ()))
         (retE (Some pk)))))"

text \<open>The Provider \<open>pk\<close> on the server \<open>c\<close> is the one the spec asks for.\<close>

definition provider_desired :: "AuthentikApplicationSpec \<Rightarrow> Resolved \<Rightarrow> fake \<Rightarrow> int option \<Rightarrow> bool" where
  "provider_desired sp refs c pk \<longleftrightarrow> (case spec_Provider sp of
       None \<Rightarrow> pk = None
     | Some provider \<Rightarrow> (case provider_Proxy provider of
         Some proxy \<Rightarrow> \<exists>n y ps. pk = Some n \<and> map_of (fake_proxyProviders c) n = Some y \<and>
           proxy_match (desiredProxyProvider provider proxy (the (resolved_Flows refs)) (the (resolved_Proxy refs))) y \<and>
           members c (proxyrefs_Outpost (the (resolved_Proxy refs))) = Some ps \<and> n \<in> set ps
       | None \<Rightarrow> \<exists>n y. pk = Some n \<and> map_of (fake_oauth2Providers c) n = Some y \<and>
           oauth2_match (desiredOAuth2Provider provider (the (provider_OAuth2 provider)) (the (resolved_Flows refs))
             (the (resolved_OAuth2 refs))) y))"

lemma but_simps:
  "but_outposts s = but_outposts t \<Longrightarrow> fake_applications (server s) = fake_applications (server t) \<and>
     fake_bindings (server s) = fake_bindings (server t) \<and> fake_proxyProviders (server s) = fake_proxyProviders (server t) \<and>
     fake_oauth2Providers (server s) = fake_oauth2Providers (server t)"
  "but_applications s = but_applications t \<Longrightarrow> fake_outposts (server s) = fake_outposts (server t) \<and>
     fake_bindings (server s) = fake_bindings (server t) \<and> fake_proxyProviders (server s) = fake_proxyProviders (server t) \<and>
     fake_oauth2Providers (server s) = fake_oauth2Providers (server t)"
  "but_bindings s = but_bindings t \<Longrightarrow> fake_applications (server s) = fake_applications (server t) \<and>
     fake_outposts (server s) = fake_outposts (server t) \<and> fake_proxyProviders (server s) = fake_proxyProviders (server t) \<and>
     fake_oauth2Providers (server s) = fake_oauth2Providers (server t)"
  by (frule not_rbac_simps(1), frule not_rbac_simps(2), frule not_rbac_simps(3), frule not_rbac_simps(4),
      drule not_rbac_simps(5), simp)+

lemma provider_desired_same:
  "fake_outposts c = fake_outposts d \<Longrightarrow> fake_proxyProviders c = fake_proxyProviders d \<Longrightarrow>
   fake_oauth2Providers c = fake_oauth2Providers d \<Longrightarrow> provider_desired sp refs c pk = provider_desired sp refs d pk"
  by (simp add: provider_desired_def members_def split: option.split)

lemma provider_only:
  assumes "not_rbac (c\<lparr>fake_proxyProviders := []\<rparr>) = not_rbac (d\<lparr>fake_proxyProviders := []\<rparr>) \<or>
      not_rbac (c\<lparr>fake_oauth2Providers := []\<rparr>) = not_rbac (d\<lparr>fake_oauth2Providers := []\<rparr>)"
  shows "fake_applications c = fake_applications d \<and> fake_bindings c = fake_bindings d"
  using assms
  by (elim disjE) (frule not_rbac_simps(1), drule not_rbac_simps(4), simp)+

lemma run_provider_steps:
  fixes s :: "(fake, 'k) sys"
  assumes run: "provider_steps (on_fake r) observed refs (sys_spec s) s = (Inr pk, t)" and wf: "wf_fake (server s)"
    and refs: "refs = st_resolved s" and valid: "valid_AuthentikApplicationSpec (sys_spec s)" and kube: "same_spec (Kube r)"
  shows "provider_desired (sys_spec s) refs (server t) pk \<and> task t = task s \<and> wf_fake (server t) \<and> draws 5 seq s t \<and>
    fake_applications (server t) = fake_applications (server s) \<and> fake_bindings (server t) = fake_bindings (server s)"
proof (cases "spec_Provider (sys_spec s)")
  case None
  then show ?thesis using run wf by (simp add: run_ret provider_desired_def draws_def)
next
  case (Some provider)
  let ?export = "\<lambda>n. (case Option.bind (resolved_OAuth2 refs) oauth2refs_Credentials of
             None \<Rightarrow> retE ()
           | Some c \<Rightarrow> (if \<not> creds_SecretExists c then exportCredentials (on_fake r) n else retE ()))"
  from run obtain n s1 s2 where p: "reconcileProvider (on_fake r) observed s = (Inr n, s1)"
    and o': "(if provider_Proxy provider \<noteq> None then reconcileOutpost (on_fake r) n else retE ()) s1 = (Inr (), s2)"
    and e: "?export n s2 = (Inr (), t)" and pk: "pk = Some n"
    unfolding Some option.case by (auto elim!: bind_InrE then_InrE simp: run_ret)
  note frame = reconcileProvider_frame [OF kube]
  have s1: "task s1 = task s" "wf_fake (server s1)" "draws 5 seq s s1"
    using keepsD [OF frame(1) p] stableD [OF reconcile_wf.stable_reconcileProvider p wf] stepsD [OF frame(2) p] .
  have "task s2 = task s1 \<and> wf_fake (server s2) \<and> seq s2 = seq s1 \<and> but_outposts s2 = but_outposts s1"
  proof (cases "provider_Proxy provider = None")
    case True
    then show ?thesis using o' s1(2) by (simp add: run_ret)
  next
    case False
    with o' have o: "reconcileOutpost (on_fake r) n s1 = (Inr (), s2)" by simp
    show ?thesis
      using keepsD [OF outpost_frames(1) o] keepsD [OF outpost_frames(2) o] keepsD [OF outpost_frames(3) o]
        stableD [OF reconcile_wf.stable_reconcileOutpost o s1(2)] by simp
  qed
  then have s2: "task s2 = task s1" "wf_fake (server s2)" "seq s2 = seq s1" "but_outposts s2 = but_outposts s1"
    by blast+
  have "keeps server (?export n)" "keeps task (?export n)"
    by (intro steps_case_option steps_if keeps.steps_ret exportCredentials_frames)+
  from keepsD [OF this(1) e] keepsD [OF this(2) e] have t: "server t = server s2" "task t = task s2" .
  have vp: "pred_option valid_ProxyProviderSpec (provider_Proxy provider)" "has (provider_Proxy provider) \<noteq> has (provider_OAuth2 provider)"
    using valid Some by (simp_all add: valid_AuthentikApplicationSpec_def valid_ProviderSpec_def)
  have "provider_desired (sys_spec s) refs (server t) pk \<and>
      fake_applications (server t) = fake_applications (server s) \<and> fake_bindings (server t) = fake_bindings (server s)"
  proof (cases "provider_Proxy provider")
    case None
    then obtain oauth2 where oa: "provider_OAuth2 provider = Some oauth2" using vp(2) by (auto simp: has_def)
    note q = reconcileProvider_oauth2 [OF p wf Some None oa refl]
    from o' None have "s2 = s1" by (simp add: run_ret)
    with q provider_only [of "server s1" "server s"] show ?thesis
      using t(1) None oa pk by (auto simp: provider_desired_def Some refs)
  next
    case proxy: (Some proxy)
    have "valid_ProxyProviderSpec proxy" using vp(1) proxy by simp
    note q = reconcileProvider_proxy [OF p wf Some proxy this refl]
    from o' proxy have "reconcileOutpost (on_fake r) n s1 = (Inr (), s2)" by simp
    from reconcileOutpost_joins [OF this s1(2) refl]
    have "\<exists>ps. members (server s2) (proxyrefs_Outpost (the (resolved_Proxy (st_resolved s1)))) = Some ps \<and> n \<in> set ps"
      by (metis in_set_conv_decomp)
    moreover have "st_resolved s1 = refs" using s1(1) refs by simp
    ultimately show ?thesis
      using q provider_only [of "server s1" "server s"] but_simps(1) [OF s2(4)] t(1) proxy pk
      by (auto simp: provider_desired_def Some refs)
  qed
  moreover have "draws 5 seq s t" using s1(3) s2(3) t(1) by (simp add: draws_def)
  ultimately show ?thesis using s1(1) s2(1,2) t by simp
qed

text \<open>The steps of a reconcile that succeeds, with the states between them.\<close>

lemma reconcileSpec_stages:
  fixes s :: "(fake, 'k) sys"
  assumes "reconcileSpec (on_fake r) s = (Inr (), t)"
  obtains s1 refs s2 observed s3 pk s4 app s5
  where "checkConflict (on_fake r) s = (Inr (), s1)"
    and "Resolve (fake_resolver (Kube r)) (st_app s1) s1 = (Inr refs, s2)"
    and "observeApplication (on_fake r) (s2\<lparr>st_resolved := refs\<rparr>) = (Inr observed, s3)"
    and "provider_steps (on_fake r) observed refs (sys_spec s3) s3 = (Inr pk, s4)"
    and "reconcileApplication (on_fake r) observed pk s4 = (Inr app, s5)"
    and "reconcileBindings (on_fake r) app s5 = (Inr (), t)"
  using assms that
  unfolding reconcileSpec_def bind_read resolver_on_fake
  by (elim then_InrE bind_InrE) (auto simp: run_modify bind_read resolver_on_fake elim!: then_InrE bind_InrE)

text \<open>
  The access to the Application with the policy binding target \<open>target\<close> is the one of the spec: every
  rule has its binding, what matches no rule is reported or, with \<open>access.prune\<close>, gone, and the bindings
  of other Applications are as they were.
\<close>

definition access_reached :: "AuthentikApplicationSpec \<Rightarrow> Rule list \<Rightarrow> string \<Rightarrow> (fake, 'k) sys \<Rightarrow> (fake, 'k) sys \<Rightarrow> bool" where
  "access_reached sp rules target s t \<longleftrightarrow>
     (\<exists>keys. length keys = length rules \<and> (\<forall>i < length rules. \<exists>b. map_of (fake_bindings (server t)) (keys ! i) = Some b \<and>
        binding_match (desiredBinding target (rules ! i)) b) \<and>
      (\<forall>u b. map_of (fake_bindings (server t)) u = Some b \<and> bind_Target b = target \<longrightarrow>
        u \<in> set keys \<or> u \<in> unmanaged_UUID ` set (status_UnmanagedBindings (sys_status t)))) \<and>
    (is_true (access_Prune (spec_Access sp)) \<or> is_true (access_Public (spec_Access sp)) \<longrightarrow>
      status_UnmanagedBindings (sys_status t) = []) \<and>
    (\<forall>u b. map_of (fake_bindings (server s)) u = Some b \<and> bind_Target b \<noteq> target \<longrightarrow>
      map_of (fake_bindings (server t)) u = Some b)"

lemma room_draws:
  "draws n seq s t \<Longrightarrow> fake_bindings (server t) = fake_bindings (server s) \<Longrightarrow> room (k + n) (server s) \<Longrightarrow> room k (server t)"
  by (auto simp: room_def draws_def)

lemma draws_trans: "draws a f s t \<Longrightarrow> draws b f t u \<Longrightarrow> draws (a + b) f s u"
  unfolding draws_def by auto

lemma reconcileSpec_start:
  fixes s :: "(fake, 'k) sys"
  assumes "checkConflict (on_fake r) s = (Inr (), s1)" and "Resolve (fake_resolver (Kube r)) (st_app s1) s1 = (Inr refs, s2)"
  shows "server (s2\<lparr>st_resolved := refs\<rparr>) = server s \<and> task (s2\<lparr>st_resolved := refs\<rparr>) = (sys_spec s, refs) \<and>
    list_all2 (rule_denotes (server s)) (access_Rules (spec_Access (sys_spec s))) (resolved_Rules refs)"
proof -
  from keepsD [OF keeps_checkConflict assms(1)] have a: "server s1 = server s" "st_app s1 = st_app s"
    by (auto simp: cache_state.defs dest: task_more)
  from keepsD [OF fake_resolver.keeps_Resolve assms(2)] have "st_app s2 = st_app s1"
    by (auto simp: but_failures_def dest: task_more)
  with a fake_resolver.Resolve_rules [OF assms(2)] show ?thesis
    by (auto simp: sys_spec_def intro: list_all2_mono rule_exact_fake)
qed

text \<open>The steps up to the Application, and what they leave to the step on the bindings.\<close>

lemma reconcileSpec_application:
  fixes s :: "(fake, 'k) sys"
  assumes run: "reconcileSpec (on_fake r) s = (Inr (), t)" and wf: "wf_fake (server s)"
    and valid: "valid_AuthentikApplicationSpec (sys_spec s)" and kube: "same_spec (Kube r)"
  obtains u refs pk app where "reconcileBindings (on_fake r) app u = (Inr (), t)"
    and "task u = (sys_spec s, refs)" and "wf_fake (server u)" and "draws 17 seq s u" and "fake_bindings (server u) = fake_bindings (server s)"
    and "list_all2 (rule_denotes (server s)) (access_Rules (spec_Access (sys_spec s))) (resolved_Rules refs)"
    and "provider_desired (sys_spec s) refs (server u) pk"
    and "map_of (fake_applications (server u)) = (map_of (fake_applications (server s)))(spec_Slug (sys_spec s) \<mapsto> app)"
    and "app_match (desiredApplication (sys_spec s) pk) app"
    and "\<exists>observed v w. provider_steps (on_fake r) observed refs (sys_spec s) v = (Inr pk, w) \<and>
      reconcileApplication (on_fake r) observed pk w = (Inr app, u) \<and> task v = (sys_spec s, refs) \<and> wf_fake (server v)"
proof -
  from run obtain s1 refs s2 observed s3 pk s4 app s5 where
    c: "checkConflict (on_fake r) s = (Inr (), s1)" "Resolve (fake_resolver (Kube r)) (st_app s1) s1 = (Inr refs, s2)"
    and o': "observeApplication (on_fake r) (s2\<lparr>st_resolved := refs\<rparr>) = (Inr observed, s3)"
    and p: "provider_steps (on_fake r) observed refs (sys_spec s3) s3 = (Inr pk, s4)"
    and a: "reconcileApplication (on_fake r) observed pk s4 = (Inr app, s5)"
    and b: "reconcileBindings (on_fake r) app s5 = (Inr (), t)"
    by (rule reconcileSpec_stages)
  let ?s2 = "s2\<lparr>st_resolved := refs\<rparr>"
  from reconcileSpec_start [OF c] have start: "server ?s2 = server s" "task ?s2 = (sys_spec s, refs)"
    "list_all2 (rule_denotes (server s)) (access_Rules (spec_Access (sys_spec s))) (resolved_Rules refs)" by blast+
  have t3: "sys_spec s3 = sys_spec s" "st_resolved s3 = refs" and wf3: "wf_fake (server s3)"
    using keepsD [OF task_observeApplication [OF kube] o'] start(2) stableD [OF reconcile_wf.stable_observeApplication o'] wf start(1)
    by simp_all
  have same3: "fake_applications (server s3) = fake_applications (server s)" "fake_bindings (server s3) = fake_bindings (server s)"
    using keepsD [OF keeps_observeApplication o'] not_rbac_simps [of "server s3" "server ?s2"] start(1) by simp_all
  have "observed = map_of (fake_applications (server s3)) (spec_Slug (sys_spec s3))"
    using observeApplication_result [OF o'] start(1,2) same3(1) t3(1) by simp
  from run_provider_steps [OF p wf3 t3(2) [symmetric]] valid kube t3(1)
  have p4: "provider_desired (sys_spec s) refs (server s4) pk" "task s4 = task s3" "wf_fake (server s4)" "draws 5 seq s3 s4"
    "fake_applications (server s4) = fake_applications (server s3)" "fake_bindings (server s4) = fake_bindings (server s3)" by simp_all
  have observed: "observed = map_of (fake_applications (server s4)) (spec_Slug (sys_spec s4))"
    using \<open>observed = _\<close> p4(2,5) by simp
  have "task s5 = task s4" using keepsD [OF application_frames(2) [OF kube] a] .
  moreover have "wf_fake (server s5)" using stableD [OF reconcile_wf.stable_reconcileApplication a p4(3)] .
  moreover have "draws 17 seq ?s2 s5"
    using draws_trans [OF draws_trans [OF stepsD [OF draws_observeApplication o'] p4(4)] stepsD [OF draws_reconcileApplication a]] by simp
  then have "draws 17 seq s s5" using start(1) by (simp add: draws_def)
  moreover have "\<exists>observed v w. provider_steps (on_fake r) observed refs (sys_spec s) v = (Inr pk, w) \<and>
      reconcileApplication (on_fake r) observed pk w = (Inr app, s5) \<and> task v = (sys_spec s, refs) \<and> wf_fake (server v)"
    using p [unfolded t3(1)] a t3 wf3 by blast
  moreover note but_simps(2) [OF keepsD [OF application_frames(1) a]]
  moreover note run_reconcileApplication [OF a p4(3) observed]
  ultimately show thesis
    using that [OF b, of refs pk] start(3) p4 same3 t3 provider_desired_same [of "server s5" "server s4"] by simp
qed

text \<open>
  C1: a reconcile that succeeds has brought the server to the state the spec asks for. Every access rule
  was resolved to the one object it names; the Application has the spec's slug and matches the spec with
  the Provider at hand, and no other Application has changed; that Provider exists, matches the spec
  and, behind a proxy, is one of the Outpost; and the bindings of the Application are the rules. (The spec passes the
  validation of the API server, nobody writes another spec during the reconcile, and the 32-bit sequence
  of the server does not run out.)
\<close>

theorem reconcileSpec_reaches_desired:
  fixes s :: "(fake, 'k) sys"
  assumes "reconcileSpec (on_fake r) s = (Inr (), t)" and "wf_fake (server s)"
    and "valid_AuthentikApplicationSpec (sys_spec s)" and "same_spec (Kube r)"
    and "room (4 * length (fake_bindings (server s)) + 9 * length (access_Rules (spec_Access (sys_spec s))) + 17) (server s)"
  shows "list_all2 (rule_denotes (server s)) (access_Rules (spec_Access (sys_spec s))) (resolved_Rules (st_resolved t)) \<and>
    (\<exists>pk app. map_of (fake_applications (server t)) =
        (map_of (fake_applications (server s)))(spec_Slug (sys_spec s) \<mapsto> app) \<and>
      app_match (desiredApplication (sys_spec s) pk) app \<and>
      provider_desired (sys_spec s) (st_resolved t) (server t) pk \<and>
      access_reached (sys_spec s) (resolved_Rules (st_resolved t)) (appl_PbmUuid app) s t)"
proof -
  obtain u refs pk app where
    run: "reconcileBindings (on_fake r) app u = (Inr (), t)"
    and u: "task u = (sys_spec s, refs)" "wf_fake (server u)" "draws 17 seq s u" "fake_bindings (server u) = fake_bindings (server s)"
    and rules: "list_all2 (rule_denotes (server s)) (access_Rules (spec_Access (sys_spec s))) (resolved_Rules refs)"
    and provider: "provider_desired (sys_spec s) refs (server u) pk"
    and app: "map_of (fake_applications (server u)) = (map_of (fake_applications (server s)))(spec_Slug (sys_spec s) \<mapsto> app)"
      "app_match (desiredApplication (sys_spec s) pk) app"
    using assms(1-4) by (rule reconcileSpec_application) blast
  have t: "sys_spec t = sys_spec s" "st_resolved t = refs"
    using keepsD [OF bindings_frames(2) [OF assms(4)] run] u(1) by simp_all
  note rest = but_simps(3) [OF keepsD [OF bindings_frames(1) run]]
  have "room (4 * length (fake_bindings (server u)) + 9 * length (resolved_Rules (st_resolved u))) (server u)"
    using room_draws [OF u(3,4)] assms(5) u(1,4) list_all2_lengthD [OF rules] by simp
  from run_reconcileBindings [OF run u(2) refl refl this]
  have "access_reached (sys_spec s) (resolved_Rules (st_resolved t)) (appl_PbmUuid app) s t"
    unfolding access_reached_def t(1) t(2) u(4) using u(1) by simp
  moreover have "provider_desired (sys_spec s) (st_resolved t) (server t) pk"
    using provider provider_desired_same [of "server t" "server u"] rest t(2) by simp
  moreover have "fake_applications (server t) = fake_applications (server u)" using rest by simp
  ultimately show ?thesis using app rules t(2) by metis
qed

end
