(* ===== verification/Wire.thy ===== *)
theory Wire
  imports Startup
begin

text \<open>
  What the operator guarantees at its edges: list calls that follow every page, error bodies without
  confidential values, and the comparison of the version of the server with that of the client.
\<close>

section \<open>Lists\<close>

lemma call_api_ok:
  "execute (wire_server s) = ((x, Some \<lparr> resp_StatusCode = 200, resp_Body = body \<rparr>, None), t) \<Longrightarrow>
   call_api unmarshal operation execute s = (Inr x, s\<lparr>wire_server := t, requestsTotal := requestsTotal s @ [(operation, itoa 200)],
     requestDuration := requestDuration s @ [(operation, wire_clock s (Suc (wire_ticks s)) - wire_clock s (wire_ticks s))],
     wire_ticks := Suc (Suc (wire_ticks s))\<rparr>)"
  by (simp add: call_api_def wrapError_def observeRequest_def responseCode_def Let_def)

text \<open>Requests that are answered with the page of their number, by a server in state \<open>c\<close> with the pages \<open>ps\<close>.\<close>

definition serves :: "(int \<Rightarrow> ('s, 't page) request) \<Rightarrow> 't list list \<Rightarrow> 's \<Rightarrow> bool" where
  "serves fetch ps c \<longleftrightarrow> (\<forall>i < length ps. \<exists>body. fetch (int i + 1) c =
     ((\<lparr> page_results = ps ! i, page_next = (if Suc i < length ps then int i + 2 else 0) \<rparr>,
       Some \<lparr> resp_StatusCode = 200, resp_Body = body \<rparr>, None), c))"

text \<open>The durations of the next \<open>n\<close> requests: the clock is read before and after each.\<close>

definition durations :: "nat \<Rightarrow> string \<Rightarrow> 's wire \<Rightarrow> (string \<times> int) list" where
  "durations n operation s = map (\<lambda>i. (operation,
     wire_clock s (wire_ticks s + 2 * i + 1) - wire_clock s (wire_ticks s + 2 * i))) [0..<n]"

text \<open>The state after \<open>n\<close> requests that were answered and changed nothing.\<close>

definition counted :: "nat \<Rightarrow> string \<Rightarrow> 's wire \<Rightarrow> 's wire" where
  "counted n operation s = s\<lparr>requestsTotal := requestsTotal s @ replicate n (operation, itoa 200),
     requestDuration := requestDuration s @ durations n operation s, wire_ticks := wire_ticks s + 2 * n\<rparr>"

lemma counted_Suc: "counted n operation (counted 1 operation s) = counted (Suc n) operation s"
  by (simp add: counted_def durations_def map_upt_Suc ac_simps del: upt_Suc)

lemma counted_simps [simp]: "wire_server (counted n operation s) = wire_server s" "counted 0 operation s = s"
  by (simp_all add: counted_def durations_def)

lemma funpow_counted: "(counted 1 operation ^^ n) s = counted n operation s"
  by (induction n arbitrary: s) (simp_all only: funpow_Suc_right o_apply counted_Suc funpow_0 counted_simps)

lemma run_listAll:
  assumes "serves fetch ps (wire_server s)" and "ps \<noteq> []" and "int (length ps) < 2 ^ 31" and "length ps \<le> fuel"
  shows "listAll fuel unmarshal operation fetch keep s = Some (Inr (filter keep (concat ps)), counted (length ps) operation s)"
proof -
  have ok: "call_api unmarshal operation (fetch (int i + 1)) u =
      (Inr \<lparr> page_results = ps ! i, page_next = (if Suc i < length ps then int i + 2 else 0) \<rparr>, counted 1 operation u)"
    if "i < length ps" "wire_server u = wire_server s" for i u
  proof -
    from assms(1) that obtain body where "fetch (int i + 1) (wire_server u) =
       ((\<lparr> page_results = ps ! i, page_next = (if Suc i < length ps then int i + 2 else 0) \<rparr>,
       Some \<lparr> resp_StatusCode = 200, resp_Body = body \<rparr>, None), wire_server s)" unfolding serves_def by auto
    with call_api_ok [of "fetch (int i + 1)" u] that(2) show ?thesis by (simp add: counted_def durations_def)
  qed
  have "paged (counted 1 operation) (\<lambda>u. wire_server u = wire_server s) (\<lambda>p. call_api unmarshal operation (fetch p)) ps"
    using ok by (simp add: paged_def)
  from listPages_paged [OF this assms(3), of 0 fuel s keep "[]"] assms(2,4) show ?thesis
    by (simp add: listAll_def funpow_counted [unfolded One_nat_def])
qed

text \<open>
  C38: a list call on a server with finitely many pages ends, after one request per page, with the
  results of every page in order that the caller wants to keep, and more fuel does not change it. Each
  request is counted and timed once.
  (Page numbers are 32-bit.)
\<close>

theorem listAll_complete:
  assumes "serves fetch ps (wire_server s)" and "ps \<noteq> []" and "int (length ps) < 2 ^ 31" and "length ps \<le> fuel"
  shows "listAll fuel unmarshal operation fetch keep s =
    Some (Inr (filter keep (concat ps)),
      s\<lparr>requestsTotal := requestsTotal s @ replicate (length ps) (operation, itoa 200),
        requestDuration := requestDuration s @ durations (length ps) operation s,
        wire_ticks := wire_ticks s + 2 * length ps\<rparr>)"
  using assms by (simp add: run_listAll counted_def)

section \<open>Errors\<close>

text \<open>
  C39: the error of a failed call does not depend on confidential values: two answers whose JSON bodies
  differ only in the strings of confidential fields, at any depth, give the same error, and the text
  of the body in it is cut at 4096 bytes.
\<close>

theorem wrapError_hides_confidential:
  assumes "unmarshal a = Some u" and "unmarshal b = Some v" and "same_public u v"
    and "resp_StatusCode resp < 200 \<or> resp_StatusCode resp > 299"
  shows "wrapError unmarshal operation (Some resp) (Some \<lparr> callerr_Message = m, callerr_Body = Some a \<rparr>) =
      wrapError unmarshal operation (Some resp) (Some \<lparr> callerr_Message = m', callerr_Body = Some b \<rparr>) \<and>
    (\<exists>body. wrapError unmarshal operation (Some resp) (Some \<lparr> callerr_Message = m, callerr_Body = Some a \<rparr>) =
        Some (APIError operation (resp_StatusCode resp) body) \<and> length body \<le> 4096)"
  using assms(4) redactValue_same_public [OF assms(3)]
  by (auto simp: wrapError_def errorBody_def redactBody_def assms(1,2) Let_def maxErrorBodyLength_def)

section \<open>Versions\<close>

text \<open>
  C40: the version reported by the server and the module version of the client, written in their two
  different formats, are read as the same text exactly when year and minor version are the same.
\<close>

theorem versions_compared:
  assumes "1000 \<le> year" and "year < 10000" and "minor < 100" and "d \<noteq> CHR ''.''"
    and "CHR ''.'' \<notin> set major" and "major \<noteq> []" and "hd major \<noteq> CHR ''v''"
    and "0 \<le> syear" and "syear < 2 ^ 63" and "0 \<le> sminor" and "sminor < 2 ^ 63"
  shows "minorFromServerVersion (itoa syear @ ''.'' @ itoa sminor @ CHR ''.'' # spatch) =
      minorFromClientVersion (CHR ''v'' # major @ ''.'' @ (nat_str year @ two_digits minor @ [d]) @ CHR ''.'' # patch) \<longleftrightarrow>
    syear = int year \<and> sminor = int minor"
  unfolding server_version [OF assms(8-11)] client_version [OF assms(1-7)] by (simp add: minorText_inj)

end
