(* ===== verification/Wrapper.thy ===== *)
theory Wrapper
  imports Wire
begin

text \<open>
  The implementation of the client interface (\<open>internal/authentik/apiclient.go\<close>), method by method. The
  generated client is not in the repository, so each of its requests is a field of the record
  \<open>APIClient\<close>, with the query parameters and the body that the wrapper gives it. A list request also has
  the number of the page and the page size. The result of a failed request is not read. On a server
  that presents the objects of the in-memory server through these requests, however it pages and
  whatever else its filters let through, every read of the wrapper has the answer of the in-memory server.
\<close>

section \<open>The generated client\<close>

record RoleRequest =
  rrole_Name :: string

record PermissionAssignRequest =
  assign_Permissions :: "string list"
  assign_Model :: "string option"
  assign_ObjectPk :: "string option"

record PatchedOutpostRequest =
  poutpost_Providers :: "int list option" \<comment> \<open>\<open>None\<close> is left out of the body\<close>

text \<open>A list response: the results and the number of the next page.\<close>

record 't paginated =
  Results :: "'t list"
  Next :: int

text \<open>A request whose response has no body.\<close>

type_synonym 's emptyRequest = "'s \<Rightarrow> (Response option \<times> CallError option) \<times> 's"

record 's APIClient =
  Unmarshal :: "string \<Rightarrow> json option"
  AdminVersionRetrieve :: "('s, string) request"
  CoreApplicationsRetrieve :: "string \<Rightarrow> ('s, Application) request"
  CoreApplicationsCreate :: "ApplicationRequest \<Rightarrow> ('s, Application) request"
  CoreApplicationsPartialUpdate :: "string \<Rightarrow> PatchedApplicationRequest \<Rightarrow> ('s, Application) request"
  CoreApplicationsDestroy :: "string \<Rightarrow> 's emptyRequest"
  ProvidersProxyRetrieve :: "int \<Rightarrow> ('s, ProxyProvider) request"
  ProvidersProxyList :: "string \<Rightarrow> int \<Rightarrow> int \<Rightarrow> ('s, ProxyProvider paginated option) request"
  ProvidersProxyCreate :: "ProxyProviderRequest \<Rightarrow> ('s, ProxyProvider) request"
  ProvidersProxyPartialUpdate :: "int \<Rightarrow> PatchedProxyProviderRequest \<Rightarrow> ('s, ProxyProvider) request"
  ProvidersProxyDestroy :: "int \<Rightarrow> 's emptyRequest"
  ProvidersOauth2Retrieve :: "int \<Rightarrow> ('s, OAuth2Provider) request"
  ProvidersOauth2List :: "string \<Rightarrow> int \<Rightarrow> int \<Rightarrow> ('s, OAuth2Provider paginated option) request"
  ProvidersOauth2Create :: "OAuth2ProviderRequest \<Rightarrow> ('s, OAuth2Provider) request"
  ProvidersOauth2PartialUpdate :: "int \<Rightarrow> PatchedOAuth2ProviderRequest \<Rightarrow> ('s, OAuth2Provider) request"
  ProvidersOauth2Destroy :: "int \<Rightarrow> 's emptyRequest"
  PoliciesBindingsRetrieve :: "string \<Rightarrow> ('s, PolicyBinding) request"
  PoliciesBindingsList :: "string \<Rightarrow> int \<Rightarrow> int \<Rightarrow> ('s, PolicyBinding paginated option) request"
  PoliciesBindingsCreate :: "PolicyBindingRequest \<Rightarrow> ('s, PolicyBinding) request"
  PoliciesBindingsPartialUpdate :: "string \<Rightarrow> PatchedPolicyBindingRequest \<Rightarrow> ('s, PolicyBinding) request"
  PoliciesBindingsDestroy :: "string \<Rightarrow> 's emptyRequest"
  OutpostsInstancesRetrieve :: "string \<Rightarrow> ('s, Outpost) request"
  OutpostsInstancesList :: "string \<Rightarrow> int \<Rightarrow> int \<Rightarrow> ('s, Outpost paginated option) request"
  OutpostsInstancesPartialUpdate :: "string \<Rightarrow> PatchedOutpostRequest \<Rightarrow> ('s, Outpost) request"
  RbacRolesRetrieve :: "string \<Rightarrow> ('s, Role) request"
  RbacRolesList :: "string \<Rightarrow> int \<Rightarrow> int \<Rightarrow> ('s, Role paginated option) request"
  RbacRolesCreate :: "RoleRequest \<Rightarrow> ('s, Role) request"
  RbacPermissionsAssignedByRolesAssign :: "string \<Rightarrow> PermissionAssignRequest \<Rightarrow> ('s, string list) request"
  RbacPermissionsAssignedByRolesUnassignPartialUpdate :: "string \<Rightarrow> PermissionAssignRequest \<Rightarrow> 's emptyRequest"
  RbacPermissionsRolesList :: "string \<Rightarrow> int \<Rightarrow> int \<Rightarrow> ('s, RoleObjectPermission paginated option) request"
  RbacPermissionsAssignedByRolesList :: "string \<Rightarrow> string \<Rightarrow> int \<Rightarrow> int \<Rightarrow> ('s, RoleAssignedObjectPermission paginated option) request"
  CoreGroupsRetrieve :: "string \<Rightarrow> bool \<Rightarrow> ('s, Group) request"
  CoreGroupsList :: "string \<Rightarrow> bool \<Rightarrow> int \<Rightarrow> int \<Rightarrow> ('s, Group paginated option) request"
  CoreUsersRetrieve :: "int \<Rightarrow> ('s, User) request"
  CoreUsersList :: "string \<Rightarrow> bool \<Rightarrow> int \<Rightarrow> int \<Rightarrow> ('s, User paginated option) request"
  PoliciesAllRetrieve :: "string \<Rightarrow> ('s, Policy) request"
  PoliciesAllList :: "string \<Rightarrow> int \<Rightarrow> int \<Rightarrow> ('s, Policy paginated option) request"
  FlowsInstancesList :: "string option \<Rightarrow> string option \<Rightarrow> int \<Rightarrow> int \<Rightarrow> ('s, Flow paginated option) request"
  CryptoCertificatekeypairsRetrieve :: "string \<Rightarrow> ('s, CertificateKeyPair) request"
  CryptoCertificatekeypairsList :: "string \<Rightarrow> int \<Rightarrow> int \<Rightarrow> ('s, CertificateKeyPair paginated option) request"
  PropertymappingsProviderScopeRetrieve :: "string \<Rightarrow> ('s, ScopeMapping) request"
  PropertymappingsProviderScopeList :: "string \<Rightarrow> int \<Rightarrow> int \<Rightarrow> ('s, ScopeMapping paginated option) request"

section \<open>The methods\<close>

definition listPageSize :: int where "listPageSize = 100"

definition toPage :: "'t list \<Rightarrow> int option \<Rightarrow> 't page" where
  "toPage rs pagination = \<lparr> page_results = rs, page_next = (case pagination of None \<Rightarrow> 0 | Some n \<Rightarrow> n) \<rparr>"

text \<open>The body that every \<open>fetch\<close> function shares: a missing list is an empty last page.\<close>

definition list_page :: "('s, 't paginated option) request \<Rightarrow> ('s, 't page) request" where
  "list_page execute = (\<lambda>s. case execute s of ((list, resp, err), t) \<Rightarrow>
     ((case list of
         None \<Rightarrow> \<lparr> page_results = [], page_next = 0 \<rparr>
       | Some l \<Rightarrow> toPage (Results l) (Some (Next l)), resp, err), t))"

subsection \<open>The version\<close>

definition client_GetVersion :: "'s APIClient \<Rightarrow> ('s wire, string) call" where
  "client_GetVersion g = call_api (Unmarshal g) ''GetVersion'' (AdminVersionRetrieve g)"

subsection \<open>Applications\<close>

definition client_GetApplication :: "'s APIClient \<Rightarrow> string \<Rightarrow> ('s wire, Application) call" where
  "client_GetApplication g slug = call_api (Unmarshal g) ''GetApplication'' (CoreApplicationsRetrieve g slug)"

definition client_CreateApplication :: "'s APIClient \<Rightarrow> ApplicationRequest \<Rightarrow> ('s wire, Application) call" where
  "client_CreateApplication g request = call_api (Unmarshal g) ''CreateApplication'' (CoreApplicationsCreate g request)"

definition client_PatchApplication :: "'s APIClient \<Rightarrow> string \<Rightarrow> PatchedApplicationRequest \<Rightarrow> ('s wire, Application) call" where
  "client_PatchApplication g slug request = call_api (Unmarshal g) ''PatchApplication'' (CoreApplicationsPartialUpdate g slug request)"

definition client_DeleteApplication :: "'s APIClient \<Rightarrow> string \<Rightarrow> ('s wire, unit) call" where
  "client_DeleteApplication g slug = callNoContent (Unmarshal g) ''DeleteApplication'' (CoreApplicationsDestroy g slug)"

subsection \<open>Proxy Providers\<close>

definition client_GetProxyProvider :: "'s APIClient \<Rightarrow> int \<Rightarrow> ('s wire, ProxyProvider) call" where
  "client_GetProxyProvider g pk = call_api (Unmarshal g) ''GetProxyProvider'' (ProvidersProxyRetrieve g pk)"

definition client_FindProxyProvidersByName ::
  "nat \<Rightarrow> 's APIClient \<Rightarrow> string \<Rightarrow> ('s wire, ProxyProvider list) cut" where
  "client_FindProxyProvidersByName fuel g name =
     listAll fuel (Unmarshal g) ''FindProxyProvidersByName'' (\<lambda>p. list_page (ProvidersProxyList g name p listPageSize))
       (\<lambda>provider. px_Name provider = name)"

definition client_CreateProxyProvider :: "'s APIClient \<Rightarrow> ProxyProviderRequest \<Rightarrow> ('s wire, ProxyProvider) call" where
  "client_CreateProxyProvider g request = call_api (Unmarshal g) ''CreateProxyProvider'' (ProvidersProxyCreate g request)"

definition client_PatchProxyProvider :: "'s APIClient \<Rightarrow> int \<Rightarrow> PatchedProxyProviderRequest \<Rightarrow> ('s wire, ProxyProvider) call" where
  "client_PatchProxyProvider g pk request = call_api (Unmarshal g) ''PatchProxyProvider'' (ProvidersProxyPartialUpdate g pk request)"

definition client_DeleteProxyProvider :: "'s APIClient \<Rightarrow> int \<Rightarrow> ('s wire, unit) call" where
  "client_DeleteProxyProvider g pk = callNoContent (Unmarshal g) ''DeleteProxyProvider'' (ProvidersProxyDestroy g pk)"

subsection \<open>OAuth2 Providers\<close>

definition client_GetOAuth2Provider :: "'s APIClient \<Rightarrow> int \<Rightarrow> ('s wire, OAuth2Provider) call" where
  "client_GetOAuth2Provider g pk = call_api (Unmarshal g) ''GetOAuth2Provider'' (ProvidersOauth2Retrieve g pk)"

definition client_FindOAuth2ProvidersByName ::
  "nat \<Rightarrow> 's APIClient \<Rightarrow> string \<Rightarrow> ('s wire, OAuth2Provider list) cut" where
  "client_FindOAuth2ProvidersByName fuel g name =
     listAll fuel (Unmarshal g) ''FindOAuth2ProvidersByName'' (\<lambda>p. list_page (ProvidersOauth2List g name p listPageSize))
       (\<lambda>provider. ox_Name provider = name)"

definition client_CreateOAuth2Provider :: "'s APIClient \<Rightarrow> OAuth2ProviderRequest \<Rightarrow> ('s wire, OAuth2Provider) call" where
  "client_CreateOAuth2Provider g request = call_api (Unmarshal g) ''CreateOAuth2Provider'' (ProvidersOauth2Create g request)"

definition client_PatchOAuth2Provider :: "'s APIClient \<Rightarrow> int \<Rightarrow> PatchedOAuth2ProviderRequest \<Rightarrow> ('s wire, OAuth2Provider) call" where
  "client_PatchOAuth2Provider g pk request = call_api (Unmarshal g) ''PatchOAuth2Provider'' (ProvidersOauth2PartialUpdate g pk request)"

definition client_DeleteOAuth2Provider :: "'s APIClient \<Rightarrow> int \<Rightarrow> ('s wire, unit) call" where
  "client_DeleteOAuth2Provider g pk = callNoContent (Unmarshal g) ''DeleteOAuth2Provider'' (ProvidersOauth2Destroy g pk)"

subsection \<open>Policy bindings\<close>

definition client_GetPolicyBinding :: "'s APIClient \<Rightarrow> string \<Rightarrow> ('s wire, PolicyBinding) call" where
  "client_GetPolicyBinding g uuid = call_api (Unmarshal g) ''GetPolicyBinding'' (PoliciesBindingsRetrieve g uuid)"

definition client_ListPolicyBindings ::
  "nat \<Rightarrow> 's APIClient \<Rightarrow> string \<Rightarrow> ('s wire, PolicyBinding list) cut" where
  "client_ListPolicyBindings fuel g target =
     listAll fuel (Unmarshal g) ''ListPolicyBindings'' (\<lambda>p. list_page (PoliciesBindingsList g target p listPageSize))
       (\<lambda>binding. bind_Target binding = target)"

definition client_CreatePolicyBinding :: "'s APIClient \<Rightarrow> PolicyBindingRequest \<Rightarrow> ('s wire, PolicyBinding) call" where
  "client_CreatePolicyBinding g request = call_api (Unmarshal g) ''CreatePolicyBinding'' (PoliciesBindingsCreate g request)"

definition client_PatchPolicyBinding :: "'s APIClient \<Rightarrow> string \<Rightarrow> PatchedPolicyBindingRequest \<Rightarrow> ('s wire, PolicyBinding) call" where
  "client_PatchPolicyBinding g uuid request = call_api (Unmarshal g) ''PatchPolicyBinding'' (PoliciesBindingsPartialUpdate g uuid request)"

definition client_DeletePolicyBinding :: "'s APIClient \<Rightarrow> string \<Rightarrow> ('s wire, unit) call" where
  "client_DeletePolicyBinding g uuid = callNoContent (Unmarshal g) ''DeletePolicyBinding'' (PoliciesBindingsDestroy g uuid)"

subsection \<open>Outposts\<close>

definition client_GetOutpost :: "'s APIClient \<Rightarrow> string \<Rightarrow> ('s wire, Outpost) call" where
  "client_GetOutpost g uuid = call_api (Unmarshal g) ''GetOutpost'' (OutpostsInstancesRetrieve g uuid)"

definition client_FindOutpostsByName ::
  "nat \<Rightarrow> 's APIClient \<Rightarrow> string \<Rightarrow> ('s wire, Outpost list) cut" where
  "client_FindOutpostsByName fuel g name =
     listAll fuel (Unmarshal g) ''FindOutpostsByName'' (\<lambda>p. list_page (OutpostsInstancesList g name p listPageSize))
       (\<lambda>outpost. outpost_Name outpost = name)"

definition client_SetOutpostProviders :: "'s APIClient \<Rightarrow> string \<Rightarrow> int list \<Rightarrow> ('s wire, Outpost) call" where
  "client_SetOutpostProviders g uuid providers = call_api (Unmarshal g) ''SetOutpostProviders'' (OutpostsInstancesPartialUpdate g uuid \<lparr> poutpost_Providers = Some providers \<rparr>)"

subsection \<open>Roles and object permissions\<close>

definition client_GetRole :: "'s APIClient \<Rightarrow> string \<Rightarrow> ('s wire, Role) call" where
  "client_GetRole g uuid = call_api (Unmarshal g) ''GetRole'' (RbacRolesRetrieve g uuid)"

definition client_FindRolesByName ::
  "nat \<Rightarrow> 's APIClient \<Rightarrow> string \<Rightarrow> ('s wire, Role list) cut" where
  "client_FindRolesByName fuel g name =
     listAll fuel (Unmarshal g) ''FindRolesByName'' (\<lambda>p. list_page (RbacRolesList g name p listPageSize))
       (\<lambda>role. role_Name role = name)"

definition client_CreateRole :: "'s APIClient \<Rightarrow> string \<Rightarrow> ('s wire, Role) call" where
  "client_CreateRole g name = call_api (Unmarshal g) ''CreateRole'' (RbacRolesCreate g \<lparr> rrole_Name = name \<rparr>)"

definition client_AssignObjectPermission :: "'s APIClient \<Rightarrow> string \<Rightarrow> string \<Rightarrow> string \<Rightarrow> string \<Rightarrow> ('s wire, unit) call" where
  "client_AssignObjectPermission g role model objectPK permission =
     bindE (call_api (Unmarshal g) ''AssignObjectPermission'' (RbacPermissionsAssignedByRolesAssign g role
       \<lparr> assign_Permissions = [permission], assign_Model = Some model, assign_ObjectPk = Some objectPK \<rparr>)) (\<lambda>_. retE ())"

definition client_UnassignObjectPermission :: "'s APIClient \<Rightarrow> string \<Rightarrow> string \<Rightarrow> string \<Rightarrow> string \<Rightarrow> ('s wire, unit) call" where
  "client_UnassignObjectPermission g role model objectPK permission =
     callNoContent (Unmarshal g) ''UnassignObjectPermission'' (RbacPermissionsAssignedByRolesUnassignPartialUpdate g role
       \<lparr> assign_Permissions = [permission], assign_Model = Some model, assign_ObjectPk = Some objectPK \<rparr>)"

definition client_ListRoleObjectPermissions ::
  "nat \<Rightarrow> 's APIClient \<Rightarrow> string \<Rightarrow> ('s wire, RoleObjectPermission list) cut" where
  "client_ListRoleObjectPermissions fuel g role =
     listAll fuel (Unmarshal g) ''ListRoleObjectPermissions'' (\<lambda>p. list_page (RbacPermissionsRolesList g role p listPageSize))
       (\<lambda>_. True)"

definition client_ListObjectPermissionRoles ::
  "nat \<Rightarrow> 's APIClient \<Rightarrow> string \<Rightarrow> string \<Rightarrow> ('s wire, RoleAssignedObjectPermission list) cut" where
  "client_ListObjectPermissionRoles fuel g model objectPK =
     listAll fuel (Unmarshal g) ''ListObjectPermissionRoles'' (\<lambda>p. list_page (RbacPermissionsAssignedByRolesList g model objectPK p listPageSize))
       (\<lambda>_. True)"

subsection \<open>Lookups\<close>

definition client_GetGroup :: "'s APIClient \<Rightarrow> string \<Rightarrow> ('s wire, Group) call" where
  "client_GetGroup g uuid = call_api (Unmarshal g) ''GetGroup'' (CoreGroupsRetrieve g uuid False)"

definition client_FindGroupsByName ::
  "nat \<Rightarrow> 's APIClient \<Rightarrow> string \<Rightarrow> ('s wire, Group list) cut" where
  "client_FindGroupsByName fuel g name =
     listAll fuel (Unmarshal g) ''FindGroupsByName'' (\<lambda>p. list_page (CoreGroupsList g name False p listPageSize))
       (\<lambda>group. group_Name group = name)"

definition client_GetUser :: "'s APIClient \<Rightarrow> int \<Rightarrow> ('s wire, User) call" where
  "client_GetUser g pk = call_api (Unmarshal g) ''GetUser'' (CoreUsersRetrieve g pk)"

definition client_FindUsersByUsername ::
  "nat \<Rightarrow> 's APIClient \<Rightarrow> string \<Rightarrow> ('s wire, User list) cut" where
  "client_FindUsersByUsername fuel g username =
     listAll fuel (Unmarshal g) ''FindUsersByUsername'' (\<lambda>p. list_page (CoreUsersList g username False p listPageSize))
       (\<lambda>user. usr_Username user = username)"

definition client_GetPolicy :: "'s APIClient \<Rightarrow> string \<Rightarrow> ('s wire, Policy) call" where
  "client_GetPolicy g uuid = call_api (Unmarshal g) ''GetPolicy'' (PoliciesAllRetrieve g uuid)"

definition client_FindPoliciesByName ::
  "nat \<Rightarrow> 's APIClient \<Rightarrow> string \<Rightarrow> ('s wire, Policy list) cut" where
  "client_FindPoliciesByName fuel g name =
     listAll fuel (Unmarshal g) ''FindPoliciesByName'' (\<lambda>p. list_page (PoliciesAllList g name p listPageSize))
       (\<lambda>policy. policy_Name policy = name)"

definition client_GetFlow :: "nat \<Rightarrow> 's APIClient \<Rightarrow> string \<Rightarrow> ('s wire, Flow) cut" where
  "client_GetFlow fuel g uuid s =
     (case listAll fuel (Unmarshal g) ''GetFlow'' (\<lambda>p. list_page (FlowsInstancesList g (Some uuid) None p listPageSize)) (\<lambda>flow. flw_Pk flow = uuid) s of
        None \<Rightarrow> None
      | Some (Inl e, t) \<Rightarrow> Some (Inl e, t)
      | Some (Inr [], t) \<Rightarrow> Some (Inl (APIError ''GetFlow'' 404 (''no flow with uuid '' @ uuid)), t)
      | Some (Inr (f # fs), t) \<Rightarrow> Some (Inr f, t))"

definition client_FindFlowsBySlug ::
  "nat \<Rightarrow> 's APIClient \<Rightarrow> string \<Rightarrow> ('s wire, Flow list) cut" where
  "client_FindFlowsBySlug fuel g slug =
     listAll fuel (Unmarshal g) ''FindFlowsBySlug'' (\<lambda>p. list_page (FlowsInstancesList g None (Some slug) p listPageSize))
       (\<lambda>flow. flw_Slug flow = slug)"

definition client_GetCertificateKeyPair :: "'s APIClient \<Rightarrow> string \<Rightarrow> ('s wire, CertificateKeyPair) call" where
  "client_GetCertificateKeyPair g uuid = call_api (Unmarshal g) ''GetCertificateKeyPair'' (CryptoCertificatekeypairsRetrieve g uuid)"

definition client_FindCertificateKeyPairsByName ::
  "nat \<Rightarrow> 's APIClient \<Rightarrow> string \<Rightarrow> ('s wire, CertificateKeyPair list) cut" where
  "client_FindCertificateKeyPairsByName fuel g name =
     listAll fuel (Unmarshal g) ''FindCertificateKeyPairsByName'' (\<lambda>p. list_page (CryptoCertificatekeypairsList g name p listPageSize))
       (\<lambda>keyPair. keypair_Name keyPair = name)"

definition client_GetScopeMapping :: "'s APIClient \<Rightarrow> string \<Rightarrow> ('s wire, ScopeMapping) call" where
  "client_GetScopeMapping g uuid = call_api (Unmarshal g) ''GetScopeMapping'' (PropertymappingsProviderScopeRetrieve g uuid)"

definition client_FindScopeMappingsByScopeName ::
  "nat \<Rightarrow> 's APIClient \<Rightarrow> string \<Rightarrow> ('s wire, ScopeMapping list) cut" where
  "client_FindScopeMappingsByScopeName fuel g scopeName =
     listAll fuel (Unmarshal g) ''FindScopeMappingsByScopeName'' (\<lambda>p. list_page (PropertymappingsProviderScopeList g scopeName p listPageSize))
       (\<lambda>mapping. mapping_ScopeName mapping = scopeName)"

section \<open>A server that presents the in-memory server\<close>

text \<open>
  The server holds the object \<open>x\<close> at the address of the request, or nothing, and answers accordingly.
\<close>

definition retrieves :: "('s, 'r) request \<Rightarrow> 'r option \<Rightarrow> 's \<Rightarrow> bool" where
  "retrieves execute x c \<longleftrightarrow> (case x of
     Some v \<Rightarrow> \<exists>body. execute c = ((v, Some \<lparr> resp_StatusCode = 200, resp_Body = body \<rparr>, None), c)
   | None \<Rightarrow> \<exists>v body err. execute c = ((v, Some \<lparr> resp_StatusCode = 404, resp_Body = body \<rparr>, Some err), c))"

text \<open>
  The list is served in at most \<open>n\<close> pages of any size. Of the objects in them, those that the caller
  keeps are \<open>xs\<close>: a filter of the API may let others through, but none that is kept is missing.
\<close>

definition presents_list :: "nat \<Rightarrow> (int \<Rightarrow> ('s, 't paginated option) request) \<Rightarrow> ('t \<Rightarrow> bool) \<Rightarrow> 't list \<Rightarrow> 's \<Rightarrow> bool" where
  "presents_list n fetch keep xs c \<longleftrightarrow>
     (\<exists>ps. ps \<noteq> [] \<and> length ps \<le> n \<and> int n < 2 ^ 31 \<and> serves (\<lambda>p. list_page (fetch p)) ps c \<and> filter keep (concat ps) = xs)"

text \<open>The answers to the reads of the wrapper, when the server holds the objects of \<open>d\<close>.\<close>

definition presents :: "nat \<Rightarrow> 's APIClient \<Rightarrow> fake \<Rightarrow> 's \<Rightarrow> bool" where
  "presents n g d c \<longleftrightarrow>
     retrieves (AdminVersionRetrieve g) (Some (fake_version d)) c \<and>
     (\<forall>u. retrieves (CoreApplicationsRetrieve g u) (map_of (fake_applications d) u) c) \<and>
     (\<forall>u. retrieves (ProvidersProxyRetrieve g u) (map_option (copyProxyProvider d) (map_of (fake_proxyProviders d) u)) c) \<and>
     (\<forall>u. retrieves (ProvidersOauth2Retrieve g u) (map_option (copyOAuth2Provider d) (map_of (fake_oauth2Providers d) u)) c) \<and>
     (\<forall>u. retrieves (PoliciesBindingsRetrieve g u) (map_of (fake_bindings d) u) c) \<and>
     (\<forall>u. retrieves (OutpostsInstancesRetrieve g u) (map_of (fake_outposts d) u) c) \<and>
     (\<forall>u. retrieves (RbacRolesRetrieve g u) (map_of (fake_roles d) u) c) \<and>
     (\<forall>u. retrieves (CoreGroupsRetrieve g u False) (map_of (fake_groups d) u) c) \<and>
     (\<forall>u. retrieves (CoreUsersRetrieve g u) (map_of (fake_users d) u) c) \<and>
     (\<forall>u. retrieves (PoliciesAllRetrieve g u) (map_of (fake_policies d) u) c) \<and>
     (\<forall>u. retrieves (CryptoCertificatekeypairsRetrieve g u) (map_of (fake_keyPairs d) u) c) \<and>
     (\<forall>u. retrieves (PropertymappingsProviderScopeRetrieve g u) (map_of (fake_scopeMappings d) u) c) \<and>
     (\<forall>m. presents_list n (\<lambda>p. ProvidersProxyList g m p listPageSize) (\<lambda>x. px_Name x = m)
        (map (copyProxyProvider d) (findAll (fake_proxyProviders d) (\<lambda>x. px_Name x = m))) c) \<and>
     (\<forall>m. presents_list n (\<lambda>p. ProvidersOauth2List g m p listPageSize) (\<lambda>x. ox_Name x = m)
        (map (copyOAuth2Provider d) (findAll (fake_oauth2Providers d) (\<lambda>x. ox_Name x = m))) c) \<and>
     (\<forall>m. presents_list n (\<lambda>p. PoliciesBindingsList g m p listPageSize) (\<lambda>x. bind_Target x = m)
        (sort_key bind_Order (findAll (fake_bindings d) (\<lambda>x. bind_Target x = m))) c) \<and>
     (\<forall>m. presents_list n (\<lambda>p. OutpostsInstancesList g m p listPageSize) (\<lambda>x. outpost_Name x = m)
        (findAll (fake_outposts d) (\<lambda>x. outpost_Name x = m)) c) \<and>
     (\<forall>m. presents_list n (\<lambda>p. RbacRolesList g m p listPageSize) (\<lambda>x. role_Name x = m)
        (findAll (fake_roles d) (\<lambda>x. role_Name x = m)) c) \<and>
     (\<forall>m. presents_list n (\<lambda>p. RbacPermissionsRolesList g m p listPageSize) (\<lambda>_. True)
        (projr (fst (fake_ListRoleObjectPermissions m d))) c) \<and>
     (\<forall>m u. presents_list n (\<lambda>p. RbacPermissionsAssignedByRolesList g m u p listPageSize) (\<lambda>_. True)
        (projr (fst (fake_ListObjectPermissionRoles m u d))) c) \<and>
     (\<forall>m. presents_list n (\<lambda>p. CoreGroupsList g m False p listPageSize) (\<lambda>x. group_Name x = m)
        (findAll (fake_groups d) (\<lambda>x. group_Name x = m)) c) \<and>
     (\<forall>m. presents_list n (\<lambda>p. CoreUsersList g m False p listPageSize) (\<lambda>x. usr_Username x = m)
        (findAll (fake_users d) (\<lambda>x. usr_Username x = m)) c) \<and>
     (\<forall>m. presents_list n (\<lambda>p. PoliciesAllList g m p listPageSize) (\<lambda>x. policy_Name x = m)
        (findAll (fake_policies d) (\<lambda>x. policy_Name x = m)) c) \<and>
     (\<forall>u. presents_list n (\<lambda>p. FlowsInstancesList g (Some u) None p listPageSize) (\<lambda>x. flw_Pk x = u)
        (case map_of (fake_flows d) u of None \<Rightarrow> [] | Some x \<Rightarrow> [x]) c) \<and>
     (\<forall>m. presents_list n (\<lambda>p. FlowsInstancesList g None (Some m) p listPageSize) (\<lambda>x. flw_Slug x = m)
        (findAll (fake_flows d) (\<lambda>x. flw_Slug x = m)) c) \<and>
     (\<forall>m. presents_list n (\<lambda>p. CryptoCertificatekeypairsList g m p listPageSize) (\<lambda>x. keypair_Name x = m)
        (findAll (fake_keyPairs d) (\<lambda>x. keypair_Name x = m)) c) \<and>
     (\<forall>m. presents_list n (\<lambda>p. PropertymappingsProviderScopeList g m p listPageSize) (\<lambda>x. mapping_ScopeName x = m)
        (findAll (fake_scopeMappings d) (\<lambda>x. mapping_ScopeName x = m)) c)"

text \<open>
  Nothing but the metrics changed from \<open>s\<close> to \<open>t\<close>: each request is counted and timed once, under the same
  operation, with a reading of the clock before it and one after it.
\<close>

definition metered :: "'s wire \<Rightarrow> 's wire \<Rightarrow> bool" where
  "metered s t \<longleftrightarrow> wire_server t = wire_server s \<and> wire_clock t = wire_clock s \<and>
     (\<exists>sent took. requestsTotal t = requestsTotal s @ sent \<and> requestDuration t = requestDuration s @ took \<and>
        map fst took = map fst sent \<and> wire_ticks t = wire_ticks s + 2 * length sent)"

lemma metered_observe:
  assumes "wire_ticks u = Suc (wire_ticks s)" and "u\<lparr>wire_ticks := wire_ticks s\<rparr> = s"
  shows "metered s (observeRequest operation start resp u)"
proof -
  have "wire_server u = wire_server s" "wire_clock u = wire_clock s" "requestsTotal u = requestsTotal s"
    "requestDuration u = requestDuration s"
    by (subst assms(2) [symmetric], simp)+
  then show ?thesis using assms(1) by (simp add: metered_def observeRequest_def)
qed

lemma metered_counted: "metered s (counted n operation s)"
  by (auto simp: metered_def counted_def durations_def map_replicate_const comp_def)

text \<open>
  The outcome \<open>out\<close> of a wrapper call in state \<open>s\<close> is the outcome \<open>r\<close> of the in-memory server: the same
  value, or both answer that there is no such object. Nothing but the metrics has changed.
\<close>

definition agrees :: "((goerror + 'r) \<times> 's wire) option \<Rightarrow> 's wire \<Rightarrow> goerror + 'r \<Rightarrow> bool" where
  "agrees out s r \<longleftrightarrow> (\<exists>x t. out = Some (x, t) \<and> metered s t \<and>
     (case r of Inr v \<Rightarrow> x = Inr v | Inl e \<Rightarrow> IsNotFound e \<and> (\<exists>e'. x = Inl e' \<and> IsNotFound e')))"

lemma agrees_call:
  assumes "retrieves execute x (wire_server s)"
  shows "agrees (Some (call_api u operation execute s)) s (case x of Some v \<Rightarrow> Inr v | None \<Rightarrow> Inl (notFound o' k))"
  using assms
  by (auto simp: retrieves_def agrees_def call_api_def wrapError_def Let_def notFound_def metered_observe split: option.splits)

lemma agrees_list:
  assumes "presents_list n fetch keep xs (wire_server s)" and "n \<le> fuel"
  shows "agrees (listAll fuel u operation (\<lambda>p. list_page (fetch p)) keep s) s (Inr xs)"
proof -
  from assms obtain ps where ps: "ps \<noteq> []" "int (length ps) < 2 ^ 31" "length ps \<le> fuel"
    "serves (\<lambda>p. list_page (fetch p)) ps (wire_server s)" "filter keep (concat ps) = xs"
    unfolding presents_list_def by fastforce
  from run_listAll [OF ps(4,1-3), of u operation keep] ps(5) show ?thesis
    by (simp add: agrees_def metered_counted)
qed

lemma agrees_GetFlow:
  assumes "presents_list n (\<lambda>p. FlowsInstancesList g (Some uuid) None p listPageSize) (\<lambda>x. flw_Pk x = uuid)
      (case x of None \<Rightarrow> [] | Some f \<Rightarrow> [f]) (wire_server s)" and "n \<le> fuel"
  shows "agrees (client_GetFlow fuel g uuid s) s (case x of Some f \<Rightarrow> Inr f | None \<Rightarrow> Inl (notFound o' k))"
  using agrees_list [OF assms, of "Unmarshal g" "''GetFlow''"]
  by (auto simp: agrees_def client_GetFlow_def notFound_def split: option.splits)

lemmas reads_defs = client_GetVersion_def client_GetApplication_def client_GetProxyProvider_def client_FindProxyProvidersByName_def
  client_GetOAuth2Provider_def client_FindOAuth2ProvidersByName_def client_GetPolicyBinding_def client_ListPolicyBindings_def
  client_GetOutpost_def client_FindOutpostsByName_def client_GetRole_def client_FindRolesByName_def
  client_ListRoleObjectPermissions_def client_ListObjectPermissionRoles_def client_GetGroup_def client_FindGroupsByName_def
  client_GetUser_def client_FindUsersByUsername_def client_GetPolicy_def client_FindPoliciesByName_def client_FindFlowsBySlug_def
  client_GetCertificateKeyPair_def client_FindCertificateKeyPairsByName_def client_GetScopeMapping_def
  client_FindScopeMappingsByScopeName_def

text \<open>The answers of the in-memory server, as values.\<close>

lemma fst_lookup: "fst (lookupE m k e c) = (case map_of m k of Some v \<Rightarrow> Inr v | None \<Rightarrow> Inl e)"
  by (simp add: run_lookup split: option.split)

lemma fst_lookup_map:
  "fst (bindE (lookupE m k e) (\<lambda>x. retE (f x)) c) = (case map_option f (map_of m k) of Some v \<Rightarrow> Inr v | None \<Rightarrow> Inl e)"
  by (simp add: run_simps split: option.split)

lemma fst_read: "fst (readE f c) = Inr (f c)"
  by (simp add: run_read)

lemmas fake_answers = fake_client_def Client.select_convs fake_get fst_lookup fst_lookup_map fst_read

lemma reads_retrieved:
  assumes "presents n g d (wire_server s)"
  shows "agrees (Some (client_GetVersion g s)) s (fst (GetVersion fake_client d))"
    and "agrees (Some (client_GetApplication g str s)) s (fst (GetApplication fake_client str d))"
    and "agrees (Some (client_GetProxyProvider g pk s)) s (fst (GetProxyProvider fake_client pk d))"
    and "agrees (Some (client_GetOAuth2Provider g pk s)) s (fst (GetOAuth2Provider fake_client pk d))"
    and "agrees (Some (client_GetPolicyBinding g str s)) s (fst (GetPolicyBinding fake_client str d))"
    and "agrees (Some (client_GetOutpost g str s)) s (fst (GetOutpost fake_client str d))"
    and "agrees (Some (client_GetRole g str s)) s (fst (GetRole fake_client str d))"
    and "agrees (Some (client_GetGroup g str s)) s (fst (GetGroup fake_client str d))"
    and "agrees (Some (client_GetUser g pk s)) s (fst (GetUser fake_client pk d))"
    and "agrees (Some (client_GetPolicy g str s)) s (fst (GetPolicy fake_client str d))"
    and "agrees (Some (client_GetCertificateKeyPair g str s)) s (fst (GetCertificateKeyPair fake_client str d))"
    and "agrees (Some (client_GetScopeMapping g str s)) s (fst (GetScopeMapping fake_client str d))"
proof -
  note r = assms [unfolded presents_def]
  have v: "agrees (Some (call_api u operation (AdminVersionRetrieve g) s)) s (Inr (fake_version d))" for u operation
    using agrees_call [of "AdminVersionRetrieve g" "Some (fake_version d)"] r by simp
  show "agrees (Some (client_GetVersion g s)) s (fst (GetVersion fake_client d))"
    unfolding reads_defs fake_answers by (rule v)
qed (unfold reads_defs fake_answers, (rule agrees_call, cut_tac assms [unfolded presents_def], elim conjE, erule spec)+)

lemma reads_listed:
  assumes "presents n g d (wire_server s)" and "n \<le> fuel"
  shows "agrees (client_FindProxyProvidersByName fuel g str s) s (fst (FindProxyProvidersByName fake_client str d))"
    and "agrees (client_FindOAuth2ProvidersByName fuel g str s) s (fst (FindOAuth2ProvidersByName fake_client str d))"
    and "agrees (client_ListPolicyBindings fuel g str s) s (fst (ListPolicyBindings fake_client str d))"
    and "agrees (client_FindOutpostsByName fuel g str s) s (fst (FindOutpostsByName fake_client str d))"
    and "agrees (client_FindRolesByName fuel g str s) s (fst (FindRolesByName fake_client str d))"
    and "agrees (client_ListRoleObjectPermissions fuel g str s) s (fst (ListRoleObjectPermissions fake_client str d))"
    and "agrees (client_ListObjectPermissionRoles fuel g model str s) s (fst (ListObjectPermissionRoles fake_client model str d))"
    and "agrees (client_FindGroupsByName fuel g str s) s (fst (FindGroupsByName fake_client str d))"
    and "agrees (client_FindUsersByUsername fuel g str s) s (fst (FindUsersByUsername fake_client str d))"
    and "agrees (client_FindPoliciesByName fuel g str s) s (fst (FindPoliciesByName fake_client str d))"
    and "agrees (client_FindFlowsBySlug fuel g str s) s (fst (FindFlowsBySlug fake_client str d))"
    and "agrees (client_FindCertificateKeyPairsByName fuel g str s) s (fst (FindCertificateKeyPairsByName fake_client str d))"
    and "agrees (client_FindScopeMappingsByScopeName fuel g str s) s (fst (FindScopeMappingsByScopeName fake_client str d))"
  by (unfold reads_defs fake_answers sum.sel,
      (rule agrees_list [OF _ assms(2)], cut_tac assms(1) [unfolded presents_def fake_answers sum.sel], elim conjE, (erule spec | drule spec2, assumption))+)

lemma reads_flow:
  assumes "presents n g d (wire_server s)" and "n \<le> fuel"
  shows "agrees (client_GetFlow fuel g str s) s (fst (GetFlow fake_client str d))"
  unfolding fake_answers
  by (rule agrees_GetFlow [OF _ assms(2)], cut_tac assms(1) [unfolded presents_def], elim conjE, erule spec)

text \<open>
  C24: on a server that presents the objects of the in-memory server, every read of the client that the
  operator runs with gives the answer of the in-memory server: the same object or list, or \<open>not found\<close>
  from both, however the lists are paged and whatever else their filters let through. The server is not
  changed and every request is counted.
\<close>

theorem client_reads_like_fake:
  assumes "presents n g d (wire_server s)" and "n \<le> fuel"
  shows "agrees (Some (client_GetVersion g s)) s (fst (GetVersion fake_client d)) \<and>
    agrees (Some (client_GetApplication g str s)) s (fst (GetApplication fake_client str d)) \<and>
    agrees (Some (client_GetProxyProvider g pk s)) s (fst (GetProxyProvider fake_client pk d)) \<and>
    agrees (client_FindProxyProvidersByName fuel g str s) s (fst (FindProxyProvidersByName fake_client str d)) \<and>
    agrees (Some (client_GetOAuth2Provider g pk s)) s (fst (GetOAuth2Provider fake_client pk d)) \<and>
    agrees (client_FindOAuth2ProvidersByName fuel g str s) s (fst (FindOAuth2ProvidersByName fake_client str d)) \<and>
    agrees (Some (client_GetPolicyBinding g str s)) s (fst (GetPolicyBinding fake_client str d)) \<and>
    agrees (client_ListPolicyBindings fuel g str s) s (fst (ListPolicyBindings fake_client str d)) \<and>
    agrees (Some (client_GetOutpost g str s)) s (fst (GetOutpost fake_client str d)) \<and>
    agrees (client_FindOutpostsByName fuel g str s) s (fst (FindOutpostsByName fake_client str d)) \<and>
    agrees (Some (client_GetRole g str s)) s (fst (GetRole fake_client str d)) \<and>
    agrees (client_FindRolesByName fuel g str s) s (fst (FindRolesByName fake_client str d)) \<and>
    agrees (client_ListRoleObjectPermissions fuel g str s) s (fst (ListRoleObjectPermissions fake_client str d)) \<and>
    agrees (client_ListObjectPermissionRoles fuel g model str s) s (fst (ListObjectPermissionRoles fake_client model str d)) \<and>
    agrees (Some (client_GetGroup g str s)) s (fst (GetGroup fake_client str d)) \<and>
    agrees (client_FindGroupsByName fuel g str s) s (fst (FindGroupsByName fake_client str d)) \<and>
    agrees (Some (client_GetUser g pk s)) s (fst (GetUser fake_client pk d)) \<and>
    agrees (client_FindUsersByUsername fuel g str s) s (fst (FindUsersByUsername fake_client str d)) \<and>
    agrees (Some (client_GetPolicy g str s)) s (fst (GetPolicy fake_client str d)) \<and>
    agrees (client_FindPoliciesByName fuel g str s) s (fst (FindPoliciesByName fake_client str d)) \<and>
    agrees (client_GetFlow fuel g str s) s (fst (GetFlow fake_client str d)) \<and>
    agrees (client_FindFlowsBySlug fuel g str s) s (fst (FindFlowsBySlug fake_client str d)) \<and>
    agrees (Some (client_GetCertificateKeyPair g str s)) s (fst (GetCertificateKeyPair fake_client str d)) \<and>
    agrees (client_FindCertificateKeyPairsByName fuel g str s) s (fst (FindCertificateKeyPairsByName fake_client str d)) \<and>
    agrees (Some (client_GetScopeMapping g str s)) s (fst (GetScopeMapping fake_client str d)) \<and>
    agrees (client_FindScopeMappingsByScopeName fuel g str s) s (fst (FindScopeMappingsByScopeName fake_client str d))"
  by (intro conjI reads_retrieved [OF assms(1)] reads_listed [OF assms] reads_flow [OF assms])

end
