(* ===== verification/Transport.thy ===== *)
theory Transport
  imports Wrapper Samples
begin

text \<open>
  A generated client over the in-memory server, for the examples of the wrapper: every request is the
  call of the in-memory server, turned into a response. The lists are served in one page and are not
  filtered by name, so that the wrapper has to narrow them down.
\<close>

text \<open>The response to a call. The result of a failed one is a pointer that nobody reads.\<close>

definition respond :: "('s, 'r) call \<Rightarrow> ('s, 'r) request" where
  "respond m = (\<lambda>c. case m c of
       (Inr x, d) \<Rightarrow> ((x, Some \<lparr> resp_StatusCode = 200, resp_Body = None \<rparr>, None), d)
     | (Inl e, d) \<Rightarrow> ((undefined,
         Some \<lparr> resp_StatusCode = (case e of APIError op code body \<Rightarrow> code | _ \<Rightarrow> 500), resp_Body = Some (ErrorText e) \<rparr>,
         Some \<lparr> callerr_Message = ErrorText e, callerr_Body = Some (ErrorText e) \<rparr>), d))"

definition respondEmpty :: "('s, unit) call \<Rightarrow> 's emptyRequest" where
  "respondEmpty m = (\<lambda>c. case respond m c of ((_, resp, err), d) \<Rightarrow> ((resp, err), d))"

definition respondList :: "('s \<Rightarrow> 't list) \<Rightarrow> int \<Rightarrow> ('s, 't paginated option) request" where
  "respondList f p = (\<lambda>c. ((Some \<lparr> Results = (if p = 1 then f c else []), Next = 0 \<rparr>,
     Some \<lparr> resp_StatusCode = 200, resp_Body = None \<rparr>, None), c))"

definition sample_unmarshal :: "string \<Rightarrow> json option" where
  "sample_unmarshal raw = Some (JObj [(''client_secret'', JStr raw), (''detail'', JStr ''invalid'')])"

definition fake_api :: "fake APIClient" where
  "fake_api = \<lparr>
     Unmarshal = sample_unmarshal,
     AdminVersionRetrieve = respond (GetVersion fake_client),
     CoreApplicationsRetrieve = (\<lambda>slug. respond (GetApplication fake_client slug)),
     CoreApplicationsCreate = (\<lambda>r. respond (CreateApplication fake_client r)),
     CoreApplicationsPartialUpdate = (\<lambda>slug r. respond (PatchApplication fake_client slug r)),
     CoreApplicationsDestroy = (\<lambda>slug. respondEmpty (DeleteApplication fake_client slug)),
     ProvidersProxyRetrieve = (\<lambda>pk. respond (GetProxyProvider fake_client pk)),
     ProvidersProxyList = (\<lambda>_ p _. respondList (\<lambda>c. map (copyProxyProvider c \<circ> snd) (fake_proxyProviders c)) p),
     ProvidersProxyCreate = (\<lambda>r. respond (CreateProxyProvider fake_client r)),
     ProvidersProxyPartialUpdate = (\<lambda>pk r. respond (PatchProxyProvider fake_client pk r)),
     ProvidersProxyDestroy = (\<lambda>pk. respondEmpty (DeleteProxyProvider fake_client pk)),
     ProvidersOauth2Retrieve = (\<lambda>pk. respond (GetOAuth2Provider fake_client pk)),
     ProvidersOauth2List = (\<lambda>_ p _. respondList (\<lambda>c. map (copyOAuth2Provider c \<circ> snd) (fake_oauth2Providers c)) p),
     ProvidersOauth2Create = (\<lambda>r. respond (CreateOAuth2Provider fake_client r)),
     ProvidersOauth2PartialUpdate = (\<lambda>pk r. respond (PatchOAuth2Provider fake_client pk r)),
     ProvidersOauth2Destroy = (\<lambda>pk. respondEmpty (DeleteOAuth2Provider fake_client pk)),
     PoliciesBindingsRetrieve = (\<lambda>u. respond (GetPolicyBinding fake_client u)),
     PoliciesBindingsList = (\<lambda>target p _. respondList (\<lambda>c. projr (fst (fake_ListPolicyBindings target c))) p),
     PoliciesBindingsCreate = (\<lambda>r. respond (CreatePolicyBinding fake_client r)),
     PoliciesBindingsPartialUpdate = (\<lambda>u r. respond (PatchPolicyBinding fake_client u r)),
     PoliciesBindingsDestroy = (\<lambda>u. respondEmpty (DeletePolicyBinding fake_client u)),
     OutpostsInstancesRetrieve = (\<lambda>u. respond (GetOutpost fake_client u)),
     OutpostsInstancesList = (\<lambda>_ p _. respondList (\<lambda>c. map snd (fake_outposts c)) p),
     OutpostsInstancesPartialUpdate = (\<lambda>u r. (case poutpost_Providers r of
         None \<Rightarrow> respond (GetOutpost fake_client u)
       | Some ps \<Rightarrow> respond (SetOutpostProviders fake_client u ps))),
     RbacRolesRetrieve = (\<lambda>u. respond (GetRole fake_client u)),
     RbacRolesList = (\<lambda>_ p _. respondList (\<lambda>c. map snd (fake_roles c)) p),
     RbacRolesCreate = (\<lambda>r. respond (CreateRole fake_client (rrole_Name r))),
     RbacPermissionsAssignedByRolesAssign = (\<lambda>u r. respond (bindE
       (forE (assign_Permissions r) (AssignObjectPermission fake_client u (the (assign_Model r)) (the (assign_ObjectPk r))))
       (\<lambda>_. retE []))),
     RbacPermissionsAssignedByRolesUnassignPartialUpdate = (\<lambda>u r. respondEmpty
       (forE (assign_Permissions r) (UnassignObjectPermission fake_client u (the (assign_Model r)) (the (assign_ObjectPk r))))),
     RbacPermissionsRolesList = (\<lambda>u p _. respondList (\<lambda>c. projr (fst (fake_ListRoleObjectPermissions u c))) p),
     RbacPermissionsAssignedByRolesList = (\<lambda>m u p _. respondList (\<lambda>c. projr (fst (fake_ListObjectPermissionRoles m u c))) p),
     CoreGroupsRetrieve = (\<lambda>u _. respond (GetGroup fake_client u)),
     CoreGroupsList = (\<lambda>_ _ p _. respondList (\<lambda>c. map snd (fake_groups c)) p),
     CoreUsersRetrieve = (\<lambda>u. respond (GetUser fake_client u)),
     CoreUsersList = (\<lambda>_ _ p _. respondList (\<lambda>c. map snd (fake_users c)) p),
     PoliciesAllRetrieve = (\<lambda>u. respond (GetPolicy fake_client u)),
     PoliciesAllList = (\<lambda>_ p _. respondList (\<lambda>c. map snd (fake_policies c)) p),
     FlowsInstancesList = (\<lambda>_ _ p _. respondList (\<lambda>c. map snd (fake_flows c)) p),
     CryptoCertificatekeypairsRetrieve = (\<lambda>u. respond (GetCertificateKeyPair fake_client u)),
     CryptoCertificatekeypairsList = (\<lambda>_ p _. respondList (\<lambda>c. map snd (fake_keyPairs c)) p),
     PropertymappingsProviderScopeRetrieve = (\<lambda>u. respond (GetScopeMapping fake_client u)),
     PropertymappingsProviderScopeList = (\<lambda>_ p _. respondList (\<lambda>c. map snd (fake_scopeMappings c)) p) \<rparr>"

lemma retrieves_respond:
  assumes "pure m" and "fst (m c) = (case x of Some v \<Rightarrow> Inr v | None \<Rightarrow> Inl (notFound o' k))"
  shows "retrieves (respond m) x c"
proof -
  have "m c = (fst (m c), c)" using pureD [OF assms(1)] by (metis surj_pair fst_conv)
  then show ?thesis using assms(2) by (cases x) (auto simp: retrieves_def respond_def notFound_def)
qed

lemma presents_respondList:
  "filter keep (f c) = xs \<Longrightarrow> presents_list 1 (respondList f) keep xs c"
  unfolding presents_list_def
  by (intro exI [of _ "[f c]"]) (simp add: serves_def list_page_def respondList_def toPage_def)

lemma filter_copies:
  "filter (\<lambda>x. px_Name x = n) (map (copyProxyProvider c \<circ> snd) ps) = map (copyProxyProvider c) (findAll ps (\<lambda>x. px_Name x = n))"
  "filter (\<lambda>x. ox_Name x = n) (map (copyOAuth2Provider c \<circ> snd) qs) = map (copyOAuth2Provider c) (findAll qs (\<lambda>x. ox_Name x = n))"
  by (simp_all add: findAll_def filter_map comp_def copyProxyProvider_def copyOAuth2Provider_def)

lemma filter_keyed:
  assumes "wf_map key m"
  shows "filter (\<lambda>x. key x = u) (map snd m) = (case map_of m u of None \<Rightarrow> [] | Some x \<Rightarrow> [x])"
  using assms
proof (induction m)
  case (Cons kv m)
  obtain k v where kv: "kv = (k, v)" by (cases kv)
  have d: "k \<notin> fst ` set m" "key v = k" and "distinct (map fst m)"
    using Cons.prems by (simp_all add: wf_map_def kv)
  have "map_of (kv # m) a = map_of m a" if "map_of m a = Some b" for a b
    using that d(1) map_of_SomeD [OF that] by (auto simp: kv rev_image_eqI)
  with Cons.prems \<open>distinct (map fst m)\<close> have rest: "wf_map key m" unfolding wf_map_def by metis
  from d(1) have "map_of m k = None" by (simp add: map_of_eq_None_iff)
  with Cons.IH [OF rest] d(2) show ?case by (auto simp: kv)
qed simp

lemma presents_fake:
  assumes "wf_map flw_Pk (fake_flows c)"
  shows "presents 1 fake_api c c"
proof -
  note keyed = filter_keyed [OF assms]
  show ?thesis
    unfolding presents_def fake_api_def APIClient.select_convs
    by (intro conjI allI; (rule retrieves_respond, rule fake.pure_reads, simp add: fake_answers
        | rule presents_respondList, simp add: findAll_def filter_copies fake_answers filter_sort keyed del: map_map))
qed

theorem client_reads_like_fake_witness:
  "agrees (client_FindProxyProvidersByName 1 fake_api ''wiki'' \<lparr> wire_server = sample_fake, requestsTotal = [], requestDuration = [], wire_clock = int, wire_ticks = 0 \<rparr>)
      \<lparr> wire_server = sample_fake, requestsTotal = [], requestDuration = [], wire_clock = int, wire_ticks = 0 \<rparr> (Inr [copyProxyProvider sample_fake sample_proxy]) \<and>
   agrees (client_GetFlow 1 fake_api ''f9'' \<lparr> wire_server = sample_fake, requestsTotal = [], requestDuration = [], wire_clock = int, wire_ticks = 0 \<rparr>)
      \<lparr> wire_server = sample_fake, requestsTotal = [], requestDuration = [], wire_clock = int, wire_ticks = 0 \<rparr> (Inl (notFound ''GetFlow'' ''Flow''))"
proof -
  let ?s = "\<lparr> wire_server = sample_fake, requestsTotal = [], requestDuration = [], wire_clock = int, wire_ticks = 0 \<rparr>"
  have "wf_map flw_Pk (fake_flows sample_fake)" by (simp add: wf_map_def sample_fake_def fake_New_def)
  from presents_fake [OF this] have p: "presents 1 fake_api sample_fake (wire_server ?s)" by simp
  have "fst (FindProxyProvidersByName fake_client ''wiki'' sample_fake) = Inr [copyProxyProvider sample_fake sample_proxy]"
    "fst (GetFlow fake_client ''f9'' sample_fake) = Inl (notFound ''GetFlow'' ''Flow'')"
    by (simp_all add: fake_answers findAll_def) (simp_all add: sample_fake_def fake_New_def sample_proxy_def)
  with client_reads_like_fake [OF p order.refl, where str = "''wiki''"] client_reads_like_fake [OF p order.refl, where str = "''f9''"]
  show ?thesis by metis
qed

end
