(* ===== verification/Runs.thy ===== *)
theory Runs
  imports Witnesses Convergence Transport
begin

text \<open>
  The properties of the steps of a reconcile, of the release, of the resolution and of the wire
  formats, each applied at a concrete input where its hypotheses hold.
\<close>

lemma wf_sample: "wf_fake sample_fake"
  using wf_marks_sample by (simp add: wf_marks_def)

section \<open>Created objects\<close>

lemmas run_calls = run_simps fake_write_defs fake_aux_defs fake_get findAll_def notFound_def providerNameTaken_def
  clientIDTaken_def bindingOrderTaken_def copyProxyProvider_def copyOAuth2Provider_def

lemma created_application_matches_sample:
  "\<exists>a c'. fake_CreateApplication (createApplicationRequest ''new'' (desiredApplication sample_spec None)) sample_fake = (Inr a, c') \<and>
     appl_Slug a = ''new'' \<and> DiffApplication (desiredApplication sample_spec None) a = None"
proof -
  have "\<exists>a c'. fake_CreateApplication (createApplicationRequest ''new'' (desiredApplication sample_spec None)) sample_fake = (Inr a, c')"
    by (simp add: run_calls createApplicationRequest_def desiredApplication_def sample_defs)
  then show ?thesis using created_application_matches by blast
qed

lemma created_proxy_matches_sample:
  "\<exists>p c'. fake_CreateProxyProvider (createProxyProviderRequest ''new''
       (desiredProxyProvider sample_provider_spec sample_forward_spec sample_resolved_flows sample_proxy_refs)) sample_fake = (Inr p, c') \<and>
     DiffProxyProvider (desiredProxyProvider sample_provider_spec sample_forward_spec sample_resolved_flows sample_proxy_refs) p = None"
proof -
  have "\<exists>p c'. fake_CreateProxyProvider (createProxyProviderRequest ''new''
      (desiredProxyProvider sample_provider_spec sample_forward_spec sample_resolved_flows sample_proxy_refs)) sample_fake = (Inr p, c')"
    by (simp add: run_calls createProxyProviderRequest_def desiredProxyProvider_def sample_defs)
  moreover have "valid_ProxyProviderSpec sample_forward_spec" "provider_Name sample_provider_spec = None"
    by (simp_all add: valid_ProxyProviderSpec_def one_of_def has_def sample_defs)
  ultimately show ?thesis using created_proxy_matches by blast
qed

lemma created_oauth2_matches_sample:
  "\<exists>p c'. fake_CreateOAuth2Provider (createOAuth2ProviderRequest ''new''
       (desiredOAuth2Provider sample_provider_spec sample_oauth2_spec sample_resolved_flows sample_oauth2_refs)
       \<lparr> defaults_Scopes = Some [''m1''], defaults_SigningKey = Some ''k1'' \<rparr>) sample_fake = (Inr p, c') \<and>
     DiffOAuth2Provider (desiredOAuth2Provider sample_provider_spec sample_oauth2_spec sample_resolved_flows sample_oauth2_refs) p = None"
proof -
  have "\<exists>p c'. fake_CreateOAuth2Provider (createOAuth2ProviderRequest ''new''
       (desiredOAuth2Provider sample_provider_spec sample_oauth2_spec sample_resolved_flows sample_oauth2_refs)
       \<lparr> defaults_Scopes = Some [''m1''], defaults_SigningKey = Some ''k1'' \<rparr>) sample_fake = (Inr p, c')"
    by (simp add: run_calls createOAuth2ProviderRequest_def desiredOAuth2Provider_def sample_defs numeral_eq_Suc)
  moreover have "provider_Name sample_provider_spec = None" by (simp add: sample_defs)
  ultimately show ?thesis using created_oauth2_matches by blast
qed

definition sample_rule :: Rule where
  "sample_rule = \<lparr> rl_Group = Some ''g1'', rl_User = None, rl_Policy = None, rl_Negate = True \<rparr>"

lemma created_binding_matches_sample:
  "\<exists>b c'. fake_CreatePolicyBinding (createBindingRequest (desiredBinding ''a1'' sample_rule) 10) sample_fake = (Inr b, c') \<and>
     bind_Order b = 10 \<and> DiffPolicyBinding (desiredBinding ''a1'' sample_rule) b = None"
proof -
  have r: "case (rl_Group sample_rule, rl_User sample_rule, rl_Policy sample_rule) of
      (Some g, None, None) \<Rightarrow> g \<noteq> [] | (None, Some u, None) \<Rightarrow> True | (None, None, Some p) \<Rightarrow> p \<noteq> [] | _ \<Rightarrow> False"
    by (simp add: sample_rule_def)
  have "\<not> bindingOrderTaken sample_fake (pbind_Policy (desiredBinding ''a1'' sample_rule)) ''a1'' 10 []"
    by (simp add: bindingOrderTaken_def sample_defs)
  from created_binding_matches [OF r this] show ?thesis by blast
qed

section \<open>Matching and the wire\<close>

theorem matchBindings_correct_witness:
  "matchBindings [sample_rule, sample_rule\<lparr>rl_Negate := False\<rparr>] [sample_binding] False = [None, Some sample_binding] \<and>
   distinct (pks (matchBindings [sample_rule, sample_rule\<lparr>rl_Negate := False\<rparr>] [sample_binding] False))"
proof
  show "matchBindings [sample_rule, sample_rule\<lparr>rl_Negate := False\<rparr>] [sample_binding] False = [None, Some sample_binding]"
    by code_simp
  show "distinct (pks (matchBindings [sample_rule, sample_rule\<lparr>rl_Negate := False\<rparr>] [sample_binding] False))"
    using matchBindings_correct by blast
qed

theorem versions_compared_witness:
  "minorFromServerVersion ''2026.5.7'' = minorFromClientVersion ''v3.2026050.0''"
proof -
  have t: "itoa 2026 = ''2026''" "itoa 5 = ''5''" "nat_str 2026 = ''2026''" "two_digits 5 = ''05''" by code_simp+
  show ?thesis using versions_compared [of 2026 5 "CHR ''0''" "''3''" 2026 5 "''7''" "''0''"] by (simp add: t)
qed

definition sample_fetch :: "int \<Rightarrow> (unit, string page) request" where
  "sample_fetch page = (\<lambda>s. ((if page = 1 then \<lparr> page_results = [''a'', ''b''], page_next = 2 \<rparr>
       else \<lparr> page_results = [''c''], page_next = 0 \<rparr>, Some \<lparr> resp_StatusCode = 200, resp_Body = None \<rparr>, None), s))"

theorem listAll_complete_witness:
  "listAll 2 sample_unmarshal ''List'' sample_fetch (\<lambda>x. x \<noteq> ''b'')
     \<lparr> wire_server = (), requestsTotal = [], requestDuration = [], wire_clock = (\<lambda>n. int n * int n), wire_ticks = 0 \<rparr> =
     Some (Inr [''a'', ''c''], \<lparr> wire_server = (), requestsTotal = [(''List'', itoa 200), (''List'', itoa 200)],
       requestDuration = [(''List'', 1), (''List'', 5)], wire_clock = (\<lambda>n. int n * int n), wire_ticks = 4 \<rparr>)"
proof -
  have "serves sample_fetch [[''a'', ''b''], [''c'']] ()"
    by (auto simp: serves_def sample_fetch_def less_Suc_eq numeral_eq_Suc)
  then show ?thesis
    using listAll_complete [of sample_fetch "[[''a'', ''b''], [''c'']]" "\<lparr> wire_server = (), requestsTotal = [],
        requestDuration = [], wire_clock = (\<lambda>n. int n * int n), wire_ticks = 0 \<rparr>" 2]
    by (simp add: numeral_eq_Suc durations_def)
qed

theorem wrapError_hides_confidential_witness:
  "wrapError sample_unmarshal ''Patch'' (Some \<lparr> resp_StatusCode = 400, resp_Body = None \<rparr>)
     (Some \<lparr> callerr_Message = ''m'', callerr_Body = Some ''s3cret'' \<rparr>) =
   wrapError sample_unmarshal ''Patch'' (Some \<lparr> resp_StatusCode = 400, resp_Body = None \<rparr>)
     (Some \<lparr> callerr_Message = ''m'', callerr_Body = Some ''other'' \<rparr>)"
proof -
  let ?j = "\<lambda>raw. JObj [(''client_secret'', JStr raw), (''detail'', JStr ''invalid'')]"
  have "sample_unmarshal raw = Some (?j raw)" for raw by (simp add: sample_unmarshal_def)
  moreover have "same_public (?j ''s3cret'') (?j ''other'')" by code_simp
  ultimately show ?thesis
    using wrapError_hides_confidential [of sample_unmarshal "''s3cret''" _ "''other''" _ "\<lparr> resp_StatusCode = 400, resp_Body = None \<rparr>"]
    by simp
qed

section \<open>The Application and the Outpost\<close>

lemmas run_steps = run_calls run_marks run_cache updStatus_def sys_spec_def sys_status_def Eventf_def

theorem reconcileApplication_reaches_desired_witness:
  "\<exists>a t. reconcileApplication (on_fake sample_reconciler) (Some sample_application) None sample_state = (Inr a, t) \<and>
     map_of (fake_applications (server t)) ''wiki'' = Some a \<and> appl_Name a = ''Wiki'' \<and>
     reconcileApplication (on_fake sample_reconciler) (Some a) None t = (Inr a, t)"
proof -
  have "case DiffApplication (desiredApplication sample_spec None) sample_application of None \<Rightarrow> False
      | Some p \<Rightarrow> (case fst (fake_PatchApplication ''wiki'' p sample_fake) of Inl _ \<Rightarrow> False | Inr a \<Rightarrow> appl_Name a = ''Wiki'')"
    by code_simp
  then obtain p a c where p: "DiffApplication (desiredApplication sample_spec None) sample_application = Some p"
    "fake_PatchApplication ''wiki'' p sample_fake = (Inr a, c)" "appl_Name a = ''Wiki''"
    by (auto split: option.splits sum.splits) (metis prod.collapse)
  define t where "t = sample_state\<lparr>server := c\<rparr>"
  have n: "appl_Name a = ''Wiki''" "sys_spec t = sample_spec"
    using p by (simp_all add: t_def sys_spec_def sample_state_def sample_app_def)
  have spec: "sys_spec sample_state = sample_spec" "appl_Slug sample_application = ''wiki''"
    by (simp_all add: sys_spec_def sample_state_def sample_app_def sample_application_def)
  have run: "reconcileApplication (on_fake sample_reconciler) (Some sample_application) None sample_state = (Inr a, t)"
    using p spec by (simp add: reconcileApplication_def run_simps on_fake_def server_sample t_def)
  have s: "sys_spec sample_state = sample_spec" "wf_fake (server sample_state)" "spec_Slug sample_spec = ''wiki''"
    "Some sample_application = map_of (fake_applications (server sample_state)) (spec_Slug (sys_spec sample_state))"
    by (simp_all add: sys_spec_def server_sample wf_sample) (simp_all add: sample_defs)
  from reconcileApplication_reaches_desired [OF run s(2,4)] show ?thesis using run n s by auto
qed

text \<open>A Provider that moves from the Outpost \<open>o1\<close> to \<open>o2\<close>.\<close>

definition moving_state :: "(fake, cluster) sys" where
  "moving_state = sample_state
     \<lparr>server := sample_fake\<lparr>fake_outposts :=
        [(''o1'', \<lparr>outpost_Pk = ''o1'', outpost_Name = ''first'', outpost_Providers = [2, 1]\<rparr>),
         (''o2'', \<lparr>outpost_Pk = ''o2'', outpost_Name = ''second'', outpost_Providers = []\<rparr>)]\<rparr>,
      st_app := sample_app\<lparr>app_Status := empty_status\<lparr>status_OutpostUUID := ''o1''\<rparr>\<rparr>,
      st_resolved := (st_resolved sample_state)\<lparr>resolved_Proxy := Some \<lparr>proxyrefs_Certificate = None, proxyrefs_Outpost = ''o2''\<rparr>\<rparr>\<rparr>"

lemma moving_run: "fst (reconcileOutpost (on_fake sample_reconciler) 1 moving_state) = Inr ()"
  by (simp add: reconcileOutpost_def leaveOutpostByUUID_def removeProviderFromOutpost_def moving_state_def providerExists_def run_steps sample_defs)

lemma wf_moving: "wf_fake (server moving_state)"
  using wf_sample by (simp add: moving_state_def wf_fake_def wf_map_def)

lemma reconcileOutpost_members_sample:
  "\<exists>t. reconcileOutpost (on_fake sample_reconciler) 1 moving_state = (Inr (), t) \<and>
     members (server t) ''o1'' = Some [2] \<and> members (server t) ''o2'' = Some [1]"
proof -
  note run = run_fst [of "reconcileOutpost (on_fake sample_reconciler) 1", OF moving_run]
  have s: "''o2'' = proxyrefs_Outpost (the (resolved_Proxy (st_resolved moving_state)))"
    "members (server moving_state) ''o1'' = Some [2, 1]" "members (server moving_state) ''o2'' = Some []"
    "status_OutpostUUID (sys_status moving_state) = ''o1''"
    by (simp_all add: moving_state_def members_def sys_status_def)
  from reconcileOutpost_members [OF run wf_moving s(1), folded s(1)] s(2-4) run show ?thesis
    by (intro exI [of _ "snd (reconcileOutpost (on_fake sample_reconciler) 1 moving_state)"]) simp
qed

theorem reconcileOutpost_never_detached_witness:
  "\<exists>x t u q. reconcileOutpost (on_fake sample_reconciler) 1 moving_state = (x, t) \<and>
     map_of (fake_outposts (server t)) u = Some q \<and> 1 \<in> set (outpost_Providers q)"
proof -
  obtain x t where run: "reconcileOutpost (on_fake sample_reconciler) 1 moving_state = (x, t)" by (metis surj_pair)
  have "map_of (fake_outposts (server moving_state)) ''o1'' =
      Some \<lparr>outpost_Pk = ''o1'', outpost_Name = ''first'', outpost_Providers = [2, 1]\<rparr>"
    by (simp add: moving_state_def)
  from reconcileOutpost_never_detached [OF run wf_moving this] show ?thesis using run by auto
qed

section \<open>Providers\<close>

definition provider_state :: "ProviderSpec \<Rightarrow> (fake, cluster) sys" where
  "provider_state provider = sample_state
     \<lparr>st_app := sample_app\<lparr>app_Spec := sample_spec\<lparr>spec_Provider := Some provider\<rparr>\<rparr>,
      st_resolved := \<lparr> resolved_Flows = Some sample_resolved_flows, resolved_Proxy = Some sample_proxy_refs,
        resolved_OAuth2 = Some sample_oauth2_refs, resolved_Rules = [] \<rparr>\<rparr>"

definition forward_provider :: ProviderSpec where
  "forward_provider = sample_provider_spec\<lparr>provider_Name := Some ''wiki'', provider_Proxy := Some sample_forward_spec\<rparr>"

definition oauth2_provider :: ProviderSpec where
  "oauth2_provider = sample_provider_spec
     \<lparr>provider_Name := Some ''chat'', provider_Proxy := None, provider_OAuth2 := Some sample_oauth2_spec\<rparr>"

lemma provider_runs:
  "fst (reconcileProvider (on_fake sample_reconciler) None (provider_state forward_provider)) = Inr 1"
  "fst (reconcileProvider (on_fake sample_reconciler) None (provider_state oauth2_provider)) = Inr 2"
  by code_simp+

lemma provider_state_simps:
  "server (provider_state p) = sample_fake" "spec_Provider (sys_spec (provider_state p)) = Some p"
  "status_ProviderPK (sys_status (provider_state p)) = None" "spec_Slug (sys_spec (provider_state p)) = ''wiki''"
  "resolved_Flows (st_resolved (provider_state p)) = Some sample_resolved_flows"
  "resolved_Proxy (st_resolved (provider_state p)) = Some sample_proxy_refs"
  "resolved_OAuth2 (st_resolved (provider_state p)) = Some sample_oauth2_refs"
  by (simp_all add: provider_state_def sys_spec_def sys_status_def sample_state_def sample_app_def empty_status_def sample_spec_def)

theorem reconcileProvider_reaches_desired_proxy_witness:
  "\<exists>t y. reconcileProvider (on_fake sample_reconciler) None (provider_state forward_provider) = (Inr 1, t) \<and>
     map_of (fake_proxyProviders (server t)) 1 = Some y \<and>
     proxy_match (desiredProxyProvider forward_provider sample_forward_spec sample_resolved_flows sample_proxy_refs) y"
proof -
  note run = run_fst [of "reconcileProvider (on_fake sample_reconciler) None", OF provider_runs(1)]
  have v: "provider_Proxy forward_provider = Some sample_forward_spec" "valid_ProxyProviderSpec sample_forward_spec"
    by (simp_all add: forward_provider_def valid_ProxyProviderSpec_def one_of_def has_def sample_defs)
  from reconcileProvider_reaches_desired_proxy [OF run _ provider_state_simps(2) v refl] run
  show ?thesis by (simp add: provider_state_simps wf_sample) (metis fun_upd_same)
qed


lemma find_run:
  "map_option observed_pk (case fst (findProvider (handlerFor (on_fake sample_reconciler) (st_app (provider_state forward_provider))
      (st_resolved (provider_state forward_provider))) None (provider_state forward_provider)) of Inr p \<Rightarrow> p | Inl _ \<Rightarrow> None) = Some 1"
  by code_simp

theorem findProvider_unassigned_witness:
  "\<exists>p t. findProvider (handlerFor (on_fake sample_reconciler) (st_app (provider_state forward_provider))
       (st_resolved (provider_state forward_provider))) None (provider_state forward_provider) = (Inr (Some p), t) \<and>
     observed_pk p = 1 \<and> (observed_assignedApplication p = None \<or> observed_assignedApplication p = Some ''wiki'')"
proof -
  from find_run obtain p t where run: "findProvider (handlerFor (on_fake sample_reconciler) (st_app (provider_state forward_provider))
       (st_resolved (provider_state forward_provider))) None (provider_state forward_provider) = (Inr (Some p), t)"
    and pk: "observed_pk p = 1"
    by (auto split: sum.splits) (metis prod.collapse)
  from findProvider_unassigned [OF run provider_state_simps(3)] show ?thesis using run pk by (auto simp: provider_state_simps)
qed

lemma provider_type_mismatch_sample:
  "reconcileProvider (on_fake sample_reconciler) (Some (sample_application\<lparr>appl_Provider := SetTo (Some 2)\<rparr>)) (provider_state forward_provider) =
     (Inl (providerTypeMismatch ''wiki'' 2 ''Proxy''), provider_state forward_provider)"
proof -
  have "if provider_Proxy forward_provider \<noteq> None
      then map_of (fake_proxyProviders (server (provider_state forward_provider))) 2 = None \<and>
        map_of (fake_oauth2Providers (server (provider_state forward_provider))) 2 \<noteq> None
      else map_of (fake_oauth2Providers (server (provider_state forward_provider))) 2 = None \<and>
        map_of (fake_proxyProviders (server (provider_state forward_provider))) 2 \<noteq> None"
    by (simp add: provider_state_simps forward_provider_def sample_fake_def)
  from provider_type_mismatch [OF provider_state_simps(3) _ provider_state_simps(2) this,
      of "sample_application\<lparr>appl_Provider := SetTo (Some 2)\<rparr>" sample_reconciler]
  show ?thesis by (simp add: forward_provider_def sample_application_def)
qed

section \<open>Release\<close>

definition release_state :: "DeletionPolicy \<Rightarrow> (fake, cluster) sys" where
  "release_state policy = sample_state
     \<lparr>st_app := sample_app\<lparr>meta_Finalizers := [finalizer],
        app_Spec := sample_spec\<lparr>spec_DeletionPolicy := Some policy, spec_Provider := Some forward_provider\<rparr>,
        app_Status := empty_status\<lparr>status_ApplicationSlug := ''wiki'', status_ApplicationPK := ''a1'',
          status_ProviderPK := Some 1, status_BindingUUIDs := [''b1'']\<rparr>\<rparr>\<rparr>"

lemma release_runs:
  "fst (release (on_fake sample_reconciler) (release_state DeletionPolicyDelete)) = Inr ()"
  "fst (release (on_fake sample_reconciler) (release_state DeletionPolicyRetain)) = Inr ()"
  by code_simp+

lemma release_state_simps:
  "server (release_state policy) = sample_fake" "spec_DeletionPolicy (app_Spec (st_app (release_state policy))) = Some policy"
  "status_ApplicationPK (sys_status (release_state policy)) = ''a1''"
  "status_ProviderPK (sys_status (release_state policy)) = Some 1"
  "status_BindingUUIDs (sys_status (release_state policy)) = [''b1'']"
  "spec_Provider (sys_spec (release_state policy)) = Some forward_provider"
  "recorded_slug (st_app (release_state policy)) = ''wiki''"
  by (simp_all add: release_state_def sample_state_def sys_status_def sys_spec_def recorded_slug_def)


theorem release_spares_others_witness:
  "\<exists>x t. release (on_fake sample_reconciler) (release_state DeletionPolicyDelete) = (x, t) \<and>
     map_of (fake_oauth2Providers (server t)) 2 = Some sample_oauth2"
proof -
  note run = run_fst [of "release (on_fake sample_reconciler)", OF release_runs(1)]
  from release_spares_others [OF run, of _ _ 2] show ?thesis using run
    by (intro exI [of _ "Inr ()"] exI [of _ "snd (release (on_fake sample_reconciler) (release_state DeletionPolicyDelete))"])
      (simp add: release_state_simps sample_fake_def)
qed

theorem release_retains_witness:
  "\<exists>t. release (on_fake sample_reconciler) (release_state DeletionPolicyRetain) = (Inr (), t) \<and>
     not_rbac (server t) = not_rbac sample_fake"
proof -
  note run = run_fst [of "release (on_fake sample_reconciler)", OF release_runs(2)]
  from release_retains [OF run] run show ?thesis
    by (intro exI [of _ "snd (release (on_fake sample_reconciler) (release_state DeletionPolicyRetain))"])
      (simp add: release_state_simps)
qed

theorem release_unmarks_recorded_witness:
  "\<exists>t. release (on_fake sample_reconciler) (release_state DeletionPolicyRetain) = (Inr (), t) \<and>
     sample_object \<notin> fake_marked (server t) (roleUUID t)"
proof -
  note run = run_fst [of "release (on_fake sample_reconciler)", OF release_runs(2)]
  have "list_ok (markers (on_fake sample_reconciler)) wf_marks fake_marked markable_model (release_state DeletionPolicyRetain)"
    by (simp add: list_ok_def release_state_def server_sample wf_marks_sample mono_int)
  from release_unmarks_recorded [OF run this] run show ?thesis
    by (intro exI [of _ "snd (release (on_fake sample_reconciler) (release_state DeletionPolicyRetain))"])
      (simp add: release_state_def sample_object_def recorded_objects_def)
qed

text \<open>A server that refuses to delete a binding.\<close>

definition refusing_reconciler :: "(fake, cluster) Reconciler" where
  "refusing_reconciler = sample_reconciler
     \<lparr>Authentik := fake_client\<lparr>DeletePolicyBinding := (\<lambda>u. throwE (APIError ''DeletePolicyBinding'' 500 ''''))\<rparr>\<rparr>"

lemma refused_run: "fst (release refusing_reconciler (release_state DeletionPolicyDelete)) = Inl (APIError ''DeletePolicyBinding'' 500 '''')"
  by code_simp

theorem finalizer_kept_until_released_witness:
  "\<exists>es. fst (finalize refusing_reconciler (release_state DeletionPolicyDelete)) =
     Inl (JoinError (APIError ''DeletePolicyBinding'' 500 '''' # es))"
proof -
  have "ContainsFinalizer refusing_reconciler (st_app (release_state DeletionPolicyDelete)) finalizer" by code_simp
  from finalizer_kept_until_released [OF this run_fst [of "release refusing_reconciler", OF refused_run]] show ?thesis by blast
qed

section \<open>Guards\<close>

text \<open>Two resources that share a slug; the younger one is reconciled.\<close>

definition conflict_state :: "(fake, cluster) sys" where
  "conflict_state = sample_state\<lparr>st_app := sample_app, kube := sample_cluster2\<rparr>"

lemma conflict_run:
  "\<exists>msg t. thenE (checkConflict (on_fake sample_reconciler))
     (bindE (readE st_app) (Resolve (resolver_of (on_fake sample_reconciler)))) conflict_state = (Inl (StopError ReasonConflict msg), t)"
proof -
  have "(case fst (thenE (checkConflict (on_fake sample_reconciler))
     (bindE (readE st_app) (Resolve (resolver_of (on_fake sample_reconciler)))) conflict_state) of
       Inl (StopError rsn msg) \<Rightarrow> rsn = ReasonConflict | _ \<Rightarrow> False)" by code_simp
  then show ?thesis by (auto split: sum.splits goerror.splits) (metis prod.collapse)
qed

theorem reconcileSpec_checks_first_witness:
  "\<exists>msg t. reconcileSpec (on_fake sample_reconciler) conflict_state = (Inl (StopError ReasonConflict msg), t) \<and>
     cache_state.truncate t = cache_state.truncate conflict_state"
  using conflict_run reconcileSpec_checks_first by blast

lemma unmanaged_run: "fst (cache_isManaged (markers (on_fake sample_reconciler)) (applicationObject sample_application) sample_state) = Inr False"
  by code_simp

theorem observeApplication_respects_others_witness:
  "\<exists>msg t. observeApplication (on_fake sample_reconciler) sample_state = (Inl (StopError ReasonUnmanaged msg), t) \<and>
     not_rbac (server t) = not_rbac sample_fake"
proof -
  obtain x t where run: "observeApplication (on_fake sample_reconciler) sample_state = (x, t)" by (metis surj_pair)
  have s: "map_of (fake_applications (server sample_state)) (spec_Slug (sys_spec sample_state)) = Some sample_application"
    "appl_Pk sample_application \<noteq> status_ApplicationPK (sys_status sample_state)" "spec_Adopt (sys_spec sample_state) = None"
    by (simp_all add: sys_spec_def sys_status_def sample_state_def sample_app_def sample_spec_def sample_fake_def
        sample_application_def empty_status_def)
  from observeApplication_respects_others [OF run s(1,2) run_fst [of "cache_isManaged (markers (on_fake sample_reconciler))
        (applicationObject sample_application)", OF unmanaged_run]] s(3) run
  show ?thesis by (auto simp: server_sample)
qed


section \<open>Access\<close>

definition late_binding :: PolicyBinding where
  "late_binding = sample_binding\<lparr>bind_Order := 2147483640\<rparr>"

lemma managed_run:
  "case fst (managedBindings (on_fake sample_reconciler) [late_binding] sample_state) of
     Inr (ms, us, maxOrder) \<Rightarrow> maxOrder = 2147483640 | Inl _ \<Rightarrow> False"
  by code_simp


text \<open>The only rule is for the user 7; \<open>b1\<close> is for a group and is pruned.\<close>

definition access_state :: "(fake, cluster) sys" where
  "access_state = sample_state
     \<lparr>st_app := sample_app\<lparr>app_Spec := sample_spec\<lparr>spec_Access := (spec_Access sample_spec)
        \<lparr>access_Public := None, access_Prune := Some True\<rparr>\<rparr>\<rparr>,
      st_resolved := (st_resolved sample_state)\<lparr>resolved_Rules :=
        [\<lparr> rl_Group = None, rl_User = Some 7, rl_Policy = None, rl_Negate = False \<rparr>]\<rparr>\<rparr>"

lemma access_run:
  "fst (reconcileBindings (on_fake sample_reconciler) sample_application access_state) = Inr ()"
  "is_true (access_Prune (spec_Access (sys_spec (snd (reconcileBindings (on_fake sample_reconciler) sample_application access_state)))))"
  by code_simp+

lemma access_room: "room (4 * length (fake_bindings (server access_state)) + 9 * length (resolved_Rules (st_resolved access_state))) (server access_state)"
  by (simp add: room_def access_state_def sample_state_def sample_fake_def fake_New_def uuid_of_def)

lemma access_state_simps:
  "server access_state = sample_fake" "resolved_Rules (st_resolved access_state) =
     [\<lparr> rl_Group = None, rl_User = Some 7, rl_Policy = None, rl_Negate = False \<rparr>]" "appl_PbmUuid sample_application = ''a1''"
  by (simp_all add: access_state_def sample_state_def sample_application_def)

theorem reconcileBindings_enforces_access_witness:
  "\<exists>t u b. reconcileBindings (on_fake sample_reconciler) sample_application access_state = (Inr (), t) \<and>
     map_of (fake_bindings (server t)) u = Some b \<and>
     binding_match (desiredBinding ''a1'' \<lparr> rl_Group = None, rl_User = Some 7, rl_Policy = None, rl_Negate = False \<rparr>) b \<and>
     (\<forall>v c. map_of (fake_bindings (server t)) v = Some c \<and> bind_Target c = ''a1'' \<longrightarrow> v = u)"
proof -
  note run = run_fst [of "reconcileBindings (on_fake sample_reconciler) sample_application", OF access_run(1)]
  define t where "t = snd (reconcileBindings (on_fake sample_reconciler) sample_application access_state)"
  have "wf_fake (server access_state)" by (simp add: access_state_simps wf_sample)
  note all = reconcileBindings_enforces_access [OF run this refl refl access_room, folded t_def, unfolded access_state_simps]
  from conjunct1 [OF all] obtain keys where "length keys = Suc 0"
    and "\<forall>i < Suc 0. \<exists>b. map_of (fake_bindings (server t)) (keys ! i) = Some b \<and> binding_match (desiredBinding ''a1''
        ([\<lparr> rl_Group = None, rl_User = Some 7, rl_Policy = None, rl_Negate = False \<rparr>] ! i)) b"
    and only: "\<forall>u b. map_of (fake_bindings (server t)) u = Some b \<and> bind_Target b = ''a1'' \<longrightarrow>
        u \<in> set keys \<or> u \<in> unmanaged_UUID ` set (status_UnmanagedBindings (sys_status t))"
    by (metis (no_types, lifting) length_Cons list.size(3))
  then obtain u b where "keys = [u]" and b: "map_of (fake_bindings (server t)) u = Some b" "binding_match (desiredBinding ''a1''
        \<lparr> rl_Group = None, rl_User = Some 7, rl_Policy = None, rl_Negate = False \<rparr>) b"
    by (cases keys) auto
  moreover have "status_UnmanagedBindings (sys_status t) = []"
    using conjunct1 [OF conjunct2 [OF all]] access_run(2) unfolding t_def by blast
  ultimately have "\<forall>v c. map_of (fake_bindings (server t)) v = Some c \<and> bind_Target c = ''a1'' \<longrightarrow> v = u"
    using only by auto
  then show ?thesis using run [folded t_def] b by blast
qed

section \<open>References\<close>

definition rule_app :: AuthentikApplication where
  "rule_app = sample_app\<lparr>app_Spec := sample_spec\<lparr>spec_Access := (spec_Access sample_spec)\<lparr>access_Rules :=
     [\<lparr> rule_Group = Some \<lparr> ref_Name = Some ''staff'', ref_UUID = None \<rparr>, rule_User = None, rule_Policy = None, rule_Negate = Some True \<rparr>,
      \<lparr> rule_Group = None, rule_User = Some \<lparr> user_Username = None, user_PK = Some 7 \<rparr>, rule_Policy = None, rule_Negate = None \<rparr>]\<rparr>\<rparr>\<rparr>"

lemma resolve_run:
  "case fst (Resolve (fake_resolver cluster_client) rule_app sample_state) of
     Inl _ \<Rightarrow> False | Inr refs \<Rightarrow> map rl_Group (resolved_Rules refs) = [Some ''g1'', None]"
  by code_simp

theorem resolved_rules_exact_witness:
  "\<exists>refs t. Resolve (fake_resolver cluster_client) rule_app sample_state = (Inr refs, t) \<and>
     map rl_Group (resolved_Rules refs) = [Some ''g1'', None] \<and>
     list_all2 (rule_denotes sample_fake) (access_Rules (spec_Access (app_Spec rule_app))) (resolved_Rules refs)"
proof -
  from resolve_run obtain refs t where run: "Resolve (fake_resolver cluster_client) rule_app sample_state = (Inr refs, t)"
    and g: "map rl_Group (resolved_Rules refs) = [Some ''g1'', None]"
    by (cases "Resolve (fake_resolver cluster_client) rule_app sample_state") (auto split: sum.splits)
  from resolved_rules_exact [OF run] show ?thesis using run g by (auto simp: server_sample)
qed

section \<open>A whole reconcile\<close>

text \<open>The Application does not exist yet; the Provider does, outside the Outpost, and there is a binding of another Application.\<close>

definition whole_spec :: AuthentikApplicationSpec where
  "whole_spec = (app_Spec rule_app)
     \<lparr>spec_Provider := Some forward_provider, spec_Access := (spec_Access sample_spec)\<lparr>access_Rules := take 1 (access_Rules (spec_Access (app_Spec rule_app))), access_Public := None\<rparr>\<rparr>"

definition whole_state :: "(fake, cluster) sys" where
  "whole_state = sample_state
     \<lparr>server := sample_fake\<lparr>fake_applications := [],
        fake_outposts := [(''o1'', \<lparr>outpost_Pk = ''o1'', outpost_Name = EmbeddedOutpostName, outpost_Providers = []\<rparr>)],
        fake_flows := [(''f1'', \<lparr>flw_Pk = ''f1'', flw_Slug = ''authorize''\<rparr>), (''f2'', \<lparr>flw_Pk = ''f2'', flw_Slug = ''invalidate''\<rparr>)]\<rparr>,
      st_app := sample_app\<lparr>app_Spec := whole_spec\<rparr>, kube := \<lparr> cluster_apps = [sample_app\<lparr>app_Spec := whole_spec\<rparr>], cluster_secrets = [] \<rparr>\<rparr>"

lemma whole_run: "fst (reconcileSpec (on_fake sample_reconciler) whole_state) = Inr ()"
  by code_simp

lemma whole_valid: "valid_AuthentikApplicationSpec whole_spec"
proof -
  have "list_all slug_char ''wiki''" by code_simp
  then show ?thesis
    by (simp add: whole_spec_def rule_app_def forward_provider_def sample_defs has_def minlen_def one_of_def
        valid_AuthentikApplicationSpec_def valid_ProviderSpec_def valid_ProviderFlows_def valid_FlowReference_def
        valid_ProxyProviderSpec_def valid_AccessSpec_def valid_AccessRule_def valid_NamedReference_def valid_UserReference_def is_true_def)
qed

lemma whole_kube: "same_spec cluster_client"
  by (auto simp: same_spec_def cluster_client_def storeApp_def run_simps)

lemma whole_state_simps:
  "sys_spec whole_state = whole_spec" "fake_applications (server whole_state) = []" "wf_fake (server whole_state)"
  "Kube sample_reconciler = cluster_client" "length (access_Rules (spec_Access whole_spec)) = 1" "spec_Slug whole_spec = ''wiki''"
  "length (fake_bindings (server whole_state)) = 1" "spec_Provider whole_spec = Some forward_provider"
  "provider_Proxy forward_provider = Some sample_forward_spec"
  using wf_sample
  by (simp_all add: whole_state_def sys_spec_def sample_reconciler_def whole_spec_def rule_app_def sample_app_def sample_spec_def
      wf_fake_def wf_map_def forward_provider_def sample_fake_def)

lemma whole_room: "room (4 * length (fake_bindings (server whole_state)) + 9 * length (access_Rules (spec_Access (sys_spec whole_state))) + 17)
  (server whole_state)"
  unfolding whole_state_simps by (simp add: room_def whole_state_def sample_fake_def fake_New_def uuid_of_def)

theorem reconcileSpec_reaches_desired_witness:
  "\<exists>t app pk. reconcileSpec (on_fake sample_reconciler) whole_state = (Inr (), t) \<and>
     map_of (fake_applications (server t)) = [''wiki'' \<mapsto> app] \<and> app_match (desiredApplication whole_spec (Some pk)) app \<and>
     (\<exists>y. map_of (fake_proxyProviders (server t)) pk = Some y) \<and>
     access_reached whole_spec (resolved_Rules (st_resolved t)) (appl_PbmUuid app) whole_state t"
proof -
  note run = run_fst [of "reconcileSpec (on_fake sample_reconciler)", OF whole_run]
  note s = whole_state_simps
  from reconcileSpec_reaches_desired [OF run s(3) _ _ whole_room] run whole_valid whole_kube
  show ?thesis unfolding s by (fastforce simp: provider_desired_def s)
qed



end
