(* ===== verification/Steady.thy ===== *)
theory Steady
  imports Convergence
begin

text \<open>
  The steady state: once the server is in the state of a spec and the status records what the
  operator owns, a reconcile writes nothing to the server except markers. \<open>calm\<close> is what such a
  reconcile keeps from step to step.
\<close>

section \<open>What a reconcile at rest keeps\<close>

text \<open>A patch of the status subresource answers with the object it was given.\<close>

definition same_object :: "'k KubeClient \<Rightarrow> bool" where
  "same_object k \<longleftrightarrow> (\<forall>b a x a' y. KStatusPatch k b a x = (Inr a', y) \<longrightarrow>
     app_Spec a' = app_Spec a \<and> app_Status a' = app_Status a)"

lemma same_object_spec: "same_object k \<Longrightarrow> same_spec k"
  by (auto simp: same_object_def same_spec_def)

lemma same_objectD:
  "same_object k \<Longrightarrow> KStatusPatch k b a x = (Inr a', y) \<Longrightarrow> app_Status a' = app_Status a"
  unfolding same_object_def by blast

text \<open>What the status records of the Provider, its Outpost and the bindings.\<close>

definition recorded_in :: "AuthentikApplicationStatus \<Rightarrow> int option \<times> string \<times> string set" where
  "recorded_in st = (status_ProviderPK st, status_OutpostUUID st, set (status_BindingUUIDs st))"

abbreviation recorded :: "(fake, 'k) sys \<Rightarrow> int option \<times> string \<times> string set" where
  "recorded \<equiv> \<lambda>s. recorded_in (sys_status s)"

lemma recorded_in_other [simp]:
  "recorded_in (st\<lparr>status_AdoptionDiff := d\<rparr>) = recorded_in st"
  "recorded_in (st\<lparr>status_ApplicationSlug := a, status_ApplicationPK := k\<rparr>) = recorded_in st"
  "recorded_in (st\<lparr>status_UnmanagedBindings := u\<rparr>) = recorded_in st"
  "recorded_in (st\<lparr>status_Conditions := cs\<rparr>) = recorded_in st"
  by (simp_all add: recorded_in_def)

text \<open>No role has a marker on the bindings \<open>F\<close>.\<close>

definition unclaimed :: "string set \<Rightarrow> fake \<Rightarrow> bool" where
  "unclaimed F c \<longleftrightarrow> (\<forall>q. \<forall>u \<in> F. bindingObject u \<notin> fake_marked c q)"

definition calm :: "(fake, 'k) Reconciler \<Rightarrow> fake \<Rightarrow> AuthentikApplicationSpec \<Rightarrow> Resolved \<Rightarrow>
    int option \<times> string \<times> string set \<Rightarrow> string set \<Rightarrow> (fake, 'k) sys \<Rightarrow> bool" where
  "calm r c sp refs rec F s \<longleftrightarrow> coherent r s \<and> not_rbac (server s) = not_rbac c \<and> task s = (sp, refs) \<and>
     recorded s = rec \<and> unclaimed F (server s)"

lemma stable_calm:
  assumes "stable (coherent r) m" and "keeps (\<lambda>s. not_rbac (server s)) m" and "keeps task m"
    and "keeps recorded m" and "stable (\<lambda>s. coherent r s \<and> unclaimed F (server s)) m"
  shows "stable (calm r c sp refs rec F) m"
proof (rule stepsI)
  fix s x t
  assume "m s = (x, t)"
  from stableD [OF assms(1) this] keepsD [OF assms(2) this] keepsD [OF assms(3) this]
    keepsD [OF assms(4) this] stableD [OF assms(5) this]
  show "pres (calm r c sp refs rec F) s t"
    by (simp add: pres_def calm_def)
qed

text \<open>Which steps keep a part \<open>g\<close> of the status.\<close>

lemma status_local:
  "keeps (\<lambda>s. g (sys_status s)) (srv m)" "keeps (\<lambda>s. g (sys_status s)) (kapi n)"
  "keeps (\<lambda>s. g (sys_status s)) (Eventf ty reason action msg)"
  "(\<And>st. g (f st) = g st) \<Longrightarrow> keeps (\<lambda>s. g (sys_status s)) (updStatus f)"
  by (auto simp: steps_def same_def sys_status_def srv_def kapi_def Eventf_def updStatus_def run_simps split: prod.splits)

lemma status_app: "keeps st_app m \<Longrightarrow> keeps (\<lambda>s. g (sys_status s)) m"
  by (simp add: steps_def same_def sys_status_def)

lemma app_cache:
  "keeps st_app (cache_contains (markers (on_fake r)) ob)" "keeps st_app (cache_isManaged (markers (on_fake r)) ob)"
  "keeps st_app (cache_ensure (markers (on_fake r)) ob)" "keeps st_app (cache_remove (markers (on_fake r)) ob)"
proof -
  have hook: "st_app (requeueAll (on_fake r) s) = st_app s" for s
    by (simp add: requeueAll_def split: prod.split sum.split)
  note defs = cache_contains_def cache_ensure_def cache_isManaged_def cache_remove_def refreshLocked_def addObject_def
      deleteObject_def nowE_def EnsureRole_def findOrCreateRole_def findRole_def marker_role_def Mark_def Unmark_def
      IsManaged_def ListManaged_def markers_def markerCacheOn.select_convs
  show "keeps st_app (cache_contains (markers (on_fake r)) ob)"
    unfolding defs by (intro app_srv frame_intros) (simp_all add: hook steps_def same_def)
  show "keeps st_app (cache_isManaged (markers (on_fake r)) ob)"
    unfolding defs by (intro app_srv frame_intros) (simp_all add: hook steps_def same_def)
  show "keeps st_app (cache_ensure (markers (on_fake r)) ob)"
    unfolding defs by (intro app_srv frame_intros) (simp_all add: hook steps_def same_def)
  show "keeps st_app (cache_remove (markers (on_fake r)) ob)"
    unfolding defs by (intro app_srv frame_intros) (simp_all add: hook steps_def same_def)
qed

lemma status_patchStatus:
  assumes "same_object (Kube r)"
  shows "keeps (\<lambda>s. g (sys_status s)) (patchStatus (on_fake r))"
proof -
  have "keeps (\<lambda>s. g (sys_status s)) (patchApp (KStatusPatch (Kube r)) b)" for b
    by (auto simp: steps_def same_def patchApp_def run_simps kapi_def sys_status_def
        dest: same_objectD [OF assms] split: prod.splits sum.splits)
  then show ?thesis
    unfolding patchStatus_def Kube_on_fake by (intro frame_intros) (simp_all add: sys_status_def)
qed

lemma calm_still:
  assumes "keeps server m" and "stable (coherent r) m" and "keeps task m" and "keeps recorded m"
  shows "stable (calm r c sp refs rec F) m"
  using assms
  by (intro stable_calm) (auto simp: steps_def same_def pres_def)

lemma calm_local:
  "stable (calm r c sp refs rec F) (kapi n)" "stable (calm r c sp refs rec F) (Eventf ty reason action msg)"
  "pure m \<Longrightarrow> stable (calm r c sp refs rec F) (srv m)"
  "(\<And>st. recorded_in (f st) = recorded_in st) \<Longrightarrow>
   stable (calm r c sp refs rec F) (updStatus f)"
proof -
  have still: "keeps server (kapi n)" "keeps server (Eventf ty reason action msg)" "keeps server (updStatus f)"
    by (rule server_local)+
  show "stable (calm r c sp refs rec F) (kapi n)"
    by (rule calm_still [OF still(1) reconcile_coherent.stable_kapi task_local(2) status_local(2)])
  show "stable (calm r c sp refs rec F) (Eventf ty reason action msg)"
    by (rule calm_still [OF still(2) reconcile_coherent.stable_local(2) task_local(3) status_local(3)])
  show "stable (calm r c sp refs rec F) (srv m)" if "pure m"
    using keeps_srv_pure [OF that] by (rule pure_stable)
  show "stable (calm r c sp refs rec F) (updStatus f)"
    if "\<And>st. recorded_in (f st) = recorded_in st"
    by (rule calm_still [OF still(3) reconcile_coherent.stable_local(1) task_local(4) status_local(4) [of recorded_in f, OF that]])
qed

lemma calm_patchStatus:
  assumes "same_object (Kube r)"
  shows "stable (calm r c sp refs rec F) (patchStatus (on_fake r))"
  by (rule calm_still [OF _ reconcile_coherent.stable_patchStatus task_patchStatus [OF same_object_spec [OF assms]]
      status_patchStatus [OF assms]]) (rule server_patchStatus)

lemma calm_cache:
  fixes r :: "(fake, 'k) Reconciler"
  shows "stable (calm r c sp refs rec F) (cache_contains (markers (on_fake r)) ob)"
  "stable (calm r c sp refs rec F) (cache_isManaged (markers (on_fake r)) ob)"
  "markable_model (obj_Model ob) \<Longrightarrow> ob \<notin> bindingObject ` F \<Longrightarrow> stable (calm r c sp refs rec F) (cache_ensure (markers (on_fake r)) ob)"
proof -
  note same = not_rbac_cache [unfolded comp_def]
  show "stable (calm r c sp refs rec F) (cache_contains (markers (on_fake r)) ob)"
    by (rule stable_calm [OF reconcile_coherent.cache_calls(1) same(1) task_cache(1) status_app [OF app_cache(1)]], rule stepsI)
      (simp add: pres_def unclaimed_def fake_cache.contains_spec)
  show "stable (calm r c sp refs rec F) (cache_isManaged (markers (on_fake r)) ob)"
    by (rule stable_calm [OF reconcile_coherent.cache_calls(2) same(2) task_cache(2) status_app [OF app_cache(2)]], rule stepsI)
      (simp add: pres_def unclaimed_def fake_cache.isManaged_spec)
  show "stable (calm r c sp refs rec F) (cache_ensure (markers (on_fake r)) ob)"
    if "markable_model (obj_Model ob)" "ob \<notin> bindingObject ` F"
  proof (rule stable_calm [OF reconcile_coherent.cache_calls(3) [OF that(1)] same(3) task_cache(3) status_app [OF app_cache(3)]], rule stepsI)
    fix s t :: "(fake, 'k) sys" and x
    assume run: "cache_ensure (markers (on_fake r)) ob s = (x, t)"
    show "pres (\<lambda>s. coherent r s \<and> unclaimed F (server s)) s t"
      using fake_cache.ensure_spec(1,3) [OF run _ that(1)] that(2)
      by (auto simp: pres_def unclaimed_def split: if_splits)
  qed
qed

lemma contains_foreign:
  assumes "cache_contains (markers (on_fake r)) (bindingObject u) s = (Inr b, t)" and "calm r c sp refs rec F s" and "u \<in> F"
  shows "\<not> b"
proof -
  have ok: "coherent r s" and F: "unclaimed F (server s)" using assms(2) by (auto simp: calm_def)
  show ?thesis
    using fake_cache.contains_spec(2,4) [OF assms(1) ok] F assms(3) by (auto simp: unclaimed_def)
qed

lemma not_binding: "obj_Model ob \<noteq> ModelPolicyBinding \<Longrightarrow> ob \<notin> bindingObject ` F"
  by (auto simp: bindingObject_def)

lemmas calm_intros = calm_local calm_patchStatus calm_cache stable.steps_rules steps_if steps_case_option steps_case_sum
  steps_case_prod steps_case_list

section \<open>The Application\<close>

lemma pure_attachedProvider: "pure (attachedProvider (on_fake r) a)"
proof -
  have get: "pure (handler_get (handlerFor (on_fake r) app refs) pk)"
    and other: "pure (handler_existsAsOtherType (handlerFor (on_fake r) app refs) pk)" for app refs pk
    by (auto simp: handlerFor_def proxyProviderHandler_def oauth2ProviderHandler_def existsE_def Let_def
        intro!: keeps.steps_rules keeps_srv_pure fake.pure_reads [unfolded fake_client_simps] steps_case_sum steps_if
        split: option.splits)
  have "pure (getAttached (handlerFor (on_fake r) app refs) slug pk)" for app refs slug pk
    unfolding getAttached_def by (intro keeps.steps_rules steps_if steps_case_sum get other)
  then have "pure (bindE (getHandler (on_fake r)) (\<lambda>h. getAttached h slug pk))" for slug pk
    unfolding getHandler_def steps_def same_def bind_read by blast
  then show ?thesis
    unfolding attachedProvider_def
    by (intro keeps.steps_bind [OF keeps.steps_read] steps_case_option steps_if keeps.steps_ret)
qed

lemma calm_adoptApplication: "stable (calm r c sp refs rec F) (adoptApplication (on_fake r) a)"
  unfolding adoptApplication_def Let_def
  by (intro calm_intros pure_stable [OF pure_attachedProvider]) simp_all

lemma calm_observeApplication:
  assumes "same_object (Kube r)"
  shows "stable (calm r c sp refs rec F) (observeApplication (on_fake r))"
  unfolding observeApplication_def recordApplication_def Let_def Authentik_on_fake
  by (intro calm_intros calm_adoptApplication not_binding fake.pure_reads assms)
    (simp_all add: applicationObject_def reconcile_coherent.markable_models model_defs)

lemma rest_observeApplication:
  fixes r :: "(fake, 'k) Reconciler"
  assumes "same_object (Kube r)"
    and "map_of (fake_applications c) (spec_Slug sp) = Some app"
  shows "yields_in (calm r c sp refs rec F) (\<lambda>x. x = Some app) (observeApplication (on_fake r))"
proof (rule yields_inI [OF calm_observeApplication [OF assms(1)]])
  fix s t :: "(fake, 'k) sys" and x
  assume "calm r c sp refs rec F s" and "observeApplication (on_fake r) s = (Inr x, t)"
  then show "x = Some app"
    using observeApplication_result [of r s x t] assms(2) not_rbac_simps [of "server s" c] by (auto simp: calm_def)
qed

section \<open>The Provider\<close>

lemma find_recorded:
  assumes "status_ProviderPK (sys_status s) = Some pk" and "int32_of pk = pk" and "handler_get h pk s = (Inr x, s)"
  shows "findProvider h application s = (Inr (Some x), s)"
  using assms by (simp add: findProvider_def bind_read run_simps)

lemma reconcileProvider_recorded:
  fixes r :: "('a, 'k) Reconciler" and s :: "('a, 'k) sys"
  defines "h \<equiv> handlerFor r (st_app s) (st_resolved s)"
  assumes "status_ProviderPK (sys_status s) = Some pk" and "int32_of pk = pk" and "handler_get h pk s = (Inr x, s)"
    and "observed_pk x = pk" and "observed_sync x = retE ()"
  shows "reconcileProvider r application s =
    thenE (cache_ensure (markers r) \<lparr> obj_Model = handler_model h, obj_PK = itoa pk \<rparr>) (retE pk) s"
  using assms(2,5,6) find_recorded [OF assms(2-4)]
  by (simp add: reconcileProvider_def getHandler_def bind_read run_simps h_def [symmetric] split: prod.split sum.split)

lemma rest_reconcileProvider:
  fixes r :: "(fake, 'k) Reconciler"
  assumes pk: "int32_of pk = pk"
    and found: "\<And>s. calm r c sp refs (Some pk, ou, us) F s \<Longrightarrow>
      \<exists>x. handler_get (handlerFor (on_fake r) (st_app s) (st_resolved s)) pk s = (Inr x, s) \<and>
        observed_pk x = pk \<and> observed_sync x = retE ()"
  shows "yields_in (calm r c sp refs (Some pk, ou, us) F) (\<lambda>x. x = pk) (reconcileProvider (on_fake r) application)"
    (is "yields_in ?J _ _")
proof -
  have run: "?J t \<and> (\<forall>y. x = Inr y \<longrightarrow> y = pk)"
    if J: "?J s" and run: "reconcileProvider (on_fake r) application s = (x, t)" for s t :: "(fake, 'k) sys" and x
  proof -
    let ?h = "handlerFor (on_fake r) (st_app s) (st_resolved s)"
    let ?ob = "\<lparr> obj_Model = handler_model ?h, obj_PK = itoa pk \<rparr>"
    have m: "handler_model ?h \<in> {ModelProxyProvider, ModelOAuth2Provider}"
      by (simp add: handlerFor_def proxyProviderHandler_def oauth2ProviderHandler_def Let_def split: option.split)
    obtain y where y: "handler_get ?h pk s = (Inr y, s)" "observed_pk y = pk" "observed_sync y = retE ()"
      using found [OF J] by blast
    have "status_ProviderPK (sys_status s) = Some pk" using J by (simp add: calm_def recorded_in_def)
    from reconcileProvider_recorded [OF this pk y]
    have run': "thenE (cache_ensure (markers (on_fake r)) ?ob) (retE pk) s = (x, t)" using run by simp
    have "?ob \<notin> bindingObject ` F" using m by (intro not_binding) (auto simp: model_defs)
    then have "stable ?J (cache_ensure (markers (on_fake r)) ?ob)"
      using m by (intro calm_cache) (auto simp: markable_model_def)
    then have "stable ?J (thenE (cache_ensure (markers (on_fake r)) ?ob) (retE pk))"
      by (intro stable.steps_rules)
    from stableD [OF this run' J] have "?J t" .
    moreover have "\<forall>y. x = Inr y \<longrightarrow> y = pk" using run' by (auto simp: run_simps split: prod.splits sum.splits)
    ultimately show ?thesis by blast
  qed
  show ?thesis
    by (intro yields_inI stepsI) (use run in \<open>auto simp: pres_def\<close>)
qed

lemma desired_found:
  fixes r :: "(fake, 'k) Reconciler"
  assumes J: "calm r c sp refs rec F s" and wf: "wf_fake c" and provider: "spec_Provider sp = Some provider"
    and "provider_desired sp refs c (Some pk)"
  shows "\<exists>x. handler_get (handlerFor (on_fake r) (st_app s) (st_resolved s)) pk s = (Inr x, s) \<and>
    observed_pk x = pk \<and> observed_sync x = retE ()"
proof -
  have s: "app_Spec (st_app s) = sp" "st_resolved s = refs" and same: "not_rbac (server s) = not_rbac c"
    using J by (auto simp: calm_def sys_spec_def)
  show ?thesis
  proof (cases "provider_Proxy provider")
    case (Some proxy)
    let ?d = "desiredProxyProvider provider proxy (the (resolved_Flows refs)) (the (resolved_Proxy refs))"
    obtain y where y: "map_of (fake_proxyProviders c) pk = Some y" "proxy_match ?d y"
      using assms(4) provider Some by (auto simp: provider_desired_def)
    then have "px_Pk y = pk" using wf by (auto simp: wf_fake_def wf_map_def)
    moreover have "DiffProxyProvider ?d (copyProxyProvider (server s) y) = None"
      using y(2) by (simp add: Diff_copyProxyProvider DiffProxyProvider_None)
    ultimately show ?thesis
      using y(1) not_rbac_simps(2) [OF same]
      by (simp add: handlerFor_def s provider Some proxyProviderHandler_def run_simps run_srv fake_GetProxyProvider_def
          run_lookup proxy_observe_def) (simp add: copyProxyProvider_def)
  next
    case None
    let ?d = "desiredOAuth2Provider provider (the (provider_OAuth2 provider)) (the (resolved_Flows refs))
      (the (resolved_OAuth2 refs))"
    obtain y where y: "map_of (fake_oauth2Providers c) pk = Some y" "oauth2_match ?d y"
      using assms(4) provider None by (auto simp: provider_desired_def)
    then have "ox_Pk y = pk" using wf by (auto simp: wf_fake_def wf_map_def)
    moreover have "DiffOAuth2Provider ?d (copyOAuth2Provider (server s) y) = None"
      using y(2) by (simp add: Diff_copyOAuth2Provider DiffOAuth2Provider_None)
    ultimately show ?thesis
      using y(1) not_rbac_simps(3) [OF same]
      by (simp add: handlerFor_def s provider None oauth2ProviderHandler_def run_simps run_srv fake_GetOAuth2Provider_def
          run_lookup oauth2_observe_def) (simp add: copyOAuth2Provider_def)
  qed
qed

lemma rest_reconcileOutpost:
  fixes r :: "(fake, 'k) Reconciler"
  assumes "ou = proxyrefs_Outpost (the (resolved_Proxy refs))" and "members c ou = Some ps" and "pk \<in> set ps"
  shows "stable (calm r c sp refs (p, ou, us) F) (reconcileOutpost (on_fake r) pk)"
proof (rule stepsI)
  fix s t :: "(fake, 'k) sys" and x
  assume run: "reconcileOutpost (on_fake r) pk s = (x, t)"
  show "pres (calm r c sp refs (p, ou, us) F) s t"
    unfolding pres_def
  proof
    assume J: "calm r c sp refs (p, ou, us) F s"
    then have s: "st_resolved s = refs" "status_OutpostUUID (sys_status s) = ou" and same: "not_rbac (server s) = not_rbac c"
      by (auto simp: calm_def recorded_in_def)
    obtain q where q: "map_of (fake_outposts (server s)) ou = Some q" "outpost_Providers q = ps"
      using assms(2) not_rbac_simps(5) [OF same] by (auto simp: members_def)
    have "t = snd (updStatus (\<lambda>st. st\<lparr>status_OutpostUUID := ou\<rparr>) s)"
      using run q s assms(1,3)
      by (simp add: reconcileOutpost_def bind_read run_simps run_srv fake_GetOutpost_def run_lookup Let_def)
    then have "status_OutpostUUID (sys_status t) = ou" and "coherent r t" and "server t = server s" and "task t = task s"
      and "status_ProviderPK (sys_status t) = status_ProviderPK (sys_status s)"
      and "status_BindingUUIDs (sys_status t) = status_BindingUUIDs (sys_status s)"
      using J stableD [OF reconcile_coherent.stable_reconcileOutpost run]
      by (auto simp: updStatus_def run_simps sys_status_def sys_spec_def calm_def)
    with J show "calm r c sp refs (p, ou, us) F t" by (simp add: calm_def recorded_in_def)
  qed
qed

lemma calm_exportCredentials: "stable (calm r c sp refs rec F) (exportCredentials (on_fake r) pk)"
proof -
  have app: "keeps st_app (kapi m)" "keeps st_app (srv n)" "keeps st_app (Eventf ty reason action msg)" for m n ty reason action msg
    by (auto simp: steps_def same_def kapi_def srv_def Eventf_def run_simps split: prod.splits)
  have "keeps st_app (exportCredentials (on_fake r) pk)"
    unfolding exportCredentials_def Let_def by (intro frame_intros app)
  then show ?thesis
    by (intro calm_still exportCredentials_frames reconcile_coherent.stable_exportCredentials status_app)
qed

text \<open>What the status records of a Provider and its Outpost.\<close>

definition provider_recorded :: "AuthentikApplicationSpec \<Rightarrow> Resolved \<Rightarrow> int option \<Rightarrow> int option \<times> string \<times> string set \<Rightarrow> bool" where
  "provider_recorded sp refs pk rec \<longleftrightarrow> (case spec_Provider sp of None \<Rightarrow> True
     | Some provider \<Rightarrow> pk \<noteq> None \<and> fst rec = pk \<and> int32_of (the pk) = the pk \<and>
         (provider_Proxy provider \<noteq> None \<longrightarrow> fst (snd rec) = proxyrefs_Outpost (the (resolved_Proxy refs))))"

lemma rest_provider_steps:
  assumes "wf_fake c" and "provider_desired sp refs c pk" and "provider_recorded sp refs pk rec"
  shows "yields_in (calm r c sp refs rec F) (\<lambda>x. x = pk) (provider_steps (on_fake r) observed refs sp)"
proof (cases "spec_Provider sp")
  case None
  then show ?thesis using assms(2) by (auto simp: provider_desired_def intro: yields_in_ret)
next
  case (Some provider)
  obtain ou us where rec: "rec = (pk, ou, us)" using assms(3) Some by (cases rec) (auto simp: provider_recorded_def)
  obtain n where n: "pk = Some n" "int32_of n = n" using assms(3) Some by (auto simp: provider_recorded_def)
  let ?J = "calm r c sp refs rec F"
  have prov: "yields_in ?J (\<lambda>x. x = n) (reconcileProvider (on_fake r) observed)"
    unfolding rec n(1)
    by (rule rest_reconcileProvider [OF n(2) desired_found [OF _ assms(1) Some assms(2) [unfolded n(1)]]])
  have outpost: "stable ?J (if provider_Proxy provider \<noteq> None then reconcileOutpost (on_fake r) n else retE ())"
  proof (cases "provider_Proxy provider")
    case None
    then show ?thesis by (simp add: stable.steps_rules)
  next
    case (Some proxy)
    with assms(2) \<open>spec_Provider sp = Some provider\<close> n(1) obtain ps where
      "members c (proxyrefs_Outpost (the (resolved_Proxy refs))) = Some ps" "n \<in> set ps"
      by (auto simp: provider_desired_def)
    moreover have "ou = proxyrefs_Outpost (the (resolved_Proxy refs))"
      using assms(3) \<open>spec_Provider sp = Some provider\<close> Some rec by (auto simp: provider_recorded_def)
    ultimately show ?thesis using Some rest_reconcileOutpost unfolding rec by auto
  qed
  show ?thesis
    unfolding Some option.case
    by (rule yields_in_bind [OF prov], simp only:)
      (intro yields_in_then outpost yields_in_ret stable.steps_rules steps_case_option steps_if calm_exportCredentials; simp add: n(1))
qed

section \<open>The Application\<close>

lemma rest_reconcileApplication:
  assumes "app_match (desiredApplication sp pk) app"
  shows "yields_in (calm r c sp refs rec F) (\<lambda>x. x = app) (reconcileApplication (on_fake r) (Some app) pk)"
proof -
  have "reconcileApplication (on_fake r) (Some app) pk s = (Inr app, s)" if "calm r c sp refs rec F s" for s
    using that assms DiffApplication_None [of "desiredApplication sp pk" app]
    by (simp add: reconcileApplication_def bind_read calm_def run_simps)
  then show ?thesis
    by (intro yields_inI stepsI) (auto simp: pres_def)
qed

section \<open>Matching the bindings\<close>

text \<open>A resolved rule names exactly one subject.\<close>

definition proper_rule :: "Rule \<Rightarrow> bool" where
  "proper_rule rule \<longleftrightarrow> (case (rl_Group rule, rl_User rule, rl_Policy rule) of
       (Some g, None, None) \<Rightarrow> g \<noteq> [] | (None, Some u, None) \<Rightarrow> u \<noteq> 0 | (None, None, Some p) \<Rightarrow> p \<noteq> []
     | _ \<Rightarrow> False)"

definition bound :: "string \<Rightarrow> Rule \<Rightarrow> PolicyBinding \<Rightarrow> bool" where
  "bound target rule b \<longleftrightarrow> bind_Target b = target \<and> observedSubject b = ruleSubject rule \<and>
     bind_Negate b = Some (rl_Negate rule)"

lemma bound_match:
  assumes "proper_rule rule" and "bound target rule b"
  shows "binding_match (desiredBinding target rule) b"
  using assms
  by (auto simp: proper_rule_def bound_def binding_match_def desiredBinding_def want_defs observedSubject_def
      ruleSubject_def noSubject_def split: option.splits if_splits)

text \<open>The bindings \<open>keys\<close> of the target stand for the rules, in their order.\<close>

definition enforced :: "Rule list \<Rightarrow> string \<Rightarrow> string list \<Rightarrow> (string \<Rightarrow> PolicyBinding option) \<Rightarrow> bool" where
  "enforced rules target keys st \<longleftrightarrow> length keys = length rules \<and> distinct keys \<and>
     (\<forall>i < length rules. \<exists>b. st (keys ! i) = Some b \<and> bound target (rules ! i) b)"

lemma pks_set: "set (pks ms) = bind_Pk ` {b. Some b \<in> set ms}"
  by (induction ms rule: pks.induct) auto

lemma pks_Some [simp]: "pks (map Some bs) = map bind_Pk bs"
  by (induction bs) auto

lemma takes_bound:
  assumes "bound target rule b" and "ruleSubject rule' = ruleSubject rule" and "rl_Negate rule' = rl_Negate rule"
  shows "takes True rule' b"
  using assms by (auto simp: bound_def takes_def is_true_def)

text \<open>The exact pass finds a binding for every rule.\<close>

lemma exact_pass_complete:
  assumes st: "enforced rules target keys st" and managed: "\<And>b. b \<in> set managed \<longleftrightarrow> bind_Pk b \<in> set keys \<and> st (bind_Pk b) = Some b"
    and pk: "\<And>u b. st u = Some b \<Longrightarrow> bind_Pk b = u"
    and pass: "assign_pass True managed rules (replicate (length rules) None) [] = (ms, used)"
  shows "None \<notin> set ms"
proof
  assume "None \<in> set ms"
  note spec = assign_pass_spec [OF pass, simplified pks_None, simplified]
  have len: "length ms = length rules" and used: "set used = set (pks ms)" using spec by auto
  have fit: "fits True managed used (rules ! j) None (ms ! j)" if "j < length rules" for j
    using spec that by auto
  obtain i where i: "i < length rules" "ms ! i = None" using \<open>None \<in> set ms\<close> len by (metis in_set_conv_nth)
  define key where "key j = (ruleSubject (rules ! j), rl_Negate (rules ! j))" for j
  define K where "K = {j. j < length rules \<and> key j = key i}"
  have "\<exists>g. g < length rules \<and> g \<noteq> i \<and> key g = key i \<and> (\<exists>b. ms ! g = Some b \<and> bind_Pk b = keys ! j)" if "j \<in> K" for j
  proof -
    from that have j: "j < length rules" "key j = key i" by (auto simp: K_def)
    obtain b where b: "st (keys ! j) = Some b" "bound target (rules ! j) b"
      using st j(1) by (auto simp: enforced_def)
    have pkb: "bind_Pk b = keys ! j" using pk [OF b(1)] .
    have "keys ! j \<in> set keys" using st j(1) by (auto simp: enforced_def)
    then have "b \<in> set managed" using managed b(1) pkb by simp
    moreover have "takes True (rules ! i) b" using takes_bound [OF b(2), of "rules ! i"] j(2) by (simp add: key_def)
    ultimately have "keys ! j \<in> set (pks ms)"
      using fit [OF i(1)] i(2) used pkb by auto
    then obtain b' where b': "Some b' \<in> set ms" "bind_Pk b' = keys ! j" by (auto simp: pks_set)
    then obtain g where g: "g < length rules" "ms ! g = Some b'" using len by (metis in_set_conv_nth)
    have "b' \<in> set managed" and t: "takes True (rules ! g) b'" using fit [OF g(1)] g(2) by auto
    then have "b' = b" using managed b'(2) b(1) by simp
    then have "key g = key j" using t b(2) by (auto simp: key_def takes_def bound_def is_true_def)
    with g i b' j show ?thesis by auto
  qed
  then obtain g where g: "\<And>j. j \<in> K \<Longrightarrow> g j < length rules \<and> g j \<noteq> i \<and> key (g j) = key i \<and>
      (\<exists>b. ms ! g j = Some b \<and> bind_Pk b = keys ! j)" by metis
  have "inj_on g K"
  proof (rule inj_onI)
    fix j j' assume "j \<in> K" "j' \<in> K" "g j = g j'"
    then have "keys ! j = keys ! j'" using g by (metis option.inject)
    then show "j = j'" using \<open>j \<in> K\<close> \<open>j' \<in> K\<close> st by (auto simp: enforced_def K_def nth_eq_iff_index_eq)
  qed
  moreover have "g ` K \<subseteq> K - {i}" using g by (auto simp: K_def)
  moreover have "finite K" "i \<in> K" using i by (auto simp: K_def)
  ultimately have "card K \<le> card (K - {i})" by (metis card_inj_on_le finite_Diff)
  then show False using \<open>finite K\<close> \<open>i \<in> K\<close> by (metis card_Diff1_less not_le)
qed

lemma matched_at_rest:
  assumes st: "enforced rules target keys st" and managed: "\<And>b. b \<in> set managed \<longleftrightarrow> bind_Pk b \<in> set keys \<and> st (bind_Pk b) = Some b"
    and pk: "\<And>u b. st u = Some b \<Longrightarrow> bind_Pk b = u"
  obtains bs where "matchBindings rules managed False = map Some bs" and "length bs = length rules"
    and "\<And>i. i < length rules \<Longrightarrow> bound target (rules ! i) (bs ! i)" and "set (map bind_Pk bs) = set keys"
proof -
  obtain ms used where pass: "assign_pass True managed rules (replicate (length rules) None) [] = (ms, used)" by fastforce
  note spec = assign_pass_spec [OF pass, simplified pks_None, simplified]
  have len: "length ms = length rules" and dist: "distinct (pks ms)" and used: "set used = set (pks ms)" using spec by auto
  have full: "None \<notin> set ms" by (rule exact_pass_complete [OF st managed pk pass])
  define bs where "bs = map the ms"
  have ms: "ms = map Some bs" unfolding bs_def using full by (induction ms) auto
  have bs: "length bs = length rules" using len ms by simp
  have fit: "bs ! i \<in> set managed \<and> takes True (rules ! i) (bs ! i)" if "i < length rules" for i
    using spec that bs unfolding ms by auto
  obtain ms' used' where pass': "assign_pass False managed rules ms used = (ms', used')" by fastforce
  have "length ms' = length rules \<and> (\<forall>i < length rules. ms' ! i = Some (bs ! i))"
    using assign_pass_spec [OF pass'] len used dist bs unfolding ms by auto
  then have "ms' = map Some bs" using bs by (intro nth_equalityI) auto
  then have match: "matchBindings rules managed False = map Some bs"
    by (simp add: matchBindings_def pass pass')
  have sub: "set (map bind_Pk bs) \<subseteq> set keys"
    using fit managed bs by (auto simp: in_set_conv_nth)
  have "card (set (map bind_Pk bs)) = card (set keys)"
    using dist bs st unfolding ms pks_Some enforced_def by (metis distinct_card length_map)
  with sub have keys: "set (map bind_Pk bs) = set keys" by (intro card_subset_eq) simp_all
  have "bound target (rules ! i) (bs ! i)" if i: "i < length rules" for i
  proof -
    have b: "bind_Pk (bs ! i) \<in> set keys" "st (bind_Pk (bs ! i)) = Some (bs ! i)" "takes True (rules ! i) (bs ! i)"
      using fit [OF i] managed by auto
    then obtain j where "j < length rules" "keys ! j = bind_Pk (bs ! i)"
      using st by (auto simp: enforced_def in_set_conv_nth)
    with st b(2) have "bound target (rules ! j) (bs ! i)" by (auto simp: enforced_def)
    with b(3) show ?thesis by (auto simp: bound_def takes_def is_true_def)
  qed
  with match bs keys that show thesis by blast
qed

section \<open>The bindings\<close>

lemma stable_bind_in:
  assumes "yields_in J Q m" and "\<And>x. Q x \<Longrightarrow> stable J (f x)"
  shows "stable J (bindE m f)"
  using yields_in_bind [OF assms(1), of "\<lambda>_. True" f] assms(2) by (simp add: yields_in_def)

lemma yields_in_foldE:
  assumes "P [] b" and "\<And>xs b x. P xs b \<Longrightarrow> x \<in> set ys \<Longrightarrow> yields_in J (P (xs @ [x])) (f b x)"
  shows "yields_in J (P ys) (foldE ys f b)"
proof -
  have "P pre b \<Longrightarrow> set zs \<subseteq> set ys \<Longrightarrow> yields_in J (P (pre @ zs)) (foldE zs f b)" for pre zs b
  proof (induction zs arbitrary: pre b)
    case (Cons x zs)
    show ?case unfolding foldE.simps
    proof (rule yields_in_bind [OF assms(2) [OF Cons.prems(1)]])
      fix b' assume "P (pre @ [x]) b'"
      from Cons.IH [OF this] Cons.prems(2) show "yields_in J (P (pre @ x # zs)) (foldE zs f b')" by simp
    qed (use Cons.prems in simp)
  qed (auto intro: yields_in_ret)
  from this [OF assms(1) order_refl] show ?thesis by simp
qed

lemma rest_managedBindings:
  assumes "\<And>b. b \<in> set existing \<Longrightarrow> bind_Pk b \<in> us \<or> bind_Pk b \<in> F" and "us \<inter> F = {}"
  shows "yields_in (calm r c sp refs (p, ou, us) F)
    (\<lambda>(managed, unmanaged, mo). managed = filter (\<lambda>b. bind_Pk b \<in> us) existing \<and>
       unmanaged = filter (\<lambda>b. bind_Pk b \<notin> us) existing) (managedBindings (on_fake r) existing)"
    (is "yields_in ?J _ _")
proof -
  have status: "yields_in ?J (\<lambda>st. set (status_BindingUUIDs st) = us) (readE sys_status)"
    by (rule yields_in_read) (simp add: calm_def recorded_in_def)
  have own: "yields_in ?J (\<lambda>_. True) (cache_ensure (markers (on_fake r)) (bindingObject (bind_Pk b)))"
    if "bind_Pk b \<in> us" for b
    by (rule yields_in_any, rule calm_cache)
      (use that assms(2) in \<open>auto simp: bindingObject_def reconcile_coherent.markable_models\<close>)
  have other: "yields_in ?J (\<lambda>marked. \<not> marked) (cache_contains (markers (on_fake r)) (bindingObject (bind_Pk b)))"
    if "b \<in> set existing" "bind_Pk b \<notin> us" for b
    by (rule yields_inI [OF calm_cache(1)]) (use contains_foreign that assms(1) in blast)
  show ?thesis
    unfolding managedBindings_def
  proof (rule yields_in_foldE, simp, clarify)
    fix xs :: "PolicyBinding list" and b managed unmanaged and mo :: int
    assume b: "b \<in> set existing"
    show "yields_in ?J (\<lambda>(managed, unmanaged, mo). managed = filter (\<lambda>b. bind_Pk b \<in> us) (xs @ [b]) \<and>
          unmanaged = filter (\<lambda>b. bind_Pk b \<notin> us) (xs @ [b]))
        (let maxOrder' = max mo (bind_Order b); object = bindingObject (bind_Pk b) in
         bindE (readE sys_status) (\<lambda>st.
         if bind_Pk b \<in> set (status_BindingUUIDs st)
         then thenE (cache_ensure (markers (on_fake r)) object)
           (retE (filter (\<lambda>b. bind_Pk b \<in> us) xs @ [b], filter (\<lambda>b. bind_Pk b \<notin> us) xs, maxOrder'))
         else bindE (cache_contains (markers (on_fake r)) object) (\<lambda>marked.
           retE (if marked then (filter (\<lambda>b. bind_Pk b \<in> us) xs @ [b], filter (\<lambda>b. bind_Pk b \<notin> us) xs, maxOrder')
                 else (filter (\<lambda>b. bind_Pk b \<in> us) xs, filter (\<lambda>b. bind_Pk b \<notin> us) xs @ [b], maxOrder')))))"
      unfolding Let_def
      by (rule yields_in_bind [OF status], rule yields_in_if,
          rule yields_in_then [OF own [unfolded yields_in_def, THEN conjunct1]], simp, simp add: yields_in_ret,
          rule yields_in_bind [OF other [OF b]], simp, simp add: yields_in_ret)
  qed
qed

lemma adopt_nothing:
  "length cs = length bs \<Longrightarrow> adoptBindings r (map Some bs) cs s = (Inr (map Some bs), s)"
  unfolding adoptBindings_def
  by (induction bs cs rule: list_induct2') (auto simp: run_simps)

lemma apply_nothing:
  assumes "length bs = length rules"
    and "\<And>i. i < length rules \<Longrightarrow> binding_match (desiredBinding target (rules ! i)) (bs ! i)"
  shows "foldE (zip rules (map Some bs)) (applyRule r target) (kept, mo) s = (Inr (kept @ map bind_Pk bs, mo), s)"
  using assms
proof (induction bs rules arbitrary: kept rule: list_induct2)
  case (Cons b bs rule rules)
  have "DiffPolicyBinding (desiredBinding target rule) b = None"
    using Cons.prems [of 0] by (simp add: DiffPolicyBinding_None)
  moreover have "binding_match (desiredBinding target (rules ! i)) (bs ! i)" if "i < length rules" for i
    using Cons.prems [of "Suc i"] that by simp
  ultimately show ?case
    using Cons.IH by (simp add: applyRule_def syncBinding_def run_simps Let_def)
qed (simp add: run_simps)

lemma calm_kept:
  fixes r :: "(fake, 'k) Reconciler"
  assumes "set kept = us"
  shows "stable (calm r c sp refs (p, ou, us) F) (updStatus (\<lambda>st. st\<lparr>status_BindingUUIDs := kept\<rparr>))"
proof (rule stepsI)
  fix s t :: "(fake, 'k) sys" and x
  assume run: "updStatus (\<lambda>st. st\<lparr>status_BindingUUIDs := kept\<rparr>) s = (x, t)"
  then have t: "coherent r s \<Longrightarrow> coherent r t" using stableD [OF reconcile_coherent.stable_local(1)] by blast
  have "server t = server s" "task t = task s" "status_ProviderPK (sys_status t) = status_ProviderPK (sys_status s)"
    "status_OutpostUUID (sys_status t) = status_OutpostUUID (sys_status s)" "status_BindingUUIDs (sys_status t) = kept"
    using run by (auto simp: updStatus_def run_simps sys_status_def sys_spec_def)
  with t show "pres (calm r c sp refs (p, ou, us) F) s t"
    by (simp add: pres_def calm_def recorded_in_def assms)
qed

lemma rest_handleUnmanaged:
  assumes "is_true (access_Prune (spec_Access sp)) \<Longrightarrow> bs = []"
  shows "stable (calm r c sp refs rec F) (handleUnmanagedBindings (on_fake r) bs)"
    (is "stable ?J _")
proof -
  have spec: "yields_in ?J (\<lambda>access. access = spec_Access sp) (readE (spec_Access \<circ> sys_spec))"
    by (rule yields_in_read) (simp add: calm_def)
  have prunes: "stable ?J (if is_true (access_Prune (spec_Access sp))
      then thenE (forE bs (\<lambda>binding.
        ignoreNotFound (srv (DeletePolicyBinding (Authentik (on_fake r)) (bind_Pk binding))))) (retE [])
      else retE bs)"
    by (intro steps_if stable.steps_rules) (simp add: assms stable.steps_rules)
  have reports: "stable ?J (reportUnmanaged (on_fake r) left)" for left
    unfolding reportUnmanaged_def describeSubject_def Let_def Authentik_on_fake
    by (intro calm_intros fake.pure_reads)
  have conditions: "stable ?J (removeCondition (on_fake r) ty)" "stable ?J (setCondition (on_fake r) ty b reason msg)" for ty b reason msg
    unfolding removeCondition_def setCondition_def Let_def by (intro calm_intros; simp)+
  have "yields_in ?J (\<lambda>_. True) (handleUnmanagedBindings (on_fake r) bs)"
    unfolding handleUnmanagedBindings_def
    by (intro yields_in_bind [OF spec], simp only:, rule yields_in_any)
      (intro prunes reports conditions calm_intros; simp)
  then show ?thesis by (simp add: yields_in_def)
qed

text \<open>The state the step on the bindings leaves behind.\<close>

definition foreign_bindings :: "string \<Rightarrow> string set \<Rightarrow> (string \<Rightarrow> PolicyBinding option) \<Rightarrow> string set" where
  "foreign_bindings target us st = {u. u \<notin> us \<and> (\<exists>b. st u = Some b \<and> bind_Target b = target)}"

lemma rest_reconcileBindings:
  fixes r :: "(fake, 'k) Reconciler"
  defines "F \<equiv> \<lambda>target us c. foreign_bindings target us (map_of (fake_bindings c))"
  assumes kube: "same_object (Kube r)" and wf: "wf_fake c" and target: "target = appl_PbmUuid app"
    and proper: "\<And>rule. rule \<in> set (resolved_Rules refs) \<Longrightarrow> proper_rule rule"
    and st: "enforced (resolved_Rules refs) target keys (map_of (fake_bindings c))"
    and prune: "is_true (access_Prune (spec_Access sp)) \<Longrightarrow> F target (set keys) c = {}"
  shows "stable (calm r c sp refs (p, ou, set keys) (F target (set keys) c)) (reconcileBindings (on_fake r) app)"
    (is "stable ?J _")
proof (rule stepsI)
  fix s t :: "(fake, 'k) sys" and x
  assume run: "reconcileBindings (on_fake r) app s = (x, t)"
  let ?rules = "resolved_Rules refs" and ?F = "F target (set keys) c"
  show "pres ?J s t" unfolding pres_def
  proof
    assume J: "?J s"
    then have same: "fake_bindings (server s) = fake_bindings c" and wfs: "wf_fake (server s)"
      using not_rbac_simps(4) [of "server s" c] by (simp_all add: calm_def list_ok_def wf_marks_def)
    let ?ex = "listed_bindings (server s) target"
    have ex: "b \<in> set ?ex \<longleftrightarrow> map_of (fake_bindings c) (bind_Pk b) = Some b \<and> bind_Target b = target" for b
      using listed_bindings_set(1) [OF wfs, of target] by (simp add: stored_def same)
    have pk: "bind_Pk b = u" if "map_of (fake_bindings c) u = Some b" for u b
      using that wf by (auto simp: wf_fake_def wf_map_def)
    define managed where "managed = filter (\<lambda>b. bind_Pk b \<in> set keys) ?ex"
    define unmanaged where "unmanaged = filter (\<lambda>b. bind_Pk b \<notin> set keys) ?ex"
    have key_target: "bind_Target b = target" if "u \<in> set keys" "map_of (fake_bindings c) u = Some b" for u b
      using that st by (auto simp: enforced_def in_set_conv_nth bound_def)
    have m: "b \<in> set managed \<longleftrightarrow> bind_Pk b \<in> set keys \<and> map_of (fake_bindings c) (bind_Pk b) = Some b" for b
      using key_target by (auto simp: managed_def ex)
    obtain bs where bs: "matchBindings ?rules managed False = map Some bs" "length bs = length ?rules"
      "\<And>i. i < length ?rules \<Longrightarrow> bound target (?rules ! i) (bs ! i)" "set (map bind_Pk bs) = set keys"
      by (rule matched_at_rest [OF st m pk], assumption) (rule that; simp)
    have match: "binding_match (desiredBinding target (?rules ! i)) (bs ! i)" if "i < length ?rules" for i
      by (rule bound_match [OF proper [OF nth_mem [OF that]] bs(3) [OF that]])
    have apply': "foldE (zip ?rules (map Some bs)) (applyRule (on_fake r) target) ([], mo) u = (Inr (map bind_Pk bs, mo), u)"
      for mo u using apply_nothing [OF bs(2) match, of "on_fake r" "[]"] by simp
    have kept: "filter (\<lambda>b. bind_Pk b \<notin> set (map bind_Pk bs)) managed = []"
      "filter (\<lambda>b. bind_Pk b \<notin> set (map bind_Pk bs)) unmanaged = unmanaged"
      unfolding bs(4) by (auto simp: managed_def unmanaged_def filter_empty_conv)
    have none: "unmanaged = []" if "is_true (access_Prune (spec_Access sp))"
      using prune [OF that] unfolding F_def
      by (auto simp: unmanaged_def foreign_bindings_def filter_empty_conv ex)
    define rest where "rest = thenE (updStatus (\<lambda>st. st\<lparr>status_BindingUUIDs := map bind_Pk bs\<rparr>))
      (thenE (patchStatus (on_fake r)) (handleUnmanagedBindings (on_fake r) unmanaged))"
    have stable_rest: "stable ?J rest"
      unfolding rest_def
      by (intro calm_intros calm_kept bs(4) kube rest_handleUnmanaged) (use none in simp)
    have y: "yields_in ?J (\<lambda>(m, u, mo). m = managed \<and> u = unmanaged) (managedBindings (on_fake r) ?ex)"
      unfolding managed_def unmanaged_def
      by (rule rest_managedBindings) (auto simp: F_def foreign_bindings_def ex)
    let ?next = "\<lambda>(managed, unmanaged, mo). bindE (readE (resolved_Rules \<circ> st_resolved)) (\<lambda>rules.
      bindE (adoptBindings (on_fake r) (matchBindings rules managed False) (matchBindings rules unmanaged True)) (\<lambda>matched.
      bindE (foldE (zip rules matched) (applyRule (on_fake r) target) ([], mo)) (\<lambda>(kept, _).
      thenE (forE (filter (\<lambda>binding. bind_Pk binding \<notin> set kept) managed)
        (\<lambda>binding. deleteBinding (on_fake r) (bind_Pk binding)))
      (thenE (updStatus (\<lambda>st. st\<lparr>status_BindingUUIDs := kept\<rparr>))
      (thenE (patchStatus (on_fake r))
      (handleUnmanagedBindings (on_fake r) (filter (\<lambda>binding. bind_Pk binding \<notin> set kept) unmanaged)))))))"
    have "?next (managed, unmanaged, mo) u = rest u" if "?J u" for mo u
    proof -
      have refs: "st_resolved u = refs" using that by (simp add: calm_def)
      have adopt: "adoptBindings (on_fake r) (matchBindings ?rules managed False) (matchBindings ?rules unmanaged True) u =
          (Inr (map Some bs), u)"
        unfolding bs(1) using matchBindings_spec [of ?rules unmanaged True] bs(2) by (intro adopt_nothing) simp
      have tail: "thenE (forE [] f) m u = m u" for f :: "PolicyBinding \<Rightarrow> (fake, 'k, unit) step" and m :: "(fake, 'k, unit) step"
        by (simp add: run_simps)
      show ?thesis
        unfolding prod.case bind_read comp_def refs run_bind [of "adoptBindings _ _ _"] adopt sum.case
          run_bind [of "foldE _ _ _"] apply' kept tail rest_def ..
    qed
    then have next_stable: "stable ?J (?next (managed, unmanaged, mo))" for mo
      using stable_rest by (intro stepsI) (auto simp: pres_def dest: stableD)
    define m where "m = bindE (managedBindings (on_fake r) ?ex) ?next"
    have whole: "stable ?J m"
      unfolding m_def by (rule stable_bind_in [OF y]) (use next_stable in auto)
    have "reconcileBindings (on_fake r) app s = m s"
    proof -
      have list: "srv (fake_ListPolicyBindings target) s = (Inr ?ex, s)"
        by (simp add: run_srv fake_ListPolicyBindings_def run_read listed_bindings_def)
      have "reconcileBindings (on_fake r) app s =
          bindE (srv (fake_ListPolicyBindings target)) (\<lambda>existing. bindE (managedBindings (on_fake r) existing) ?next) s"
        unfolding reconcileBindings_def Let_def target [symmetric] Authentik_on_fake fake_client_simps ..
      then show ?thesis unfolding m_def by (subst (asm) run_bind) (simp only: list prod.case sum.case)
    qed
    with run have "m s = (x, t)" by simp
    from stableD [OF whole this J] show "?J t" .
  qed
qed

section \<open>A reconcile at rest\<close>

text \<open>
  The server \<open>c\<close> is in the state of the spec, with the Application \<open>app\<close>, the Provider \<open>pk\<close> and the
  bindings \<open>keys\<close>, and the status records them. With \<open>access.prune\<close> there is no other binding.
\<close>

definition settled :: "Resolved \<Rightarrow> AuthentikApplicationSpec \<Rightarrow> int option \<times> string \<times> string set \<Rightarrow> fake \<Rightarrow>
    int option \<Rightarrow> Application \<Rightarrow> string list \<Rightarrow> bool" where
  "settled refs sp rec c pk app keys \<longleftrightarrow>
     map_of (fake_applications c) (spec_Slug sp) = Some app \<and> app_match (desiredApplication sp pk) app \<and>
     provider_desired sp refs c pk \<and> provider_recorded sp refs pk rec \<and>
     list_all proper_rule (resolved_Rules refs) \<and> set keys = snd (snd rec) \<and>
     enforced (resolved_Rules refs) (appl_PbmUuid app) keys (map_of (fake_bindings c)) \<and>
     (is_true (access_Prune (spec_Access sp)) \<longrightarrow>
       foreign_bindings (appl_PbmUuid app) (set keys) (map_of (fake_bindings c)) = {})"

text \<open>The other bindings of the Application carry no marker.\<close>

definition converged :: "Resolved \<Rightarrow> (fake, 'k) sys \<Rightarrow> bool" where
  "converged refs s \<longleftrightarrow> (\<exists>pk app keys. settled refs (sys_spec s) (recorded s) (server s) pk app keys \<and>
     unclaimed (foreign_bindings (appl_PbmUuid app) (set keys) (map_of (fake_bindings (server s)))) (server s))"

lemma settled_same:
  assumes "not_rbac c = not_rbac d"
  shows "settled refs sp rec c pk app keys = settled refs sp rec d pk app keys"
  using not_rbac_simps [OF assms] provider_desired_same [of c d sp refs pk] by (simp add: settled_def)

text \<open>The first steps of a reconcile: what the references of the spec resolve to.\<close>

definition resolution :: "('a, 'k) Reconciler \<Rightarrow> ('a, 'k, Resolved) step" where
  "resolution r = thenE (checkConflict r) (bindE (readE st_app) (Resolve (resolver_of r)))"

text \<open>The rest of a reconcile, after the references are resolved.\<close>

definition after_resolution :: "('a, 'k) Reconciler \<Rightarrow> Resolved \<Rightarrow> ('a, 'k, unit) step" where
  "after_resolution r refs =
     bindE (observeApplication r) (\<lambda>observed. bindE (readE sys_spec) (\<lambda>sp.
     bindE (provider_steps r observed refs sp) (\<lambda>providerPK.
     bindE (reconcileApplication r observed providerPK) (reconcileBindings r))))"

lemma rest_after_resolution:
  fixes r :: "(fake, 'k) Reconciler"
  assumes kube: "same_object (Kube r)" and wf: "wf_fake c" and st: "settled refs sp rec c pk app keys"
    and F: "F = foreign_bindings (appl_PbmUuid app) (set keys) (map_of (fake_bindings c))"
  shows "stable (calm r c sp refs rec F) (after_resolution (on_fake r) refs)"
    (is "stable ?J _")
proof -
  note st = st [unfolded settled_def]
  have spec: "yields_in ?J (\<lambda>x. x = sp) (readE sys_spec)"
    by (rule yields_in_read) (simp add: calm_def)
  obtain p ou where rec: "rec = (p, ou, set keys)" using st by (cases rec) auto
  have bindings: "stable ?J (reconcileBindings (on_fake r) app)"
    unfolding F rec by (rule rest_reconcileBindings [OF kube wf refl]) (use st in \<open>auto simp: list_all_iff\<close>)
  have app: "map_of (fake_applications c) (spec_Slug sp) = Some app" "app_match (desiredApplication sp pk) app"
    "provider_desired sp refs c pk" "provider_recorded sp refs pk rec" using st by auto
  show ?thesis
    unfolding after_resolution_def
    by (rule stable_bind_in [OF rest_observeApplication [OF kube app(1)]], simp only:,
        rule stable_bind_in [OF spec], simp only:,
        rule stable_bind_in [OF rest_provider_steps [OF wf app(3,4)]], simp only:,
        rule stable_bind_in [OF rest_reconcileApplication [OF app(2)]], simp only:, rule bindings)
qed

lemma reconcileSpec_split:
  fixes s :: "(fake, 'k) sys"
  assumes "reconcileSpec (on_fake r) s = (x, t)"
  shows "(\<exists>e. resolution (on_fake r) s = (Inl e, t)) \<or>
    (\<exists>refs u. resolution (on_fake r) s = (Inr refs, u) \<and>
       after_resolution (on_fake r) refs (u\<lparr>st_resolved := refs\<rparr>) = (x, t))"
proof -
  have "reconcileSpec (on_fake r) s = (case resolution (on_fake r) s of (Inl e, u) \<Rightarrow> (Inl e, u)
     | (Inr refs, u) \<Rightarrow> after_resolution (on_fake r) refs (u\<lparr>st_resolved := refs\<rparr>))"
    unfolding reconcileSpec_def resolution_def after_resolution_def
    by (simp add: run_simps split: prod.split sum.split)
  with assms show ?thesis by (auto split: prod.splits sum.splits)
qed

lemma resolution_reads:
  fixes s :: "(fake, 'k) sys"
  assumes "resolution (on_fake r) s = (x, t)"
  shows "server t = server s" and "st_app t = st_app s" and "coherent r s \<Longrightarrow> coherent r t"
proof -
  let ?obs = "\<lambda>s :: (fake, 'k) sys. (cache_state.truncate s, resolve_state.more s)"
  have "keeps ?obs (Resolve (resolver_of (on_fake r)) a)" for a
    unfolding resolver_on_fake by (rule keeps_comp [OF fake_resolver.keeps_Resolve]) (simp add: but_failures_def)
  then have "keeps ?obs (resolution (on_fake r))"
    unfolding resolution_def by (intro frame_intros keeps_checkConflict)
  from keepsD [OF this assms] show "server t = server s" "st_app t = st_app s"
    by (auto simp: cache_state.defs dest: task_more)
  have "stable (coherent r) (resolution (on_fake r))"
    unfolding resolution_def
    by (intro stable.steps_rules reconcile_coherent.stable_checkConflict reconcile_coherent.stable_Resolve)
  from stableD [OF this assms] show "coherent r s \<Longrightarrow> coherent r t" .
qed

lemma converged_same:
  fixes s t :: "(fake, 'k) sys"
  assumes "not_rbac (server t) = not_rbac (server s)" and "sys_spec t = sys_spec s" and "recorded t = recorded s"
    and "map_of (fake_applications (server s)) (spec_Slug (sys_spec s)) = Some app"
    and "unclaimed (foreign_bindings (appl_PbmUuid app) (snd (snd (recorded s))) (map_of (fake_bindings (server s)))) (server t)"
    and "converged refs s"
  shows "converged refs t"
proof -
  from assms(6) obtain pk app' keys where c:
    "settled refs (sys_spec s) (recorded s) (server s) pk app' keys" unfolding converged_def by blast
  then have "app' = app" "set keys = snd (snd (recorded s))" using assms(4) by (simp_all add: settled_def)
  moreover from c have "settled refs (sys_spec t) (recorded t) (server t) pk app' keys"
    using settled_same [OF assms(1)] assms(2,3) by simp
  ultimately show ?thesis
    unfolding converged_def using assms(5) not_rbac_simps(4) [OF assms(1)]
    by (intro exI [of _ pk] exI [of _ app] exI [of _ keys]) simp
qed

lemma reconcile_at_rest:
  fixes s :: "(fake, 'k) sys"
  assumes "reconcileSpec (on_fake r) s = (x, t)" and "coherent r s" and "same_object (Kube r)"
    and "\<And>refs u. resolution (on_fake r) s = (Inr refs, u) \<Longrightarrow> converged refs s" and "converged refs s"
  shows "not_rbac (server t) = not_rbac (server s) \<and> converged refs t"
proof -
  note split = reconcileSpec_split [OF assms(1)]
  show ?thesis
  proof (cases "\<exists>e. resolution (on_fake r) s = (Inl e, t)")
    case True
    then obtain e where "resolution (on_fake r) s = (Inl e, t)" by blast
    note same = resolution_reads [OF this]
    show ?thesis
      using assms(5) same by (simp add: converged_def sys_spec_def recorded_in_def sys_status_def)
  next
    case False
    with split obtain refs' u where u: "resolution (on_fake r) s = (Inr refs', u)"
      "after_resolution (on_fake r) refs' (u\<lparr>st_resolved := refs'\<rparr>) = (x, t)" by blast
    note same = resolution_reads [OF u(1)]
    from assms(4) [OF u(1)] obtain pk app keys where c:
      "settled refs' (sys_spec s) (recorded s) (server s) pk app keys"
      "unclaimed (foreign_bindings (appl_PbmUuid app) (set keys) (map_of (fake_bindings (server s)))) (server s)"
      unfolding converged_def by blast
    let ?F = "foreign_bindings (appl_PbmUuid app) (set keys) (map_of (fake_bindings (server s)))"
    let ?J = "calm r (server s) (sys_spec s) refs' (recorded s) ?F"
    have wf: "wf_fake (server s)" using assms(2) by (simp add: list_ok_def wf_marks_def)
    have "?J (u\<lparr>st_resolved := refs'\<rparr>)"
      using c(2) same(1,2) same(3) [OF assms(2)]
      by (simp add: calm_def recorded_in_def sys_status_def sys_spec_def list_ok_def is_fresh_def)
    from stableD [OF rest_after_resolution [OF assms(3) wf c(1) refl] u(2) this] have J: "?J t" .
    then have same: "not_rbac (server t) = not_rbac (server s)" "sys_spec t = sys_spec s" "recorded t = recorded s"
      and un: "unclaimed ?F (server t)" by (simp_all add: calm_def)
    have "map_of (fake_applications (server s)) (spec_Slug (sys_spec s)) = Some app" "set keys = snd (snd (recorded s))"
      using c(1) by (simp_all add: settled_def)
    with converged_same [OF same, of app refs] un assms(5) same(1) show ?thesis by simp
  qed
qed

text \<open>
  C21: a converged state is a fixed point. When the state is the one the references ask for, whatever the
  resolution returns, a reconcile changes nothing on the server but roles and markers, and the state stays
  converged: whether the reconcile succeeds or fails, at whichever call of the server or of Kubernetes.
\<close>
theorem converged_is_fixed:
  fixes s :: "(fake, 'k) sys"
  assumes "reconcileSpec (on_fake r) s = (x, t)" and "coherent r s" and "same_object (Kube r)"
    and "\<And>refs u. resolution (on_fake r) s = (Inr refs, u) \<Longrightarrow> converged refs s" and "converged refs s"
  shows "not_rbac (server t) = not_rbac (server s) \<and> converged refs t"
  using assms by (rule reconcile_at_rest)

end
