(* ===== verification/Rest.thy ===== *)
theory Rest
  imports Steady
begin

text \<open>
  A successful reconciliation ends in a converged state.
\<close>

section \<open>Reaching the state at rest\<close>

text \<open>Subjects as the API of authentik has them: at most one of group, policy and user is set.\<close>

definition one_subject :: "PolicyBinding \<Rightarrow> bool" where
  "one_subject b \<longleftrightarrow> length (filter id [nullableStringSet (bind_Policy b), nullableStringSet (bind_Group b),
     nullableInt32Set (bind_User b)]) \<le> 1"

lemma not_set:
  "\<not> nullableStringSet v \<Longrightarrow> Get v = None \<or> Get v = Some []"
  "\<not> nullableInt32Set w \<Longrightarrow> Get w = None"
  by (cases v; auto simp: nullableStringSet_def) (cases w; auto simp: nullableInt32Set_def)

lemma match_bound:
  assumes "proper_rule rule" and "one_subject b" and "binding_match (desiredBinding target rule) b"
  shows "bound target rule b"
proof -
  have set': "IsSet v" if "Get v = Some x" for v :: "'b Nullable" and x using that by (cases v) auto
  note match = assms(3) [unfolded binding_match_def desiredBinding_def Let_def want_defs]
  consider (group) g where "rl_Group rule = Some g" "rl_User rule = None" "rl_Policy rule = None" "g \<noteq> []"
    | (user) u where "rl_Group rule = None" "rl_User rule = Some u" "rl_Policy rule = None"
    | (policy) p where "rl_Group rule = None" "rl_User rule = None" "rl_Policy rule = Some p" "p \<noteq> []"
    using assms(1) by (auto simp: proper_rule_def split: option.splits)
  then show ?thesis
  proof cases
    case group
    then have "Get (bind_Group b) = Some g" using match by simp
    then show ?thesis using group match by (auto simp: bound_def observedSubject_def ruleSubject_def)
  next
    case user
    then have u: "Get (bind_User b) = Some u" using match by simp
    then have "nullableInt32Set (bind_User b)" using set' by (auto simp: nullableInt32Set_def)
    then have "\<not> nullableStringSet (bind_Group b)"
      using assms(2) by (auto simp: one_subject_def split: if_splits)
    then have "Get (bind_Group b) = None \<or> Get (bind_Group b) = Some []"
      by (rule not_set)
    then show ?thesis using user match u by (auto simp: bound_def observedSubject_def ruleSubject_def)
  next
    case policy
    then have p: "Get (bind_Policy b) = Some p" using match by simp
    then have "nullableStringSet (bind_Policy b)" using policy set' by (simp add: nullableStringSet_def)
    then have "\<not> nullableStringSet (bind_Group b)" "\<not> nullableInt32Set (bind_User b)"
      using assms(2) by (auto simp: one_subject_def split: if_splits)
    then have "Get (bind_Group b) = None \<or> Get (bind_Group b) = Some []" "Get (bind_User b) = None"
      by (blast dest: not_set)+
    then show ?thesis using policy match p by (auto simp: bound_def observedSubject_def ruleSubject_def)
  qed
qed

text \<open>Provider keys are \<open>int32\<close> in the API.\<close>

definition int32_keys :: "fake \<Rightarrow> bool" where
  "int32_keys c \<longleftrightarrow> list_all (\<lambda>k. int32_of k = k) (map fst (fake_proxyProviders c) @ map fst (fake_oauth2Providers c))"

lemma reconcileProvider_records:
  fixes s :: "(fake, 'k) sys"
  assumes kube: "same_object (Kube r)" and run: "reconcileProvider (on_fake r) application s = (Inr pk, t)"
  shows "status_ProviderPK (sys_status t) = Some pk"
proof -
  let ?h = "handlerFor (on_fake r) (st_app s) (st_resolved s)"
  let ?g = "\<lambda>s :: (fake, 'k) sys. status_ProviderPK (sys_status s)"
  obtain provider s1 where found: "findProvider ?h application s = (Inr provider, s1)"
    and rest: "bindE (readE sys_spec) (\<lambda>sp.
     bindE (case provider of
         Some p \<Rightarrow> retE (observed_pk p)
       | None \<Rightarrow>
           (let name = providerName sp in
            bindE (handler_create ?h name) (\<lambda>pk.
            thenE (Eventf EventTypeNormal eventReasonCreated eventActionReconcile
                (''Created '' @ handler_kind ?h @ '' Provider '' @ quote name)) (retE pk)))) (\<lambda>pk.
     bindE (readE sys_status) (\<lambda>st.
     thenE (if status_ProviderPK st \<noteq> Some pk
            then thenE (updStatus (\<lambda>st. st\<lparr>status_ProviderPK := Some pk\<rparr>)) (patchStatus (on_fake r))
            else retE ())
     (thenE (cache_ensure (markers (on_fake r)) \<lparr> obj_Model = handler_model ?h, obj_PK = itoa pk \<rparr>)
     (thenE (case provider of Some p \<Rightarrow> observed_sync p | None \<Rightarrow> retE ())
     (retE pk)))))) s1 = (Inr pk, t)"
    using run unfolding reconcileProvider_def getHandler_def bind_read by (rule bind_InrE)
  have sync: "keeps ?g (case provider of Some p \<Rightarrow> observed_sync p | None \<Rightarrow> retE ())"
    using plain_findProvider [of r "st_app s" "st_resolved s" application, unfolded yields_in_start] found
    by (auto simp: plain_sync_def intro: status_app keeps.steps_ret split: option.split)
  from rest [unfolded bind_read] obtain n s2 where "thenE (if ?g s2 \<noteq> Some n
            then thenE (updStatus (\<lambda>st. st\<lparr>status_ProviderPK := Some n\<rparr>)) (patchStatus (on_fake r))
            else retE ())
     (thenE (cache_ensure (markers (on_fake r)) \<lparr> obj_Model = handler_model ?h, obj_PK = itoa n \<rparr>)
     (thenE (case provider of Some p \<Rightarrow> observed_sync p | None \<Rightarrow> retE ())
     (retE n))) s2 = (Inr pk, t)"
    by (rule bind_InrE) (rule that)
  then obtain s3 where s3: "(if ?g s2 \<noteq> Some n
            then thenE (updStatus (\<lambda>st. st\<lparr>status_ProviderPK := Some n\<rparr>)) (patchStatus (on_fake r))
            else retE ()) s2 = (Inr (), s3)"
    and tail: "thenE (cache_ensure (markers (on_fake r)) \<lparr> obj_Model = handler_model ?h, obj_PK = itoa n \<rparr>)
     (thenE (case provider of Some p \<Rightarrow> observed_sync p | None \<Rightarrow> retE ())
     (retE n)) s3 = (Inr pk, t)"
    by (rule then_InrE) (rule that; simp)
  have "pk = n" using tail by (auto elim!: then_InrE simp: run_ret)
  moreover have "?g s3 = Some n"
  proof (cases "?g s2 = Some n")
    case True
    then show ?thesis using s3 by (simp add: run_ret)
  next
    case False
    with s3 obtain s4 where "updStatus (\<lambda>st. st\<lparr>status_ProviderPK := Some n\<rparr>) s2 = (Inr (), s4)"
      "patchStatus (on_fake r) s4 = (Inr (), s3)" by (auto elim!: then_InrE)
    then show ?thesis
      using keepsD [OF status_patchStatus [OF kube, of status_ProviderPK]]
      by (auto simp: updStatus_def run_modify sys_status_def)
  qed
  moreover have "keeps ?g (thenE (cache_ensure (markers (on_fake r)) \<lparr> obj_Model = handler_model ?h, obj_PK = itoa n \<rparr>)
     (thenE (case provider of Some p \<Rightarrow> observed_sync p | None \<Rightarrow> retE ()) (retE n)))"
    by (intro keeps.steps_then keeps.steps_ret sync status_app [OF app_cache(3)])
  from keepsD [OF this tail] have "?g t = ?g s3" .
  ultimately show ?thesis by simp
qed

lemma status_reconcileOutpost:
  assumes "\<And>st u. g (st\<lparr>status_OutpostUUID := u\<rparr>) = g st"
  shows "keeps (\<lambda>s. g (sys_status s)) (reconcileOutpost (on_fake r) n)"
  unfolding reconcileOutpost_def leaveOutpostByUUID_def removeProviderFromOutpost_def Let_def
  by (intro frame_intros status_local assms)

lemma status_exportCredentials: "keeps (\<lambda>s. g (sys_status s)) (exportCredentials (on_fake r) n)"
  unfolding exportCredentials_def Let_def
  by (intro frame_intros status_local)

lemma provider_steps_record:
  fixes s :: "(fake, 'k) sys"
  assumes run: "provider_steps (on_fake r) observed refs (sys_spec s) s = (Inr pk, t)" and wf: "wf_fake (server s)"
    and refs: "refs = st_resolved s" and valid: "valid_AuthentikApplicationSpec (sys_spec s)"
    and kube: "same_object (Kube r)" and keys: "int32_keys (server t)"
  shows "provider_recorded (sys_spec s) refs pk (recorded t)"
proof (cases "spec_Provider (sys_spec s)")
  case None
  then show ?thesis by (simp add: provider_recorded_def)
next
  case (Some provider)
  let ?export = "\<lambda>n. (case Option.bind (resolved_OAuth2 refs) oauth2refs_Credentials of
             None \<Rightarrow> retE ()
           | Some c \<Rightarrow> (if \<not> creds_SecretExists c then exportCredentials (on_fake r) n else retE ()))"
  from run obtain n s1 s2 where p: "reconcileProvider (on_fake r) observed s = (Inr n, s1)"
    and o': "(if provider_Proxy provider \<noteq> None then reconcileOutpost (on_fake r) n else retE ()) s1 = (Inr (), s2)"
    and e: "?export n s2 = (Inr (), t)" and pk: "pk = Some n"
    unfolding Some option.case by (auto elim!: bind_InrE then_InrE simp: run_ret)
  note spec = same_object_spec [OF kube]
  have s1: "st_resolved s1 = refs" "wf_fake (server s1)"
    using keepsD [OF reconcileProvider_frame(1) [OF spec] p] stableD [OF reconcile_wf.stable_reconcileProvider p wf] refs by simp_all
  have pkept: "keeps (\<lambda>s. status_ProviderPK (sys_status s))
      (if provider_Proxy provider \<noteq> None then reconcileOutpost (on_fake r) n else retE ())"
    by (intro steps_if status_reconcileOutpost keeps.steps_ret) simp
  have ekept: "keeps (\<lambda>s. g (sys_status s)) (?export n)" for g :: "AuthentikApplicationStatus \<Rightarrow> 'g"
    by (intro steps_case_option steps_if keeps.steps_ret status_exportCredentials)
  have "status_ProviderPK (sys_status t) = Some n"
    using keepsD [OF ekept e, of status_ProviderPK] keepsD [OF pkept o'] reconcileProvider_records [OF kube p] by simp
  moreover have "status_OutpostUUID (sys_status t) = proxyrefs_Outpost (the (resolved_Proxy refs))"
    if "provider_Proxy provider \<noteq> None"
    using reconcileOutpost_joins [of r n s1 s2] keepsD [OF ekept e, of status_OutpostUUID] o' that s1 by auto
  moreover have "provider_desired (sys_spec s) refs (server t) pk"
    using run_provider_steps [OF run wf refs valid spec] by blast
  then have "map_of (fake_proxyProviders (server t)) n \<noteq> None \<or> map_of (fake_oauth2Providers (server t)) n \<noteq> None"
    using Some pk by (auto simp: provider_desired_def split: option.splits)
  then have "int32_of n = n" using keys unfolding int32_keys_def map_of_eq_None_iff by (auto simp: list_all_iff)
  ultimately show ?thesis using Some pk by (auto simp: provider_recorded_def recorded_in_def)
qed

lemma status_reconcileApplication:
  assumes "same_object (Kube r)" and "\<And>st a k. g (st\<lparr>status_ApplicationSlug := a, status_ApplicationPK := k\<rparr>) = g st"
  shows "keeps (\<lambda>s. g (sys_status s)) (reconcileApplication (on_fake r) observed pk)"
  unfolding reconcileApplication_def recordApplication_def Let_def
  by (intro frame_intros status_local status_patchStatus status_app [OF app_cache(3)] assms)

lemma status_handleUnmanaged:
  assumes "\<And>st v. g (st\<lparr>status_UnmanagedBindings := v\<rparr>) = g st" and "\<And>st v. g (st\<lparr>status_Conditions := v\<rparr>) = g st"
  shows "keeps (\<lambda>s. g (sys_status s)) (handleUnmanagedBindings (on_fake r) bs)"
  unfolding handleUnmanagedBindings_def reportUnmanaged_def describeSubject_def setCondition_def removeCondition_def Let_def
  by (intro frame_intros status_local assms)

lemma status_reconcileBindings:
  assumes "same_object (Kube r)" and "\<And>st v. g (st\<lparr>status_BindingUUIDs := v\<rparr>) = g st"
    and "\<And>st v. g (st\<lparr>status_UnmanagedBindings := v\<rparr>) = g st" and "\<And>st v. g (st\<lparr>status_Conditions := v\<rparr>) = g st"
  shows "keeps (\<lambda>s. g (sys_status s)) (reconcileBindings (on_fake r) application)"
  unfolding reconcileBindings_def managedBindings_def adoptBindings_def applyRule_def syncBinding_def createBinding_def
    deleteBinding_def Let_def
  by (intro frame_intros status_local status_patchStatus status_handleUnmanaged status_app [OF app_cache(1)]
      status_app [OF app_cache(3)] status_app [OF app_cache(4)] assms)

text \<open>The bindings of the Application that the status does not record carry no marker.\<close>

definition others_unclaimed :: "(fake, 'k) sys \<Rightarrow> bool" where
  "others_unclaimed s \<longleftrightarrow> (\<forall>app. map_of (fake_applications (server s)) (spec_Slug (sys_spec s)) = Some app \<longrightarrow>
     unclaimed (foreign_bindings (appl_PbmUuid app) (set (status_BindingUUIDs (sys_status s)))
       (map_of (fake_bindings (server s)))) (server s))"

lemma reconcileBindings_enforced:
  fixes s :: "(fake, 'k) sys"
  assumes run: "reconcileBindings (on_fake r) app s = (Inr (), t)" and wf: "wf_fake (server s)"
    and rules: "rules = resolved_Rules (st_resolved s)" and room: "room (4 * length (fake_bindings (server s)) + 9 * length rules) (server s)"
    and kube: "same_object (Kube r)" and proper: "list_all proper_rule rules"
    and one: "\<And>u b. map_of (fake_bindings (server t)) u = Some b \<Longrightarrow> one_subject b"
  shows "enforced rules (appl_PbmUuid app) (status_BindingUUIDs (sys_status t)) (map_of (fake_bindings (server t))) \<and>
    (is_true (access_Prune (spec_Access (sys_spec t))) \<longrightarrow>
       foreign_bindings (appl_PbmUuid app) (set (status_BindingUUIDs (sys_status t))) (map_of (fake_bindings (server t))) = {})"
proof -
  obtain keys where
    k: "length keys = length rules" "distinct keys"
      "\<And>i. i < length rules \<Longrightarrow> \<exists>b. stored t (keys ! i) = Some b \<and> binding_match (desiredBinding (appl_PbmUuid app) (rules ! i)) b"
    and others: "\<And>u b. stored t u = Some b \<Longrightarrow> bind_Target b = appl_PbmUuid app \<Longrightarrow>
      u \<in> set keys \<or> u \<in> unmanaged_UUID ` set (status_UnmanagedBindings (sys_status t))"
    and none: "is_true (access_Prune (spec_Access (sys_spec t))) \<or> is_true (access_Public (spec_Access (sys_spec t))) \<Longrightarrow>
      status_UnmanagedBindings (sys_status t) = []"
    and tail: "\<exists>u v w bs. updStatus (\<lambda>st. st\<lparr>status_BindingUUIDs := keys\<rparr>) u = (Inr (), v) \<and>
      patchStatus (on_fake r) v = (Inr (), w) \<and> handleUnmanagedBindings (on_fake r) bs w = (Inr (), t)"
    by (rule reconcileBindings_keys [OF run wf refl rules room]) (rule that)
  from tail obtain u v w bs where tail: "updStatus (\<lambda>st. st\<lparr>status_BindingUUIDs := keys\<rparr>) u = (Inr (), v)"
    "patchStatus (on_fake r) v = (Inr (), w)" "handleUnmanagedBindings (on_fake r) bs w = (Inr (), t)" by blast
  have "status_BindingUUIDs (sys_status v) = keys"
    using tail(1) by (auto simp: updStatus_def run_modify sys_status_def)
  moreover have "keeps (\<lambda>s. status_BindingUUIDs (sys_status s)) (handleUnmanagedBindings (on_fake r) bs)"
    by (rule status_handleUnmanaged) simp_all
  from keepsD [OF this tail(3)] have "status_BindingUUIDs (sys_status t) = status_BindingUUIDs (sys_status w)" .
  ultimately have uuids: "status_BindingUUIDs (sys_status t) = keys"
    using keepsD [OF status_patchStatus [OF kube] tail(2), of status_BindingUUIDs] by simp
  have "\<exists>b. stored t (keys ! i) = Some b \<and> bound (appl_PbmUuid app) (rules ! i) b" if "i < length rules" for i
    using k(3) [OF that] match_bound one proper that unfolding stored_def list_all_length by metis
  then have "enforced rules (appl_PbmUuid app) keys (map_of (fake_bindings (server t)))"
    using k(1,2) by (simp add: enforced_def stored_def)
  moreover have "foreign_bindings (appl_PbmUuid app) (set keys) (map_of (fake_bindings (server t))) = {}"
    if "is_true (access_Prune (spec_Access (sys_spec t)))"
    using others none that by (auto simp: foreign_bindings_def stored_def)
  ultimately show ?thesis unfolding uuids by blast
qed

lemma reconcileSpec_converges:
  fixes s :: "(fake, 'k) sys"
  assumes run: "reconcileSpec (on_fake r) s = (Inr (), t)" and coherent: "coherent r s"
    and valid: "valid_AuthentikApplicationSpec (sys_spec s)" and kube: "same_object (Kube r)"
    and room: "room (4 * length (fake_bindings (server s)) + 9 * length (access_Rules (spec_Access (sys_spec s))) + 17) (server s)"
    and keys: "int32_keys (server t)" and proper: "list_all proper_rule (resolved_Rules (st_resolved t))"
    and one: "list_all one_subject (map snd (fake_bindings (server t)))" and others: "others_unclaimed t"
  shows "converged (st_resolved t) t"
proof -
  have wf: "wf_fake (server s)" using coherent by (simp add: list_ok_def wf_marks_def)
  note spec = same_object_spec [OF kube]
  obtain u refs pk app where
    b: "reconcileBindings (on_fake r) app u = (Inr (), t)"
    and u: "task u = (sys_spec s, refs)" "wf_fake (server u)" "draws 17 seq s u" "fake_bindings (server u) = fake_bindings (server s)"
    and rules: "list_all2 (rule_denotes (server s)) (access_Rules (spec_Access (sys_spec s))) (resolved_Rules refs)"
    and provider: "provider_desired (sys_spec s) refs (server u) pk"
    and app: "map_of (fake_applications (server u)) = (map_of (fake_applications (server s)))(spec_Slug (sys_spec s) \<mapsto> app)"
      "app_match (desiredApplication (sys_spec s) pk) app"
    and steps: "\<exists>observed v w. provider_steps (on_fake r) observed refs (sys_spec s) v = (Inr pk, w) \<and>
      reconcileApplication (on_fake r) observed pk w = (Inr app, u) \<and> task v = (sys_spec s, refs) \<and> wf_fake (server v)"
    by (rule reconcileSpec_application [OF run wf valid spec])
  from steps obtain observed v w where p: "provider_steps (on_fake r) observed refs (sys_spec s) v = (Inr pk, w)"
    and a: "reconcileApplication (on_fake r) observed pk w = (Inr app, u)" and v: "sys_spec v = sys_spec s" "st_resolved v = refs"
      "wf_fake (server v)" by auto
  have t: "sys_spec t = sys_spec s" "st_resolved t = refs"
    using keepsD [OF bindings_frames(2) [OF spec] b] u(1) by simp_all
  note same = but_simps(3) [OF keepsD [OF bindings_frames(1) b]] but_simps(2) [OF keepsD [OF application_frames(1) a]]
  have "int32_keys (server w)" using keys same by (simp add: int32_keys_def)
  with provider_steps_record [of r observed refs v pk w] p v valid kube
  have "provider_recorded (sys_spec s) refs pk (recorded w)" by simp
  moreover let ?g = "\<lambda>st. (status_ProviderPK st, status_OutpostUUID st)"
  have "keeps (\<lambda>s. ?g (sys_status s)) (reconcileApplication (on_fake r) observed pk)"
    by (rule status_reconcileApplication [OF kube]) simp
  from keepsD [OF this a] have "?g (sys_status u) = ?g (sys_status w)" .
  moreover have "keeps (\<lambda>s. ?g (sys_status s)) (reconcileBindings (on_fake r) app)"
    by (rule status_reconcileBindings [OF kube]) simp_all
  from keepsD [OF this b] have "?g (sys_status t) = ?g (sys_status u)" .
  ultimately have recorded: "provider_recorded (sys_spec t) refs pk (recorded t)"
    using t(1) by (cases "spec_Provider (sys_spec s)") (simp_all add: provider_recorded_def recorded_in_def)
  have desired: "provider_desired (sys_spec t) refs (server t) pk"
    using provider provider_desired_same [of "server t" "server u"] same t(1) by simp
  have "room (4 * length (fake_bindings (server u)) + 9 * length (resolved_Rules (st_resolved u))) (server u)"
    using room_draws [OF u(3,4)] room u(1,4) list_all2_lengthD [OF rules] by simp
  moreover have "st_resolved u = refs" using u(1) by simp
  moreover have "one_subject b" if "map_of (fake_bindings (server t)) k = Some b" for k b
    using map_of_SomeD [OF that] one by (force simp: list_all_iff)
  ultimately have enforced: "enforced (resolved_Rules refs) (appl_PbmUuid app) (status_BindingUUIDs (sys_status t)) (map_of (fake_bindings (server t)))"
    "is_true (access_Prune (spec_Access (sys_spec t))) \<longrightarrow>
       foreign_bindings (appl_PbmUuid app) (set (status_BindingUUIDs (sys_status t))) (map_of (fake_bindings (server t))) = {}"
    using reconcileBindings_enforced [OF b u(2) refl _ kube] proper t(2) by auto
  have stored: "map_of (fake_applications (server t)) (spec_Slug (sys_spec t)) = Some app"
    using same app(1) t(1) by simp
  have "settled refs (sys_spec t) (recorded t) (server t) pk app (status_BindingUUIDs (sys_status t))"
    using stored desired recorded enforced app(2) proper t by (simp add: settled_def recorded_in_def)
  moreover have "unclaimed (foreign_bindings (appl_PbmUuid app) (set (status_BindingUUIDs (sys_status t)))
      (map_of (fake_bindings (server t)))) (server t)"
    using others stored by (simp add: others_unclaimed_def)
  ultimately show ?thesis unfolding converged_def t(2) by blast
qed

text \<open>
  References that agree on a server: the same rules and Outpost, and the Provider right for the one set is
  right for the other. (They need not be equal: the Secret with the credentials of a Provider, which a
  reconcile exports, is among the references of the next one.)
\<close>

definition agree :: "AuthentikApplicationSpec \<Rightarrow> fake \<Rightarrow> Resolved \<Rightarrow> Resolved \<Rightarrow> bool" where
  "agree sp c refs refs' \<longleftrightarrow> resolved_Rules refs' = resolved_Rules refs \<and> resolved_Proxy refs' = resolved_Proxy refs \<and>
     (\<forall>pk. provider_desired sp refs c pk \<longrightarrow> provider_desired sp refs' c pk)"

lemma agree_converged:
  assumes "agree (sys_spec s) (server s) refs refs'" and "converged refs s"
  shows "converged refs' s"
proof -
  have "provider_recorded (sys_spec s) refs' pk rec" if "provider_recorded (sys_spec s) refs pk rec" for pk rec
    using that assms(1) by (cases "spec_Provider (sys_spec s)") (simp_all add: provider_recorded_def agree_def)
  then have "settled refs' (sys_spec s) rec (server s) pk app keys" if "settled refs (sys_spec s) rec (server s) pk app keys"
    for pk app keys rec
    using that assms(1) unfolding settled_def agree_def by (elim conjE) (intro conjI; simp)
  with assms(2) show ?thesis unfolding converged_def by blast
qed

text \<open>
  C2: reconciling is idempotent. A reconcile that succeeds ends in a converged state, and the next one,
  when its references agree with those of the first, leaves everything on the server but the roles and
  markers as it is and the state converged, whether it succeeds or fails. (Nobody changes the server in
  between; as in authentik, its keys of Providers are 32-bit integers and a binding has at most one subject; the resolved
  rules name a subject; nobody else has marked a binding of the Application.)
\<close>
theorem reconcileSpec_idempotent:
  fixes s :: "(fake, 'k) sys"
  assumes "reconcileSpec (on_fake r) s = (Inr (), t)" and "coherent r s"
    and "valid_AuthentikApplicationSpec (sys_spec s)" and "same_object (Kube r)"
    and "room (4 * length (fake_bindings (server s)) + 9 * length (access_Rules (spec_Access (sys_spec s))) + 17) (server s)"
    and "int32_keys (server t)" and "list_all proper_rule (resolved_Rules (st_resolved t))"
    and "list_all one_subject (map snd (fake_bindings (server t)))" and "others_unclaimed t"
    and "reconcileSpec (on_fake r) t = (x, u)"
    and "\<And>refs v. resolution (on_fake r) t = (Inr refs, v) \<Longrightarrow> agree (sys_spec t) (server t) (st_resolved t) refs"
  shows "converged (st_resolved t) t \<and> not_rbac (server u) = not_rbac (server t) \<and> converged (st_resolved t) u"
proof -
  have "converged (st_resolved t) t" using assms(1-9) by (rule reconcileSpec_converges)
  moreover have "coherent r t" using stableD [OF reconcile_coherent.stable_reconcileSpec assms(1,2)] .
  ultimately show ?thesis
    using reconcile_at_rest [OF assms(10) _ assms(4)] agree_converged [OF assms(11)] by blast
qed

end
