(* ===== verification/Again.thy ===== *)
theory Again
  imports Runs Rest
begin

text \<open>
  Reconciling twice, on the run of the whole reconcile: the hypotheses of idempotence hold in the state
  it ends in, and those of the fixed point in the state after that.
\<close>

definition whole_refs :: Resolved where
  "whole_refs = \<lparr> resolved_Flows = Some \<lparr> flws_Authorization = ''f1'', flws_Invalidation = ''f2'', flws_Authentication = None \<rparr>,
     resolved_Proxy = Some \<lparr> proxyrefs_Certificate = None, proxyrefs_Outpost = ''o1'' \<rparr>, resolved_OAuth2 = None,
     resolved_Rules = [\<lparr> rl_Group = Some ''g1'', rl_User = None, rl_Policy = None, rl_Negate = True \<rparr>] \<rparr>"

definition whole_checks :: "(fake, cluster) sys \<Rightarrow> bool" where
  "whole_checks t \<longleftrightarrow> int32_keys (server t) \<and> st_resolved t = whole_refs \<and>
     list_all one_subject (map snd (fake_bindings (server t))) \<and>
     list_all (\<lambda>(u, b). u \<in> set (status_BindingUUIDs (sys_status t)) \<or> bind_Target b = ''a1'') (fake_bindings (server t)) \<and>
     map (appl_PbmUuid \<circ> snd) (fake_applications (server t)) = [''00000000-0000-4000-8000-000000000003''] \<and>
     (case fst (resolution (on_fake sample_reconciler) t) of Inl e \<Rightarrow> True | Inr refs \<Rightarrow> refs = whole_refs)"

lemma whole_checked: "whole_checks (snd (reconcileSpec (on_fake sample_reconciler) whole_state))"
  by code_simp

lemma whole_same_object: "same_object (Kube sample_reconciler)"
  by (auto simp: whole_state_simps same_object_def cluster_client_def storeApp_def run_simps)

lemma whole_coherent: "coherent sample_reconciler whole_state"
  using whole_state_simps(3) wf_marks_sample
  by (simp add: list_ok_def wf_marks_def whole_state_def server_sample mono_int)

lemma whole_proper: "list_all proper_rule (resolved_Rules whole_refs)"
  by (simp add: whole_refs_def proper_rule_def)

lemma whole_others:
  assumes "whole_checks t"
  shows "others_unclaimed t"
proof -
  have "foreign_bindings (appl_PbmUuid app) (set (status_BindingUUIDs (sys_status t))) (map_of (fake_bindings (server t))) = {}"
    if "map_of (fake_applications (server t)) slug = Some app" for slug app
  proof -
    have "appl_PbmUuid app \<in> set (map (appl_PbmUuid \<circ> snd) (fake_applications (server t)))"
      using map_of_SomeD [OF that] by force
    moreover have "map (appl_PbmUuid \<circ> snd) (fake_applications (server t)) = [''00000000-0000-4000-8000-000000000003'']"
      using assms unfolding whole_checks_def by blast
    ultimately have "appl_PbmUuid app = ''00000000-0000-4000-8000-000000000003''" by (metis list.simps(15) list.set(1) singletonD)
    then show ?thesis
      using assms by (auto simp: whole_checks_def foreign_bindings_def list_all_iff dest!: map_of_SomeD)
  qed
  then show ?thesis by (auto simp: others_unclaimed_def unclaimed_def)
qed

lemma whole_resolution:
  assumes "whole_checks t" and "resolution (on_fake sample_reconciler) t = (Inr refs, v)"
  shows "refs = st_resolved t"
  using assms by (simp add: whole_checks_def)

theorem reconcileSpec_idempotent_witness:
  "\<exists>t x u. reconcileSpec (on_fake sample_reconciler) whole_state = (Inr (), t) \<and>
     reconcileSpec (on_fake sample_reconciler) t = (x, u) \<and>
     converged whole_refs t \<and> not_rbac (server u) = not_rbac (server t) \<and> converged whole_refs u"
proof -
  define t where "t = snd (reconcileSpec (on_fake sample_reconciler) whole_state)"
  have run: "reconcileSpec (on_fake sample_reconciler) whole_state = (Inr (), t)"
    using run_fst [of "reconcileSpec (on_fake sample_reconciler)", OF whole_run] t_def by simp
  have ok: "whole_checks t" using whole_checked t_def by simp
  obtain x u where again: "reconcileSpec (on_fake sample_reconciler) t = (x, u)" by fastforce
  have refs: "st_resolved t = whole_refs" and valid: "valid_AuthentikApplicationSpec (sys_spec whole_state)"
    using ok whole_valid by (simp_all add: whole_checks_def whole_state_simps)
  have "agree (sys_spec t) (server t) (st_resolved t) refs" if "resolution (on_fake sample_reconciler) t = (Inr refs, v)" for refs v
    using whole_resolution [OF ok that] by (simp add: agree_def)
  with reconcileSpec_idempotent [OF run whole_coherent valid whole_same_object whole_room _ _ _ whole_others [OF ok] again]
  show ?thesis using run again ok whole_proper unfolding refs by (auto simp: whole_checks_def)
qed

lemma whole_converged: "converged whole_refs (snd (reconcileSpec (on_fake sample_reconciler) whole_state))"
proof -
  have "valid_AuthentikApplicationSpec (sys_spec whole_state)" using whole_valid by (simp add: whole_state_simps)
  from reconcileSpec_converges [OF run_fst [of "reconcileSpec (on_fake sample_reconciler)", OF whole_run] whole_coherent this
      whole_same_object whole_room] whole_checked whole_others [OF whole_checked] whole_proper
  show ?thesis by (simp add: whole_checks_def)
qed

theorem converged_is_fixed_witness:
  "\<exists>s x t. reconcileSpec (on_fake sample_reconciler) s = (x, t) \<and> converged whole_refs s \<and>
     not_rbac (server t) = not_rbac (server s) \<and> converged whole_refs t"
proof -
  define s where "s = snd (reconcileSpec (on_fake sample_reconciler) whole_state)"
  have ok: "whole_checks s" and s: "converged whole_refs s" using whole_checked whole_converged s_def by simp_all
  have "coherent sample_reconciler s"
    using stableD [OF reconcile_coherent.stable_reconcileSpec run_fst [of "reconcileSpec (on_fake sample_reconciler)", OF whole_run] whole_coherent]
    unfolding s_def .
  moreover obtain x t where run: "reconcileSpec (on_fake sample_reconciler) s = (x, t)" by fastforce
  moreover have "converged refs s" if "resolution (on_fake sample_reconciler) s = (Inr refs, v)" for refs v
    using whole_resolution [OF ok that] ok s by (simp add: whole_checks_def)
  ultimately show ?thesis
    using converged_is_fixed [OF run _ whole_same_object _ s] s by blast
qed

end
