(* ===== verification/Memory.thy ===== *)
theory Memory
  imports Prelude
begin

text \<open>
  A heap of Go objects, for the code whose purpose is what is shared in memory: the generated
  deep copies (theory DeepCopies). An address is a number, an object is a cell, and \<open>limit\<close> is
  the first address never allocated. A pointer is an address or nil; a slice is nil or a window
  into a backing array. A struct is the value of its fields, so a struct nested in another one
  is part of it, and \<open>*out = *in\<close> copies the addresses the fields hold.

  \<open>load_ptr\<close>, \<open>load_slice\<close> and \<open>load_struct\<close> read the value that an object stands for, together
  with its footprint, the addresses that reading it goes through. \<open>copy_ptr\<close>, \<open>copy_slice\<close> and
  \<open>copy_struct\<close> are the statements of the generated code. The locale \<open>layout\<close> is the contract
  of a type: a copy stands for the same value and its footprint is new.
\<close>

section \<open>The heap\<close>

type_synonym addr = nat

record 'c heap =
  cells :: "addr \<rightharpoonup> 'c"
  limit :: addr

definition wf_heap :: "'c heap \<Rightarrow> bool" where
  "wf_heap h \<longleftrightarrow> dom (cells h) \<subseteq> {..<limit h}"

text \<open>\<open>new(T)\<close>, with the content the object is given before its address is used.\<close>

definition alloc :: "'c \<Rightarrow> 'c heap \<Rightarrow> addr \<times> 'c heap" where
  "alloc c h = (limit h, h\<lparr>cells := (cells h)(limit h \<mapsto> c), limit := Suc (limit h)\<rparr>)"

definition deref :: "('c \<Rightarrow> 'a option) \<Rightarrow> addr \<Rightarrow> 'c heap \<Rightarrow> 'a option" where
  "deref unwrap a h = (case cells h a of None \<Rightarrow> None | Some c \<Rightarrow> unwrap c)"

record slice =
  sl_array :: addr
  sl_off :: nat
  sl_len :: nat

definition elems :: "('c \<Rightarrow> 'a list option) \<Rightarrow> slice \<Rightarrow> 'c heap \<Rightarrow> 'a list option" where
  "elems unwrap s h =
     (case deref unwrap (sl_array s) h of
        None \<Rightarrow> None
      | Some xs \<Rightarrow>
          if sl_off s + sl_len s \<le> length xs then Some (take (sl_len s) (drop (sl_off s) xs))
          else None)"

definition extends :: "'c heap \<Rightarrow> 'c heap \<Rightarrow> bool" where
  "extends h k \<longleftrightarrow> limit h \<le> limit k \<and> (\<forall>a<limit h. cells k a = cells h a)"

definition agree :: "addr set \<Rightarrow> 'c heap \<Rightarrow> 'c heap \<Rightarrow> bool" where
  "agree F h k \<longleftrightarrow> (\<forall>a\<in>F. cells k a = cells h a)"

lemma extends_refl [simp, intro]: "extends h h"
  by (simp add: extends_def)

lemma extends_trans: "extends h k \<Longrightarrow> extends k l \<Longrightarrow> extends h l"
  by (auto simp: extends_def)

lemma extends_limit: "extends h k \<Longrightarrow> limit h \<le> limit k"
  by (simp add: extends_def)

lemma extends_agree: "extends h k \<Longrightarrow> F \<subseteq> {..<limit h} \<Longrightarrow> agree F h k"
  by (auto simp: extends_def agree_def)

lemma wf_dom: "wf_heap h \<Longrightarrow> F \<subseteq> dom (cells h) \<Longrightarrow> F \<subseteq> {..<limit h}"
  by (auto simp: wf_heap_def)

lemma agree_Un [simp]: "agree (F \<union> G) h k \<longleftrightarrow> agree F h k \<and> agree G h k"
  by (auto simp: agree_def)

lemma agree_insert [simp]: "agree (insert a F) h k \<longleftrightarrow> cells k a = cells h a \<and> agree F h k"
  by (auto simp: agree_def)

lemma agree_empty [simp]: "agree {} h k"
  by (simp add: agree_def)

lemma alloc_extends: "alloc c h = (a, k) \<Longrightarrow> extends h k"
  by (auto simp: alloc_def extends_def)

lemma alloc_cell:
  assumes "alloc c h = (a, k)"
  shows "cells k a = Some c" and "limit h = a" and "limit k = Suc a"
  using assms by (auto simp: alloc_def)

lemma alloc_wf: "wf_heap h \<Longrightarrow> alloc c h = (a, k) \<Longrightarrow> wf_heap k"
  by (auto simp: wf_heap_def alloc_def subset_iff domIff less_Suc_eq split: if_splits)

lemma deref_agree: "cells k a = cells h a \<Longrightarrow> deref unwrap a k = deref unwrap a h"
  by (simp add: deref_def)

lemma deref_dom: "deref unwrap a h = Some x \<Longrightarrow> a \<in> dom (cells h)"
  by (auto simp: deref_def split: option.splits)

lemma elems_agree: "cells k (sl_array s) = cells h (sl_array s) \<Longrightarrow> elems unwrap s k = elems unwrap s h"
  by (simp add: elems_def deref_def)

lemma elems_dom: "elems unwrap s h = Some xs \<Longrightarrow> sl_array s \<in> dom (cells h)"
  by (auto simp: elems_def dest: deref_dom split: option.splits)

section \<open>Reading\<close>

type_synonym ('c, 'g, 'v) reader = "'g \<Rightarrow> 'c heap \<Rightarrow> ('v \<times> addr set) option"
type_synonym ('c, 'g) copier = "'g \<Rightarrow> 'c heap \<Rightarrow> ('g \<times> 'c heap) option"

definition load_plain :: "('c, 'g, 'g) reader" where
  "load_plain x h = Some (x, {})"

definition load_ptr :: "('c \<Rightarrow> 'g option) \<Rightarrow> ('c, 'g, 'v) reader \<Rightarrow> ('c, addr option, 'v option) reader"
  where
  "load_ptr unwrap ld p h =
     (case p of
        None \<Rightarrow> Some (None, {})
      | Some a \<Rightarrow>
          (case deref unwrap a h of
             None \<Rightarrow> None
           | Some x \<Rightarrow> map_option (\<lambda>(v, F). (Some v, insert a F)) (ld x h)))"

fun load_all :: "('c, 'g, 'v) reader \<Rightarrow> ('c, 'g list, 'v list) reader" where
  "load_all ld [] h = Some ([], {})"
| "load_all ld (x # xs) h =
     (case ld x h of
        None \<Rightarrow> None
      | Some (v, F) \<Rightarrow> map_option (\<lambda>(vs, G). (v # vs, F \<union> G)) (load_all ld xs h))"

definition load_slice ::
    "('c \<Rightarrow> 'g list option) \<Rightarrow> ('c, 'g, 'v) reader \<Rightarrow> ('c, slice option, 'v list option) reader" where
  "load_slice unwrap ld p h =
     (case p of
        None \<Rightarrow> Some (None, {})
      | Some s \<Rightarrow>
          (case elems unwrap s h of
             None \<Rightarrow> None
           | Some xs \<Rightarrow>
               map_option (\<lambda>(vs, F). (Some vs, insert (sl_array s) F)) (load_all ld xs h)))"

text \<open>
  A struct: \<open>base\<close> reads the fields that are held in it, and each reader of the list adds one
  field that is reached through an address.
\<close>

definition read_field ::
    "('x \<Rightarrow> 'v \<Rightarrow> 'v) \<Rightarrow> ('c, 'p, 'x) reader \<Rightarrow> ('g \<Rightarrow> 'p) \<Rightarrow> ('c, 'g, 'v \<Rightarrow> 'v) reader" where
  "read_field put ld get g h = map_option (\<lambda>(x, F). (put x, F)) (ld (get g) h)"

fun read_fields :: "('c, 'g, 'v \<Rightarrow> 'v) reader list \<Rightarrow> 'v \<Rightarrow> ('c, 'g, 'v) reader" where
  "read_fields [] v g h = Some (v, {})"
| "read_fields (r # rs) v g h =
     (case r g h of
        None \<Rightarrow> None
      | Some (u, F) \<Rightarrow> map_option (\<lambda>(w, G). (w, F \<union> G)) (read_fields rs (u v) g h))"

definition load_struct :: "('g \<Rightarrow> 'v) \<Rightarrow> ('c, 'g, 'v \<Rightarrow> 'v) reader list \<Rightarrow> ('c, 'g, 'v) reader" where
  "load_struct base rs g h = read_fields rs (base g) g h"

section \<open>Copying\<close>

text \<open>\<open>**out = **in\<close> and \<open>copy(*out, *in)\<close>: the elements are copied as they are.\<close>

definition copy_plain :: "('c, 'g) copier" where
  "copy_plain x h = Some (x, h)"

text \<open>\<open>if in.F != nil { *out = new(T); (*in).DeepCopyInto(*out) }\<close>\<close>

definition copy_ptr :: "('c \<Rightarrow> 'g option) \<Rightarrow> ('g \<Rightarrow> 'c) \<Rightarrow> ('c, 'g) copier \<Rightarrow> ('c, addr option) copier" where
  "copy_ptr unwrap wrap into p h =
     (case p of
        None \<Rightarrow> Some (None, h)
      | Some a \<Rightarrow>
          (case deref unwrap a h of
             None \<Rightarrow> None
           | Some x \<Rightarrow>
               map_option (\<lambda>(y, k). (let (b, l) = alloc (wrap y) k in (Some b, l))) (into x h)))"

fun copy_all :: "('c, 'g) copier \<Rightarrow> ('c, 'g list) copier" where
  "copy_all into [] h = Some ([], h)"
| "copy_all into (x # xs) h =
     (case into x h of
        None \<Rightarrow> None
      | Some (y, k) \<Rightarrow> map_option (\<lambda>(ys, l). (y # ys, l)) (copy_all into xs k))"

text \<open>
  \<open>if in.F != nil { *out = make([]T, len(*in)); for i := range *in { (*in)[i].DeepCopyInto(&(*out)[i]) } }\<close>
\<close>

definition copy_slice ::
    "('c \<Rightarrow> 'g list option) \<Rightarrow> ('g list \<Rightarrow> 'c) \<Rightarrow> ('c, 'g) copier \<Rightarrow> ('c, slice option) copier" where
  "copy_slice unwrap wrap into p h =
     (case p of
        None \<Rightarrow> Some (None, h)
      | Some s \<Rightarrow>
          (case elems unwrap s h of
             None \<Rightarrow> None
           | Some xs \<Rightarrow>
               map_option (\<lambda>(ys, k).
                   (let (b, l) = alloc (wrap ys) k
                    in (Some \<lparr>sl_array = b, sl_off = 0, sl_len = length ys\<rparr>, l)))
                 (copy_all into xs h)))"

text \<open>
  One statement of a generated \<open>DeepCopyInto\<close>: a field of \<open>out\<close> becomes the copy of the field of
  \<open>in\<close>. \<open>copy_struct\<close> is the whole function: \<open>*out = *in\<close> and then its statements in order.
\<close>

type_synonym ('c, 'g) statement = "'g \<Rightarrow> 'g \<times> 'c heap \<Rightarrow> ('g \<times> 'c heap) option"

definition copy_field ::
    "(('p \<Rightarrow> 'p) \<Rightarrow> 'g \<Rightarrow> 'g) \<Rightarrow> ('c, 'p) copier \<Rightarrow> ('g \<Rightarrow> 'p) \<Rightarrow> ('c, 'g) statement" where
  "copy_field put into get inp =
     (\<lambda>(out, h). map_option (\<lambda>(p, k). (put (\<lambda>_. p) out, k)) (into (get inp) h))"

fun run_statements :: "('c, 'g) statement list \<Rightarrow> ('c, 'g) statement" where
  "run_statements [] inp s = Some s"
| "run_statements (c # cs) inp s =
     (case c inp s of None \<Rightarrow> None | Some t \<Rightarrow> run_statements cs inp t)"

definition copy_struct :: "('c, 'g) statement list \<Rightarrow> ('c, 'g) copier" where
  "copy_struct cs inp h = run_statements cs inp (inp, h)"

section \<open>The contract of a type\<close>

text \<open>
  \<open>readable\<close>: what a reader finds lies in allocated cells and depends on its footprint only.
  \<open>layout\<close>: moreover a copy stands for the same value, with a new footprint, and the copying
  changes no cell that was there.
\<close>

locale readable =
  fixes ld :: "('c, 'g, 'v) reader"
  assumes allocated: "ld g h = Some (v, F) \<Longrightarrow> F \<subseteq> dom (cells h)"
    and reads_local: "ld g h = Some (v, F) \<Longrightarrow> agree F h k \<Longrightarrow> ld g k = Some (v, F)"
begin

lemma reads_grown:
  assumes "wf_heap h" and "ld g h = Some (v, F)" and "extends h k"
  shows "ld g k = Some (v, F)"
  by (rule reads_local [OF assms(2)])
    (rule extends_agree [OF assms(3) wf_dom [OF assms(1) allocated [OF assms(2)]]])

lemma reads_all_local:
  assumes "load_all ld xs h = Some (vs, F)"
  shows "F \<subseteq> dom (cells h)" and "agree F h k \<Longrightarrow> load_all ld xs k = Some (vs, F)"
proof -
  have "F \<subseteq> dom (cells h) \<and> (agree F h k \<longrightarrow> load_all ld xs k = Some (vs, F))"
    using assms
  proof (induction xs arbitrary: vs F)
    case (Cons x xs)
    then obtain v G vs' G' where x: "ld x h = Some (v, G)" and xs: "load_all ld xs h = Some (vs', G')"
      and vs: "vs = v # vs'" "F = G \<union> G'"
      by (auto split: option.splits)
    show ?case
      using Cons.IH [OF xs] allocated [OF x] reads_local [OF x] by (simp add: vs)
  qed simp
  then show "F \<subseteq> dom (cells h)" and "agree F h k \<Longrightarrow> load_all ld xs k = Some (vs, F)"
    by auto
qed

lemma reads_all_grown:
  assumes "wf_heap h" and "load_all ld xs h = Some (vs, F)" and "extends h k"
  shows "load_all ld xs k = Some (vs, F)"
  by (rule reads_all_local(2) [OF assms(2)])
    (rule extends_agree [OF assms(3) wf_dom [OF assms(1) reads_all_local(1) [OF assms(2)]]])

end

definition copied ::
    "('c, 'g, 'v) reader \<Rightarrow> 'v \<Rightarrow> 'c heap \<Rightarrow> 'g \<Rightarrow> 'c heap \<Rightarrow> bool" where
  "copied ld v h g k \<longleftrightarrow>
     wf_heap k \<and> extends h k \<and> (\<exists>F. ld g k = Some (v, F) \<and> F \<subseteq> {limit h..<limit k})"

locale layout = readable ld
  for ld :: "('c, 'g, 'v) reader" +
  fixes into :: "('c, 'g) copier"
  assumes copies:
    "wf_heap h \<Longrightarrow> ld g h = Some (v, F) \<Longrightarrow> \<exists>y k. into g h = Some (y, k) \<and> copied ld v h y k"
begin

lemma copies_all:
  assumes "wf_heap h" and "load_all ld xs h = Some (vs, F)"
  shows "\<exists>ys k. copy_all into xs h = Some (ys, k) \<and> length ys = length xs \<and>
           copied (load_all ld) vs h ys k"
  using assms
proof (induction xs arbitrary: h vs F)
  case Nil
  then show ?case by (auto simp: copied_def)
next
  case (Cons x xs)
  then obtain v G vs' G' where x: "ld x h = Some (v, G)" and xs: "load_all ld xs h = Some (vs', G')"
    and vs: "vs = v # vs'"
    by (auto split: option.splits)
  obtain y k where y: "into x h = Some (y, k)" "copied ld v h y k"
    using copies [OF Cons.prems(1) x] by blast
  then obtain G1 where k: "wf_heap k" "extends h k" "ld y k = Some (v, G1)" "G1 \<subseteq> {limit h..<limit k}"
    by (auto simp: copied_def)
  have "load_all ld xs k = Some (vs', G')"
    using Cons.prems(1) xs k(2) by (rule reads_all_grown)
  from Cons.IH [OF k(1) this] obtain ys l where l: "copy_all into xs k = Some (ys, l)"
    "length ys = length xs" "copied (load_all ld) vs' k ys l"
    by blast
  then obtain G2 where G2: "wf_heap l" "extends k l" "load_all ld ys l = Some (vs', G2)"
    "G2 \<subseteq> {limit k..<limit l}"
    by (auto simp: copied_def)
  have "ld y l = Some (v, G1)"
    using k(1,3) G2(2) by (rule reads_grown)
  moreover have "G1 \<union> G2 \<subseteq> {limit h..<limit l}"
    using k(4) G2(4) extends_limit [OF k(2)] extends_limit [OF G2(2)] by fastforce
  ultimately have "copied (load_all ld) (v # vs') h (y # ys) l"
    using G2 extends_trans [OF k(2) G2(2)] by (auto simp: copied_def)
  with y(1) l(1,2) vs show ?case by simp
qed

end

text \<open>An object of its own cell: a pointer to it is copied by copying what it points to.\<close>

locale boxed = layout ld into
  for ld :: "('c, 'g, 'v) reader" and into :: "('c, 'g) copier" +
  fixes unwrap :: "'c \<Rightarrow> 'g option" and wrap :: "'g \<Rightarrow> 'c"
  assumes unwrap_wrap: "unwrap (wrap x) = Some x"
begin

lemma ptr_layout: "layout (load_ptr unwrap ld) (copy_ptr unwrap wrap into)"
proof
  fix p h v F k
  assume l: "load_ptr unwrap ld p h = Some (v, F)"
  show "F \<subseteq> dom (cells h)"
    using l allocated
    by (fastforce simp: load_ptr_def dest: deref_dom split: option.splits)
  assume a: "agree F h k"
  show "load_ptr unwrap ld p k = Some (v, F)"
    using l a by (fastforce simp: load_ptr_def deref_def dest: reads_local split: option.splits)
next
  fix p h v F
  assume wf: "wf_heap h" and l: "load_ptr unwrap ld p h = Some (v, F)"
  show "\<exists>y k. copy_ptr unwrap wrap into p h = Some (y, k) \<and> copied (load_ptr unwrap ld) v h y k"
  proof (cases p)
    case None
    with l wf show ?thesis by (auto simp: load_ptr_def copy_ptr_def copied_def)
  next
    case (Some a)
    with l obtain x w G where x: "deref unwrap a h = Some x" "ld x h = Some (w, G)" "v = Some w"
      by (auto simp: load_ptr_def split: option.splits)
    obtain y k where y: "into x h = Some (y, k)" "copied ld w h y k"
      using copies [OF wf x(2)] by blast
    then obtain G' where G': "wf_heap k" "extends h k" "ld y k = Some (w, G')" "G' \<subseteq> {limit h..<limit k}"
      by (auto simp: copied_def)
    obtain b l where b: "alloc (wrap y) k = (b, l)" by fastforce
    note l = alloc_extends [OF b] alloc_cell [OF b] alloc_wf [OF G'(1) b]
    have "ld y l = Some (w, G')"
      using G'(1,3) l(1) by (rule reads_grown)
    then have "load_ptr unwrap ld (Some b) l = Some (v, insert b G')"
      using l(2) by (simp add: load_ptr_def deref_def unwrap_wrap x(3))
    moreover have "insert b G' \<subseteq> {limit h..<limit l}"
      using G'(4) l(3,4) extends_limit [OF G'(2)] by fastforce
    moreover have "copy_ptr unwrap wrap into p h = Some (Some b, l)"
      by (simp add: copy_ptr_def Some x(1) y(1) b)
    ultimately show ?thesis
      using l(5) extends_trans [OF G'(2) l(1)] by (auto simp: copied_def)
  qed
qed

end

sublocale boxed \<subseteq> ptr: layout "load_ptr unwrap ld" "copy_ptr unwrap wrap into"
  by (rule ptr_layout)

text \<open>A slice of such objects in a backing array.\<close>

locale sliced = layout ld into
  for ld :: "('c, 'g, 'v) reader" and into :: "('c, 'g) copier" +
  fixes unwrap :: "'c \<Rightarrow> 'g list option" and wrap :: "'g list \<Rightarrow> 'c"
  assumes unwrap_wrap: "unwrap (wrap xs) = Some xs"
begin

lemma slice_layout: "layout (load_slice unwrap ld) (copy_slice unwrap wrap into)"
proof
  fix p h v F k
  assume l: "load_slice unwrap ld p h = Some (v, F)"
  show "F \<subseteq> dom (cells h)"
    using l reads_all_local(1)
    by (fastforce simp: load_slice_def dest: elems_dom split: option.splits)
  assume a: "agree F h k"
  show "load_slice unwrap ld p k = Some (v, F)"
    using l a
    by (fastforce simp: load_slice_def elems_def deref_def dest: reads_all_local(2)
        split: option.splits if_splits)
next
  fix p h v F
  assume wf: "wf_heap h" and l: "load_slice unwrap ld p h = Some (v, F)"
  show "\<exists>y k. copy_slice unwrap wrap into p h = Some (y, k) \<and> copied (load_slice unwrap ld) v h y k"
  proof (cases p)
    case None
    with l wf show ?thesis by (auto simp: load_slice_def copy_slice_def copied_def)
  next
    case (Some s)
    with l obtain xs vs G where x: "elems unwrap s h = Some xs" "load_all ld xs h = Some (vs, G)"
      "v = Some vs"
      by (auto simp: load_slice_def split: option.splits)
    obtain ys k where y: "copy_all into xs h = Some (ys, k)" "copied (load_all ld) vs h ys k"
      using copies_all [OF wf x(2)] by blast
    then obtain G' where G': "wf_heap k" "extends h k" "load_all ld ys k = Some (vs, G')"
      "G' \<subseteq> {limit h..<limit k}"
      by (auto simp: copied_def)
    obtain b l where b: "alloc (wrap ys) k = (b, l)" by fastforce
    let ?s = "\<lparr>sl_array = b, sl_off = 0, sl_len = length ys\<rparr>"
    note l = alloc_extends [OF b] alloc_cell [OF b] alloc_wf [OF G'(1) b]
    have "load_all ld ys l = Some (vs, G')"
      using G'(1,3) l(1) by (rule reads_all_grown)
    then have "load_slice unwrap ld (Some ?s) l = Some (v, insert b G')"
      using l(2) by (simp add: load_slice_def elems_def deref_def unwrap_wrap x(3))
    moreover have "insert b G' \<subseteq> {limit h..<limit l}"
      using G'(4) l(3,4) extends_limit [OF G'(2)] by fastforce
    moreover have "copy_slice unwrap wrap into p h = Some (Some ?s, l)"
      by (simp add: copy_slice_def Some x(1) y(1) b)
    ultimately show ?thesis
      using l(5) extends_trans [OF G'(2) l(1)] by (auto simp: copied_def)
  qed
qed

end

sublocale sliced \<subseteq> slice: layout "load_slice unwrap ld" "copy_slice unwrap wrap into"
  by (rule slice_layout)

section \<open>The contract of a struct\<close>

text \<open>
  \<open>mirrors r c\<close>: the statement \<open>c\<close> gives \<open>out\<close> a field whose reader \<open>r\<close> finds what it found in
  \<open>in\<close>. \<open>spares c r\<close>: the statement leaves what \<open>r\<close> looks at in \<open>out\<close> alone. \<open>matched rs cs\<close> pairs
  the readers of the fields with the statements, each sparing the fields before it.
\<close>

definition mirrors :: "('c, 'g, 'v \<Rightarrow> 'v) reader \<Rightarrow> ('c, 'g) statement \<Rightarrow> bool" where
  "mirrors r c \<longleftrightarrow>
     readable r \<and>
     (\<forall>h g u F out. wf_heap h \<longrightarrow> r g h = Some (u, F) \<longrightarrow>
        (\<exists>out' k. c g (out, h) = Some (out', k) \<and> copied r u h out' k))"

definition spares :: "('c, 'g) statement \<Rightarrow> ('g \<Rightarrow> 'x) \<Rightarrow> bool" where
  "spares c r \<longleftrightarrow> (\<forall>g out h out' k. c g (out, h) = Some (out', k) \<longrightarrow> r out' = r out)"

fun matched :: "('c, 'g, 'v \<Rightarrow> 'v) reader list \<Rightarrow> ('c, 'g) statement list \<Rightarrow> bool" where
  "matched [] [] = True"
| "matched (r # rs) (c # cs) = (mirrors r c \<and> list_all (\<lambda>d. spares d r) cs \<and> matched rs cs)"
| "matched _ _ = False"

lemma mirrors_field:
  assumes "layout ld into" and "\<And>x g. get (put (\<lambda>_. x) g) = x"
  shows "mirrors (read_field vput ld get) (copy_field put into get)"
proof -
  have rd: "readable ld" using assms(1) by (simp add: layout_def)
  have "readable (read_field vput ld get)"
    by unfold_locales
      (auto simp: read_field_def dest: readable.allocated [OF rd] readable.reads_local [OF rd])
  moreover have "\<exists>out' k. copy_field put into get g (out, h) = Some (out', k) \<and>
      copied (read_field vput ld get) u h out' k"
    if "wf_heap h" and "read_field vput ld get g h = Some (u, F)" for h g u F out
  proof -
    from that(2) obtain x where "ld (get g) h = Some (x, F)" "u = vput x"
      by (auto simp: read_field_def)
    with layout.copies [OF assms(1) that(1)] show ?thesis
      by (fastforce simp: copied_def copy_field_def read_field_def assms(2))
  qed
  ultimately show ?thesis by (auto simp: mirrors_def)
qed

lemma spares_field:
  assumes "\<And>x g. r (put (\<lambda>_. x) g) = r g"
  shows "spares (copy_field put into get) r"
  using assms by (auto simp: spares_def copy_field_def)

lemma spares_read:
  assumes "\<And>x g. get' (put (\<lambda>_. x) g) = get' g"
  shows "spares (copy_field put into get) (read_field vput ld get')"
  by (rule spares_field) (simp add: read_field_def assms fun_eq_iff)

lemma spares_run:
  "list_all (\<lambda>c. spares c r) cs \<Longrightarrow> run_statements cs g (out, h) = Some (out', k) \<Longrightarrow> r out' = r out"
proof (induction cs arbitrary: out h)
  case (Cons c cs)
  then show ?case by (fastforce simp: spares_def split: option.splits)
qed simp

lemma matched_readable: "matched rs cs \<Longrightarrow> readable (read_fields rs v)"
proof (induction rs cs arbitrary: v rule: matched.induct)
  case 1
  show ?case by unfold_locales auto
next
  case (2 r rs c cs)
  then have r: "readable r" by (simp add: mirrors_def)
  have IH: "readable (read_fields rs w)" for w using 2 by simp
  show ?case
  proof
    fix g h w F k
    assume "read_fields (r # rs) v g h = Some (w, F)"
    then obtain u G H where u: "r g h = Some (u, G)" "read_fields rs (u v) g h = Some (w, H)" "F = G \<union> H"
      by (auto split: option.splits)
    show "F \<subseteq> dom (cells h)"
      using readable.allocated [OF r u(1)] readable.allocated [OF IH u(2)] u(3) by blast
    assume "agree F h k"
    then show "read_fields (r # rs) v g k = Some (w, F)"
      using readable.reads_local [OF r u(1), of k] readable.reads_local [OF IH u(2), of k] u(3)
      by simp
  qed
qed auto

lemma matched_runs:
  assumes "matched rs cs" and "wf_heap h" and "read_fields rs v g h = Some (w, F)"
  shows "\<exists>out' k. run_statements cs g (out, h) = Some (out', k) \<and> copied (read_fields rs v) w h out' k"
  using assms
proof (induction rs cs arbitrary: v h F out rule: matched.induct)
  case 1
  then show ?case by (auto simp: copied_def)
next
  case (2 r rs c cs)
  then have r: "readable r" by (simp add: mirrors_def)
  have m: "mirrors r c" "list_all (\<lambda>d. spares d r) cs" "matched rs cs"
    using "2.prems"(1) by auto
  obtain u G H where u: "r g h = Some (u, G)" "read_fields rs (u v) g h = Some (w, H)"
    using "2.prems"(3) by (auto split: option.splits)
  obtain o1 k where c: "c g (out, h) = Some (o1, k)" "copied r u h o1 k"
    using m(1) "2.prems"(2) u(1) unfolding mirrors_def by blast
  then obtain G' where G': "wf_heap k" "extends h k" "r o1 k = Some (u, G')" "G' \<subseteq> {limit h..<limit k}"
    by (auto simp: copied_def)
  have "read_fields rs (u v) g k = Some (w, H)"
    using matched_readable [OF m(3)] "2.prems"(2) u(2) G'(2) by (rule readable.reads_grown)
  from "2.IH" [OF m(3) G'(1) this, of o1]
  obtain o2 l H' where l: "run_statements cs g (o1, k) = Some (o2, l)" "wf_heap l" "extends k l"
    "read_fields rs (u v) o2 l = Some (w, H')" "H' \<subseteq> {limit k..<limit l}"
    by (auto simp: copied_def)
  have "r o2 l = Some (u, G')"
    using readable.reads_grown [OF r G'(1,3) l(3)] spares_run [OF m(2) l(1)] by simp
  moreover have "G' \<union> H' \<subseteq> {limit h..<limit l}"
    using G'(4) l(5) extends_limit [OF G'(2)] extends_limit [OF l(3)] by fastforce
  ultimately have "copied (read_fields (r # rs) v) w h o2 l"
    using l(2,4) extends_trans [OF G'(2) l(3)] by (auto simp: copied_def)
  moreover have "run_statements (c # cs) g (out, h) = Some (o2, l)"
    by (simp add: c(1) l(1))
  ultimately show ?case by blast
qed auto

lemma layout_struct:
  assumes "matched rs cs" and "list_all (\<lambda>c. spares c base) cs"
  shows "layout (load_struct base rs) (copy_struct cs)"
proof
  fix g h v F k
  assume l: "load_struct base rs g h = Some (v, F)"
  note rd = matched_readable [OF assms(1), of "base g"]
  show "F \<subseteq> dom (cells h)"
    using rd l unfolding load_struct_def by (rule readable.allocated)
  assume "agree F h k"
  with rd l show "load_struct base rs g k = Some (v, F)"
    unfolding load_struct_def by (rule readable.reads_local)
next
  fix g h v F
  assume "wf_heap h" and "load_struct base rs g h = Some (v, F)"
  then obtain y k where y: "copy_struct cs g h = Some (y, k)"
    "copied (read_fields rs (base g)) v h y k"
    unfolding load_struct_def copy_struct_def using matched_runs [OF assms(1)] by blast
  have "base y = base g"
    using y(1) unfolding copy_struct_def by (rule spares_run [OF assms(2)])
  with y show "\<exists>y k. copy_struct cs g h = Some (y, k) \<and> copied (load_struct base rs) v h y k"
    by (auto simp: copied_def load_struct_def)
qed

lemma layout_plain: "layout load_plain copy_plain"
  by unfold_locales (auto simp: load_plain_def copy_plain_def copied_def)

text \<open>The contract of a pointer and of a slice, for a type that is a parameter.\<close>

lemma layout_ptr:
  assumes "layout ld into" and "\<And>x. unwrap (wrap x) = Some x"
  shows "layout (load_ptr unwrap ld) (copy_ptr unwrap wrap into)"
  by (rule boxed.ptr_layout) (intro boxed.intro boxed_axioms.intro assms)

lemma layout_slice:
  assumes "layout ld into" and "\<And>xs. unwrap (wrap xs) = Some xs"
  shows "layout (load_slice unwrap ld) (copy_slice unwrap wrap into)"
  by (rule sliced.slice_layout) (intro sliced.intro sliced_axioms.intro assms)

text \<open>
  Independence: a heap that differs from the one after the copy only in cells that were there
  before gives the copy the same value.
\<close>

lemma copied_independent:
  assumes "readable ld" and "copied ld v h y k" and "\<And>a. limit h \<le> a \<Longrightarrow> cells l a = cells k a"
  shows "map_option fst (ld y l) = Some v"
proof -
  from assms(2) obtain F where F: "ld y k = Some (v, F)" "F \<subseteq> {limit h..<limit k}"
    by (auto simp: copied_def)
  then have "agree F k l" using assms(3) by (auto simp: agree_def)
  then show ?thesis using readable.reads_local [OF assms(1) F(1)] by simp
qed

lemma layout_independent:
  assumes "layout ld into" and "wf_heap h" and "ld p h = Some (v, F)"
  shows "\<exists>q k. into p h = Some (q, k) \<and>
    (\<forall>l. (\<forall>a\<ge>limit h. cells l a = cells k a) \<longrightarrow> map_option fst (ld q l) = Some v) \<and>
    (\<forall>l. (\<forall>a<limit h. cells l a = cells k a) \<longrightarrow> map_option fst (ld p l) = Some v)"
proof -
  have rd: "readable ld" using assms(1) by (simp add: layout_def)
  obtain q k where q: "into p h = Some (q, k)" "copied ld v h q k"
    using layout.copies [OF assms] by blast
  then have g: "extends h k" by (simp add: copied_def)
  have "map_option fst (ld p l) = Some v" if "\<forall>a<limit h. cells l a = cells k a" for l
  proof -
    have "agree F h l"
      using wf_dom [OF assms(2) readable.allocated [OF rd assms(3)]] that g
      by (auto simp: agree_def extends_def)
    then show ?thesis using readable.reads_local [OF rd assms(3)] by simp
  qed
  then show ?thesis
    using q copied_independent [OF rd q(2)] by blast
qed

end
