(* ===== verification/DeepCopies.thy ===== *)
theory DeepCopies
  imports V1alpha1 Memory
begin

text \<open>
  The generated deep copies (\<open>api/v1alpha1/zz_generated.deepcopy.go\<close>) on the heap of theory
  Memory. The record \<open>X_mem\<close> is the Go struct of the record \<open>X\<close> of theory V1alpha1 as it lies in
  memory: a pointer field is an address or nil, a slice field a window into a backing array, and
  a struct with no such field is the same in both. \<open>load_X\<close> reads the value a struct stands for,
  \<open>X_DeepCopyInto\<close> and \<open>X_DeepCopy\<close> are the generated functions. The functions of apimachinery
  that they call (\<open>ObjectMeta\<close>, \<open>ListMeta\<close> and \<open>Condition\<close>) are parameters, with the contract
  \<open>layout\<close> as the hypothesis. Storage for \<open>new\<close> and \<open>make\<close> is taken when the copy is complete,
  where Go takes it before: which addresses are new is not observable. A slice that is nil and
  one that is empty are the same value where theory V1alpha1 has a plain list.
\<close>

section \<open>The structs in memory\<close>

text \<open>\<open>metav1.ObjectMeta\<close> and \<open>metav1.ListMeta\<close>, with the fields that the operator uses.\<close>

record ObjectMeta =
  om_Namespace :: string
  om_Name :: string
  om_UID :: string
  om_Generation :: int
  om_CreationTimestamp :: int
  om_DeletionTimestamp :: "int option"
  om_Finalizers :: "string list"

record ObjectMeta_mem =
  m_om_Namespace :: string
  m_om_Name :: string
  m_om_UID :: string
  m_om_Generation :: int
  m_om_CreationTimestamp :: int
  m_om_DeletionTimestamp :: "addr option"
  m_om_Finalizers :: "slice option"

record ListMeta =
  lm_SelfLink :: string
  lm_ResourceVersion :: string
  lm_Continue :: string
  lm_RemainingItemCount :: "int option"

record ListMeta_mem =
  m_lm_SelfLink :: string
  m_lm_ResourceVersion :: string
  m_lm_Continue :: string
  m_lm_RemainingItemCount :: "addr option"

record TypeMeta =
  tm_Kind :: string
  tm_APIVersion :: string

record NamedReference_mem =
  m_ref_Name :: "addr option"
  m_ref_UUID :: "addr option"

record FlowReference_mem =
  m_flow_Slug :: "addr option"
  m_flow_UUID :: "addr option"

record UserReference_mem =
  m_user_Username :: "addr option"
  m_user_PK :: "addr option"

record ScopeMappingReference_mem =
  m_scope_ScopeName :: "addr option"
  m_scope_UUID :: "addr option"

record ProviderFlows_mem =
  m_flows_Authorization :: FlowReference_mem
  m_flows_Invalidation :: FlowReference_mem
  m_flows_Authentication :: "addr option"

record ProxyModeSpec_mem =
  m_proxymode_ExternalHost :: string
  m_proxymode_InternalHost :: string
  m_proxymode_InternalHostSSLValidation :: "addr option"

record ProxyProviderSpec_mem =
  m_proxy_Proxy :: "addr option"
  m_proxy_ForwardAuthSingle :: "addr option"
  m_proxy_ForwardAuthDomain :: "addr option"
  m_proxy_UnauthenticatedPaths :: "slice option"
  m_proxy_BasicAuth :: "addr option"
  m_proxy_InterceptHeaderAuth :: "addr option"
  m_proxy_AccessTokenValidity :: "addr option"
  m_proxy_RefreshTokenValidity :: "addr option"
  m_proxy_Certificate :: "addr option"
  m_proxy_Outpost :: "addr option"

record RedirectURISpec_mem =
  m_uri_URL :: string
  m_uri_MatchingMode :: "addr option"
  m_uri_Type :: "addr option"

record OAuth2CredentialsSecretReference_mem =
  m_secretref_Name :: string
  m_secretref_ClientIDKey :: "addr option"
  m_secretref_ClientSecretKey :: "addr option"

record OAuth2CredentialsSpec_mem =
  m_cred_ClientID :: "addr option"
  m_cred_SecretRef :: OAuth2CredentialsSecretReference_mem

record OAuth2ProviderSpec_mem =
  m_oauth2_ClientType :: "addr option"
  m_oauth2_RedirectURIs :: "slice option"
  m_oauth2_Scopes :: "slice option"
  m_oauth2_SigningKey :: "addr option"
  m_oauth2_EncryptionKey :: "addr option"
  m_oauth2_GrantTypes :: "slice option"
  m_oauth2_SubjectMode :: "addr option"
  m_oauth2_IssuerMode :: "addr option"
  m_oauth2_IncludeClaimsInIDToken :: "addr option"
  m_oauth2_AccessCodeValidity :: "addr option"
  m_oauth2_AccessTokenValidity :: "addr option"
  m_oauth2_RefreshTokenValidity :: "addr option"
  m_oauth2_RefreshTokenThreshold :: "addr option"
  m_oauth2_LogoutURI :: "addr option"
  m_oauth2_LogoutMethod :: "addr option"
  m_oauth2_Credentials :: "addr option"

record ProviderSpec_mem =
  m_provider_Name :: "addr option"
  m_provider_Flows :: ProviderFlows_mem
  m_provider_Proxy :: "addr option"
  m_provider_OAuth2 :: "addr option"

record AccessRule_mem =
  m_rule_Group :: "addr option"
  m_rule_User :: "addr option"
  m_rule_Policy :: "addr option"
  m_rule_Negate :: "addr option"

record AccessSpec_mem =
  m_access_Mode :: "addr option"
  m_access_Rules :: "slice option"
  m_access_Public :: "addr option"
  m_access_Prune :: "addr option"

record AuthentikApplicationSpec_mem =
  m_spec_Slug :: string
  m_spec_Name :: string
  m_spec_LaunchURL :: "addr option"
  m_spec_Icon :: "addr option"
  m_spec_Description :: "addr option"
  m_spec_Publisher :: "addr option"
  m_spec_Group :: "addr option"
  m_spec_OpenInNewTab :: "addr option"
  m_spec_HideFromApplicationDashboard :: "addr option"
  m_spec_DeletionPolicy :: "addr option"
  m_spec_Adopt :: "addr option"
  m_spec_Provider :: "addr option"
  m_spec_Access :: AccessSpec_mem

record AuthentikApplicationStatus_mem =
  m_status_ObservedGeneration :: int
  m_status_ApplicationSlug :: string
  m_status_ApplicationPK :: string
  m_status_ProviderPK :: "addr option"
  m_status_OutpostUUID :: string
  m_status_BindingUUIDs :: "slice option"
  m_status_LastAppliedHash :: string
  m_status_AdoptionDiff :: "slice option"
  m_status_UnmanagedBindings :: "slice option"
  m_status_Conditions :: "slice option"

record AuthentikApplication_mem =
  m_app_TypeMeta :: TypeMeta
  m_app_ObjectMeta :: ObjectMeta_mem
  m_app_Spec :: AuthentikApplicationSpec_mem
  m_app_Status :: AuthentikApplicationStatus_mem

record AuthentikApplicationList =
  list_ListMeta :: ListMeta
  list_Items :: "AuthentikApplication list option"

record AuthentikApplicationList_mem =
  m_list_TypeMeta :: TypeMeta
  m_list_ListMeta :: ListMeta_mem
  m_list_Items :: "slice option"

section \<open>Cells\<close>

text \<open>An allocated object: what \<open>new\<close> or \<open>make\<close> was called for.\<close>

datatype cell =
    StringCell string
  | BoolCell bool
  | Int64Cell int
  | TimeCell int
  | DeletionPolicyCell DeletionPolicy
  | AdoptionPolicyCell AdoptionPolicy
  | ClientTypeCell ClientType
  | SubjectModeCell SubjectMode
  | IssuerModeCell IssuerMode
  | LogoutMethodCell LogoutMethod
  | MatchingModeCell MatchingMode
  | RedirectURITypeCell RedirectURIType
  | AccessModeCell AccessMode
  | NamedReferenceCell NamedReference_mem
  | FlowReferenceCell FlowReference_mem
  | UserReferenceCell UserReference_mem
  | ScopeMappingReferenceCell ScopeMappingReference_mem
  | ProviderFlowsCell ProviderFlows_mem
  | ProxyModeSpecCell ProxyModeSpec_mem
  | ForwardAuthSingleSpecCell ForwardAuthSingleSpec
  | ForwardAuthDomainSpecCell ForwardAuthDomainSpec
  | BasicAuthSpecCell BasicAuthSpec
  | ProxyProviderSpecCell ProxyProviderSpec_mem
  | RedirectURISpecCell RedirectURISpec_mem
  | OAuth2CredentialsSecretReferenceCell OAuth2CredentialsSecretReference_mem
  | OAuth2CredentialsSpecCell OAuth2CredentialsSpec_mem
  | OAuth2ProviderSpecCell OAuth2ProviderSpec_mem
  | ProviderSpecCell ProviderSpec_mem
  | AccessRuleCell AccessRule_mem
  | AccessSpecCell AccessSpec_mem
  | AuthentikApplicationSpecCell AuthentikApplicationSpec_mem
  | FieldDiffCell FieldDiff
  | UnmanagedBindingCell UnmanagedBinding
  | AuthentikApplicationStatusCell AuthentikApplicationStatus_mem
  | AuthentikApplicationCell AuthentikApplication_mem
  | AuthentikApplicationListCell AuthentikApplicationList_mem
  | StringArray "string list"
  | RedirectURISpecArray "RedirectURISpec_mem list"
  | ScopeMappingReferenceArray "ScopeMappingReference_mem list"
  | GrantTypeArray "GrantType list"
  | AccessRuleArray "AccessRule_mem list"
  | FieldDiffArray "FieldDiff list"
  | UnmanagedBindingArray "UnmanagedBinding list"
  | ConditionArray "Condition list"
  | AuthentikApplicationArray "AuthentikApplication_mem list"

definition as_string :: "cell \<Rightarrow> string option" where
  "as_string c = (case c of StringCell x \<Rightarrow> Some x | _ \<Rightarrow> None)"

definition as_bool :: "cell \<Rightarrow> bool option" where
  "as_bool c = (case c of BoolCell x \<Rightarrow> Some x | _ \<Rightarrow> None)"

definition as_int64 :: "cell \<Rightarrow> int option" where
  "as_int64 c = (case c of Int64Cell x \<Rightarrow> Some x | _ \<Rightarrow> None)"

definition as_time :: "cell \<Rightarrow> int option" where
  "as_time c = (case c of TimeCell x \<Rightarrow> Some x | _ \<Rightarrow> None)"

definition as_DeletionPolicy :: "cell \<Rightarrow> DeletionPolicy option" where
  "as_DeletionPolicy c = (case c of DeletionPolicyCell x \<Rightarrow> Some x | _ \<Rightarrow> None)"

definition as_AdoptionPolicy :: "cell \<Rightarrow> AdoptionPolicy option" where
  "as_AdoptionPolicy c = (case c of AdoptionPolicyCell x \<Rightarrow> Some x | _ \<Rightarrow> None)"

definition as_ClientType :: "cell \<Rightarrow> ClientType option" where
  "as_ClientType c = (case c of ClientTypeCell x \<Rightarrow> Some x | _ \<Rightarrow> None)"

definition as_SubjectMode :: "cell \<Rightarrow> SubjectMode option" where
  "as_SubjectMode c = (case c of SubjectModeCell x \<Rightarrow> Some x | _ \<Rightarrow> None)"

definition as_IssuerMode :: "cell \<Rightarrow> IssuerMode option" where
  "as_IssuerMode c = (case c of IssuerModeCell x \<Rightarrow> Some x | _ \<Rightarrow> None)"

definition as_LogoutMethod :: "cell \<Rightarrow> LogoutMethod option" where
  "as_LogoutMethod c = (case c of LogoutMethodCell x \<Rightarrow> Some x | _ \<Rightarrow> None)"

definition as_MatchingMode :: "cell \<Rightarrow> MatchingMode option" where
  "as_MatchingMode c = (case c of MatchingModeCell x \<Rightarrow> Some x | _ \<Rightarrow> None)"

definition as_RedirectURIType :: "cell \<Rightarrow> RedirectURIType option" where
  "as_RedirectURIType c = (case c of RedirectURITypeCell x \<Rightarrow> Some x | _ \<Rightarrow> None)"

definition as_AccessMode :: "cell \<Rightarrow> AccessMode option" where
  "as_AccessMode c = (case c of AccessModeCell x \<Rightarrow> Some x | _ \<Rightarrow> None)"

definition as_NamedReference :: "cell \<Rightarrow> NamedReference_mem option" where
  "as_NamedReference c = (case c of NamedReferenceCell x \<Rightarrow> Some x | _ \<Rightarrow> None)"

definition as_FlowReference :: "cell \<Rightarrow> FlowReference_mem option" where
  "as_FlowReference c = (case c of FlowReferenceCell x \<Rightarrow> Some x | _ \<Rightarrow> None)"

definition as_UserReference :: "cell \<Rightarrow> UserReference_mem option" where
  "as_UserReference c = (case c of UserReferenceCell x \<Rightarrow> Some x | _ \<Rightarrow> None)"

definition as_ScopeMappingReference :: "cell \<Rightarrow> ScopeMappingReference_mem option" where
  "as_ScopeMappingReference c = (case c of ScopeMappingReferenceCell x \<Rightarrow> Some x | _ \<Rightarrow> None)"

definition as_ProviderFlows :: "cell \<Rightarrow> ProviderFlows_mem option" where
  "as_ProviderFlows c = (case c of ProviderFlowsCell x \<Rightarrow> Some x | _ \<Rightarrow> None)"

definition as_ProxyModeSpec :: "cell \<Rightarrow> ProxyModeSpec_mem option" where
  "as_ProxyModeSpec c = (case c of ProxyModeSpecCell x \<Rightarrow> Some x | _ \<Rightarrow> None)"

definition as_ForwardAuthSingleSpec :: "cell \<Rightarrow> ForwardAuthSingleSpec option" where
  "as_ForwardAuthSingleSpec c = (case c of ForwardAuthSingleSpecCell x \<Rightarrow> Some x | _ \<Rightarrow> None)"

definition as_ForwardAuthDomainSpec :: "cell \<Rightarrow> ForwardAuthDomainSpec option" where
  "as_ForwardAuthDomainSpec c = (case c of ForwardAuthDomainSpecCell x \<Rightarrow> Some x | _ \<Rightarrow> None)"

definition as_BasicAuthSpec :: "cell \<Rightarrow> BasicAuthSpec option" where
  "as_BasicAuthSpec c = (case c of BasicAuthSpecCell x \<Rightarrow> Some x | _ \<Rightarrow> None)"

definition as_ProxyProviderSpec :: "cell \<Rightarrow> ProxyProviderSpec_mem option" where
  "as_ProxyProviderSpec c = (case c of ProxyProviderSpecCell x \<Rightarrow> Some x | _ \<Rightarrow> None)"

definition as_RedirectURISpec :: "cell \<Rightarrow> RedirectURISpec_mem option" where
  "as_RedirectURISpec c = (case c of RedirectURISpecCell x \<Rightarrow> Some x | _ \<Rightarrow> None)"

definition as_OAuth2CredentialsSecretReference :: "cell \<Rightarrow> OAuth2CredentialsSecretReference_mem option"
  where
  "as_OAuth2CredentialsSecretReference c =
     (case c of OAuth2CredentialsSecretReferenceCell x \<Rightarrow> Some x | _ \<Rightarrow> None)"

definition as_OAuth2CredentialsSpec :: "cell \<Rightarrow> OAuth2CredentialsSpec_mem option" where
  "as_OAuth2CredentialsSpec c = (case c of OAuth2CredentialsSpecCell x \<Rightarrow> Some x | _ \<Rightarrow> None)"

definition as_OAuth2ProviderSpec :: "cell \<Rightarrow> OAuth2ProviderSpec_mem option" where
  "as_OAuth2ProviderSpec c = (case c of OAuth2ProviderSpecCell x \<Rightarrow> Some x | _ \<Rightarrow> None)"

definition as_ProviderSpec :: "cell \<Rightarrow> ProviderSpec_mem option" where
  "as_ProviderSpec c = (case c of ProviderSpecCell x \<Rightarrow> Some x | _ \<Rightarrow> None)"

definition as_AccessRule :: "cell \<Rightarrow> AccessRule_mem option" where
  "as_AccessRule c = (case c of AccessRuleCell x \<Rightarrow> Some x | _ \<Rightarrow> None)"

definition as_AccessSpec :: "cell \<Rightarrow> AccessSpec_mem option" where
  "as_AccessSpec c = (case c of AccessSpecCell x \<Rightarrow> Some x | _ \<Rightarrow> None)"

definition as_AuthentikApplicationSpec :: "cell \<Rightarrow> AuthentikApplicationSpec_mem option" where
  "as_AuthentikApplicationSpec c =
     (case c of AuthentikApplicationSpecCell x \<Rightarrow> Some x | _ \<Rightarrow> None)"

definition as_FieldDiff :: "cell \<Rightarrow> FieldDiff option" where
  "as_FieldDiff c = (case c of FieldDiffCell x \<Rightarrow> Some x | _ \<Rightarrow> None)"

definition as_UnmanagedBinding :: "cell \<Rightarrow> UnmanagedBinding option" where
  "as_UnmanagedBinding c = (case c of UnmanagedBindingCell x \<Rightarrow> Some x | _ \<Rightarrow> None)"

definition as_AuthentikApplicationStatus :: "cell \<Rightarrow> AuthentikApplicationStatus_mem option"
  where
  "as_AuthentikApplicationStatus c =
     (case c of AuthentikApplicationStatusCell x \<Rightarrow> Some x | _ \<Rightarrow> None)"

definition as_AuthentikApplication :: "cell \<Rightarrow> AuthentikApplication_mem option" where
  "as_AuthentikApplication c = (case c of AuthentikApplicationCell x \<Rightarrow> Some x | _ \<Rightarrow> None)"

definition as_AuthentikApplicationList :: "cell \<Rightarrow> AuthentikApplicationList_mem option" where
  "as_AuthentikApplicationList c =
     (case c of AuthentikApplicationListCell x \<Rightarrow> Some x | _ \<Rightarrow> None)"

definition as_strings :: "cell \<Rightarrow> string list option" where
  "as_strings c = (case c of StringArray x \<Rightarrow> Some x | _ \<Rightarrow> None)"

definition as_RedirectURISpecs :: "cell \<Rightarrow> RedirectURISpec_mem list option" where
  "as_RedirectURISpecs c = (case c of RedirectURISpecArray x \<Rightarrow> Some x | _ \<Rightarrow> None)"

definition as_ScopeMappingReferences :: "cell \<Rightarrow> ScopeMappingReference_mem list option" where
  "as_ScopeMappingReferences c =
     (case c of ScopeMappingReferenceArray x \<Rightarrow> Some x | _ \<Rightarrow> None)"

definition as_GrantTypes :: "cell \<Rightarrow> GrantType list option" where
  "as_GrantTypes c = (case c of GrantTypeArray x \<Rightarrow> Some x | _ \<Rightarrow> None)"

definition as_AccessRules :: "cell \<Rightarrow> AccessRule_mem list option" where
  "as_AccessRules c = (case c of AccessRuleArray x \<Rightarrow> Some x | _ \<Rightarrow> None)"

definition as_FieldDiffs :: "cell \<Rightarrow> FieldDiff list option" where
  "as_FieldDiffs c = (case c of FieldDiffArray x \<Rightarrow> Some x | _ \<Rightarrow> None)"

definition as_UnmanagedBindings :: "cell \<Rightarrow> UnmanagedBinding list option" where
  "as_UnmanagedBindings c = (case c of UnmanagedBindingArray x \<Rightarrow> Some x | _ \<Rightarrow> None)"

definition as_Conditions :: "cell \<Rightarrow> Condition list option" where
  "as_Conditions c = (case c of ConditionArray x \<Rightarrow> Some x | _ \<Rightarrow> None)"

definition as_AuthentikApplications :: "cell \<Rightarrow> AuthentikApplication_mem list option" where
  "as_AuthentikApplications c = (case c of AuthentikApplicationArray x \<Rightarrow> Some x | _ \<Rightarrow> None)"


section \<open>The value a struct stands for\<close>

definition assign :: "(('x \<Rightarrow> 'x) \<Rightarrow> 'v \<Rightarrow> 'v) \<Rightarrow> 'x \<Rightarrow> 'v \<Rightarrow> 'v" where
  "assign upd x = upd (\<lambda>_. x)"

definition elements :: "'a list option \<Rightarrow> 'a list" where
  "elements xs = (case xs of None \<Rightarrow> [] | Some ys \<Rightarrow> ys)"

text \<open>The zero values of the structs that are nested in others.\<close>

definition zero_FlowReference :: FlowReference where
  "zero_FlowReference = \<lparr>
     flow_Slug = None, flow_UUID = None\<rparr>"

definition zero_ProviderFlows :: ProviderFlows where
  "zero_ProviderFlows = \<lparr>
     flows_Authorization = zero_FlowReference, flows_Invalidation = zero_FlowReference,
     flows_Authentication = None\<rparr>"

definition zero_OAuth2CredentialsSecretReference :: OAuth2CredentialsSecretReference where
  "zero_OAuth2CredentialsSecretReference = \<lparr>
     secretref_Name = [], secretref_ClientIDKey = None, secretref_ClientSecretKey = None\<rparr>"

definition zero_AccessSpec :: AccessSpec where
  "zero_AccessSpec = \<lparr>
     access_Mode = None, access_Rules = [], access_Public = None, access_Prune = None\<rparr>"

definition zero_AuthentikApplicationSpec :: AuthentikApplicationSpec where
  "zero_AuthentikApplicationSpec = \<lparr>
     spec_Slug = [], spec_Name = [], spec_LaunchURL = None, spec_Icon = None,
     spec_Description = None, spec_Publisher = None, spec_Group = None,
     spec_OpenInNewTab = None, spec_HideFromApplicationDashboard = None,
     spec_DeletionPolicy = None, spec_Adopt = None, spec_Provider = None,
     spec_Access = zero_AccessSpec\<rparr>"

definition zero_AuthentikApplicationStatus :: AuthentikApplicationStatus where
  "zero_AuthentikApplicationStatus = \<lparr>
     status_ObservedGeneration = 0, status_ApplicationSlug = [], status_ApplicationPK = [],
     status_ProviderPK = None, status_OutpostUUID = [], status_BindingUUIDs = [],
     status_LastAppliedHash = [], status_AdoptionDiff = [], status_UnmanagedBindings = [],
     status_Conditions = []\<rparr>"

lemmas zero_defs =
  zero_FlowReference_def zero_OAuth2CredentialsSecretReference_def zero_ProviderFlows_def
  zero_AccessSpec_def zero_AuthentikApplicationSpec_def zero_AuthentikApplicationStatus_def

definition load_ObjectMeta :: "(cell, ObjectMeta_mem, ObjectMeta) reader" where
  "load_ObjectMeta = load_struct
    (\<lambda>s. \<lparr>
       om_Namespace = m_om_Namespace s, om_Name = m_om_Name s, om_UID = m_om_UID s,
       om_Generation = m_om_Generation s, om_CreationTimestamp = m_om_CreationTimestamp s,
       om_DeletionTimestamp = None, om_Finalizers = []\<rparr>)
    [read_field (assign om_DeletionTimestamp_update) (load_ptr as_time load_plain) m_om_DeletionTimestamp,
     read_field (\<lambda>x. om_Finalizers_update (\<lambda>_. elements x))
       (load_slice as_strings load_plain) m_om_Finalizers]"

definition load_ListMeta :: "(cell, ListMeta_mem, ListMeta) reader" where
  "load_ListMeta = load_struct
    (\<lambda>s. \<lparr>
       lm_SelfLink = m_lm_SelfLink s, lm_ResourceVersion = m_lm_ResourceVersion s,
       lm_Continue = m_lm_Continue s, lm_RemainingItemCount = None\<rparr>)
    [read_field (assign lm_RemainingItemCount_update)
       (load_ptr as_int64 load_plain) m_lm_RemainingItemCount]"

definition load_NamedReference :: "(cell, NamedReference_mem, NamedReference) reader" where
  "load_NamedReference = load_struct
    (\<lambda>s. \<lparr>
       ref_Name = None, ref_UUID = None\<rparr>)
    [read_field (assign ref_Name_update) (load_ptr as_string load_plain) m_ref_Name,
     read_field (assign ref_UUID_update) (load_ptr as_string load_plain) m_ref_UUID]"

definition load_FlowReference :: "(cell, FlowReference_mem, FlowReference) reader" where
  "load_FlowReference = load_struct
    (\<lambda>s. \<lparr>
       flow_Slug = None, flow_UUID = None\<rparr>)
    [read_field (assign flow_Slug_update) (load_ptr as_string load_plain) m_flow_Slug,
     read_field (assign flow_UUID_update) (load_ptr as_string load_plain) m_flow_UUID]"

definition load_UserReference :: "(cell, UserReference_mem, UserReference) reader" where
  "load_UserReference = load_struct
    (\<lambda>s. \<lparr>
       user_Username = None, user_PK = None\<rparr>)
    [read_field (assign user_Username_update) (load_ptr as_string load_plain) m_user_Username,
     read_field (assign user_PK_update) (load_ptr as_int64 load_plain) m_user_PK]"

definition load_ScopeMappingReference :: "(cell, ScopeMappingReference_mem, ScopeMappingReference) reader" where
  "load_ScopeMappingReference = load_struct
    (\<lambda>s. \<lparr>
       scope_ScopeName = None, scope_UUID = None\<rparr>)
    [read_field (assign scope_ScopeName_update) (load_ptr as_string load_plain) m_scope_ScopeName,
     read_field (assign scope_UUID_update) (load_ptr as_string load_plain) m_scope_UUID]"

definition load_ProviderFlows :: "(cell, ProviderFlows_mem, ProviderFlows) reader" where
  "load_ProviderFlows = load_struct
    (\<lambda>s. \<lparr>
       flows_Authorization = zero_FlowReference, flows_Invalidation = zero_FlowReference,
       flows_Authentication = None\<rparr>)
    [read_field (assign flows_Authorization_update) load_FlowReference m_flows_Authorization,
     read_field (assign flows_Invalidation_update) load_FlowReference m_flows_Invalidation,
     read_field (assign flows_Authentication_update)
       (load_ptr as_FlowReference load_FlowReference) m_flows_Authentication]"

definition load_ProxyModeSpec :: "(cell, ProxyModeSpec_mem, ProxyModeSpec) reader" where
  "load_ProxyModeSpec = load_struct
    (\<lambda>s. \<lparr>
       proxymode_ExternalHost = m_proxymode_ExternalHost s,
       proxymode_InternalHost = m_proxymode_InternalHost s,
       proxymode_InternalHostSSLValidation = None\<rparr>)
    [read_field (assign proxymode_InternalHostSSLValidation_update)
       (load_ptr as_bool load_plain) m_proxymode_InternalHostSSLValidation]"

definition load_ProxyProviderSpec :: "(cell, ProxyProviderSpec_mem, ProxyProviderSpec) reader" where
  "load_ProxyProviderSpec = load_struct
    (\<lambda>s. \<lparr>
       proxy_Proxy = None, proxy_ForwardAuthSingle = None, proxy_ForwardAuthDomain = None,
       proxy_UnauthenticatedPaths = None, proxy_BasicAuth = None,
       proxy_InterceptHeaderAuth = None, proxy_AccessTokenValidity = None,
       proxy_RefreshTokenValidity = None, proxy_Certificate = None, proxy_Outpost = None\<rparr>)
    [read_field (assign proxy_Proxy_update) (load_ptr as_ProxyModeSpec load_ProxyModeSpec) m_proxy_Proxy,
     read_field (assign proxy_ForwardAuthSingle_update)
       (load_ptr as_ForwardAuthSingleSpec load_plain) m_proxy_ForwardAuthSingle,
     read_field (assign proxy_ForwardAuthDomain_update)
       (load_ptr as_ForwardAuthDomainSpec load_plain) m_proxy_ForwardAuthDomain,
     read_field (assign proxy_UnauthenticatedPaths_update)
       (load_slice as_strings load_plain) m_proxy_UnauthenticatedPaths,
     read_field (assign proxy_BasicAuth_update) (load_ptr as_BasicAuthSpec load_plain) m_proxy_BasicAuth,
     read_field (assign proxy_InterceptHeaderAuth_update)
       (load_ptr as_bool load_plain) m_proxy_InterceptHeaderAuth,
     read_field (assign proxy_AccessTokenValidity_update)
       (load_ptr as_string load_plain) m_proxy_AccessTokenValidity,
     read_field (assign proxy_RefreshTokenValidity_update)
       (load_ptr as_string load_plain) m_proxy_RefreshTokenValidity,
     read_field (assign proxy_Certificate_update)
       (load_ptr as_NamedReference load_NamedReference) m_proxy_Certificate,
     read_field (assign proxy_Outpost_update)
       (load_ptr as_NamedReference load_NamedReference) m_proxy_Outpost]"

definition load_RedirectURISpec :: "(cell, RedirectURISpec_mem, RedirectURISpec) reader" where
  "load_RedirectURISpec = load_struct
    (\<lambda>s. \<lparr>
       uri_URL = m_uri_URL s, uri_MatchingMode = None, uri_Type = None\<rparr>)
    [read_field (assign uri_MatchingMode_update) (load_ptr as_MatchingMode load_plain) m_uri_MatchingMode,
     read_field (assign uri_Type_update) (load_ptr as_RedirectURIType load_plain) m_uri_Type]"

definition load_OAuth2CredentialsSecretReference :: "(cell, OAuth2CredentialsSecretReference_mem, OAuth2CredentialsSecretReference) reader" where
  "load_OAuth2CredentialsSecretReference = load_struct
    (\<lambda>s. \<lparr>
       secretref_Name = m_secretref_Name s, secretref_ClientIDKey = None,
       secretref_ClientSecretKey = None\<rparr>)
    [read_field (assign secretref_ClientIDKey_update)
       (load_ptr as_string load_plain) m_secretref_ClientIDKey,
     read_field (assign secretref_ClientSecretKey_update)
       (load_ptr as_string load_plain) m_secretref_ClientSecretKey]"

definition load_OAuth2CredentialsSpec :: "(cell, OAuth2CredentialsSpec_mem, OAuth2CredentialsSpec) reader" where
  "load_OAuth2CredentialsSpec = load_struct
    (\<lambda>s. \<lparr>
       cred_ClientID = None, cred_SecretRef = zero_OAuth2CredentialsSecretReference\<rparr>)
    [read_field (assign cred_ClientID_update) (load_ptr as_string load_plain) m_cred_ClientID,
     read_field (assign cred_SecretRef_update) load_OAuth2CredentialsSecretReference m_cred_SecretRef]"

definition load_OAuth2ProviderSpec :: "(cell, OAuth2ProviderSpec_mem, OAuth2ProviderSpec) reader" where
  "load_OAuth2ProviderSpec = load_struct
    (\<lambda>s. \<lparr>
       oauth2_ClientType = None, oauth2_RedirectURIs = None, oauth2_Scopes = None,
       oauth2_SigningKey = None, oauth2_EncryptionKey = None, oauth2_GrantTypes = None,
       oauth2_SubjectMode = None, oauth2_IssuerMode = None,
       oauth2_IncludeClaimsInIDToken = None, oauth2_AccessCodeValidity = None,
       oauth2_AccessTokenValidity = None, oauth2_RefreshTokenValidity = None,
       oauth2_RefreshTokenThreshold = None, oauth2_LogoutURI = None,
       oauth2_LogoutMethod = None, oauth2_Credentials = None\<rparr>)
    [read_field (assign oauth2_ClientType_update) (load_ptr as_ClientType load_plain) m_oauth2_ClientType,
     read_field (assign oauth2_RedirectURIs_update)
       (load_slice as_RedirectURISpecs load_RedirectURISpec) m_oauth2_RedirectURIs,
     read_field (assign oauth2_Scopes_update)
       (load_slice as_ScopeMappingReferences load_ScopeMappingReference) m_oauth2_Scopes,
     read_field (assign oauth2_SigningKey_update)
       (load_ptr as_NamedReference load_NamedReference) m_oauth2_SigningKey,
     read_field (assign oauth2_EncryptionKey_update)
       (load_ptr as_NamedReference load_NamedReference) m_oauth2_EncryptionKey,
     read_field (assign oauth2_GrantTypes_update) (load_slice as_GrantTypes load_plain) m_oauth2_GrantTypes,
     read_field (assign oauth2_SubjectMode_update)
       (load_ptr as_SubjectMode load_plain) m_oauth2_SubjectMode,
     read_field (assign oauth2_IssuerMode_update) (load_ptr as_IssuerMode load_plain) m_oauth2_IssuerMode,
     read_field (assign oauth2_IncludeClaimsInIDToken_update)
       (load_ptr as_bool load_plain) m_oauth2_IncludeClaimsInIDToken,
     read_field (assign oauth2_AccessCodeValidity_update)
       (load_ptr as_string load_plain) m_oauth2_AccessCodeValidity,
     read_field (assign oauth2_AccessTokenValidity_update)
       (load_ptr as_string load_plain) m_oauth2_AccessTokenValidity,
     read_field (assign oauth2_RefreshTokenValidity_update)
       (load_ptr as_string load_plain) m_oauth2_RefreshTokenValidity,
     read_field (assign oauth2_RefreshTokenThreshold_update)
       (load_ptr as_string load_plain) m_oauth2_RefreshTokenThreshold,
     read_field (assign oauth2_LogoutURI_update) (load_ptr as_string load_plain) m_oauth2_LogoutURI,
     read_field (assign oauth2_LogoutMethod_update)
       (load_ptr as_LogoutMethod load_plain) m_oauth2_LogoutMethod,
     read_field (assign oauth2_Credentials_update)
       (load_ptr as_OAuth2CredentialsSpec load_OAuth2CredentialsSpec) m_oauth2_Credentials]"

definition load_ProviderSpec :: "(cell, ProviderSpec_mem, ProviderSpec) reader" where
  "load_ProviderSpec = load_struct
    (\<lambda>s. \<lparr>
       provider_Name = None, provider_Flows = zero_ProviderFlows, provider_Proxy = None,
       provider_OAuth2 = None\<rparr>)
    [read_field (assign provider_Name_update) (load_ptr as_string load_plain) m_provider_Name,
     read_field (assign provider_Flows_update) load_ProviderFlows m_provider_Flows,
     read_field (assign provider_Proxy_update)
       (load_ptr as_ProxyProviderSpec load_ProxyProviderSpec) m_provider_Proxy,
     read_field (assign provider_OAuth2_update)
       (load_ptr as_OAuth2ProviderSpec load_OAuth2ProviderSpec) m_provider_OAuth2]"

definition load_AccessRule :: "(cell, AccessRule_mem, AccessRule) reader" where
  "load_AccessRule = load_struct
    (\<lambda>s. \<lparr>
       rule_Group = None, rule_User = None, rule_Policy = None, rule_Negate = None\<rparr>)
    [read_field (assign rule_Group_update) (load_ptr as_NamedReference load_NamedReference) m_rule_Group,
     read_field (assign rule_User_update) (load_ptr as_UserReference load_UserReference) m_rule_User,
     read_field (assign rule_Policy_update) (load_ptr as_NamedReference load_NamedReference) m_rule_Policy,
     read_field (assign rule_Negate_update) (load_ptr as_bool load_plain) m_rule_Negate]"

definition load_AccessSpec :: "(cell, AccessSpec_mem, AccessSpec) reader" where
  "load_AccessSpec = load_struct
    (\<lambda>s. \<lparr>
       access_Mode = None, access_Rules = [], access_Public = None, access_Prune = None\<rparr>)
    [read_field (assign access_Mode_update) (load_ptr as_AccessMode load_plain) m_access_Mode,
     read_field (\<lambda>x. access_Rules_update (\<lambda>_. elements x))
       (load_slice as_AccessRules load_AccessRule) m_access_Rules,
     read_field (assign access_Public_update) (load_ptr as_bool load_plain) m_access_Public,
     read_field (assign access_Prune_update) (load_ptr as_bool load_plain) m_access_Prune]"

definition load_AuthentikApplicationSpec :: "(cell, AuthentikApplicationSpec_mem, AuthentikApplicationSpec) reader" where
  "load_AuthentikApplicationSpec = load_struct
    (\<lambda>s. \<lparr>
       spec_Slug = m_spec_Slug s, spec_Name = m_spec_Name s, spec_LaunchURL = None,
       spec_Icon = None, spec_Description = None, spec_Publisher = None, spec_Group = None,
       spec_OpenInNewTab = None, spec_HideFromApplicationDashboard = None,
       spec_DeletionPolicy = None, spec_Adopt = None, spec_Provider = None,
       spec_Access = zero_AccessSpec\<rparr>)
    [read_field (assign spec_LaunchURL_update) (load_ptr as_string load_plain) m_spec_LaunchURL,
     read_field (assign spec_Icon_update) (load_ptr as_string load_plain) m_spec_Icon,
     read_field (assign spec_Description_update) (load_ptr as_string load_plain) m_spec_Description,
     read_field (assign spec_Publisher_update) (load_ptr as_string load_plain) m_spec_Publisher,
     read_field (assign spec_Group_update) (load_ptr as_string load_plain) m_spec_Group,
     read_field (assign spec_OpenInNewTab_update) (load_ptr as_bool load_plain) m_spec_OpenInNewTab,
     read_field (assign spec_HideFromApplicationDashboard_update)
       (load_ptr as_bool load_plain) m_spec_HideFromApplicationDashboard,
     read_field (assign spec_DeletionPolicy_update)
       (load_ptr as_DeletionPolicy load_plain) m_spec_DeletionPolicy,
     read_field (assign spec_Adopt_update) (load_ptr as_AdoptionPolicy load_plain) m_spec_Adopt,
     read_field (assign spec_Provider_update) (load_ptr as_ProviderSpec load_ProviderSpec) m_spec_Provider,
     read_field (assign spec_Access_update) load_AccessSpec m_spec_Access]"

definition load_AuthentikApplicationStatus :: "(cell, AuthentikApplicationStatus_mem, AuthentikApplicationStatus) reader" where
  "load_AuthentikApplicationStatus = load_struct
    (\<lambda>s. \<lparr>
       status_ObservedGeneration = m_status_ObservedGeneration s,
       status_ApplicationSlug = m_status_ApplicationSlug s,
       status_ApplicationPK = m_status_ApplicationPK s, status_ProviderPK = None,
       status_OutpostUUID = m_status_OutpostUUID s, status_BindingUUIDs = [],
       status_LastAppliedHash = m_status_LastAppliedHash s, status_AdoptionDiff = [],
       status_UnmanagedBindings = [], status_Conditions = []\<rparr>)
    [read_field (assign status_ProviderPK_update) (load_ptr as_int64 load_plain) m_status_ProviderPK,
     read_field (\<lambda>x. status_BindingUUIDs_update (\<lambda>_. elements x))
       (load_slice as_strings load_plain) m_status_BindingUUIDs,
     read_field (\<lambda>x. status_AdoptionDiff_update (\<lambda>_. elements x))
       (load_slice as_FieldDiffs load_plain) m_status_AdoptionDiff,
     read_field (\<lambda>x. status_UnmanagedBindings_update (\<lambda>_. elements x))
       (load_slice as_UnmanagedBindings load_plain) m_status_UnmanagedBindings,
     read_field (\<lambda>x. status_Conditions_update (\<lambda>_. elements x))
       (load_slice as_Conditions load_plain) m_status_Conditions]"

definition load_AuthentikApplication :: "(cell, AuthentikApplication_mem, AuthentikApplication) reader"
  where
  "load_AuthentikApplication = load_struct
    (\<lambda>s. \<lparr>
       meta_Namespace = [], meta_Name = [], meta_UID = [], meta_Generation = 0,
       meta_CreationTimestamp = 0, meta_DeletionTimestamp = None, meta_Finalizers = [],
       app_Spec = zero_AuthentikApplicationSpec, app_Status = zero_AuthentikApplicationStatus\<rparr>)
    [read_field (\<lambda>_ v. v) load_plain m_app_TypeMeta,
     read_field
       (\<lambda>m v. v\<lparr>meta_Namespace := om_Namespace m, meta_Name := om_Name m, meta_UID := om_UID m,
          meta_Generation := om_Generation m, meta_CreationTimestamp := om_CreationTimestamp m,
          meta_DeletionTimestamp := om_DeletionTimestamp m, meta_Finalizers := om_Finalizers m\<rparr>)
       load_ObjectMeta m_app_ObjectMeta,
     read_field (assign app_Spec_update) load_AuthentikApplicationSpec m_app_Spec,
     read_field (assign app_Status_update) load_AuthentikApplicationStatus m_app_Status]"

definition load_AuthentikApplicationList ::
    "(cell, AuthentikApplicationList_mem, AuthentikApplicationList) reader" where
  "load_AuthentikApplicationList = load_struct
    (\<lambda>s. \<lparr>list_ListMeta = \<lparr>lm_SelfLink = [], lm_ResourceVersion = [], lm_Continue = [],
       lm_RemainingItemCount = None\<rparr>, list_Items = None\<rparr>)
    [read_field (\<lambda>_ v. v) load_plain m_list_TypeMeta,
     read_field (assign list_ListMeta_update) load_ListMeta m_list_ListMeta,
     read_field (assign list_Items_update)
       (load_slice as_AuthentikApplications load_AuthentikApplication) m_list_Items]"

section \<open>The generated functions\<close>

text \<open>
  One definition per function, with the statements of the code in their order. \<open>*out = *in\<close> is
  part of \<open>copy_struct\<close>.
\<close>

definition NamedReference_DeepCopyInto :: "(cell, NamedReference_mem) copier" where
  "NamedReference_DeepCopyInto = copy_struct
    [copy_field m_ref_Name_update (copy_ptr as_string StringCell copy_plain) m_ref_Name,
     copy_field m_ref_UUID_update (copy_ptr as_string StringCell copy_plain) m_ref_UUID]"

definition NamedReference_DeepCopy :: "(cell, addr option) copier" where
  "NamedReference_DeepCopy = copy_ptr as_NamedReference NamedReferenceCell NamedReference_DeepCopyInto"

definition FlowReference_DeepCopyInto :: "(cell, FlowReference_mem) copier" where
  "FlowReference_DeepCopyInto = copy_struct
    [copy_field m_flow_Slug_update (copy_ptr as_string StringCell copy_plain) m_flow_Slug,
     copy_field m_flow_UUID_update (copy_ptr as_string StringCell copy_plain) m_flow_UUID]"

definition FlowReference_DeepCopy :: "(cell, addr option) copier" where
  "FlowReference_DeepCopy = copy_ptr as_FlowReference FlowReferenceCell FlowReference_DeepCopyInto"

definition UserReference_DeepCopyInto :: "(cell, UserReference_mem) copier" where
  "UserReference_DeepCopyInto = copy_struct
    [copy_field m_user_Username_update (copy_ptr as_string StringCell copy_plain) m_user_Username,
     copy_field m_user_PK_update (copy_ptr as_int64 Int64Cell copy_plain) m_user_PK]"

definition UserReference_DeepCopy :: "(cell, addr option) copier" where
  "UserReference_DeepCopy = copy_ptr as_UserReference UserReferenceCell UserReference_DeepCopyInto"

definition ScopeMappingReference_DeepCopyInto :: "(cell, ScopeMappingReference_mem) copier" where
  "ScopeMappingReference_DeepCopyInto = copy_struct
    [copy_field m_scope_ScopeName_update
       (copy_ptr as_string StringCell copy_plain) m_scope_ScopeName,
     copy_field m_scope_UUID_update (copy_ptr as_string StringCell copy_plain) m_scope_UUID]"

definition ScopeMappingReference_DeepCopy :: "(cell, addr option) copier" where
  "ScopeMappingReference_DeepCopy =
     copy_ptr as_ScopeMappingReference ScopeMappingReferenceCell ScopeMappingReference_DeepCopyInto"

definition ProviderFlows_DeepCopyInto :: "(cell, ProviderFlows_mem) copier" where
  "ProviderFlows_DeepCopyInto = copy_struct
    [copy_field m_flows_Authorization_update FlowReference_DeepCopyInto m_flows_Authorization,
     copy_field m_flows_Invalidation_update FlowReference_DeepCopyInto m_flows_Invalidation,
     copy_field m_flows_Authentication_update
       (copy_ptr as_FlowReference FlowReferenceCell FlowReference_DeepCopyInto) m_flows_Authentication]"

definition ProviderFlows_DeepCopy :: "(cell, addr option) copier" where
  "ProviderFlows_DeepCopy = copy_ptr as_ProviderFlows ProviderFlowsCell ProviderFlows_DeepCopyInto"

definition ProxyModeSpec_DeepCopyInto :: "(cell, ProxyModeSpec_mem) copier" where
  "ProxyModeSpec_DeepCopyInto = copy_struct
    [copy_field m_proxymode_InternalHostSSLValidation_update
       (copy_ptr as_bool BoolCell copy_plain) m_proxymode_InternalHostSSLValidation]"

definition ProxyModeSpec_DeepCopy :: "(cell, addr option) copier" where
  "ProxyModeSpec_DeepCopy = copy_ptr as_ProxyModeSpec ProxyModeSpecCell ProxyModeSpec_DeepCopyInto"

definition ForwardAuthSingleSpec_DeepCopyInto :: "(cell, ForwardAuthSingleSpec) copier" where
  "ForwardAuthSingleSpec_DeepCopyInto = copy_struct []"

definition ForwardAuthSingleSpec_DeepCopy :: "(cell, addr option) copier" where
  "ForwardAuthSingleSpec_DeepCopy =
     copy_ptr as_ForwardAuthSingleSpec ForwardAuthSingleSpecCell ForwardAuthSingleSpec_DeepCopyInto"

definition ForwardAuthDomainSpec_DeepCopyInto :: "(cell, ForwardAuthDomainSpec) copier" where
  "ForwardAuthDomainSpec_DeepCopyInto = copy_struct []"

definition ForwardAuthDomainSpec_DeepCopy :: "(cell, addr option) copier" where
  "ForwardAuthDomainSpec_DeepCopy =
     copy_ptr as_ForwardAuthDomainSpec ForwardAuthDomainSpecCell ForwardAuthDomainSpec_DeepCopyInto"

definition BasicAuthSpec_DeepCopyInto :: "(cell, BasicAuthSpec) copier" where
  "BasicAuthSpec_DeepCopyInto = copy_struct []"

definition BasicAuthSpec_DeepCopy :: "(cell, addr option) copier" where
  "BasicAuthSpec_DeepCopy = copy_ptr as_BasicAuthSpec BasicAuthSpecCell BasicAuthSpec_DeepCopyInto"

definition ProxyProviderSpec_DeepCopyInto :: "(cell, ProxyProviderSpec_mem) copier" where
  "ProxyProviderSpec_DeepCopyInto = copy_struct
    [copy_field m_proxy_Proxy_update
       (copy_ptr as_ProxyModeSpec ProxyModeSpecCell ProxyModeSpec_DeepCopyInto) m_proxy_Proxy,
     copy_field m_proxy_ForwardAuthSingle_update
       (copy_ptr as_ForwardAuthSingleSpec ForwardAuthSingleSpecCell copy_plain) m_proxy_ForwardAuthSingle,
     copy_field m_proxy_ForwardAuthDomain_update
       (copy_ptr as_ForwardAuthDomainSpec ForwardAuthDomainSpecCell copy_plain) m_proxy_ForwardAuthDomain,
     copy_field m_proxy_UnauthenticatedPaths_update
       (copy_slice as_strings StringArray copy_plain) m_proxy_UnauthenticatedPaths,
     copy_field m_proxy_BasicAuth_update
       (copy_ptr as_BasicAuthSpec BasicAuthSpecCell copy_plain) m_proxy_BasicAuth,
     copy_field m_proxy_InterceptHeaderAuth_update
       (copy_ptr as_bool BoolCell copy_plain) m_proxy_InterceptHeaderAuth,
     copy_field m_proxy_AccessTokenValidity_update
       (copy_ptr as_string StringCell copy_plain) m_proxy_AccessTokenValidity,
     copy_field m_proxy_RefreshTokenValidity_update
       (copy_ptr as_string StringCell copy_plain) m_proxy_RefreshTokenValidity,
     copy_field m_proxy_Certificate_update
       (copy_ptr as_NamedReference NamedReferenceCell NamedReference_DeepCopyInto) m_proxy_Certificate,
     copy_field m_proxy_Outpost_update
       (copy_ptr as_NamedReference NamedReferenceCell NamedReference_DeepCopyInto) m_proxy_Outpost]"

definition ProxyProviderSpec_DeepCopy :: "(cell, addr option) copier" where
  "ProxyProviderSpec_DeepCopy =
     copy_ptr as_ProxyProviderSpec ProxyProviderSpecCell ProxyProviderSpec_DeepCopyInto"

definition RedirectURISpec_DeepCopyInto :: "(cell, RedirectURISpec_mem) copier" where
  "RedirectURISpec_DeepCopyInto = copy_struct
    [copy_field m_uri_MatchingMode_update
       (copy_ptr as_MatchingMode MatchingModeCell copy_plain) m_uri_MatchingMode,
     copy_field m_uri_Type_update
       (copy_ptr as_RedirectURIType RedirectURITypeCell copy_plain) m_uri_Type]"

definition RedirectURISpec_DeepCopy :: "(cell, addr option) copier" where
  "RedirectURISpec_DeepCopy =
     copy_ptr as_RedirectURISpec RedirectURISpecCell RedirectURISpec_DeepCopyInto"

definition OAuth2CredentialsSecretReference_DeepCopyInto :: "(cell, OAuth2CredentialsSecretReference_mem) copier" where
  "OAuth2CredentialsSecretReference_DeepCopyInto = copy_struct
    [copy_field m_secretref_ClientIDKey_update
       (copy_ptr as_string StringCell copy_plain) m_secretref_ClientIDKey,
     copy_field m_secretref_ClientSecretKey_update
       (copy_ptr as_string StringCell copy_plain) m_secretref_ClientSecretKey]"

definition OAuth2CredentialsSecretReference_DeepCopy :: "(cell, addr option) copier" where
  "OAuth2CredentialsSecretReference_DeepCopy =
     copy_ptr as_OAuth2CredentialsSecretReference OAuth2CredentialsSecretReferenceCell OAuth2CredentialsSecretReference_DeepCopyInto"

definition OAuth2CredentialsSpec_DeepCopyInto :: "(cell, OAuth2CredentialsSpec_mem) copier" where
  "OAuth2CredentialsSpec_DeepCopyInto = copy_struct
    [copy_field m_cred_ClientID_update (copy_ptr as_string StringCell copy_plain) m_cred_ClientID,
     copy_field m_cred_SecretRef_update
       OAuth2CredentialsSecretReference_DeepCopyInto m_cred_SecretRef]"

definition OAuth2CredentialsSpec_DeepCopy :: "(cell, addr option) copier" where
  "OAuth2CredentialsSpec_DeepCopy =
     copy_ptr as_OAuth2CredentialsSpec OAuth2CredentialsSpecCell OAuth2CredentialsSpec_DeepCopyInto"

definition OAuth2ProviderSpec_DeepCopyInto :: "(cell, OAuth2ProviderSpec_mem) copier" where
  "OAuth2ProviderSpec_DeepCopyInto = copy_struct
    [copy_field m_oauth2_ClientType_update
       (copy_ptr as_ClientType ClientTypeCell copy_plain) m_oauth2_ClientType,
     copy_field m_oauth2_RedirectURIs_update
       (copy_slice as_RedirectURISpecs RedirectURISpecArray RedirectURISpec_DeepCopyInto) m_oauth2_RedirectURIs,
     copy_field m_oauth2_Scopes_update
       (copy_slice as_ScopeMappingReferences ScopeMappingReferenceArray ScopeMappingReference_DeepCopyInto) m_oauth2_Scopes,
     copy_field m_oauth2_SigningKey_update
       (copy_ptr as_NamedReference NamedReferenceCell NamedReference_DeepCopyInto) m_oauth2_SigningKey,
     copy_field m_oauth2_EncryptionKey_update
       (copy_ptr as_NamedReference NamedReferenceCell NamedReference_DeepCopyInto) m_oauth2_EncryptionKey,
     copy_field m_oauth2_GrantTypes_update
       (copy_slice as_GrantTypes GrantTypeArray copy_plain) m_oauth2_GrantTypes,
     copy_field m_oauth2_SubjectMode_update
       (copy_ptr as_SubjectMode SubjectModeCell copy_plain) m_oauth2_SubjectMode,
     copy_field m_oauth2_IssuerMode_update
       (copy_ptr as_IssuerMode IssuerModeCell copy_plain) m_oauth2_IssuerMode,
     copy_field m_oauth2_IncludeClaimsInIDToken_update
       (copy_ptr as_bool BoolCell copy_plain) m_oauth2_IncludeClaimsInIDToken,
     copy_field m_oauth2_AccessCodeValidity_update
       (copy_ptr as_string StringCell copy_plain) m_oauth2_AccessCodeValidity,
     copy_field m_oauth2_AccessTokenValidity_update
       (copy_ptr as_string StringCell copy_plain) m_oauth2_AccessTokenValidity,
     copy_field m_oauth2_RefreshTokenValidity_update
       (copy_ptr as_string StringCell copy_plain) m_oauth2_RefreshTokenValidity,
     copy_field m_oauth2_RefreshTokenThreshold_update
       (copy_ptr as_string StringCell copy_plain) m_oauth2_RefreshTokenThreshold,
     copy_field m_oauth2_LogoutURI_update
       (copy_ptr as_string StringCell copy_plain) m_oauth2_LogoutURI,
     copy_field m_oauth2_LogoutMethod_update
       (copy_ptr as_LogoutMethod LogoutMethodCell copy_plain) m_oauth2_LogoutMethod,
     copy_field m_oauth2_Credentials_update
       (copy_ptr as_OAuth2CredentialsSpec OAuth2CredentialsSpecCell OAuth2CredentialsSpec_DeepCopyInto) m_oauth2_Credentials]"

definition OAuth2ProviderSpec_DeepCopy :: "(cell, addr option) copier" where
  "OAuth2ProviderSpec_DeepCopy =
     copy_ptr as_OAuth2ProviderSpec OAuth2ProviderSpecCell OAuth2ProviderSpec_DeepCopyInto"

definition ProviderSpec_DeepCopyInto :: "(cell, ProviderSpec_mem) copier" where
  "ProviderSpec_DeepCopyInto = copy_struct
    [copy_field m_provider_Name_update (copy_ptr as_string StringCell copy_plain) m_provider_Name,
     copy_field m_provider_Flows_update ProviderFlows_DeepCopyInto m_provider_Flows,
     copy_field m_provider_Proxy_update
       (copy_ptr as_ProxyProviderSpec ProxyProviderSpecCell ProxyProviderSpec_DeepCopyInto) m_provider_Proxy,
     copy_field m_provider_OAuth2_update
       (copy_ptr as_OAuth2ProviderSpec OAuth2ProviderSpecCell OAuth2ProviderSpec_DeepCopyInto) m_provider_OAuth2]"

definition ProviderSpec_DeepCopy :: "(cell, addr option) copier" where
  "ProviderSpec_DeepCopy = copy_ptr as_ProviderSpec ProviderSpecCell ProviderSpec_DeepCopyInto"

definition AccessRule_DeepCopyInto :: "(cell, AccessRule_mem) copier" where
  "AccessRule_DeepCopyInto = copy_struct
    [copy_field m_rule_Group_update
       (copy_ptr as_NamedReference NamedReferenceCell NamedReference_DeepCopyInto) m_rule_Group,
     copy_field m_rule_User_update
       (copy_ptr as_UserReference UserReferenceCell UserReference_DeepCopyInto) m_rule_User,
     copy_field m_rule_Policy_update
       (copy_ptr as_NamedReference NamedReferenceCell NamedReference_DeepCopyInto) m_rule_Policy,
     copy_field m_rule_Negate_update (copy_ptr as_bool BoolCell copy_plain) m_rule_Negate]"

definition AccessRule_DeepCopy :: "(cell, addr option) copier" where
  "AccessRule_DeepCopy = copy_ptr as_AccessRule AccessRuleCell AccessRule_DeepCopyInto"

definition AccessSpec_DeepCopyInto :: "(cell, AccessSpec_mem) copier" where
  "AccessSpec_DeepCopyInto = copy_struct
    [copy_field m_access_Mode_update
       (copy_ptr as_AccessMode AccessModeCell copy_plain) m_access_Mode,
     copy_field m_access_Rules_update
       (copy_slice as_AccessRules AccessRuleArray AccessRule_DeepCopyInto) m_access_Rules,
     copy_field m_access_Public_update (copy_ptr as_bool BoolCell copy_plain) m_access_Public,
     copy_field m_access_Prune_update (copy_ptr as_bool BoolCell copy_plain) m_access_Prune]"

definition AccessSpec_DeepCopy :: "(cell, addr option) copier" where
  "AccessSpec_DeepCopy = copy_ptr as_AccessSpec AccessSpecCell AccessSpec_DeepCopyInto"

definition AuthentikApplicationSpec_DeepCopyInto :: "(cell, AuthentikApplicationSpec_mem) copier" where
  "AuthentikApplicationSpec_DeepCopyInto = copy_struct
    [copy_field m_spec_LaunchURL_update
       (copy_ptr as_string StringCell copy_plain) m_spec_LaunchURL,
     copy_field m_spec_Icon_update (copy_ptr as_string StringCell copy_plain) m_spec_Icon,
     copy_field m_spec_Description_update
       (copy_ptr as_string StringCell copy_plain) m_spec_Description,
     copy_field m_spec_Publisher_update
       (copy_ptr as_string StringCell copy_plain) m_spec_Publisher,
     copy_field m_spec_Group_update (copy_ptr as_string StringCell copy_plain) m_spec_Group,
     copy_field m_spec_OpenInNewTab_update
       (copy_ptr as_bool BoolCell copy_plain) m_spec_OpenInNewTab,
     copy_field m_spec_HideFromApplicationDashboard_update
       (copy_ptr as_bool BoolCell copy_plain) m_spec_HideFromApplicationDashboard,
     copy_field m_spec_DeletionPolicy_update
       (copy_ptr as_DeletionPolicy DeletionPolicyCell copy_plain) m_spec_DeletionPolicy,
     copy_field m_spec_Adopt_update
       (copy_ptr as_AdoptionPolicy AdoptionPolicyCell copy_plain) m_spec_Adopt,
     copy_field m_spec_Provider_update
       (copy_ptr as_ProviderSpec ProviderSpecCell ProviderSpec_DeepCopyInto) m_spec_Provider,
     copy_field m_spec_Access_update AccessSpec_DeepCopyInto m_spec_Access]"

definition AuthentikApplicationSpec_DeepCopy :: "(cell, addr option) copier" where
  "AuthentikApplicationSpec_DeepCopy =
     copy_ptr as_AuthentikApplicationSpec AuthentikApplicationSpecCell AuthentikApplicationSpec_DeepCopyInto"

definition FieldDiff_DeepCopyInto :: "(cell, FieldDiff) copier" where
  "FieldDiff_DeepCopyInto = copy_struct []"

definition FieldDiff_DeepCopy :: "(cell, addr option) copier" where
  "FieldDiff_DeepCopy = copy_ptr as_FieldDiff FieldDiffCell FieldDiff_DeepCopyInto"

definition UnmanagedBinding_DeepCopyInto :: "(cell, UnmanagedBinding) copier" where
  "UnmanagedBinding_DeepCopyInto = copy_struct []"

definition UnmanagedBinding_DeepCopy :: "(cell, addr option) copier" where
  "UnmanagedBinding_DeepCopy =
     copy_ptr as_UnmanagedBinding UnmanagedBindingCell UnmanagedBinding_DeepCopyInto"

definition AuthentikApplicationStatus_DeepCopyInto :: "(cell, Condition) copier \<Rightarrow> (cell, AuthentikApplicationStatus_mem) copier" where
  "AuthentikApplicationStatus_DeepCopyInto copyCondition = copy_struct
    [copy_field m_status_ProviderPK_update
       (copy_ptr as_int64 Int64Cell copy_plain) m_status_ProviderPK,
     copy_field m_status_BindingUUIDs_update
       (copy_slice as_strings StringArray copy_plain) m_status_BindingUUIDs,
     copy_field m_status_AdoptionDiff_update
       (copy_slice as_FieldDiffs FieldDiffArray copy_plain) m_status_AdoptionDiff,
     copy_field m_status_UnmanagedBindings_update
       (copy_slice as_UnmanagedBindings UnmanagedBindingArray copy_plain) m_status_UnmanagedBindings,
     copy_field m_status_Conditions_update
       (copy_slice as_Conditions ConditionArray copyCondition) m_status_Conditions]"

definition AuthentikApplicationStatus_DeepCopy :: "(cell, Condition) copier \<Rightarrow> (cell, addr option) copier" where
  "AuthentikApplicationStatus_DeepCopy copyCondition =
     copy_ptr as_AuthentikApplicationStatus AuthentikApplicationStatusCell (AuthentikApplicationStatus_DeepCopyInto copyCondition)"

definition AuthentikApplication_DeepCopyInto ::
    "(cell, ObjectMeta_mem) copier \<Rightarrow> (cell, Condition) copier \<Rightarrow> (cell, AuthentikApplication_mem) copier"
  where
  "AuthentikApplication_DeepCopyInto copyMeta copyCondition = copy_struct
    [copy_field m_app_TypeMeta_update copy_plain m_app_TypeMeta,
     copy_field m_app_ObjectMeta_update copyMeta m_app_ObjectMeta,
     copy_field m_app_Spec_update AuthentikApplicationSpec_DeepCopyInto m_app_Spec,
     copy_field m_app_Status_update (AuthentikApplicationStatus_DeepCopyInto copyCondition)
       m_app_Status]"

definition AuthentikApplication_DeepCopy ::
    "(cell, ObjectMeta_mem) copier \<Rightarrow> (cell, Condition) copier \<Rightarrow> (cell, addr option) copier" where
  "AuthentikApplication_DeepCopy copyMeta copyCondition =
     copy_ptr as_AuthentikApplication AuthentikApplicationCell
       (AuthentikApplication_DeepCopyInto copyMeta copyCondition)"

definition AuthentikApplicationList_DeepCopyInto ::
    "(cell, ListMeta_mem) copier \<Rightarrow> (cell, ObjectMeta_mem) copier \<Rightarrow> (cell, Condition) copier \<Rightarrow>
     (cell, AuthentikApplicationList_mem) copier" where
  "AuthentikApplicationList_DeepCopyInto copyListMeta copyMeta copyCondition = copy_struct
    [copy_field m_list_TypeMeta_update copy_plain m_list_TypeMeta,
     copy_field m_list_ListMeta_update copyListMeta m_list_ListMeta,
     copy_field m_list_Items_update
       (copy_slice as_AuthentikApplications AuthentikApplicationArray
          (AuthentikApplication_DeepCopyInto copyMeta copyCondition)) m_list_Items]"

definition AuthentikApplicationList_DeepCopy ::
    "(cell, ListMeta_mem) copier \<Rightarrow> (cell, ObjectMeta_mem) copier \<Rightarrow> (cell, Condition) copier \<Rightarrow>
     (cell, addr option) copier" where
  "AuthentikApplicationList_DeepCopy copyListMeta copyMeta copyCondition =
     copy_ptr as_AuthentikApplicationList AuthentikApplicationListCell
       (AuthentikApplicationList_DeepCopyInto copyListMeta copyMeta copyCondition)"

text \<open>A non-nil value of the interface \<open>runtime.Object\<close>: the type and the pointer.\<close>

datatype runtime_Object = ApplicationObject addr | ApplicationListObject addr

definition AuthentikApplication_DeepCopyObject ::
    "(cell, ObjectMeta_mem) copier \<Rightarrow> (cell, Condition) copier \<Rightarrow> addr option \<Rightarrow> cell heap \<Rightarrow>
     (runtime_Object option \<times> cell heap) option" where
  "AuthentikApplication_DeepCopyObject copyMeta copyCondition p h =
     map_option (\<lambda>(c, k). (case c of None \<Rightarrow> (None, k) | Some a \<Rightarrow> (Some (ApplicationObject a), k)))
       (AuthentikApplication_DeepCopy copyMeta copyCondition p h)"

definition AuthentikApplicationList_DeepCopyObject ::
    "(cell, ListMeta_mem) copier \<Rightarrow> (cell, ObjectMeta_mem) copier \<Rightarrow> (cell, Condition) copier \<Rightarrow>
     addr option \<Rightarrow> cell heap \<Rightarrow> (runtime_Object option \<times> cell heap) option" where
  "AuthentikApplicationList_DeepCopyObject copyListMeta copyMeta copyCondition p h =
     map_option (\<lambda>(c, k). (case c of None \<Rightarrow> (None, k) | Some a \<Rightarrow> (Some (ApplicationListObject a), k)))
       (AuthentikApplicationList_DeepCopy copyListMeta copyMeta copyCondition p h)"

section \<open>Every type keeps the contract\<close>

named_theorems layouts "the contracts proved so far"

lemmas fields_rules = mirrors_field spares_read spares_field

declare layout_plain [layouts]

interpretation string: boxed "load_plain :: (cell, string, string) reader" copy_plain
    as_string StringCell
  by (intro boxed.intro boxed_axioms.intro layouts) (simp add: as_string_def)

interpretation bool: boxed "load_plain :: (cell, bool, bool) reader" copy_plain as_bool BoolCell
  by (intro boxed.intro boxed_axioms.intro layouts) (simp add: as_bool_def)

interpretation int64: boxed "load_plain :: (cell, int, int) reader" copy_plain as_int64 Int64Cell
  by (intro boxed.intro boxed_axioms.intro layouts) (simp add: as_int64_def)

interpretation time: boxed "load_plain :: (cell, int, int) reader" copy_plain as_time TimeCell
  by (intro boxed.intro boxed_axioms.intro layouts) (simp add: as_time_def)

interpretation DeletionPolicy: boxed "load_plain :: (cell, DeletionPolicy, DeletionPolicy) reader" copy_plain
    as_DeletionPolicy DeletionPolicyCell
  by (intro boxed.intro boxed_axioms.intro layouts) (simp add: as_DeletionPolicy_def)

interpretation AdoptionPolicy: boxed "load_plain :: (cell, AdoptionPolicy, AdoptionPolicy) reader" copy_plain
    as_AdoptionPolicy AdoptionPolicyCell
  by (intro boxed.intro boxed_axioms.intro layouts) (simp add: as_AdoptionPolicy_def)

interpretation ClientType: boxed "load_plain :: (cell, ClientType, ClientType) reader" copy_plain
    as_ClientType ClientTypeCell
  by (intro boxed.intro boxed_axioms.intro layouts) (simp add: as_ClientType_def)

interpretation SubjectMode: boxed "load_plain :: (cell, SubjectMode, SubjectMode) reader" copy_plain
    as_SubjectMode SubjectModeCell
  by (intro boxed.intro boxed_axioms.intro layouts) (simp add: as_SubjectMode_def)

interpretation IssuerMode: boxed "load_plain :: (cell, IssuerMode, IssuerMode) reader" copy_plain
    as_IssuerMode IssuerModeCell
  by (intro boxed.intro boxed_axioms.intro layouts) (simp add: as_IssuerMode_def)

interpretation LogoutMethod: boxed "load_plain :: (cell, LogoutMethod, LogoutMethod) reader" copy_plain
    as_LogoutMethod LogoutMethodCell
  by (intro boxed.intro boxed_axioms.intro layouts) (simp add: as_LogoutMethod_def)

interpretation MatchingMode: boxed "load_plain :: (cell, MatchingMode, MatchingMode) reader" copy_plain
    as_MatchingMode MatchingModeCell
  by (intro boxed.intro boxed_axioms.intro layouts) (simp add: as_MatchingMode_def)

interpretation RedirectURIType: boxed "load_plain :: (cell, RedirectURIType, RedirectURIType) reader" copy_plain
    as_RedirectURIType RedirectURITypeCell
  by (intro boxed.intro boxed_axioms.intro layouts) (simp add: as_RedirectURIType_def)

interpretation AccessMode: boxed "load_plain :: (cell, AccessMode, AccessMode) reader" copy_plain
    as_AccessMode AccessModeCell
  by (intro boxed.intro boxed_axioms.intro layouts) (simp add: as_AccessMode_def)

interpretation strings: sliced "load_plain :: (cell, string, string) reader" copy_plain
    as_strings StringArray
  by (intro sliced.intro sliced_axioms.intro layouts) (simp add: as_strings_def)

interpretation GrantTypes: sliced "load_plain :: (cell, GrantType, GrantType) reader" copy_plain
    as_GrantTypes GrantTypeArray
  by (intro sliced.intro sliced_axioms.intro layouts) (simp add: as_GrantTypes_def)

interpretation FieldDiffs: sliced "load_plain :: (cell, FieldDiff, FieldDiff) reader" copy_plain
    as_FieldDiffs FieldDiffArray
  by (intro sliced.intro sliced_axioms.intro layouts) (simp add: as_FieldDiffs_def)

interpretation UnmanagedBindings: sliced "load_plain :: (cell, UnmanagedBinding, UnmanagedBinding) reader" copy_plain
    as_UnmanagedBindings UnmanagedBindingArray
  by (intro sliced.intro sliced_axioms.intro layouts) (simp add: as_UnmanagedBindings_def)

lemmas [layouts] = string.ptr.layout_axioms
  bool.ptr.layout_axioms
  int64.ptr.layout_axioms
  time.ptr.layout_axioms
  DeletionPolicy.ptr.layout_axioms
  AdoptionPolicy.ptr.layout_axioms
  ClientType.ptr.layout_axioms
  SubjectMode.ptr.layout_axioms
  IssuerMode.ptr.layout_axioms
  LogoutMethod.ptr.layout_axioms
  MatchingMode.ptr.layout_axioms
  RedirectURIType.ptr.layout_axioms
  AccessMode.ptr.layout_axioms
  strings.slice.layout_axioms
  GrantTypes.slice.layout_axioms
  FieldDiffs.slice.layout_axioms
  UnmanagedBindings.slice.layout_axioms

lemma layout_ForwardAuthSingleSpec: "layout load_plain ForwardAuthSingleSpec_DeepCopyInto"
  using layout_plain by (simp add: ForwardAuthSingleSpec_DeepCopyInto_def copy_struct_def [abs_def] copy_plain_def [abs_def])

interpretation ForwardAuthSingleSpec: boxed load_plain "copy_plain :: (cell, ForwardAuthSingleSpec) copier"
    as_ForwardAuthSingleSpec ForwardAuthSingleSpecCell
  by (intro boxed.intro boxed_axioms.intro layouts) (simp add: as_ForwardAuthSingleSpec_def)

lemma layout_ForwardAuthDomainSpec: "layout load_plain ForwardAuthDomainSpec_DeepCopyInto"
  using layout_plain by (simp add: ForwardAuthDomainSpec_DeepCopyInto_def copy_struct_def [abs_def] copy_plain_def [abs_def])

interpretation ForwardAuthDomainSpec: boxed load_plain "copy_plain :: (cell, ForwardAuthDomainSpec) copier"
    as_ForwardAuthDomainSpec ForwardAuthDomainSpecCell
  by (intro boxed.intro boxed_axioms.intro layouts) (simp add: as_ForwardAuthDomainSpec_def)

lemma layout_BasicAuthSpec: "layout load_plain BasicAuthSpec_DeepCopyInto"
  using layout_plain by (simp add: BasicAuthSpec_DeepCopyInto_def copy_struct_def [abs_def] copy_plain_def [abs_def])

interpretation BasicAuthSpec: boxed load_plain "copy_plain :: (cell, BasicAuthSpec) copier"
    as_BasicAuthSpec BasicAuthSpecCell
  by (intro boxed.intro boxed_axioms.intro layouts) (simp add: as_BasicAuthSpec_def)

lemma layout_FieldDiff: "layout load_plain FieldDiff_DeepCopyInto"
  using layout_plain by (simp add: FieldDiff_DeepCopyInto_def copy_struct_def [abs_def] copy_plain_def [abs_def])

interpretation FieldDiff: boxed load_plain "copy_plain :: (cell, FieldDiff) copier"
    as_FieldDiff FieldDiffCell
  by (intro boxed.intro boxed_axioms.intro layouts) (simp add: as_FieldDiff_def)

lemma layout_UnmanagedBinding: "layout load_plain UnmanagedBinding_DeepCopyInto"
  using layout_plain by (simp add: UnmanagedBinding_DeepCopyInto_def copy_struct_def [abs_def] copy_plain_def [abs_def])

interpretation UnmanagedBinding: boxed load_plain "copy_plain :: (cell, UnmanagedBinding) copier"
    as_UnmanagedBinding UnmanagedBindingCell
  by (intro boxed.intro boxed_axioms.intro layouts) (simp add: as_UnmanagedBinding_def)

lemmas [layouts] =
  ForwardAuthSingleSpec.ptr.layout_axioms ForwardAuthDomainSpec.ptr.layout_axioms
  BasicAuthSpec.ptr.layout_axioms FieldDiff.ptr.layout_axioms UnmanagedBinding.ptr.layout_axioms

lemma layout_NamedReference [layouts]: "layout load_NamedReference NamedReference_DeepCopyInto"
  unfolding load_NamedReference_def NamedReference_DeepCopyInto_def
  by (rule layout_struct) (simp_all add: fields_rules layouts)

interpretation NamedReference: boxed load_NamedReference NamedReference_DeepCopyInto
    as_NamedReference NamedReferenceCell
  by (intro boxed.intro boxed_axioms.intro layouts) (simp add: as_NamedReference_def)

lemmas [layouts] = NamedReference.ptr.layout_axioms

lemma layout_FlowReference [layouts]: "layout load_FlowReference FlowReference_DeepCopyInto"
  unfolding load_FlowReference_def FlowReference_DeepCopyInto_def
  by (rule layout_struct) (simp_all add: fields_rules layouts)

interpretation FlowReference: boxed load_FlowReference FlowReference_DeepCopyInto
    as_FlowReference FlowReferenceCell
  by (intro boxed.intro boxed_axioms.intro layouts) (simp add: as_FlowReference_def)

lemmas [layouts] = FlowReference.ptr.layout_axioms

lemma layout_UserReference [layouts]: "layout load_UserReference UserReference_DeepCopyInto"
  unfolding load_UserReference_def UserReference_DeepCopyInto_def
  by (rule layout_struct) (simp_all add: fields_rules layouts)

interpretation UserReference: boxed load_UserReference UserReference_DeepCopyInto
    as_UserReference UserReferenceCell
  by (intro boxed.intro boxed_axioms.intro layouts) (simp add: as_UserReference_def)

lemmas [layouts] = UserReference.ptr.layout_axioms

lemma layout_ScopeMappingReference [layouts]:
  "layout load_ScopeMappingReference ScopeMappingReference_DeepCopyInto"
  unfolding load_ScopeMappingReference_def ScopeMappingReference_DeepCopyInto_def
  by (rule layout_struct) (simp_all add: fields_rules layouts)

interpretation ScopeMappingReference: boxed load_ScopeMappingReference ScopeMappingReference_DeepCopyInto
    as_ScopeMappingReference ScopeMappingReferenceCell
  by (intro boxed.intro boxed_axioms.intro layouts) (simp add: as_ScopeMappingReference_def)

interpretation ScopeMappingReferences: sliced "load_ScopeMappingReference" ScopeMappingReference_DeepCopyInto
    as_ScopeMappingReferences ScopeMappingReferenceArray
  by (intro sliced.intro sliced_axioms.intro layouts) (simp add: as_ScopeMappingReferences_def)

lemmas [layouts] = ScopeMappingReference.ptr.layout_axioms ScopeMappingReferences.slice.layout_axioms

lemma layout_ProviderFlows [layouts]: "layout load_ProviderFlows ProviderFlows_DeepCopyInto"
  unfolding load_ProviderFlows_def ProviderFlows_DeepCopyInto_def
  by (rule layout_struct) (simp_all add: fields_rules layouts)

interpretation ProviderFlows: boxed load_ProviderFlows ProviderFlows_DeepCopyInto
    as_ProviderFlows ProviderFlowsCell
  by (intro boxed.intro boxed_axioms.intro layouts) (simp add: as_ProviderFlows_def)

lemmas [layouts] = ProviderFlows.ptr.layout_axioms

lemma layout_ProxyModeSpec [layouts]: "layout load_ProxyModeSpec ProxyModeSpec_DeepCopyInto"
  unfolding load_ProxyModeSpec_def ProxyModeSpec_DeepCopyInto_def
  by (rule layout_struct) (simp_all add: fields_rules layouts)

interpretation ProxyModeSpec: boxed load_ProxyModeSpec ProxyModeSpec_DeepCopyInto
    as_ProxyModeSpec ProxyModeSpecCell
  by (intro boxed.intro boxed_axioms.intro layouts) (simp add: as_ProxyModeSpec_def)

lemmas [layouts] = ProxyModeSpec.ptr.layout_axioms

lemma layout_ProxyProviderSpec [layouts]: "layout load_ProxyProviderSpec ProxyProviderSpec_DeepCopyInto"
  unfolding load_ProxyProviderSpec_def ProxyProviderSpec_DeepCopyInto_def
  by (rule layout_struct) (simp_all add: fields_rules layouts)

interpretation ProxyProviderSpec: boxed load_ProxyProviderSpec ProxyProviderSpec_DeepCopyInto
    as_ProxyProviderSpec ProxyProviderSpecCell
  by (intro boxed.intro boxed_axioms.intro layouts) (simp add: as_ProxyProviderSpec_def)

lemmas [layouts] = ProxyProviderSpec.ptr.layout_axioms

lemma layout_RedirectURISpec [layouts]: "layout load_RedirectURISpec RedirectURISpec_DeepCopyInto"
  unfolding load_RedirectURISpec_def RedirectURISpec_DeepCopyInto_def
  by (rule layout_struct) (simp_all add: fields_rules layouts)

interpretation RedirectURISpec: boxed load_RedirectURISpec RedirectURISpec_DeepCopyInto
    as_RedirectURISpec RedirectURISpecCell
  by (intro boxed.intro boxed_axioms.intro layouts) (simp add: as_RedirectURISpec_def)

interpretation RedirectURISpecs: sliced "load_RedirectURISpec" RedirectURISpec_DeepCopyInto
    as_RedirectURISpecs RedirectURISpecArray
  by (intro sliced.intro sliced_axioms.intro layouts) (simp add: as_RedirectURISpecs_def)

lemmas [layouts] = RedirectURISpec.ptr.layout_axioms RedirectURISpecs.slice.layout_axioms

lemma layout_OAuth2CredentialsSecretReference [layouts]:
  "layout load_OAuth2CredentialsSecretReference OAuth2CredentialsSecretReference_DeepCopyInto"
  unfolding load_OAuth2CredentialsSecretReference_def OAuth2CredentialsSecretReference_DeepCopyInto_def
  by (rule layout_struct) (simp_all add: fields_rules layouts)

interpretation OAuth2CredentialsSecretReference: boxed load_OAuth2CredentialsSecretReference OAuth2CredentialsSecretReference_DeepCopyInto
    as_OAuth2CredentialsSecretReference OAuth2CredentialsSecretReferenceCell
  by (intro boxed.intro boxed_axioms.intro layouts) (simp add: as_OAuth2CredentialsSecretReference_def)

lemmas [layouts] = OAuth2CredentialsSecretReference.ptr.layout_axioms

lemma layout_OAuth2CredentialsSpec [layouts]:
  "layout load_OAuth2CredentialsSpec OAuth2CredentialsSpec_DeepCopyInto"
  unfolding load_OAuth2CredentialsSpec_def OAuth2CredentialsSpec_DeepCopyInto_def
  by (rule layout_struct) (simp_all add: fields_rules layouts)

interpretation OAuth2CredentialsSpec: boxed load_OAuth2CredentialsSpec OAuth2CredentialsSpec_DeepCopyInto
    as_OAuth2CredentialsSpec OAuth2CredentialsSpecCell
  by (intro boxed.intro boxed_axioms.intro layouts) (simp add: as_OAuth2CredentialsSpec_def)

lemmas [layouts] = OAuth2CredentialsSpec.ptr.layout_axioms

lemma layout_OAuth2ProviderSpec [layouts]:
  "layout load_OAuth2ProviderSpec OAuth2ProviderSpec_DeepCopyInto"
  unfolding load_OAuth2ProviderSpec_def OAuth2ProviderSpec_DeepCopyInto_def
  by (rule layout_struct) (simp_all add: fields_rules layouts)

interpretation OAuth2ProviderSpec: boxed load_OAuth2ProviderSpec OAuth2ProviderSpec_DeepCopyInto
    as_OAuth2ProviderSpec OAuth2ProviderSpecCell
  by (intro boxed.intro boxed_axioms.intro layouts) (simp add: as_OAuth2ProviderSpec_def)

lemmas [layouts] = OAuth2ProviderSpec.ptr.layout_axioms

lemma layout_ProviderSpec [layouts]: "layout load_ProviderSpec ProviderSpec_DeepCopyInto"
  unfolding load_ProviderSpec_def ProviderSpec_DeepCopyInto_def
  by (rule layout_struct) (simp_all add: fields_rules layouts)

interpretation ProviderSpec: boxed load_ProviderSpec ProviderSpec_DeepCopyInto
    as_ProviderSpec ProviderSpecCell
  by (intro boxed.intro boxed_axioms.intro layouts) (simp add: as_ProviderSpec_def)

lemmas [layouts] = ProviderSpec.ptr.layout_axioms

lemma layout_AccessRule [layouts]: "layout load_AccessRule AccessRule_DeepCopyInto"
  unfolding load_AccessRule_def AccessRule_DeepCopyInto_def
  by (rule layout_struct) (simp_all add: fields_rules layouts)

interpretation AccessRule: boxed load_AccessRule AccessRule_DeepCopyInto as_AccessRule AccessRuleCell
  by (intro boxed.intro boxed_axioms.intro layouts) (simp add: as_AccessRule_def)

interpretation AccessRules: sliced "load_AccessRule" AccessRule_DeepCopyInto
    as_AccessRules AccessRuleArray
  by (intro sliced.intro sliced_axioms.intro layouts) (simp add: as_AccessRules_def)

lemmas [layouts] = AccessRule.ptr.layout_axioms AccessRules.slice.layout_axioms

lemma layout_AccessSpec [layouts]: "layout load_AccessSpec AccessSpec_DeepCopyInto"
  unfolding load_AccessSpec_def AccessSpec_DeepCopyInto_def
  by (rule layout_struct) (simp_all add: fields_rules layouts)

interpretation AccessSpec: boxed load_AccessSpec AccessSpec_DeepCopyInto as_AccessSpec AccessSpecCell
  by (intro boxed.intro boxed_axioms.intro layouts) (simp add: as_AccessSpec_def)

lemmas [layouts] = AccessSpec.ptr.layout_axioms

lemma layout_AuthentikApplicationSpec [layouts]:
  "layout load_AuthentikApplicationSpec AuthentikApplicationSpec_DeepCopyInto"
  unfolding load_AuthentikApplicationSpec_def AuthentikApplicationSpec_DeepCopyInto_def
  by (rule layout_struct) (simp_all add: fields_rules layouts)

interpretation AuthentikApplicationSpec: boxed load_AuthentikApplicationSpec AuthentikApplicationSpec_DeepCopyInto
    as_AuthentikApplicationSpec AuthentikApplicationSpecCell
  by (intro boxed.intro boxed_axioms.intro layouts) (simp add: as_AuthentikApplicationSpec_def)

lemmas [layouts] = AuthentikApplicationSpec.ptr.layout_axioms

text \<open>The types whose copy calls functions of apimachinery, given the contract of these.\<close>

lemma layout_AuthentikApplicationStatus:
  assumes "layout load_plain copyCondition"
  shows "layout load_AuthentikApplicationStatus (AuthentikApplicationStatus_DeepCopyInto copyCondition)"
  unfolding load_AuthentikApplicationStatus_def AuthentikApplicationStatus_DeepCopyInto_def
  by (rule layout_struct)
    (simp_all add: fields_rules layouts layout_slice [OF assms] as_Conditions_def)

lemma layout_AuthentikApplication:
  assumes "layout load_ObjectMeta copyMeta" and "layout load_plain copyCondition"
  shows "layout load_AuthentikApplication (AuthentikApplication_DeepCopyInto copyMeta copyCondition)"
  unfolding load_AuthentikApplication_def AuthentikApplication_DeepCopyInto_def
  by (rule layout_struct)
    (simp_all add: fields_rules layouts assms layout_AuthentikApplicationStatus)

lemma layout_AuthentikApplicationList:
  assumes "layout load_ListMeta copyListMeta" and "layout load_ObjectMeta copyMeta"
    and "layout load_plain copyCondition"
  shows "layout load_AuthentikApplicationList
    (AuthentikApplicationList_DeepCopyInto copyListMeta copyMeta copyCondition)"
  unfolding load_AuthentikApplicationList_def AuthentikApplicationList_DeepCopyInto_def
  by (rule layout_struct)
    (simp_all add: fields_rules layouts assms as_AuthentikApplications_def
      layout_slice [OF layout_AuthentikApplication [OF assms(2,3)]])

lemma AuthentikApplication_DeepCopy_layout:
  assumes "layout load_ObjectMeta copyMeta" and "layout load_plain copyCondition"
  shows "layout (load_ptr as_AuthentikApplication load_AuthentikApplication)
    (AuthentikApplication_DeepCopy copyMeta copyCondition)"
  unfolding AuthentikApplication_DeepCopy_def
  by (intro layout_ptr layout_AuthentikApplication assms) (simp add: as_AuthentikApplication_def)

lemma AuthentikApplicationList_DeepCopy_layout:
  assumes "layout load_ListMeta copyListMeta" and "layout load_ObjectMeta copyMeta"
    and "layout load_plain copyCondition"
  shows "layout (load_ptr as_AuthentikApplicationList load_AuthentikApplicationList)
    (AuthentikApplicationList_DeepCopy copyListMeta copyMeta copyCondition)"
  unfolding AuthentikApplicationList_DeepCopy_def
  by (intro layout_ptr layout_AuthentikApplicationList assms)
    (simp add: as_AuthentikApplicationList_def)

end
