(* ===== verification/Copies.thy ===== *)
theory Copies
  imports DeepCopies
begin

text \<open>
  What the operator relies on when it takes a deep copy: independence from the original, for a
  resource and for a list of them, and samples of the copies on concrete heaps.
\<close>

section \<open>Properties\<close>

text \<open>
  C23: \<open>app.DeepCopy()\<close> on a heap where \<open>p\<close> is nil or points to a resource with the value \<open>v\<close>
  returns, the copy has the value \<open>v\<close> whatever is later written to the objects that existed
  before the copy (the resource itself included), and the original keeps the value \<open>v\<close> whatever
  is later written to the others. So the operator can change \<open>app\<close> and still compute the patch
  against the \<open>base\<close> it copied first.
\<close>
theorem DeepCopy_independent:
  assumes "layout load_ObjectMeta copyMeta" and "layout load_plain copyCondition"
    and "wf_heap h"
    and "load_ptr as_AuthentikApplication load_AuthentikApplication p h = Some (v, F)"
  shows "\<exists>q k. AuthentikApplication_DeepCopy copyMeta copyCondition p h = Some (q, k) \<and>
    (\<forall>l. (\<forall>a\<ge>limit h. cells l a = cells k a) \<longrightarrow>
       map_option fst (load_ptr as_AuthentikApplication load_AuthentikApplication q l) = Some v) \<and>
    (\<forall>l. (\<forall>a<limit h. cells l a = cells k a) \<longrightarrow>
       map_option fst (load_ptr as_AuthentikApplication load_AuthentikApplication p l) = Some v)"
  by (rule layout_independent [OF AuthentikApplication_DeepCopy_layout [OF assms(1,2)] assms(3,4)])

text \<open>
  C32: \<open>DeepCopyObject\<close> of a list of resources returns the nil interface for a nil pointer, and
  otherwise an object of the list type whose value is that of the original, item by item, and
  stays so whatever is later written to the objects that existed before.
\<close>
theorem list_DeepCopyObject:
  assumes "layout load_ListMeta copyListMeta" and "layout load_ObjectMeta copyMeta"
    and "layout load_plain copyCondition" and "wf_heap h"
    and "load_ptr as_AuthentikApplicationList load_AuthentikApplicationList p h = Some (v, F)"
  shows "\<exists>q k. AuthentikApplicationList_DeepCopyObject copyListMeta copyMeta copyCondition p h =
      Some (map_option ApplicationListObject q, k) \<and> (q = None \<longleftrightarrow> p = None) \<and>
    (\<forall>l. (\<forall>a\<ge>limit h. cells l a = cells k a) \<longrightarrow>
       map_option fst (load_ptr as_AuthentikApplicationList load_AuthentikApplicationList q l) = Some v)"
proof -
  obtain q k where q: "AuthentikApplicationList_DeepCopy copyListMeta copyMeta copyCondition p h = Some (q, k)"
    "\<forall>l. (\<forall>a\<ge>limit h. cells l a = cells k a) \<longrightarrow>
       map_option fst (load_ptr as_AuthentikApplicationList load_AuthentikApplicationList q l) = Some v"
    using layout_independent [OF AuthentikApplicationList_DeepCopy_layout [OF assms(1-3)] assms(4,5)]
    by blast
  have "q = None \<longleftrightarrow> p = None"
    using q(1) by (auto simp: AuthentikApplicationList_DeepCopy_def copy_ptr_def alloc_def split: option.splits)
  moreover have "AuthentikApplicationList_DeepCopyObject copyListMeta copyMeta copyCondition p h =
      Some (map_option ApplicationListObject q, k)"
    using q(1) by (auto simp: AuthentikApplicationList_DeepCopyObject_def split: option.splits)
  ultimately show ?thesis using q(2) by blast
qed

section \<open>Samples\<close>

text \<open>The copies of apimachinery, on the fields of the model.\<close>

definition sample_copyMeta :: "(cell, ObjectMeta_mem) copier" where
  "sample_copyMeta = copy_struct
    [copy_field m_om_DeletionTimestamp_update (copy_ptr as_time TimeCell copy_plain)
       m_om_DeletionTimestamp,
     copy_field m_om_Finalizers_update (copy_slice as_strings StringArray copy_plain) m_om_Finalizers]"

definition sample_copyListMeta :: "(cell, ListMeta_mem) copier" where
  "sample_copyListMeta = copy_struct
    [copy_field m_lm_RemainingItemCount_update (copy_ptr as_int64 Int64Cell copy_plain)
       m_lm_RemainingItemCount]"

lemma sample_copyMeta_layout: "layout load_ObjectMeta sample_copyMeta"
  unfolding load_ObjectMeta_def sample_copyMeta_def
  by (rule layout_struct) (simp_all add: fields_rules layouts)

lemma sample_copyListMeta_layout: "layout load_ListMeta sample_copyListMeta"
  unfolding load_ListMeta_def sample_copyListMeta_def
  by (rule layout_struct) (simp_all add: fields_rules layouts)

text \<open>
  A resource with a finalizer, a launch URL, two rules in a longer backing array, one of them
  for a group by name, a provider key and a condition. \<open>sample_app\<close> is its value.
\<close>

definition sample_mem :: AuthentikApplication_mem where
  "sample_mem = \<lparr>
     m_app_TypeMeta = \<lparr>tm_Kind = ''AuthentikApplication'', tm_APIVersion = ''v1alpha1''\<rparr>,
     m_app_ObjectMeta = \<lparr>
       m_om_Namespace = ''apps'', m_om_Name = ''wiki'', m_om_UID = ''u'', m_om_Generation = 2,
       m_om_CreationTimestamp = 7, m_om_DeletionTimestamp = None,
       m_om_Finalizers = Some \<lparr>sl_array = 1, sl_off = 0, sl_len = 1\<rparr>\<rparr>,
     m_app_Spec = \<lparr>
       m_spec_Slug = ''wiki'', m_spec_Name = ''Wiki'', m_spec_LaunchURL = Some 2,
       m_spec_Icon = None, m_spec_Description = None, m_spec_Publisher = None,
       m_spec_Group = None, m_spec_OpenInNewTab = None,
       m_spec_HideFromApplicationDashboard = None, m_spec_DeletionPolicy = Some 3,
       m_spec_Adopt = None, m_spec_Provider = None,
       m_spec_Access = \<lparr>
         m_access_Mode = None, m_access_Rules = Some \<lparr>sl_array = 4, sl_off = 1, sl_len = 2\<rparr>,
         m_access_Public = None, m_access_Prune = None\<rparr>\<rparr>,
     m_app_Status = \<lparr>
       m_status_ObservedGeneration = 1, m_status_ApplicationSlug = ''wiki'',
       m_status_ApplicationPK = ''pk'', m_status_ProviderPK = Some 7,
       m_status_OutpostUUID = [], m_status_BindingUUIDs = None, m_status_LastAppliedHash = [],
       m_status_AdoptionDiff = None, m_status_UnmanagedBindings = None,
       m_status_Conditions = Some \<lparr>sl_array = 8, sl_off = 0, sl_len = 1\<rparr>\<rparr>\<rparr>"

definition sample_rule :: "addr option \<Rightarrow> AccessRule_mem" where
  "sample_rule g = \<lparr>m_rule_Group = g, m_rule_User = None, m_rule_Policy = None, m_rule_Negate = None\<rparr>"

definition sample_condition :: Condition where
  "sample_condition = \<lparr>cond_Type = ''Ready'', cond_Status = True, cond_Reason = ''Reconciled'',
     cond_Message = [], cond_ObservedGeneration = 1, cond_LastTransitionTime = 5\<rparr>"

definition sample_list_mem :: AuthentikApplicationList_mem where
  "sample_list_mem = \<lparr>
     m_list_TypeMeta = \<lparr>tm_Kind = ''AuthentikApplicationList'', tm_APIVersion = ''v1alpha1''\<rparr>,
     m_list_ListMeta = \<lparr>m_lm_SelfLink = [], m_lm_ResourceVersion = ''9'', m_lm_Continue = [],
       m_lm_RemainingItemCount = None\<rparr>,
     m_list_Items = Some \<lparr>sl_array = 10, sl_off = 0, sl_len = 1\<rparr>\<rparr>"

definition sample_heap :: "cell heap" where
  "sample_heap = \<lparr>cells = map_of
     [(0, AuthentikApplicationCell sample_mem),
      (1, StringArray [''authentik.invalid/finalizer'']),
      (2, StringCell ''https://wiki''),
      (3, DeletionPolicyCell DeletionPolicyDelete),
      (4, AccessRuleArray [sample_rule None, sample_rule (Some 5), sample_rule None]),
      (5, NamedReferenceCell \<lparr>m_ref_Name = Some 6, m_ref_UUID = None\<rparr>),
      (6, StringCell ''staff''),
      (7, Int64Cell 12),
      (8, ConditionArray [sample_condition]),
      (9, AuthentikApplicationListCell sample_list_mem),
      (10, AuthentikApplicationArray [sample_mem])], limit = 11\<rparr>"

definition sample_app :: AuthentikApplication where
  "sample_app = \<lparr>
     meta_Namespace = ''apps'', meta_Name = ''wiki'', meta_UID = ''u'', meta_Generation = 2,
     meta_CreationTimestamp = 7, meta_DeletionTimestamp = None,
     meta_Finalizers = [''authentik.invalid/finalizer''],
     app_Spec = zero_AuthentikApplicationSpec\<lparr>
       spec_Slug := ''wiki'', spec_Name := ''Wiki'', spec_LaunchURL := Some ''https://wiki'',
       spec_DeletionPolicy := Some DeletionPolicyDelete,
       spec_Access := \<lparr>
         access_Mode = None,
         access_Rules =
           [\<lparr>rule_Group = Some \<lparr>ref_Name = Some ''staff'', ref_UUID = None\<rparr>, rule_User = None,
             rule_Policy = None, rule_Negate = None\<rparr>,
            \<lparr>rule_Group = None, rule_User = None, rule_Policy = None, rule_Negate = None\<rparr>],
         access_Public = None, access_Prune = None\<rparr>\<rparr>,
     app_Status = zero_AuthentikApplicationStatus\<lparr>
       status_ObservedGeneration := 1, status_ApplicationSlug := ''wiki'',
       status_ApplicationPK := ''pk'', status_ProviderPK := Some 12,
       status_Conditions := [sample_condition]\<rparr>\<rparr>"

lemma sample_heap_wf: "wf_heap sample_heap"
  by (auto simp: wf_heap_def sample_heap_def)

lemma sample_heap_load:
  "map_option fst (load_ptr as_AuthentikApplication load_AuthentikApplication (Some 0) sample_heap) =
     Some (Some sample_app)"
  by code_simp

lemma sample_list_load:
  "map_option fst (load_ptr as_AuthentikApplicationList load_AuthentikApplicationList (Some 9)
     sample_heap) = Some (Some \<lparr>list_ListMeta = \<lparr>lm_SelfLink = [], lm_ResourceVersion = ''9'',
       lm_Continue = [], lm_RemainingItemCount = None\<rparr>, list_Items = Some [sample_app]\<rparr>)"
  by code_simp

lemma loaded: "map_option fst r = Some v \<Longrightarrow> \<exists>F. r = Some (v, F)"
  by (cases r) auto

text \<open>Emptying the array of the rules after the copy does not empty the rules of the copy.\<close>

theorem DeepCopy_independent_witness:
  "\<exists>q k. AuthentikApplication_DeepCopy sample_copyMeta copy_plain (Some 0) sample_heap = Some (q, k) \<and>
     map_option fst (load_ptr as_AuthentikApplication load_AuthentikApplication q
       (k\<lparr>cells := (cells k)(4 := Some (AccessRuleArray []))\<rparr>)) = Some (Some sample_app)"
proof -
  obtain F where F: "load_ptr as_AuthentikApplication load_AuthentikApplication (Some 0) sample_heap =
      Some (Some sample_app, F)"
    using loaded [OF sample_heap_load] by blast
  obtain q k where q: "AuthentikApplication_DeepCopy sample_copyMeta copy_plain (Some 0) sample_heap = Some (q, k)"
    "\<forall>l. (\<forall>a\<ge>limit sample_heap. cells l a = cells k a) \<longrightarrow>
       map_option fst (load_ptr as_AuthentikApplication load_AuthentikApplication q l) = Some (Some sample_app)"
    using DeepCopy_independent [OF sample_copyMeta_layout layout_plain sample_heap_wf F] by blast
  have "\<forall>a\<ge>limit sample_heap. cells (k\<lparr>cells := (cells k)(4 := Some (AccessRuleArray []))\<rparr>) a = cells k a"
    by (simp add: sample_heap_def)
  with q show ?thesis by blast
qed

theorem list_DeepCopyObject_witness:
  "\<exists>a k. AuthentikApplicationList_DeepCopyObject sample_copyListMeta sample_copyMeta copy_plain (Some 9)
     sample_heap = Some (Some (ApplicationListObject a), k)"
proof -
  obtain v F where F: "load_ptr as_AuthentikApplicationList load_AuthentikApplicationList (Some 9)
      sample_heap = Some (v, F)"
    using loaded [OF sample_list_load] by blast
  show ?thesis
    using list_DeepCopyObject [OF sample_copyListMeta_layout sample_copyMeta_layout layout_plain
      sample_heap_wf F] by fastforce
qed

end
