(* ===== verification/Background.thy ===== *)
theory Background
  imports Coherence
begin

text \<open>
  The goroutines beside the reconciles (\<open>internal/controller/gc.go\<close>): the collector of orphaned markers,
  which collects at every tick until the manager stops, and the sender that hands the resources to the
  queue after the ownership role was recreated. Both are step relations, so that they run interleaved
  with everything else.
\<close>

section \<open>The collector of markers\<close>

text \<open>
  Where the loop of \<open>markerCollector.Start\<close> is: in its \<open>select\<close>, inside \<open>collect\<close> with the objects that are
  left and the number of removed markers, or after its \<open>return\<close>.
\<close>

datatype collector = Selecting | Collecting "Object list" nat | Returned

text \<open>
  A configuration is the place of the loop, whether the context of the manager is done, and the state.
  An error of \<open>collect\<close> is only logged. Between the critical sections of \<open>collect\<close> the lock is free.
\<close>

inductive collector_own ::
  "('a, 'z) markerCache \<Rightarrow> collector \<times> bool \<times> ('a, 'z) cache_state_scheme \<Rightarrow>
   collector \<times> bool \<times> ('a, 'z) cache_state_scheme \<Rightarrow> bool"
  for c where
  tick: "collect_begin c s = (Inr obs, t) \<Longrightarrow> collector_own c (Selecting, d, s) (Collecting obs 0, d, t)"
| tick_failed: "collect_begin c s = (Inl e, t) \<Longrightarrow> collector_own c (Selecting, d, s) (Selecting, d, t)"
| one: "collect_one c n ob s = (Inr n', t) \<Longrightarrow> collector_own c (Collecting (ob # obs) n, d, s) (Collecting obs n', d, t)"
| one_failed: "collect_one c n ob s = (Inl e, t) \<Longrightarrow> collector_own c (Collecting (ob # obs) n, d, s) (Selecting, d, t)"
| collected: "collector_own c (Collecting [] n, d, s) (Selecting, d, s)"
| manager_done: "collector_own c (Selecting, True, s) (Returned, True, s)"

text \<open>Beside its own steps: the manager stops, and the other goroutines use the cache and the server.\<close>

inductive collector_step ::
  "('a, 'z) markerCache \<Rightarrow> ('a \<Rightarrow> bool) \<Rightarrow> ('a \<Rightarrow> string \<Rightarrow> Object set) \<Rightarrow> (string \<Rightarrow> bool) \<Rightarrow>
   collector \<times> bool \<times> ('a, 'z) cache_state_scheme \<Rightarrow> collector \<times> bool \<times> ('a, 'z) cache_state_scheme \<Rightarrow> bool"
  for c good marked markable where
  own: "collector_own c x y \<Longrightarrow> collector_step c good marked markable x y"
| cancel: "collector_step c good marked markable (p, False, s) (p, True, s)"
| other: "cache_step c good marked markable s t \<Longrightarrow> collector_step c good marked markable (p, d, s) (p, d, t)"

text \<open>Without an interruption, a tick runs \<open>collect\<close> once.\<close>

lemma own_collects:
  "foldE obs (collect_one c) n s = (x, t) \<Longrightarrow> (collector_own c)\<^sup>*\<^sup>* (Collecting obs n, d, s) (Selecting, d, t)"
proof (induction obs arbitrary: n s)
  case Nil
  then show ?case by (auto simp: run_ret intro: collector_own.collected)
next
  case (Cons ob obs)
  obtain y u where one: "collect_one c n ob s = (y, u)" by (metis surj_pair)
  show ?case
  proof (cases y)
    case (Inl e)
    with Cons.prems one show ?thesis by (auto simp: run_bind intro: collector_own.one_failed)
  next
    case (Inr n')
    with Cons.prems one have "foldE obs (collect_one c) n' u = (x, t)" by (simp add: run_bind)
    from Cons.IH [OF this] one Inr show ?thesis
      by (auto intro: converse_rtranclp_into_rtranclp collector_own.one)
  qed
qed

lemma own_tick: "collect c s = (x, t) \<Longrightarrow> (collector_own c)\<^sup>*\<^sup>* (Selecting, d, s) (Selecting, d, t)"
  unfolding collect_def run_bind
  by (auto split: prod.splits sum.splits intro: own_collects converse_rtranclp_into_rtranclp collector_own.tick collector_own.tick_failed)

text \<open>Its own steps are steps of the cache, so that it never breaks what the other users of the cache rely on.\<close>

lemma own_cache_steps:
  assumes "collector_own c x y"
  shows "(cache_step c good marked markable)\<^sup>*\<^sup>* (snd (snd x)) (snd (snd y))"
  using assms
proof (induction rule: collector_own.induct)
  case (one n ob s n' t obs d)
  then obtain z where "removeIfOrphaned c ob s = (z, t)" by (auto simp: run_collect_one split: prod.splits sum.splits)
  then show ?case by (auto intro: cache_step.orphan)
next
  case (one_failed n ob s e t obs d)
  then obtain z where "removeIfOrphaned c ob s = (z, t)" by (auto simp: run_collect_one split: prod.splits sum.splits)
  then show ?case by (auto intro: cache_step.orphan)
qed (auto intro: cache_step.start)

lemma steps_cache_steps:
  assumes "(collector_step c good marked markable)\<^sup>*\<^sup>* x y"
  shows "(cache_step c good marked markable)\<^sup>*\<^sup>* (snd (snd x)) (snd (snd y))"
  using assms
proof (induction rule: rtranclp_induct)
  case (step y z)
  from step.hyps(2) have "(cache_step c good marked markable)\<^sup>*\<^sup>* (snd (snd y)) (snd (snd z))"
    by cases (auto intro: own_cache_steps)
  with step.IH show ?case by simp
qed simp

lemma returned_done:
  assumes "(collector_step c good marked markable)\<^sup>*\<^sup>* x y" and "fst x \<noteq> Returned"
  shows "fst y = Returned \<longrightarrow> fst (snd y)"
  using assms(1)
proof (induction rule: rtranclp_induct)
  case (step y z)
  from step.hyps(2) step.IH show ?case
    by cases (auto elim!: collector_own.cases)
qed (simp add: assms(2))


section \<open>The sender of role events\<close>

text \<open>
  \<open>sendRoleEvents\<close>: what is left to send, what the queue has received, and whether the manager has stopped.
  Each send of its loop waits for the queue to receive or for the manager to stop.
\<close>

inductive send_step :: "'e list \<times> 'e list \<times> bool \<Rightarrow> 'e list \<times> 'e list \<times> bool \<Rightarrow> bool" where
  receive: "send_step (e # es, received, stopped) (es, received @ [e], stopped)"
| give_up: "send_step (e # es, received, True) ([], received, True)"
| stop: "send_step (es, received, False) (es, received, True)"

inductive_cases send_stepE: "send_step (es, received, stopped) y"

lemma send_prefix:
  assumes "send_step\<^sup>*\<^sup>* (items, received, False) (es, received', stopped)"
  shows "(\<exists>lost. received @ items = received' @ es @ lost \<and> (stopped \<or> lost = []))"
  using assms
proof (induction "(es, received', stopped)" arbitrary: es received' stopped rule: rtranclp_induct)
  case (step y)
  obtain es0 r0 b0 where y: "y = (es0, r0, b0)" by (cases y)
  from step.hyps(2) step.hyps(3) [OF y] show ?case unfolding y by (auto elim!: send_stepE)
qed simp

text \<open>
  The sender gives the queue the resources in order and each once. As long as the manager runs none
  is lost, and the sender is done when all were received; after the manager has stopped, it ends in one
  step although nobody receives.
\<close>

lemma sendRoleEvents_delivers:
  assumes "send_step\<^sup>*\<^sup>* (items, [], False) (es, received, stopped)"
  shows "(\<exists>rest. items = received @ rest) \<and> (\<not> stopped \<longrightarrow> items = received @ es) \<and>
    (stopped \<and> es \<noteq> [] \<longrightarrow> send_step (es, received, stopped) ([], received, True))"
  using send_prefix [OF assms] by (auto simp: neq_Nil_conv intro: send_step.give_up)

end
