(* ===== verification/Launch.thy ===== *)
theory Launch
  imports Startup Coherence
begin

text \<open>
  From the flags to the running controller: the construction of the client
  (\<open>internal/authentik/config.go\<close>, \<open>internal/authentik/client.go\<close>), the set-up of the controller
  (\<open>SetupWithManager\<close>, \<open>internal/retry/ratelimiter.go\<close>) and \<open>main\<close> (\<open>cmd/main.go\<close>). The parts of the
  operating system, of \<open>net/url\<close> and \<open>crypto/x509\<close>, and the manager of controller-runtime are arguments.
  Durations are in nanoseconds.
\<close>

section \<open>The client\<close>

record ('u, 'pool) environment =
  Getenv :: "string \<Rightarrow> string"
  ReadFile :: "string \<Rightarrow> goerror + string"
  ParseURL :: "string \<Rightarrow> goerror + 'u"
  Scheme :: "'u \<Rightarrow> string"
  Host :: "'u \<Rightarrow> string"
  JoinPath :: "'u \<Rightarrow> string list \<Rightarrow> string"
  SystemCertPool :: "goerror + 'pool"
  NewCertPool :: 'pool
  AppendCertsFromPEM :: "'pool \<Rightarrow> string \<Rightarrow> bool \<times> 'pool"
  DefaultTransport :: bool \<comment> \<open>whether \<open>http.DefaultTransport\<close> is an \<open>*http.Transport\<close>\<close>

definition requestTimeout :: int where "requestTimeout = 30 * 10 ^ 9"

record 'pool TLSConfig =
  MinVersion :: int
  RootCAs :: "'pool option"
  InsecureSkipVerify :: bool

record 'pool HTTPClient =
  TLSClientConfig :: "'pool TLSConfig"
  Timeout :: int

definition VersionTLS12 :: int where "VersionTLS12 = 771"

definition NewHTTPClient :: "('u, 'pool) environment \<Rightarrow> Config \<Rightarrow> goerror + 'pool HTTPClient" where
  "NewHTTPClient env cfg =
     (if \<not> DefaultTransport env then Inl (PlainError ''http.DefaultTransport is not an *http.Transport'')
      else
        let client = (\<lambda>roots. \<lparr> TLSClientConfig = \<lparr> MinVersion = VersionTLS12, RootCAs = roots,
              InsecureSkipVerify = cfg_Insecure cfg \<rparr>, Timeout = requestTimeout \<rparr>) in
        if cfg_CAFile cfg = [] then Inr (client None)
        else case ReadFile env (cfg_CAFile cfg) of
          Inl err \<Rightarrow> Inl (WrapError ''failed to read the authentik CA file'' err)
        | Inr pem \<Rightarrow>
            (let pool = (case SystemCertPool env of Inl err \<Rightarrow> NewCertPool env | Inr p \<Rightarrow> p) in
             case AppendCertsFromPEM env pool pem of (ok, pool') \<Rightarrow>
               if \<not> ok then Inl (PlainError (''no PEM certificates found in the authentik CA file '' @ quote (cfg_CAFile cfg)))
               else Inr (client (Some pool'))))"

text \<open>The configuration that the generated client is built from.\<close>

record 'pool Configuration =
  ServerURL :: string
  DefaultHeader :: "(string \<times> string) list"
  ConfiguredClient :: "'pool HTTPClient"

definition NewAPIClient ::
  "('u, 'pool) environment \<Rightarrow> string \<Rightarrow> string \<Rightarrow> 'pool HTTPClient \<Rightarrow> goerror + 'pool Configuration" where
  "NewAPIClient env baseURL token httpClient =
     (case ParseURL env baseURL of
        Inl err \<Rightarrow> Inl (WrapError ''failed to parse authentik URL'' err)
      | Inr u \<Rightarrow>
          (if Scheme env u \<noteq> ''http'' \<and> Scheme env u \<noteq> ''https'' \<or> Host env u = []
           then Inl (PlainError (''authentik URL must be an absolute http or https URL: '' @ quote baseURL))
           else Inr \<lparr> ServerURL = JoinPath env u [''api'', ''v3''],
             DefaultHeader = [(''Authorization'', ''Bearer '' @ token)], ConfiguredClient = httpClient \<rparr>))"

definition New :: "('u, 'pool) environment \<Rightarrow> Config \<Rightarrow> goerror + 'pool Configuration" where
  "New env cfg =
     (case Validate cfg of
        Some err \<Rightarrow> Inl err
      | None \<Rightarrow> (case NewHTTPClient env cfg of
            Inl err \<Rightarrow> Inl err
          | Inr httpClient \<Rightarrow> NewAPIClient env (cfg_URL cfg) (cfg_Token cfg) httpClient))"

section \<open>The controller\<close>

record RateLimiter =
  baseDelay :: int
  maxDelay :: int
  overallQPS :: int
  overallBurst :: int

definition NewRateLimiter :: "int \<Rightarrow> RateLimiter" where
  "NewRateLimiter limit = \<lparr> baseDelay = 5 * 10 ^ 6, maxDelay = limit, overallQPS = 10, overallBurst = 100 \<rparr>"

text \<open>\<open>predicate.Funcs\<close>: a missing function passes every event.\<close>

record Funcs =
  UpdateFunc :: "(AuthentikApplication \<Rightarrow> AuthentikApplication \<Rightarrow> bool) option"
  GenericFunc :: "(AuthentikApplication \<Rightarrow> bool) option"

definition conflictPredicate :: Funcs where
  "conflictPredicate = \<lparr> UpdateFunc = Some conflictUpdate, GenericFunc = Some (\<lambda>_. False) \<rparr>"

datatype Predicate = GenerationChangedPredicate | FuncsPredicate Funcs | Or "Predicate list"

datatype Source = AuthentikApplications | SecretMetadata | RoleEvents

datatype Handler = EnqueueRequestForObject | FromSameSlugRequests | FromCredentialsSecretRequests

record Watch =
  watch_Source :: Source
  watch_Handler :: Handler
  watch_Predicates :: "Predicate list"

record ControllerConfig =
  Watches :: "Watch list"
  Named :: string
  MaxConcurrentReconciles :: int
  ctl_RateLimiter :: RateLimiter

datatype Runnable = MarkerCollector | ManagerLifetime

fun NeedLeaderElection :: "Runnable \<Rightarrow> bool" where
  "NeedLeaderElection MarkerCollector = True"
| "NeedLeaderElection ManagerLifetime = False"

text \<open>The calls of the manager; its state is \<open>'m\<close>.\<close>

record 'm Manager =
  IndexField :: "string \<Rightarrow> (AuthentikApplication \<Rightarrow> string list) \<Rightarrow> ('m, goerror, unit) go"
  Add :: "Runnable \<Rightarrow> ('m, goerror, unit) go"
  Complete :: "ControllerConfig \<Rightarrow> ('m, goerror, unit) go"
  AddHealthzCheck :: "string \<Rightarrow> ('m, goerror, unit) go"
  AddReadyzCheck :: "string \<Rightarrow> ('m, goerror, unit) go"
  StartManager :: "('m, goerror, unit) go"

definition slugIndexField :: string where "slugIndexField = ''spec.slug''"

definition credentialsSecretIndexField :: string where
  "credentialsSecretIndexField = ''spec.provider.oauth2.credentials.secretRef.name''"

definition IndexSlug :: "'m Manager \<Rightarrow> ('m, goerror, unit) go" where
  "IndexSlug mgr = IndexField mgr slugIndexField (\<lambda>a. [spec_Slug (app_Spec a)])"

definition IndexCredentialsSecret :: "'m Manager \<Rightarrow> ('m, goerror, unit) go" where
  "IndexCredentialsSecret mgr = IndexField mgr credentialsSecretIndexField credentialsSecretIndex"

definition controllerConfig :: "('a, 'k) Reconciler \<Rightarrow> ControllerConfig" where
  "controllerConfig r = \<lparr>
     Watches =
       [\<lparr> watch_Source = AuthentikApplications, watch_Handler = EnqueueRequestForObject,
          watch_Predicates = [Or [GenerationChangedPredicate,
            FuncsPredicate \<lparr> UpdateFunc = Some deletionStarted, GenericFunc = None \<rparr>]] \<rparr>,
        \<lparr> watch_Source = AuthentikApplications, watch_Handler = FromSameSlugRequests,
          watch_Predicates = [FuncsPredicate conflictPredicate] \<rparr>,
        \<lparr> watch_Source = SecretMetadata, watch_Handler = FromCredentialsSecretRequests, watch_Predicates = [] \<rparr>,
        \<lparr> watch_Source = RoleEvents, watch_Handler = EnqueueRequestForObject, watch_Predicates = [] \<rparr>],
     Named = ''authentikapplication'', MaxConcurrentReconciles = 1,
     ctl_RateLimiter = NewRateLimiter (ResyncInterval r) \<rparr>"

text \<open>The reconciler comes back with its channel of role events.\<close>

definition SetupWithManager ::
  "('a, 'k) Reconciler \<Rightarrow> bool \<Rightarrow> 'm Manager \<Rightarrow> ('m, goerror, ('a, 'k) Reconciler) go" where
  "SetupWithManager r markerGC mgr =
     thenE (wrapE (''failed to index '' @ slugIndexField) (IndexSlug mgr))
     (thenE (wrapE (''failed to index '' @ credentialsSecretIndexField) (IndexCredentialsSecret mgr))
     (thenE (if markerGC then wrapE ''failed to add the marker collector'' (Add mgr MarkerCollector) else retE ())
     (thenE (wrapE ''failed to add the manager lifetime signal'' (Add mgr ManagerLifetime))
     (thenE (Complete mgr (controllerConfig r)) (retE (r\<lparr>hasRoleEvents := True\<rparr>))))))"

section \<open>The entry point\<close>

record Flags =
  metricsAddr :: string
  probeAddr :: string
  enableLeaderElection :: bool
  secureMetrics :: bool
  webhookCertPath :: string
  webhookCertName :: string
  webhookCertKey :: string
  metricsCertPath :: string
  metricsCertName :: string
  metricsCertKey :: string
  enableHTTP2 :: bool
  authentikCAFile :: string
  authentikInsecure :: bool
  markerGC :: bool
  resyncInterval :: int
  clusterName :: string
  ownerRole :: string

definition defaultFlags :: Flags where
  "defaultFlags = \<lparr>
     metricsAddr = ''0'', probeAddr = '':8081'', enableLeaderElection = True, secureMetrics = True,
     webhookCertPath = [], webhookCertName = ''tls.crt'', webhookCertKey = ''tls.key'',
     metricsCertPath = [], metricsCertName = ''tls.crt'', metricsCertKey = ''tls.key'', enableHTTP2 = False,
     authentikCAFile = [], authentikInsecure = False, markerGC = True, resyncInterval = 10 * 60 * 10 ^ 9,
     clusterName = [], ownerRole = [] \<rparr>"

record Certificate =
  CertDir :: string
  CertName :: string
  KeyName :: string

text \<open>The options of the manager. \<open>NextProtos\<close> is set by the TLS option \<open>disableHTTP2\<close>.\<close>

record ManagerOptions =
  DisableFor :: "string list"
  BindAddress :: string
  SecureServing :: bool
  FilterProvider :: bool \<comment> \<open>\<open>filters.WithAuthenticationAndAuthorization\<close>\<close>
  MetricsCertificate :: "Certificate option"
  WebhookCertificate :: "Certificate option"
  NextProtos :: "string list option" \<comment> \<open>of the metrics and of the webhook server\<close>
  HealthProbeBindAddress :: string
  LeaderElection :: bool
  LeaderElectionID :: string

definition managerOptions :: "Flags \<Rightarrow> ManagerOptions" where
  "managerOptions f = \<lparr>
     DisableFor = [''Secret''],
     BindAddress = metricsAddr f, SecureServing = secureMetrics f, FilterProvider = secureMetrics f,
     MetricsCertificate = (if metricsCertPath f \<noteq> []
       then Some \<lparr> CertDir = metricsCertPath f, CertName = metricsCertName f, KeyName = metricsCertKey f \<rparr> else None),
     WebhookCertificate = (if webhookCertPath f \<noteq> []
       then Some \<lparr> CertDir = webhookCertPath f, CertName = webhookCertName f, KeyName = webhookCertKey f \<rparr> else None),
     NextProtos = (if \<not> enableHTTP2 f then Some [''http/1.1''] else None),
     HealthProbeBindAddress = probeAddr f, LeaderElection = enableLeaderElection f,
     LeaderElectionID = ''9fee2030.starry.blue'' \<rparr>"

text \<open>The state of the process: the server with the remembered role, the gauge of the versions, and the manager.\<close>

record ('a, 'm) process = "'a marker_state" +
  gauge :: "(string \<times> string \<times> int) list"
  manager :: 'm

definition checkAuthentikVersion :: "Module list option \<Rightarrow> 'a Client \<Rightarrow> ('a, 'm) process \<Rightarrow> ('a, 'm) process" where
  "checkAuthentikVersion info versionClient s =
     (case SupportedVersion info of
        Inl err \<Rightarrow> s
      | Inr supported \<Rightarrow>
          (case CheckVersion versionClient supported \<lparr> check_server = server s, versionMismatch = gauge s \<rparr> of
             (_, t) \<Rightarrow> s\<lparr>server := check_server t, gauge := versionMismatch t\<rparr>))"

definition ensureOwnershipRole :: "'a Marker \<Rightarrow> ('a, 'm) process \<Rightarrow> ('a, 'm) process" where
  "ensureOwnershipRole m s = (case EnsureRole m s of (_, t) \<Rightarrow> t)"

text \<open>\<open>os.Exit(1)\<close> after the message was logged.\<close>

definition orExit :: "string \<Rightarrow> ('s, 'e, 'r) go \<Rightarrow> ('s, string, 'r) go" where
  "orExit message m = (\<lambda>s. case m s of (Inl e, t) \<Rightarrow> (Inl message, t) | (Inr x, t) \<Rightarrow> (Inr x, t))"

definition onManager :: "('m, 'e, 'r) go \<Rightarrow> (('a, 'm) process, 'e, 'r) go" where
  "onManager m = (\<lambda>s. case m (manager s) of (x, u) \<Rightarrow> (x, s\<lparr>manager := u\<rparr>))"

definition returned :: "'e + 'r \<Rightarrow> ('s, 'e, 'r) go" where
  "returned x = (\<lambda>s. (x, s))"

definition clientConfig :: "('u, 'pool) environment \<Rightarrow> Flags \<Rightarrow> Config" where
  "clientConfig env f = \<lparr>
     cfg_URL = Getenv env ''AUTHENTIK_URL'', cfg_Token = Getenv env ''AUTHENTIK_TOKEN'',
     cfg_CAFile = authentikCAFile f, cfg_Insecure = authentikInsecure f \<rparr>"

text \<open>
  \<open>info\<close> is the build information, \<open>connect\<close> gives the client of a configuration, \<open>newManager\<close> is \<open>ctrl.NewManager\<close> with the configuration
  of the cluster, and \<open>base\<close> holds the parts of the reconciler that come from libraries and from the
  manager. The result is the reconciler that was running until the manager stopped.
\<close>

definition main ::
  "('u, 'pool) environment \<Rightarrow> Module list option \<Rightarrow> ('pool Configuration \<Rightarrow> 'a Client) \<Rightarrow>
   (ManagerOptions \<Rightarrow> ('m, goerror, 'm Manager) go) \<Rightarrow> ('a, 'k) Reconciler \<Rightarrow> Flags \<Rightarrow>
   (('a, 'm) process, string, ('a, 'k) Reconciler) go" where
  "main env info connect newManager base f =
     (if resyncInterval f \<le> 0 then throwE ''--resync-interval must be positive''
      else
        bindE (orExit ''Invalid ownership role configuration'' (returned (RoleName (clusterName f) (ownerRole f)))) (\<lambda>roleName.
        bindE (orExit ''Failed to create the authentik client'' (returned (New env (clientConfig env f)))) (\<lambda>configuration.
        let authentikClient = connect configuration;
            roleMarker = \<lparr> marker_client = authentikClient, marker_roleName = roleName \<rparr> in
        thenE (modifyE (checkAuthentikVersion info authentikClient))
        (thenE (modifyE (ensureOwnershipRole roleMarker))
        (bindE (orExit ''Failed to start manager'' (onManager (newManager (managerOptions f)))) (\<lambda>mgr.
         bindE (orExit ''Failed to create controller'' (onManager (SetupWithManager
            (base\<lparr>Authentik := authentikClient, ownerRoleName := roleName, ResyncInterval := resyncInterval f, hasRoleEvents := False\<rparr>)
            (markerGC f) mgr))) (\<lambda>r.
         thenE (orExit ''Failed to set up health check'' (onManager (AddHealthzCheck mgr ''healthz'')))
         (thenE (orExit ''Failed to set up ready check'' (onManager (AddReadyzCheck mgr ''readyz'')))
         (thenE (orExit ''Failed to run manager'' (onManager (StartManager mgr)))
         (retE r))))))))))"

section \<open>What runs\<close>

lemma New_Inr:
  assumes "New env cfg = Inr c"
  shows "cfg_URL cfg \<noteq> [] \<and> cfg_Token cfg \<noteq> [] \<and> \<not> (cfg_CAFile cfg \<noteq> [] \<and> cfg_Insecure cfg) \<and>
    (\<exists>u. ParseURL env (cfg_URL cfg) = Inr u \<and> Scheme env u \<in> {''http'', ''https''} \<and> Host env u \<noteq> [] \<and>
      ServerURL c = JoinPath env u [''api'', ''v3'']) \<and>
    DefaultHeader c = [(''Authorization'', ''Bearer '' @ cfg_Token cfg)] \<and>
    (let tls = TLSClientConfig (ConfiguredClient c) in
      MinVersion tls = VersionTLS12 \<and> InsecureSkipVerify tls = cfg_Insecure cfg \<and> (RootCAs tls \<noteq> None \<longleftrightarrow> cfg_CAFile cfg \<noteq> []))"
  using assms
  by (auto simp: New_def Validate_def NewHTTPClient_def NewAPIClient_def Let_def split: option.splits sum.splits if_splits prod.splits)

lemma run_orExit: "orExit msg m s = (case m s of (Inl e, t) \<Rightarrow> (Inl msg, t) | (Inr x, t) \<Rightarrow> (Inr x, t))"
  by (simp add: orExit_def)

lemma orExit_returned: "orExit msg (returned x) s = (case x of Inl e \<Rightarrow> (Inl msg, s) | Inr v \<Rightarrow> (Inr v, s))"
  by (simp add: orExit_def returned_def split: sum.split)

lemma run_onManager: "onManager m s = (case m (manager s) of (x, u) \<Rightarrow> (x, s\<lparr>manager := u\<rparr>))"
  by (simp add: onManager_def)

lemma run_returned: "returned x s = (x, s)"
  by (simp add: returned_def)

lemmas run_main = run_orExit run_onManager run_returned run_bind run_then run_modify run_throw run_ret

text \<open>
  C33: the operator only ever runs with a configuration that is in order: a positive resync interval that
  also bounds the retries, a named ownership role, and a client that sends its token to an absolute http
  or https URL, with at least TLS 1.2, and that verifies certificates unless the flag says otherwise (which
  excludes a CA file). With any other configuration the process ends before it has sent a request.
\<close>

theorem main_fails_closed:
  fixes s :: "('a, 'm) process"
  assumes "main env info connect newManager base f s = (x, t)"
  shows "case x of
      Inr r \<Rightarrow> 0 < resyncInterval f \<and> ResyncInterval r = resyncInterval f \<and>
        maxDelay (ctl_RateLimiter (controllerConfig r)) = resyncInterval f \<and> ownerRoleName r \<noteq> [] \<and>
        (\<exists>c u. Authentik r = connect c \<and> ParseURL env (cfg_URL (clientConfig env f)) = Inr u \<and>
          Scheme env u \<in> {''http'', ''https''} \<and> Host env u \<noteq> [] \<and> ServerURL c = JoinPath env u [''api'', ''v3''] \<and>
          VersionTLS12 \<le> MinVersion (TLSClientConfig (ConfiguredClient c)) \<and>
          InsecureSkipVerify (TLSClientConfig (ConfiguredClient c)) = authentikInsecure f \<and>
          \<not> (authentikInsecure f \<and> RootCAs (TLSClientConfig (ConfiguredClient c)) \<noteq> None))
    | Inl _ \<Rightarrow> resyncInterval f \<le> 0 \<or> ownerRole f @ clusterName f = [] \<or> (\<exists>e. New env (clientConfig env f) = Inl e) \<longrightarrow> t = s"
proof -
  have set_up: "\<exists>b. r' = r\<lparr>hasRoleEvents := b\<rparr>" if "SetupWithManager r gc mgr u = (Inr r', v)" for r r' :: "('a, 'k) Reconciler" and gc mgr u v
    using that by (auto simp: SetupWithManager_def run_main run_wrap split: prod.splits sum.splits if_splits)
  show ?thesis
  proof (cases "resyncInterval f \<le> 0 \<or> ownerRole f @ clusterName f = [] \<or> (\<exists>e. New env (clientConfig env f) = Inl e)")
    case True
    then show ?thesis using assms
      by (auto simp: main_def run_main RoleName_def Let_def split: prod.splits sum.splits if_splits)
  next
    case False
    then obtain c where c: "New env (clientConfig env f) = Inr c" by (metis sum.exhaust)
    from False obtain roleName where "RoleName (clusterName f) (ownerRole f) = Inr roleName" "roleName \<noteq> []"
      by (cases "ownerRole f = []") (auto simp: RoleName_def roleNamePrefix_def)
    with c False have ok: "New env (clientConfig env f) = Inr c" "RoleName (clusterName f) (ownerRole f) = Inr roleName"
      "0 < resyncInterval f" "roleName \<noteq> []" by auto
    note New = New_Inr [OF ok(1)]
    show ?thesis
    proof (cases x)
      case (Inr r)
      let ?base = "base\<lparr>Authentik := connect c, ownerRoleName := roleName, ResyncInterval := resyncInterval f, hasRoleEvents := False\<rparr>"
      have "\<not> resyncInterval f \<le> 0" using ok(3) by simp
      then obtain mgr and u v :: "('a, 'm) process" where "orExit ''Failed to create controller'' (onManager (SetupWithManager ?base (markerGC f) mgr)) u = (Inr r, v)"
        using assms unfolding main_def Let_def Inr if_not_P [OF \<open>\<not> resyncInterval f \<le> 0\<close>] ok(1,2)
        by (elim bind_InrE then_InrE) (auto simp: orExit_returned run_ret)
      then obtain b where "r = ?base\<lparr>hasRoleEvents := b\<rparr>"
        by (auto simp: run_orExit run_onManager dest!: set_up split: prod.splits sum.splits)
      then have "ResyncInterval r = resyncInterval f \<and> ownerRoleName r = roleName \<and> Authentik r = connect c" by simp
      then show ?thesis using ok New Inr
        by (auto simp: controllerConfig_def NewRateLimiter_def clientConfig_def Let_def)
    qed (use False in auto)
  qed
qed

end
