(* ===== verification/Deployment.thy ===== *)
theory Deployment
  imports Background Launch Witnesses
begin

text \<open>
  The properties of the entry point and of the background goroutines, applied to a concrete
  environment: a process that starts with valid flags, and a collector that is stopped in the middle of
  a collection.
\<close>

section \<open>The entry point\<close>

text \<open>An environment without a CA file; a URL is its scheme and its host.\<close>

definition sample_environment :: "(string \<times> string, unit) environment" where
  "sample_environment = \<lparr>
     Getenv = (\<lambda>name. if name = ''AUTHENTIK_URL'' then ''https://auth'' else ''secret''),
     ReadFile = (\<lambda>_. Inl (PlainError ''no such file'')), ParseURL = (\<lambda>_. Inr (''https'', ''auth'')),
     Scheme = fst, Host = snd, JoinPath = (\<lambda>u parts. fst u @ ''://'' @ snd u @ ''/api/v3/''),
     SystemCertPool = Inr (), NewCertPool = (), AppendCertsFromPEM = (\<lambda>pool pem. (False, pool)), DefaultTransport = True \<rparr>"

text \<open>A manager that counts what it is given.\<close>

definition sample_manager :: "nat Manager" where
  "sample_manager = \<lparr> IndexField = (\<lambda>_ _. modifyE Suc), Add = (\<lambda>_. modifyE Suc), Complete = (\<lambda>_. modifyE Suc),
     AddHealthzCheck = (\<lambda>_. modifyE Suc), AddReadyzCheck = (\<lambda>_. modifyE Suc), StartManager = modifyE Suc \<rparr>"

definition sample_process :: "(fake, nat) process" where
  "sample_process = \<lparr> server = sample_fake, roleUUID = [], gauge = [], manager = 0 \<rparr>"

definition sample_main :: "Flags \<Rightarrow> ((fake, nat) process, string, (fake, cluster) Reconciler) go" where
  "sample_main = main sample_environment None (\<lambda>_. fake_client) (\<lambda>_. retE sample_manager) sample_reconciler"

lemma sample_New: "\<exists>c. New sample_environment (clientConfig sample_environment defaultFlags) = Inr c"
  by (simp add: New_def Validate_def NewHTTPClient_def NewAPIClient_def clientConfig_def sample_environment_def defaultFlags_def)

theorem main_fails_closed_witness:
  "\<exists>r t. sample_main (defaultFlags\<lparr>clusterName := ''home''\<rparr>) sample_process = (Inr r, t) \<and>
     ResyncInterval r = 600 * 10 ^ 9 \<and> ownerRoleName r \<noteq> [] \<and> snd (sample_main defaultFlags sample_process) = sample_process"
proof -
  let ?f = "defaultFlags\<lparr>clusterName := ''home''\<rparr>"
  obtain x t where run: "sample_main ?f sample_process = (x, t)" by (metis surj_pair)
  have "\<exists>c. New sample_environment (clientConfig sample_environment ?f) = Inr c"
    using sample_New by (simp add: clientConfig_def)
  then have "\<exists>r. x = Inr r"
    using run by (auto simp: sample_main_def main_def run_main RoleName_def Let_def SetupWithManager_def run_wrap IndexSlug_def
        IndexCredentialsSecret_def sample_manager_def defaultFlags_def split: prod.splits)
  then obtain r where x: "x = Inr r" by blast
  obtain y u where none: "sample_main defaultFlags sample_process = (y, u)" by (metis surj_pair)
  have "y = Inl ''Invalid ownership role configuration''"
    using none by (auto simp: sample_main_def main_def run_main RoleName_def defaultFlags_def)
  with main_fails_closed [OF none [unfolded sample_main_def]] have "u = sample_process"
    by (simp add: defaultFlags_def)
  with main_fails_closed [OF run [unfolded sample_main_def]] run x none show ?thesis
    by (auto simp: defaultFlags_def)
qed

section \<open>The goroutines\<close>

lemma sendRoleEvents_delivers_sample:
  "send_step\<^sup>*\<^sup>* ([1 :: nat, 2, 3], [], False) ([2, 3], [1], True) \<and> send_step ([2 :: nat, 3], [1], True) ([], [1], True)"
proof -
  have "send_step ([1 :: nat, 2, 3], [], False) ([2, 3], [] @ [1], False)" by (rule send_step.receive)
  moreover have "send_step ([2 :: nat, 3], [1], False) ([2, 3], [1], True)" by (rule send_step.stop)
  ultimately have r: "send_step\<^sup>*\<^sup>* ([1 :: nat, 2, 3], [], False) ([2, 3], [1], True)" by auto
  from r sendRoleEvents_delivers [OF r] show ?thesis by simp
qed


end
